(* ===== verification/Prelude.thy ===== *)
theory Prelude
  imports Main "HOL-Library.Sublist"
begin

text \<open>
  Shared ground of the development: the collections of proof rules the components extend,
  the result type of the fallible Go functions, and generic lemmas about lists that are not
  in the library.

  A Go function that returns \<open>(T, error)\<close> is modelled by the sum type \<open>err + T\<close>: \<open>Inl e\<close>
  for a non-nil error and \<open>Inr x\<close> for a result with a nil error.
\<close>

named_theorems frame_simps "what an operation leaves unchanged"
named_theorems result_iff "when an operation returns a given result"

fun is_Inl :: "'a + 'b \<Rightarrow> bool" where
  "is_Inl (Inl e) = True"
| "is_Inl (Inr x) = False"

lemma is_InlD: "is_Inl s \<Longrightarrow> \<exists>e. s = Inl e"
  by (cases s) auto

lemma not_is_InlD: "\<not> is_Inl s \<Longrightarrow> \<exists>x. s = Inr x"
  by (cases s) auto

text \<open>
  A call whose error ends the caller: the caller succeeds when the call does and the rest does.
  The rules take a chain of calls apart from the front.
\<close>

lemma bind_Inr_iff [result_iff]:
  "(case r of (s, w) \<Rightarrow> (case s of Inl e \<Rightarrow> (Inl (g e w), h e w) | Inr x \<Rightarrow> f x w)) = (Inr y, w')
     \<longleftrightarrow> (\<exists>x w1. r = (Inr x, w1) \<and> f x w1 = (Inr y, w'))"
  by (auto split: prod.split sum.split)

lemma bind_Some_error_iff [result_iff]:
  "(case r of (s, w) \<Rightarrow> (case s of None \<Rightarrow> f w | Some e \<Rightarrow> (Inl (g e w), h e w))) = (Inr y, w')
     \<longleftrightarrow> (\<exists>w1. r = (None, w1) \<and> f w1 = (Inr y, w'))"
  by (auto split: prod.split option.split)

lemma bind_value_iff [result_iff]:
  "(case r of (x, w) \<Rightarrow> f x w) = (Inr y, w') \<longleftrightarrow> (\<exists>x w1. r = (x, w1) \<and> f x w1 = (Inr y, w'))"
  by (cases r) auto

lemma case_sum_Inr_iff [result_iff]:
  "(case s of Inl e \<Rightarrow> (Inl (g e), h e) | Inr x \<Rightarrow> f x) = (Inr y, w') \<longleftrightarrow> (\<exists>x. s = Inr x \<and> f x = (Inr y, w'))"
  by (cases s) auto

lemma case_error_Inr_iff [result_iff]:
  "(case s of None \<Rightarrow> f | Some e \<Rightarrow> (Inl (g e), h e)) = (Inr y, w') \<longleftrightarrow> s = None \<and> f = (Inr y, w')"
  by (cases s) auto

lemma case_found_Inr_iff [result_iff]:
  "(case s of None \<Rightarrow> (Inl e, w) | Some x \<Rightarrow> f x) = (Inr y, w') \<longleftrightarrow> (\<exists>x. s = Some x \<and> f x = (Inr y, w'))"
  by (cases s) auto

lemma guard_Inr_iff [result_iff]:
  "(if c then (Inl e, w) else f) = (Inr y, w') \<longleftrightarrow> \<not> c \<and> f = (Inr y, w')"
  by auto

section \<open>Lists\<close>

lemma dropWhile_id_iff: "dropWhile P xs = xs \<longleftrightarrow> xs = [] \<or> \<not> P (hd xs)"
proof (cases xs)
  case (Cons x ys)
  have "length (dropWhile P ys) < length (x # ys)"
    using length_dropWhile_le [of P ys] by simp
  then show ?thesis using Cons by auto
qed simp

lemma hd_rev_last: "xs \<noteq> [] \<Longrightarrow> hd (rev xs) = last xs"
  by (simp add: hd_rev)

lemma set_dropWhile_subset: "set (dropWhile P xs) \<subseteq> set xs"
  by (induction xs) auto

lemma dropWhile_Nil_iff: "dropWhile P xs = [] \<longleftrightarrow> (\<forall>x \<in> set xs. P x)"
  by (induction xs) auto

lemma hd_dropWhile_not: "dropWhile P xs \<noteq> [] \<Longrightarrow> \<not> P (hd (dropWhile P xs))"
  by (rule hd_dropWhile)

lemma last_dropWhile: "dropWhile P xs \<noteq> [] \<Longrightarrow> last (dropWhile P xs) = last xs"
  by (induction xs) (auto split: if_splits)

lemma last_filter_eq: "xs \<noteq> [] \<Longrightarrow> P (last xs) \<Longrightarrow> last (filter P xs) = last xs"
  by (induction xs rule: rev_induct) auto

section \<open>Association lists as tables of records\<close>

text \<open>
  The registries keep slices of records and search them by a key, front to back.
  \<open>find_by\<close> is that loop; \<open>replace_first\<close> is the loop that overwrites the first match,
  and \<open>remove_first\<close> the one that cuts it out of the slice.
\<close>

definition find_by :: "('a \<Rightarrow> 'k) \<Rightarrow> 'k \<Rightarrow> 'a list \<Rightarrow> 'a option" where
  "find_by key k xs = List.find (\<lambda>x. key x = k) xs"

fun replace_first :: "('a \<Rightarrow> bool) \<Rightarrow> 'a \<Rightarrow> 'a list \<Rightarrow> 'a list" where
  "replace_first P y [] = []"
| "replace_first P y (x # xs) = (if P x then y # xs else x # replace_first P y xs)"

fun remove_first :: "('a \<Rightarrow> bool) \<Rightarrow> 'a list \<Rightarrow> 'a list" where
  "remove_first P [] = []"
| "remove_first P (x # xs) = (if P x then xs else x # remove_first P xs)"

lemma find_by_Some_iff:
  "distinct (map key xs) \<Longrightarrow> find_by key k xs = Some x \<longleftrightarrow> x \<in> set xs \<and> key x = k"
  unfolding find_by_def
  by (induction xs) (auto simp: rev_image_eqI)

lemma find_by_SomeD: "find_by key k xs = Some x \<Longrightarrow> x \<in> set xs \<and> key x = k"
  unfolding find_by_def by (auto simp: find_Some_iff in_set_conv_nth)

lemma find_by_None_iff: "find_by key k xs = None \<longleftrightarrow> (\<forall>x \<in> set xs. key x \<noteq> k)"
  by (auto simp: find_by_def find_None_iff)

lemma replace_first_none: "\<forall>x \<in> set xs. \<not> P x \<Longrightarrow> replace_first P y xs = xs"
  by (induction xs) auto

lemma map_replace_first: "(\<And>x. x \<in> set xs \<Longrightarrow> P x \<Longrightarrow> f x = f y) \<Longrightarrow> map f (replace_first P y xs) = map f xs"
  by (induction xs) auto

lemma length_replace_first [simp]: "length (replace_first P y xs) = length xs"
  by (induction xs) auto

lemma set_replace_first_subset: "set (replace_first P y xs) \<subseteq> insert y (set xs)"
  by (induction xs) auto

lemma remove_first_none: "\<forall>x \<in> set xs. \<not> P x \<Longrightarrow> remove_first P xs = xs"
  by (induction xs) auto

lemma remove_first_append_new:
  "\<forall>x \<in> set xs. \<not> P x \<Longrightarrow> P y \<Longrightarrow> remove_first P (xs @ [y]) = xs"
  by (induction xs) auto

lemma set_remove_first_subset: "set (remove_first P xs) \<subseteq> set xs"
  by (induction xs) auto

lemma distinct_map_remove_first: "distinct (map f xs) \<Longrightarrow> distinct (map f (remove_first P xs))"
proof (induction xs)
  case (Cons x xs)
  then show ?case using set_remove_first_subset [of P xs] by auto
qed simp

lemma set_remove_first_key:
  "distinct (map key xs) \<Longrightarrow> set (remove_first (\<lambda>x. key x = k) xs) = {x \<in> set xs. key x \<noteq> k}"
proof (induction xs)
  case (Cons x xs)
  then show ?case by (auto simp: image_iff)
qed simp

end
