(* ===== verification/Go_Strings.thy ===== *)
theory Go_Strings
  imports Prelude "HOL-Library.Char_ord" "HOL-Library.List_Lexorder"
begin

text \<open>
  The part of Go's \<^verbatim>\<open>strings\<close>, \<^verbatim>\<open>strconv\<close>, \<^verbatim>\<open>fmt\<close> and \<^verbatim>\<open>regexp\<close> packages that the daemon
  uses, on byte strings. A Go string is a list of bytes, as Isabelle's \<open>string\<close> is; case folding
  and white space are those of ASCII, the bytes from 128 on (inside a UTF-8 sequence) are left
  alone. The order on strings is Go's: lexicographic by byte.
\<close>

section \<open>Trimming, case, prefixes\<close>

definition is_space :: "char \<Rightarrow> bool" where
  "is_space c \<longleftrightarrow> c = CHR '' '' \<or> c = CHR 0x09 \<or> c = CHR 0x0A \<or> c = CHR 0x0B \<or> c = CHR 0x0C \<or> c = CHR 0x0D"

definition nl :: string where
  "nl = [CHR 0x0A]"

definition trim_left_by :: "(char \<Rightarrow> bool) \<Rightarrow> string \<Rightarrow> string" where
  "trim_left_by P s = dropWhile P s"

definition trim_right_by :: "(char \<Rightarrow> bool) \<Rightarrow> string \<Rightarrow> string" where
  "trim_right_by P s = rev (dropWhile P (rev s))"

definition trim_by :: "(char \<Rightarrow> bool) \<Rightarrow> string \<Rightarrow> string" where
  "trim_by P s = trim_right_by P (trim_left_by P s)"

text \<open>\<^verbatim>\<open>strings.TrimSpace\<close>, and \<^verbatim>\<open>strings.Trim\<close>/\<^verbatim>\<open>TrimRight\<close> with a one-character cutset.\<close>

definition trim_space :: "string \<Rightarrow> string" where
  "trim_space s = trim_by is_space s"

definition trim_char :: "char \<Rightarrow> string \<Rightarrow> string" where
  "trim_char c s = trim_by (\<lambda>x. x = c) s"

definition trim_right_char :: "char \<Rightarrow> string \<Rightarrow> string" where
  "trim_right_char c s = trim_right_by (\<lambda>x. x = c) s"

definition is_upper :: "char \<Rightarrow> bool" where
  "is_upper c \<longleftrightarrow> 65 \<le> (of_char c :: nat) \<and> (of_char c :: nat) \<le> 90"

definition is_lower :: "char \<Rightarrow> bool" where
  "is_lower c \<longleftrightarrow> 97 \<le> (of_char c :: nat) \<and> (of_char c :: nat) \<le> 122"

definition is_digit :: "char \<Rightarrow> bool" where
  "is_digit c \<longleftrightarrow> 48 \<le> (of_char c :: nat) \<and> (of_char c :: nat) \<le> 57"

definition lower_char :: "char \<Rightarrow> char" where
  "lower_char c = (if is_upper c then char_of ((of_char c :: nat) + 32) else c)"

definition upper_char :: "char \<Rightarrow> char" where
  "upper_char c = (if is_lower c then char_of ((of_char c :: nat) - 32) else c)"

definition to_lower :: "string \<Rightarrow> string" where
  "to_lower s = map lower_char s"

definition to_upper :: "string \<Rightarrow> string" where
  "to_upper s = map upper_char s"

definition equal_fold :: "string \<Rightarrow> string \<Rightarrow> bool" where
  "equal_fold s t \<longleftrightarrow> to_lower s = to_lower t"

definition has_prefix :: "string \<Rightarrow> string \<Rightarrow> bool" where
  "has_prefix s p \<longleftrightarrow> take (length p) s = p"

definition has_suffix :: "string \<Rightarrow> string \<Rightarrow> bool" where
  "has_suffix s p \<longleftrightarrow> length p \<le> length s \<and> drop (length s - length p) s = p"

definition trim_prefix :: "string \<Rightarrow> string \<Rightarrow> string" where
  "trim_prefix s p = (if has_prefix s p then drop (length p) s else s)"

definition trim_suffix :: "string \<Rightarrow> string \<Rightarrow> string" where
  "trim_suffix s p = (if has_suffix s p then take (length s - length p) s else s)"

section \<open>Searching, splitting, joining\<close>

fun contains :: "string \<Rightarrow> string \<Rightarrow> bool" where
  "contains [] p \<longleftrightarrow> p = []"
| "contains (c # s) p \<longleftrightarrow> has_prefix (c # s) p \<or> contains s p"

text \<open>\<^verbatim>\<open>strings.Split(s, sep)\<close> for a one-character separator: \<open>n\<close> separators give \<open>n + 1\<close> parts.\<close>

fun split_on :: "char \<Rightarrow> string \<Rightarrow> string list" where
  "split_on c [] = [[]]"
| "split_on c (x # s) =
     (if x = c then [] # split_on c s
      else (case split_on c s of [] \<Rightarrow> [[x]] | y # ys \<Rightarrow> (x # y) # ys))"

text \<open>\<^verbatim>\<open>strings.Join\<close>.\<close>

fun join_with :: "string \<Rightarrow> string list \<Rightarrow> string" where
  "join_with sep [] = []"
| "join_with sep [x] = x"
| "join_with sep (x # y # ys) = x @ sep @ join_with sep (y # ys)"

text \<open>\<^verbatim>\<open>strings.Cut(s, sep)\<close> for a one-character separator: before, after, found.\<close>

definition cut_at :: "char \<Rightarrow> string \<Rightarrow> string \<times> string \<times> bool" where
  "cut_at c s = (takeWhile (\<lambda>x. x \<noteq> c) s, drop 1 (dropWhile (\<lambda>x. x \<noteq> c) s), c \<in> set s)"

text \<open>\<^verbatim>\<open>strings.Fields\<close>: the maximal runs of characters that are not white space.\<close>

fun fields_acc :: "string \<Rightarrow> string \<Rightarrow> string list" where
  "fields_acc cur [] = (if cur = [] then [] else [rev cur])"
| "fields_acc cur (c # s) =
     (if is_space c then (if cur = [] then fields_acc [] s else rev cur # fields_acc [] s)
      else fields_acc (c # cur) s)"

definition go_fields :: "string \<Rightarrow> string list" where
  "go_fields s = fields_acc [] s"

text \<open>
  \<^verbatim>\<open>strings.ReplaceAll(s, old, new)\<close> for a non-empty \<open>old\<close>: non-overlapping matches, from the left.
\<close>

function replace_all :: "string \<Rightarrow> string \<Rightarrow> string \<Rightarrow> string" where
  "replace_all old new s =
     (if s = [] then []
      else if old \<noteq> [] \<and> has_prefix s old then new @ replace_all old new (drop (length old) s)
      else hd s # replace_all old new (tl s))"
  by pat_completeness auto
termination
  by (relation "measure (\<lambda>(old, new, s). length s)") (auto simp: neq_Nil_conv)

declare replace_all.simps [simp del]

text \<open>
  \<^verbatim>\<open>strings.NewReplacer("a", "x", "b", "y", ...).Replace\<close> where every pattern and every
  replacement is one character.
\<close>

definition replace_chars :: "(char \<times> char) list \<Rightarrow> string \<Rightarrow> string" where
  "replace_chars ps s = map (\<lambda>c. case map_of ps c of None \<Rightarrow> c | Some d \<Rightarrow> d) s"

section \<open>Quoting and numbers\<close>

definition hex_digit :: "nat \<Rightarrow> char" where
  "hex_digit n = (if n < 10 then char_of (48 + n) else char_of (87 + n))"

text \<open>\<^verbatim>\<open>hex.EncodeToString\<close>: two lower-case digits for each byte.\<close>

definition hex_encode :: "char list \<Rightarrow> string" where
  "hex_encode bs =
     concat (map (\<lambda>b. [hex_digit ((of_char b :: nat) div 16), hex_digit ((of_char b :: nat) mod 16)]) bs)"

text \<open>\<^verbatim>\<open>strconv.Quote\<close>, which \<^verbatim>\<open>%q\<close> prints.\<close>

definition quote_char :: "char \<Rightarrow> string" where
  "quote_char c =
     (if c = CHR 0x22 then [CHR 0x5C, CHR 0x22]
      else if c = CHR 0x5C then [CHR 0x5C, CHR 0x5C]
      else if c = CHR 0x07 then [CHR 0x5C, CHR ''a'']
      else if c = CHR 0x08 then [CHR 0x5C, CHR ''b'']
      else if c = CHR 0x0C then [CHR 0x5C, CHR ''f'']
      else if c = CHR 0x0A then [CHR 0x5C, CHR ''n'']
      else if c = CHR 0x0D then [CHR 0x5C, CHR ''r'']
      else if c = CHR 0x09 then [CHR 0x5C, CHR ''t'']
      else if c = CHR 0x0B then [CHR 0x5C, CHR ''v'']
      else if (of_char c :: nat) < 32 \<or> (of_char c :: nat) = 127 then [CHR 0x5C, CHR ''x''] @ hex_encode [c]
      else [c])"

definition go_quote :: "string \<Rightarrow> string" where
  "go_quote s = [CHR 0x22] @ concat (map quote_char s) @ [CHR 0x22]"

text \<open>\<^verbatim>\<open>strconv.Itoa\<close> and \<^verbatim>\<open>%d\<close> on numbers that are not negative.\<close>

fun itoa :: "nat \<Rightarrow> string" where
  "itoa n = (if n < 10 then [char_of (48 + n)] else itoa (n div 10) @ [char_of (48 + n mod 10)])"

declare itoa.simps [simp del]

section \<open>Regular expressions\<close>

text \<open>
  An expression over character classes and the matcher by derivatives: \<open>rx_match r s\<close> holds when
  the whole of \<open>s\<close> is in the language, as \<^verbatim>\<open>MatchString\<close> of a pattern between \<^verbatim>\<open>^\<close> and \<^verbatim>\<open>$\<close>.
\<close>

datatype rx = Empty_rx | Eps_rx | Class_rx "char \<Rightarrow> bool" | Seq_rx rx rx | Alt_rx rx rx | Star_rx rx

definition Opt_rx :: "rx \<Rightarrow> rx" where
  "Opt_rx r = Alt_rx r Eps_rx"

fun nullable :: "rx \<Rightarrow> bool" where
  "nullable Empty_rx \<longleftrightarrow> False"
| "nullable Eps_rx \<longleftrightarrow> True"
| "nullable (Class_rx P) \<longleftrightarrow> False"
| "nullable (Seq_rx r s) \<longleftrightarrow> nullable r \<and> nullable s"
| "nullable (Alt_rx r s) \<longleftrightarrow> nullable r \<or> nullable s"
| "nullable (Star_rx r) \<longleftrightarrow> True"

fun deriv :: "char \<Rightarrow> rx \<Rightarrow> rx" where
  "deriv c Empty_rx = Empty_rx"
| "deriv c Eps_rx = Empty_rx"
| "deriv c (Class_rx P) = (if P c then Eps_rx else Empty_rx)"
| "deriv c (Seq_rx r s) =
     (if nullable r then Alt_rx (Seq_rx (deriv c r) s) (deriv c s) else Seq_rx (deriv c r) s)"
| "deriv c (Alt_rx r s) = Alt_rx (deriv c r) (deriv c s)"
| "deriv c (Star_rx r) = Seq_rx (deriv c r) (Star_rx r)"

fun rx_match :: "rx \<Rightarrow> string \<Rightarrow> bool" where
  "rx_match r [] \<longleftrightarrow> nullable r"
| "rx_match r (c # s) \<longleftrightarrow> rx_match (deriv c r) s"

text \<open>The language an expression denotes, and the matcher decides it.\<close>

inductive rx_lang :: "rx \<Rightarrow> string \<Rightarrow> bool" where
  eps: "rx_lang Eps_rx []"
| cls: "P c \<Longrightarrow> rx_lang (Class_rx P) [c]"
| seq: "rx_lang r u \<Longrightarrow> rx_lang s v \<Longrightarrow> rx_lang (Seq_rx r s) (u @ v)"
| alt1: "rx_lang r u \<Longrightarrow> rx_lang (Alt_rx r s) u"
| alt2: "rx_lang s u \<Longrightarrow> rx_lang (Alt_rx r s) u"
| star0: "rx_lang (Star_rx r) []"
| star1: "rx_lang r u \<Longrightarrow> rx_lang (Star_rx r) v \<Longrightarrow> rx_lang (Star_rx r) (u @ v)"

inductive_simps rx_lang_Empty: "rx_lang Empty_rx u"
inductive_simps rx_lang_Eps: "rx_lang Eps_rx u"
inductive_simps rx_lang_Class: "rx_lang (Class_rx P) u"
inductive_simps rx_lang_Seq: "rx_lang (Seq_rx r s) u"
inductive_simps rx_lang_Alt: "rx_lang (Alt_rx r s) u"

lemmas rx_lang_simps = rx_lang_Empty rx_lang_Eps rx_lang_Class rx_lang_Seq rx_lang_Alt

lemma nullable_iff: "nullable r \<longleftrightarrow> rx_lang r []"
proof (induction r)
  case (Star_rx r)
  then show ?case by (simp add: rx_lang.star0)
qed (auto simp: rx_lang_simps)

lemma rx_lang_Star_Cons:
  assumes "rx_lang (Star_rx r) (c # u)"
  shows "\<exists>v w. u = v @ w \<and> rx_lang r (c # v) \<and> rx_lang (Star_rx r) w"
proof -
  have "rx_lang q t \<Longrightarrow> q = Star_rx r \<Longrightarrow> t = c # u \<Longrightarrow> ?thesis" for q t
  proof (induction arbitrary: u rule: rx_lang.induct)
    case (star1 r' x y)
    then show ?case by (cases x) (auto simp: Cons_eq_append_conv)
  qed simp_all
  from this [OF assms refl refl] show ?thesis .
qed

lemma deriv_iff: "rx_lang (deriv c r) u \<longleftrightarrow> rx_lang r (c # u)"
proof (induction r arbitrary: u)
  case (Seq_rx r s)
  then show ?case
    by (auto simp: rx_lang_simps nullable_iff Cons_eq_append_conv)
next
  case (Star_rx r)
  show ?case
  proof
    assume "rx_lang (deriv c (Star_rx r)) u"
    then obtain v w where "u = v @ w" "rx_lang r (c # v)" "rx_lang (Star_rx r) w"
      by (auto simp: rx_lang_simps Star_rx)
    then show "rx_lang (Star_rx r) (c # u)"
      using rx_lang.star1 [of r "c # v" w] by simp
  next
    assume "rx_lang (Star_rx r) (c # u)"
    then show "rx_lang (deriv c (Star_rx r)) u"
      using rx_lang_Star_Cons [of r c u] by (auto simp: rx_lang_simps Star_rx)
  qed
qed (auto simp: rx_lang_simps)

lemma rx_match_iff: "rx_match r s \<longleftrightarrow> rx_lang r s"
  by (induction s arbitrary: r) (simp_all add: nullable_iff deriv_iff)

lemma rx_lang_Star_Class: "rx_lang (Star_rx (Class_rx P)) u \<longleftrightarrow> (\<forall>c \<in> set u. P c)"
proof (induction u)
  case Nil
  then show ?case by (simp add: rx_lang.star0)
next
  case (Cons c u)
  then show ?case
    by (auto simp: rx_lang_Class dest!: rx_lang_Star_Cons
        intro: rx_lang.star1 [of "Class_rx P" "[c]" u, simplified] rx_lang.cls)
qed

section \<open>Facts about the string operations\<close>

lemma to_lower_simps [simp]: "to_lower [] = []" "to_lower (c # s) = lower_char c # to_lower s"
  "to_lower (s @ t) = to_lower s @ to_lower t" "length (to_lower s) = length s"
  by (simp_all add: to_lower_def)

lemma is_upper_lower_char [simp]: "\<not> is_upper (lower_char c)"
  by (auto simp: lower_char_def is_upper_def of_char_mod_256 split: if_splits)

lemma lower_char_idem [simp]: "lower_char (lower_char c) = lower_char c"
  by (simp add: lower_char_def [of "lower_char c"])

lemma to_lower_idem [simp]: "to_lower (to_lower s) = to_lower s"
  by (simp add: to_lower_def)

lemma to_lower_id: "\<forall>c \<in> set s. \<not> is_upper c \<Longrightarrow> to_lower s = s"
  by (simp add: to_lower_def lower_char_def map_idI)

lemma not_upper_to_lower: "c \<in> set (to_lower s) \<Longrightarrow> \<not> is_upper c"
  by (auto simp: to_lower_def)

lemma equal_fold_refl [simp]: "equal_fold s s"
  by (simp add: equal_fold_def)

lemma equal_fold_sym: "equal_fold s t \<longleftrightarrow> equal_fold t s"
  by (auto simp: equal_fold_def)

lemma has_prefix_iff: "has_prefix s p \<longleftrightarrow> (\<exists>t. s = p @ t)"
  unfolding has_prefix_def by (metis append_eq_conv_conj append_take_drop_id)

lemma has_suffix_iff: "has_suffix s p \<longleftrightarrow> (\<exists>t. s = t @ p)"
  unfolding has_suffix_def
  by (metis append_eq_conv_conj append_take_drop_id diff_le_self length_append le_add2
      length_drop diff_diff_cancel add_diff_cancel_right')

lemma has_prefix_append [simp]: "has_prefix (p @ t) p"
  by (auto simp: has_prefix_iff)

lemma has_suffix_append [simp]: "has_suffix (t @ p) p"
  by (auto simp: has_suffix_iff)

lemma trim_suffix_append [simp]: "trim_suffix (t @ p) p = t"
  by (simp add: trim_suffix_def)

lemma trim_prefix_append [simp]: "trim_prefix (p @ t) p = t"
  by (simp add: trim_prefix_def)

lemma contains_iff: "contains s p \<longleftrightarrow> (\<exists>a b. s = a @ p @ b)"
proof (induction s p rule: contains.induct)
  case (2 c s p)
  have "(\<exists>a b. c # s = a @ p @ b) \<longleftrightarrow> (\<exists>b. c # s = p @ b) \<or> (\<exists>a b. s = a @ p @ b)"
    by (metis (no_types, lifting) append_Cons append_Nil neq_Nil_conv list.inject)
  with "2.IH" show ?case by (simp add: has_prefix_iff)
qed auto

lemma contains_append [simp]: "contains (a @ p @ b) p"
  by (auto simp: contains_iff)

lemma contains_mono: "contains s p \<Longrightarrow> contains (a @ s @ b) p"
  unfolding contains_iff by (metis append.assoc)

lemma contains_set: "contains s p \<Longrightarrow> set p \<subseteq> set s"
  by (auto simp: contains_iff)

subsection \<open>Trimming\<close>

lemma trim_by_set: "set (trim_by P s) \<subseteq> set s"
proof
  fix c assume "c \<in> set (trim_by P s)"
  then have "c \<in> set (dropWhile P (rev (dropWhile P s)))"
    by (simp add: trim_by_def trim_right_by_def trim_left_by_def)
  then have "c \<in> set (dropWhile P s)"
    using set_dropWhile_subset [of P "rev (dropWhile P s)"] by auto
  then show "c \<in> set s" using set_dropWhile_subset [of P s] by auto
qed

lemma trim_right_by_hd: "\<not> P (hd s) \<Longrightarrow> trim_right_by P s = [] \<or> hd (trim_right_by P s) = hd s"
  unfolding trim_right_by_def
  by (metis hd_rev last_dropWhile rev_is_Nil_conv rev_rev_ident)

lemma trim_right_by_last: "trim_right_by P s \<noteq> [] \<Longrightarrow> \<not> P (last (trim_right_by P s))"
  unfolding trim_right_by_def by (simp add: last_rev hd_dropWhile)

lemma trim_by_dropWhile_Nil: "dropWhile P s = [] \<Longrightarrow> trim_by P s = []"
  unfolding trim_by_def trim_left_by_def trim_right_by_def
  by (simp only: rev.simps dropWhile.simps)

lemma trim_by_ends:
  assumes "trim_by P s \<noteq> []"
  shows "\<not> P (hd (trim_by P s)) \<and> \<not> P (last (trim_by P s))"
proof -
  have ne: "dropWhile P s \<noteq> []"
    using assms trim_by_dropWhile_Nil by blast
  then have "\<not> P (hd (dropWhile P s))" by (rule hd_dropWhile)
  then show ?thesis
    using assms trim_right_by_hd [of P "dropWhile P s"] trim_right_by_last [of P "dropWhile P s"]
    by (auto simp: trim_by_def trim_left_by_def)
qed

lemma trim_by_id: "s = [] \<or> (\<not> P (hd s) \<and> \<not> P (last s)) \<Longrightarrow> trim_by P s = s"
proof -
  assume *: "s = [] \<or> (\<not> P (hd s) \<and> \<not> P (last s))"
  then have "dropWhile P s = s" by (auto simp: dropWhile_id_iff)
  moreover from * have "dropWhile P (rev s) = rev s" by (auto simp: dropWhile_id_iff hd_rev)
  ultimately show "trim_by P s = s" by (simp add: trim_by_def trim_left_by_def trim_right_by_def)
qed

lemma trim_by_idem: "trim_by P (trim_by P s) = trim_by P s"
  by (rule trim_by_id) (use trim_by_ends in blast)

lemma trim_by_Nil_iff: "trim_by P s = [] \<longleftrightarrow> (\<forall>c \<in> set s. P c)"
proof
  assume "trim_by P s = []"
  then have "\<forall>c \<in> set (dropWhile P s). P c"
    unfolding trim_by_def trim_left_by_def trim_right_by_def rev_is_Nil_conv dropWhile_Nil_iff
      set_rev .
  then have "dropWhile P s = []" using hd_dropWhile [of P s] hd_in_set by blast
  then show "\<forall>c \<in> set s. P c" by (simp add: dropWhile_Nil_iff)
next
  assume "\<forall>c \<in> set s. P c"
  then have "dropWhile P s = []" by (simp add: dropWhile_Nil_iff)
  then show "trim_by P s = []" by (rule trim_by_dropWhile_Nil)
qed

lemma trim_space_idem [simp]: "trim_space (trim_space s) = trim_space s"
  by (simp add: trim_space_def trim_by_idem)

lemma trim_space_Nil [simp]: "trim_space [] = []"
  by (simp add: trim_space_def trim_by_def trim_left_by_def trim_right_by_def)

lemma trim_space_id: "s = [] \<or> (\<not> is_space (hd s) \<and> \<not> is_space (last s)) \<Longrightarrow> trim_space s = s"
  unfolding trim_space_def by (rule trim_by_id)

lemma trim_space_no_space: "\<forall>c \<in> set s. \<not> is_space c \<Longrightarrow> trim_space s = s"
  by (rule trim_space_id) (cases s, auto)

lemma is_space_lower_char [simp]: "is_space (lower_char c) \<longleftrightarrow> is_space c"
proof (cases "is_upper c")
  case True
  have "(of_char (lower_char c) :: nat) = of_char c + 32"
    using True by (simp add: lower_char_def is_upper_def of_char_mod_256)
  with True have "97 \<le> (of_char (lower_char c) :: nat)" "65 \<le> (of_char c :: nat)"
    by (auto simp: is_upper_def)
  then show ?thesis by (auto simp: is_space_def)
qed (simp add: lower_char_def)

lemma trim_right_char_ends: "trim_right_char c s = [] \<or> last (trim_right_char c s) \<noteq> c"
  using trim_right_by_last [of "\<lambda>x. x = c" s] by (auto simp: trim_right_char_def)

lemma trim_right_char_id: "s = [] \<or> last s \<noteq> c \<Longrightarrow> trim_right_char c s = s"
  by (cases s rule: rev_cases) (auto simp: trim_right_char_def trim_right_by_def)

lemma trim_char_no_char: "c \<notin> set s \<Longrightarrow> trim_char c s = s"
  unfolding trim_char_def by (rule trim_by_id) (cases s, auto)

subsection \<open>Splitting and joining\<close>

lemma split_on_nonempty [simp]: "split_on c s \<noteq> []"
  by (induction s) (auto split: list.splits)

lemma split_on_no_sep: "c \<notin> set s \<Longrightarrow> split_on c s = [s]"
  by (induction s) auto

lemma split_on_append: "split_on c (s @ c # t) = split_on c s @ split_on c t"
  by (induction s) (auto split: list.splits)

lemma join_Cons: "ys \<noteq> [] \<Longrightarrow> join_with sep (x # ys) = x @ sep @ join_with sep ys"
  by (cases ys) auto

lemma join_append:
  "xs \<noteq> [] \<Longrightarrow> ys \<noteq> [] \<Longrightarrow> join_with sep (xs @ ys) = join_with sep xs @ sep @ join_with sep ys"
proof (induction xs)
  case (Cons x xs)
  then show ?case by (cases "xs = []") (simp_all add: join_Cons)
qed simp

lemma join_split: "join_with [c] (split_on c s) = s"
proof (induction s)
  case (Cons x s)
  obtain y ys where s: "split_on c s = y # ys" by (meson neq_Nil_conv split_on_nonempty)
  with Cons show ?case by (cases ys) (auto simp: join_Cons)
qed simp

lemma split_on_parts: "p \<in> set (split_on c s) \<Longrightarrow> c \<notin> set p \<and> set p \<subseteq> set s"
proof (induction s arbitrary: p)
  case (Cons x s)
  obtain y ys where s: "split_on c s = y # ys" by (meson neq_Nil_conv split_on_nonempty)
  then have y: "c \<notin> set y \<and> set y \<subseteq> set s" using Cons.IH [of y] by simp
  show ?case
  proof (cases "x = c \<or> p \<in> set ys")
    case True
    with Cons s show ?thesis by (auto split: if_splits)
  next
    case False
    with Cons.prems s have "p = x # y" "x \<noteq> c" by (auto split: if_splits)
    with y show ?thesis by auto
  qed
qed simp

lemma split_join:
  "xs \<noteq> [] \<Longrightarrow> \<forall>x \<in> set xs. c \<notin> set x \<Longrightarrow> split_on c (join_with [c] xs) = xs"
proof (induction "[c]" xs rule: join_with.induct)
  case (3 x y ys)
  then show ?case using split_on_append [of c x "join_with [c] (y # ys)"]
    by (simp add: split_on_no_sep)
qed (simp_all add: split_on_no_sep)

subsection \<open>Numbers\<close>

lemma itoa_digits: "c \<in> set (itoa n) \<Longrightarrow> is_digit c"
proof (induction n rule: itoa.induct)
  case (1 n)
  have "n mod 10 < 10" by simp
  with 1 show ?case
    by (subst (asm) itoa.simps) (auto simp: is_digit_def of_char_mod_256 split: if_splits)
qed

end
