(* ===== verification/Json.thy ===== *)
theory Json
  imports Go_Strings
begin

text \<open>
  \<^verbatim>\<open>encoding/json\<close>, as far as the daemon and its client use it: \<^verbatim>\<open>Marshal\<close>, \<^verbatim>\<open>MarshalIndent(v, "", "  ")\<close>
  and \<^verbatim>\<open>Unmarshal\<close> of a generic value. Strings are sequences of bytes, and bytes above 127 are printed and
  read as they are. That is what Go does with strings that are valid UTF-8 (but for U+2028 and U+2029,
  which Go writes as escapes that read back as the same characters). Go replaces a byte that belongs to
  no valid sequence by U+FFFD: theory \<open>Json_Utf8\<close> has that replacement and shows that it changes nothing
  exactly when the strings are valid, which is a hypothesis of the round trips through a file. Numbers
  are kept as their literal text.
\<close>

datatype json =
    JNull | JBool bool | JNum string | JStr string | JArr "json list" | JObj "(string \<times> json) list"

section \<open>Printing\<close>

abbreviation quote_mark :: char where
  "quote_mark \<equiv> CHR 0x22"

abbreviation backslash :: char where
  "backslash \<equiv> CHR 0x5C"

text \<open>Go escapes control characters and, by default, the characters that matter to HTML.\<close>

definition needs_hex :: "char \<Rightarrow> bool" where
  "needs_hex c \<longleftrightarrow> (of_char c :: nat) < 32 \<or> c = CHR ''<'' \<or> c = CHR ''>'' \<or> c = CHR ''&''"

definition escape_char :: "char \<Rightarrow> string" where
  "escape_char c =
     (if c = quote_mark then [backslash, quote_mark]
      else if c = backslash then [backslash, backslash]
      else if c = CHR 0x08 then [backslash, CHR ''b'']
      else if c = CHR 0x0C then [backslash, CHR ''f'']
      else if c = CHR 0x0A then [backslash, CHR ''n'']
      else if c = CHR 0x0D then [backslash, CHR ''r'']
      else if c = CHR 0x09 then [backslash, CHR ''t'']
      else if needs_hex c then [backslash, CHR ''u'', CHR ''0'', CHR ''0''] @ hex_encode [c]
      else [c])"

definition json_string :: "string \<Rightarrow> string" where
  "json_string s = [quote_mark] @ concat (map escape_char s) @ [quote_mark]"

text \<open>\<open>Some n\<close> is the indentation level of \<^verbatim>\<open>MarshalIndent\<close>, \<open>None\<close> the compact form of \<^verbatim>\<open>Marshal\<close>.\<close>

definition line_break :: "nat option \<Rightarrow> string" where
  "line_break l = (case l of None \<Rightarrow> [] | Some n \<Rightarrow> CHR 0x0A # replicate (2 * n) CHR '' '')"

definition colon_text :: "nat option \<Rightarrow> string" where
  "colon_text l = (case l of None \<Rightarrow> '':'' | Some n \<Rightarrow> '': '')"

fun json_text :: "nat option \<Rightarrow> json \<Rightarrow> string" where
  "json_text l JNull = ''null''"
| "json_text l (JBool b) = (if b then ''true'' else ''false'')"
| "json_text l (JNum n) = n"
| "json_text l (JStr s) = json_string s"
| "json_text l (JArr xs) =
     (if xs = [] then ''[]''
      else let l' = map_option Suc l
           in ''['' @ line_break l' @ join_with ('','' @ line_break l') (map (json_text l') xs) @ line_break l @ '']'')"
| "json_text l (JObj kvs) =
     (if kvs = [] then ''{}''
      else let l' = map_option Suc l
           in ''{'' @ line_break l' @
              join_with ('','' @ line_break l')
                (map (\<lambda>(k, v). json_string k @ colon_text l @ json_text l' v) kvs)
              @ line_break l @ ''}'')"

definition marshal :: "json \<Rightarrow> string" where
  "marshal j = json_text None j"

definition marshal_indent :: "json \<Rightarrow> string" where
  "marshal_indent j = json_text (Some 0) j"

section \<open>Tokens\<close>

datatype tok =
    LBrace | RBrace | LBracket | RBracket | Comma | Colon | TNull | TBool bool | TNum string | TStr string

definition json_space :: "char \<Rightarrow> bool" where
  "json_space c \<longleftrightarrow> c = CHR '' '' \<or> c = CHR 0x09 \<or> c = CHR 0x0A \<or> c = CHR 0x0D"

definition num_char :: "char \<Rightarrow> bool" where
  "num_char c \<longleftrightarrow> is_digit c \<or> c = CHR ''-'' \<or> c = CHR ''+'' \<or> c = CHR ''.'' \<or> c = CHR ''e'' \<or> c = CHR ''E''"

definition digits_rx :: rx where
  "digits_rx = Seq_rx (Class_rx is_digit) (Star_rx (Class_rx is_digit))"

definition number_rx :: rx where
  "number_rx =
     Seq_rx (Opt_rx (Class_rx (\<lambda>c. c = CHR ''-'')))
       (Seq_rx (Alt_rx (Class_rx (\<lambda>c. c = CHR ''0''))
                  (Seq_rx (Class_rx (\<lambda>c. is_digit c \<and> c \<noteq> CHR ''0'')) (Star_rx (Class_rx is_digit))))
          (Seq_rx (Opt_rx (Seq_rx (Class_rx (\<lambda>c. c = CHR ''.'')) digits_rx))
             (Opt_rx (Seq_rx (Class_rx (\<lambda>c. c = CHR ''e'' \<or> c = CHR ''E''))
                (Seq_rx (Opt_rx (Class_rx (\<lambda>c. c = CHR ''+'' \<or> c = CHR ''-''))) digits_rx)))))"

definition number_ok :: "string \<Rightarrow> bool" where
  "number_ok n \<longleftrightarrow> list_all num_char n \<and> rx_match number_rx n"

definition hex_value :: "char \<Rightarrow> nat option" where
  "hex_value c =
     (let n = of_char c :: nat
      in if 48 \<le> n \<and> n \<le> 57 then Some (n - 48)
         else if 97 \<le> n \<and> n \<le> 102 then Some (n - 87)
         else if 65 \<le> n \<and> n \<le> 70 then Some (n - 55)
         else None)"

definition hex4 :: "char \<Rightarrow> char \<Rightarrow> char \<Rightarrow> char \<Rightarrow> nat option" where
  "hex4 a b c d =
     (case (hex_value a, hex_value b, hex_value c, hex_value d) of
        (Some x, Some y, Some z, Some t) \<Rightarrow> Some (((x * 16 + y) * 16 + z) * 16 + t)
      | _ \<Rightarrow> None)"

text \<open>A code point in UTF-8; a surrogate that is no half of a pair stands for the replacement character.\<close>

definition utf8 :: "nat \<Rightarrow> string" where
  "utf8 n =
     (if n < 0x80 then [char_of n]
      else if n < 0x800 then [char_of (0xC0 + n div 64), char_of (0x80 + n mod 64)]
      else if 0xD800 \<le> n \<and> n < 0xE000 then [CHR 0xEF, CHR 0xBF, CHR 0xBD]
      else if n < 0x10000 then
        [char_of (0xE0 + n div 4096), char_of (0x80 + n div 64 mod 64), char_of (0x80 + n mod 64)]
      else [char_of (0xF0 + n div 262144), char_of (0x80 + n div 4096 mod 64),
            char_of (0x80 + n div 64 mod 64), char_of (0x80 + n mod 64)])"

text \<open>The second half of a surrogate pair, when one follows: the code point and the rest.\<close>

definition low_half :: "nat \<Rightarrow> string \<Rightarrow> (nat \<times> string) option" where
  "low_half n s =
     (if 0xD800 \<le> n \<and> n < 0xDC00 then
        (case s of
           b # u # x # y # z # t # r \<Rightarrow>
             (if b = backslash \<and> u = CHR ''u'' then
                (case hex4 x y z t of
                   None \<Rightarrow> None
                 | Some m \<Rightarrow>
                     (if 0xDC00 \<le> m \<and> m < 0xE000
                      then Some (0x10000 + (n - 0xD800) * 0x400 + (m - 0xDC00), r) else None))
              else None)
         | _ \<Rightarrow> None)
      else None)"

lemma low_half_length: "low_half n s = Some (m, r) \<Longrightarrow> length r < length s"
  by (auto simp: low_half_def split: if_splits list.splits option.splits)

definition unescape :: "char \<Rightarrow> char option" where
  "unescape e =
     map_of [(quote_mark, quote_mark), (backslash, backslash), (CHR ''/'', CHR ''/''), (CHR ''b'', CHR 0x08),
             (CHR ''f'', CHR 0x0C), (CHR ''n'', CHR 0x0A), (CHR ''r'', CHR 0x0D), (CHR ''t'', CHR 0x09)] e"

text \<open>The rest of a string literal: its value and what follows the closing quote.\<close>

function scan_string :: "string \<Rightarrow> (string \<times> string) option" where
  "scan_string [] = None"
| "scan_string (c # s) =
     (if c = quote_mark then Some ([], s)
      else if c = backslash then
        (case s of
           [] \<Rightarrow> None
         | e # s1 \<Rightarrow>
             (if e = CHR ''u'' then
                (case s1 of
                   x # y # z # t # s2 \<Rightarrow>
                     (case hex4 x y z t of
                        None \<Rightarrow> None
                      | Some n \<Rightarrow>
                          (case low_half n s2 of
                             None \<Rightarrow> map_option (apfst (append (utf8 n))) (scan_string s2)
                           | Some (m, s3) \<Rightarrow> map_option (apfst (append (utf8 m))) (scan_string s3)))
                 | _ \<Rightarrow> None)
              else (case unescape e of
                      None \<Rightarrow> None
                    | Some d \<Rightarrow> map_option (apfst (Cons d)) (scan_string s1))))
      else if (of_char c :: nat) < 32 then None
      else map_option (apfst (Cons c)) (scan_string s))"
  by pat_completeness auto
termination
  by (relation "measure length") (auto dest: low_half_length)

lemma scan_string_length: "scan_string s = Some (x, r) \<Longrightarrow> length r < length s"
proof (induction s arbitrary: x rule: measure_induct_rule [of length])
  case (less s)
  have IH: "length r < length u" if "length u < length s" "scan_string u = Some (y, r)" for u y
    using less.IH that by blast
  show ?case
  proof (cases s)
    case (Cons c t)
    with less.prems show ?thesis
      by (auto split: if_splits list.splits option.splits dest!: IH [rotated] low_half_length)
  qed (use less.prems in simp)
qed

definition word_tok :: "string \<Rightarrow> (tok \<times> string) option" where
  "word_tok s =
     (if has_prefix s ''null'' then Some (TNull, drop 4 s)
      else if has_prefix s ''true'' then Some (TBool True, drop 4 s)
      else if has_prefix s ''false'' then Some (TBool False, drop 5 s)
      else let n = takeWhile num_char s
           in if number_ok n \<and> n \<noteq> [] then Some (TNum n, drop (length n) s) else None)"

definition punctuation :: "char \<Rightarrow> tok option" where
  "punctuation c =
     map_of [(CHR ''{'', LBrace), (CHR ''}'', RBrace), (CHR ''['', LBracket), (CHR '']'', RBracket),
             (CHR '','', Comma), (CHR '':'', Colon)] c"

lemma word_tok_length:
  assumes "word_tok s = Some (t, r)"
  shows "length r < length s"
proof -
  have "\<exists>n. r = drop n s \<and> 0 < n \<and> s \<noteq> []"
  proof (cases "has_prefix s ''null'' \<or> has_prefix s ''true'' \<or> has_prefix s ''false''")
    case True
    then have "s \<noteq> []" by (auto simp: has_prefix_iff)
    with True assms show ?thesis by (auto simp: word_tok_def split: if_splits)
  next
    case False
    let ?n = "takeWhile num_char s"
    from False assms have "r = drop (length ?n) s" "?n \<noteq> []" by (auto simp: word_tok_def Let_def split: if_splits)
    then show ?thesis by (intro exI [of _ "length ?n"]) auto
  qed
  then show ?thesis by auto
qed

function json_lex :: "string \<Rightarrow> tok list option" where
  "json_lex [] = Some []"
| "json_lex (c # s) =
     (if json_space c then json_lex s
      else case punctuation c of
        Some t \<Rightarrow> map_option (Cons t) (json_lex s)
      | None \<Rightarrow>
          (if c = quote_mark then
             (case scan_string s of
                None \<Rightarrow> None
              | Some (x, r) \<Rightarrow> map_option (Cons (TStr x)) (json_lex r))
           else (case word_tok (c # s) of
                   None \<Rightarrow> None
                 | Some (t, r) \<Rightarrow> map_option (Cons t) (json_lex r))))"
  by pat_completeness auto
termination
  by (relation "measure length") (auto dest: scan_string_length word_tok_length)

section \<open>Parsing\<close>

text \<open>
  The parser works on tokens with fuel; the number of tokens is enough, since each level of the
  recursion takes one.
\<close>

fun parse_value :: "nat \<Rightarrow> tok list \<Rightarrow> (json \<times> tok list) option"
  and parse_items :: "nat \<Rightarrow> tok list \<Rightarrow> (json list \<times> tok list) option"
  and parse_members :: "nat \<Rightarrow> tok list \<Rightarrow> ((string \<times> json) list \<times> tok list) option" where
  "parse_value 0 ts = None"
| "parse_value (Suc n) [] = None"
| "parse_value (Suc n) (t # ts) =
     (case t of
        TNull \<Rightarrow> Some (JNull, ts)
      | TBool b \<Rightarrow> Some (JBool b, ts)
      | TNum x \<Rightarrow> Some (JNum x, ts)
      | TStr x \<Rightarrow> Some (JStr x, ts)
      | LBracket \<Rightarrow>
          (if ts \<noteq> [] \<and> hd ts = RBracket then Some (JArr [], tl ts)
           else map_option (apfst JArr) (parse_items n ts))
      | LBrace \<Rightarrow>
          (if ts \<noteq> [] \<and> hd ts = RBrace then Some (JObj [], tl ts)
           else map_option (apfst JObj) (parse_members n ts))
      | _ \<Rightarrow> None)"
| "parse_items 0 ts = None"
| "parse_items (Suc n) ts =
     (case parse_value n ts of
        Some (v, Comma # r) \<Rightarrow> map_option (apfst (Cons v)) (parse_items n r)
      | Some (v, RBracket # r) \<Rightarrow> Some ([v], r)
      | _ \<Rightarrow> None)"
| "parse_members 0 ts = None"
| "parse_members (Suc n) ts =
     (case ts of
        TStr k # Colon # r \<Rightarrow>
          (case parse_value n r of
             Some (v, Comma # r2) \<Rightarrow> map_option (apfst (Cons (k, v))) (parse_members n r2)
           | Some (v, RBrace # r2) \<Rightarrow> Some ([(k, v)], r2)
           | _ \<Rightarrow> None)
      | _ \<Rightarrow> None)"

definition json_parse :: "string \<Rightarrow> json option" where
  "json_parse s =
     (case json_lex s of
        None \<Rightarrow> None
      | Some ts \<Rightarrow> (case parse_value (Suc (length ts)) ts of Some (v, []) \<Rightarrow> Some v | _ \<Rightarrow> None))"

section \<open>Strings survive\<close>

lemma hex_value_digit: "n < 16 \<Longrightarrow> hex_value (hex_digit n) = Some n"
  by (auto simp: hex_value_def hex_digit_def Let_def)

lemma hex4_escape: "hex4 CHR ''0'' CHR ''0'' (hex_digit ((of_char c :: nat) div 16)) (hex_digit ((of_char c :: nat) mod 16))
    = Some (of_char c)"
proof -
  have "(of_char c :: nat) < 256"
    using mod_less_divisor [of 256 "of_char c :: nat"] by (simp only: of_char_mod_256)
  then have "(of_char c :: nat) div 16 < 16" by (intro less_mult_imp_div_less) simp
  moreover have "(of_char c :: nat) mod 16 < 16" by simp
  moreover have "hex_value CHR ''0'' = Some 0" by (simp add: hex_value_def)
  ultimately show ?thesis by (simp add: hex4_def hex_value_digit)
qed

lemma scan_escape_char: "scan_string (escape_char c @ s) = map_option (apfst (Cons c)) (scan_string s)"
proof (cases "needs_hex c")
  case True
  then have small: "(of_char c :: nat) < 128" by (auto simp: needs_hex_def)
  then have u: "utf8 (of_char c) = [c]" "low_half (of_char c) s = None" by (simp_all add: utf8_def low_half_def)
  show ?thesis
  proof (cases "c \<in> {quote_mark, backslash, CHR 0x08, CHR 0x0C, CHR 0x0A, CHR 0x0D, CHR 0x09}")
    case True
    then show ?thesis by (auto simp: escape_char_def unescape_def)
  next
    case False
    have "(@) [c] = Cons c" by auto
    with False True u hex4_escape [of c] show ?thesis
      by (simp add: escape_char_def hex_encode_def)
  qed
next
  case False
  then have "\<not> (of_char c :: nat) < 32" by (simp add: needs_hex_def)
  with False show ?thesis by (auto simp: escape_char_def unescape_def)
qed

lemma scan_json_string: "scan_string (concat (map escape_char x) @ quote_mark # r) = Some (x, r)"
  by (induction x) (simp_all add: scan_escape_char del: scan_string.simps(2), simp)

section \<open>Values survive\<close>

text \<open>The tokens of a value.\<close>

fun sep_by :: "'a \<Rightarrow> 'a list list \<Rightarrow> 'a list" where
  "sep_by c [] = []"
| "sep_by c [x] = x"
| "sep_by c (x # y # ys) = x @ [c] @ sep_by c (y # ys)"

fun tokens :: "json \<Rightarrow> tok list" where
  "tokens JNull = [TNull]"
| "tokens (JBool b) = [TBool b]"
| "tokens (JNum n) = [TNum n]"
| "tokens (JStr s) = [TStr s]"
| "tokens (JArr xs) = [LBracket] @ sep_by Comma (map tokens xs) @ [RBracket]"
| "tokens (JObj kvs) = [LBrace] @ sep_by Comma (map (\<lambda>(k, v). [TStr k, Colon] @ tokens v) kvs) @ [RBrace]"

fun json_ok :: "json \<Rightarrow> bool" where
  "json_ok (JNum n) = (number_ok n \<and> n \<noteq> [])"
| "json_ok (JArr xs) = (\<forall>x \<in> set xs. json_ok x)"
| "json_ok (JObj kvs) = (\<forall>kv \<in> set kvs. json_ok (snd kv))"
| "json_ok _ = True"

lemma sep_by_Cons: "ys \<noteq> [] \<Longrightarrow> sep_by c (x # ys) = x @ [c] @ sep_by c ys"
  by (cases ys) simp_all

lemma tokens_head: "\<exists>t ts. tokens j = t # ts \<and> t \<noteq> RBracket \<and> t \<noteq> RBrace"
  by (cases j) simp_all

lemma tokens_nonempty [simp]: "tokens j \<noteq> []"
  using tokens_head [of j] by auto

lemma parse_items_tokens:
  assumes "\<And>x n r. x \<in> set xs \<Longrightarrow> length (tokens x) \<le> n \<Longrightarrow> parse_value n (tokens x @ r) = Some (x, r)"
    and "xs \<noteq> []" "length (sep_by Comma (map tokens xs)) < n"
  shows "parse_items n (sep_by Comma (map tokens xs) @ RBracket # r) = Some (xs, r)"
  using assms
proof (induction xs arbitrary: n)
  case (Cons x xs)
  from Cons.prems(3) obtain k where n: "n = Suc k" by (cases n) auto
  show ?case
  proof (cases "xs = []")
    case True
    with Cons.prems n show ?thesis by simp
  next
    case False
    from Cons.prems(3) False n have "length (tokens x) \<le> k" "length (sep_by Comma (map tokens xs)) < k"
      by (simp_all add: sep_by_Cons)
    with Cons.IH [of k] Cons.prems(1) False n show ?thesis by (simp add: sep_by_Cons)
  qed
qed simp

lemma parse_members_tokens:
  assumes "\<And>k v n r. (k, v) \<in> set kvs \<Longrightarrow> length (tokens v) \<le> n \<Longrightarrow> parse_value n (tokens v @ r) = Some (v, r)"
    and "kvs \<noteq> []" "length (sep_by Comma (map (\<lambda>(k, v). [TStr k, Colon] @ tokens v) kvs)) < n"
  shows "parse_members n (sep_by Comma (map (\<lambda>(k, v). [TStr k, Colon] @ tokens v) kvs) @ RBrace # r) = Some (kvs, r)"
  using assms
proof (induction kvs arbitrary: n)
  case (Cons kv kvs)
  obtain k v where kv: "kv = (k, v)" by (cases kv)
  from Cons.prems(3) obtain i where n: "n = Suc i" by (cases n) auto
  show ?case
  proof (cases "kvs = []")
    case True
    with Cons.prems n kv show ?thesis by simp
  next
    case False
    from Cons.prems(3) False n kv have "length (tokens v) \<le> i"
      "length (sep_by Comma (map (\<lambda>(k, v). [TStr k, Colon] @ tokens v) kvs)) < i"
      by (simp_all add: sep_by_Cons)
    moreover have "parse_value i (tokens v @ u) = Some (v, u)" for u
      using Cons.prems(1) [of k v i u] calculation(1) kv by simp
    moreover have "parse_members i (sep_by Comma (map (\<lambda>(k, v). [TStr k, Colon] @ tokens v) kvs) @ RBrace # r) = Some (kvs, r)"
    proof (rule Cons.IH [OF _ False calculation(2)])
      show "\<And>k v n r. (k, v) \<in> set kvs \<Longrightarrow> length (tokens v) \<le> n \<Longrightarrow> parse_value n (tokens v @ r) = Some (v, r)"
        using Cons.prems(1) by auto
    qed
    ultimately show ?thesis using False n kv by (simp add: sep_by_Cons)
  qed
qed simp

lemma parse_tokens: "length (tokens j) \<le> n \<Longrightarrow> parse_value n (tokens j @ r) = Some (j, r)"
proof (induction j arbitrary: n r)
  case (JArr xs)
  from JArr.prems obtain k where n: "n = Suc k" by (cases n) auto
  show ?case
  proof (cases xs)
    case (Cons x ys)
    have "hd (sep_by Comma (map tokens xs) @ RBracket # r) \<noteq> RBracket"
      using tokens_head [of x] Cons by (cases ys) auto
    with parse_items_tokens [of xs k r] JArr n Cons show ?thesis by simp
  qed (use n in simp)
next
  case (JObj kvs)
  from JObj.prems obtain k where n: "n = Suc k" by (cases n) auto
  show ?case
  proof (cases kvs)
    case (Cons x ys)
    have "hd (sep_by Comma (map (\<lambda>(k, v). [TStr k, Colon] @ tokens v) kvs) @ RBrace # r) \<noteq> RBrace"
      using Cons by (cases ys; cases x) auto
    moreover have "(a, v) \<in> set kvs \<Longrightarrow> length (tokens v) \<le> i \<Longrightarrow> parse_value i (tokens v @ u) = Some (v, u)" for a v i u
      by (rule JObj.IH) auto
    ultimately show ?thesis using parse_members_tokens [of kvs k r] JObj.prems n Cons by simp
  qed (use n in simp)
next
  case JNull
  then show ?case by (cases n) simp_all
next
  case (JBool b)
  then show ?case by (cases n) simp_all
next
  case (JNum x)
  then show ?case by (cases n) simp_all
next
  case (JStr x)
  then show ?case by (cases n) simp_all
qed

section \<open>Text survives\<close>

text \<open>What may follow a value without being read as part of it.\<close>

definition value_end :: "string \<Rightarrow> bool" where
  "value_end r \<longleftrightarrow> r = [] \<or> \<not> num_char (hd r)"

abbreviation lexes :: "string \<Rightarrow> tok list \<Rightarrow> bool" where
  "lexes s ts \<equiv> (\<forall>r. value_end r \<longrightarrow> json_lex (s @ r) = map_option (append ts) (json_lex r))"

lemma lex_spaces: "\<forall>c \<in> set s. json_space c \<Longrightarrow> json_lex (s @ r) = json_lex r"
  by (induction s) simp_all

lemma line_break_space: "\<forall>c \<in> set (line_break l). json_space c"
  by (cases l) (auto simp: line_break_def json_space_def)

lemma append_literal: "(@) [a] = Cons a" "(@) [a, b] = (\<lambda>x. a # b # x)"
  "(@) (a # s @ [b]) = (\<lambda>x. a # s @ b # x)"
  by auto

lemma append_pair: "(@) (a # b # s) = (\<lambda>x. a # b # s @ x)"
  by auto

lemma value_end_punct:
  "value_end (line_break l @ '']'' @ r)" "value_end (line_break l @ ''}'' @ r)" "value_end ('','' @ r)"
  by (simp_all add: value_end_def line_break_def num_char_def is_digit_def split: option.split)

lemma lex_punct:
  "punctuation c = Some t \<Longrightarrow> json_lex (c # s) = map_option (Cons t) (json_lex s)"
  by (auto simp: punctuation_def json_space_def split: if_splits)

lemma lex_comma: "json_lex ('','' @ line_break l @ r) = map_option (Cons Comma) (json_lex r)"
  using lex_punct [of "CHR '',''" Comma "line_break l @ r"] lex_spaces [OF line_break_space, of l r]
  by (simp add: punctuation_def)

lemma lex_json_string: "json_lex (json_string s @ r) = map_option (Cons (TStr s)) (json_lex r)"
  by (simp add: json_string_def json_space_def punctuation_def scan_json_string)

lemma lex_key: "json_lex (json_string k @ colon_text l @ r) = map_option (append [TStr k, Colon]) (json_lex r)"
proof -
  have "json_lex (colon_text l @ r) = map_option (Cons Colon) (json_lex r)"
    by (cases l) (simp_all add: colon_text_def lex_punct punctuation_def json_space_def)
  then show ?thesis by (simp only: lex_json_string) (simp add: option.map_comp o_def append_literal)
qed

lemma lex_joined:
  assumes "\<And>x. x \<in> set xs \<Longrightarrow> lexes (f x) (g x)" and "xs \<noteq> []" "value_end u"
  shows "json_lex (join_with ('','' @ line_break l) (map f xs) @ u) = map_option (append (sep_by Comma (map g xs))) (json_lex u)"
  using assms
proof (induction xs)
  case (Cons x xs)
  show ?case
  proof (cases "xs = []")
    case True
    with Cons.prems show ?thesis by simp
  next
    case False
    let ?rest = "join_with ('','' @ line_break l) (map f xs) @ u"
    have "json_lex (f x @ '','' @ line_break l @ ?rest) = map_option (append (g x)) (json_lex ('','' @ line_break l @ ?rest))"
      using Cons.prems(1) [of x] value_end_punct(3) by simp
    also have "\<dots> = map_option (append (g x)) (map_option (Cons Comma) (json_lex ?rest))" by (simp only: lex_comma)
    also have "json_lex ?rest = map_option (append (sep_by Comma (map g xs))) (json_lex u)"
      using Cons.IH Cons.prems False by simp
    finally show ?thesis using False by (simp add: join_Cons sep_by_Cons option.map_comp o_def)
  qed
qed simp

lemma lex_word:
  assumes "word_tok (s @ r) = Some (t, r)" "s \<noteq> []" "\<not> json_space (hd s)" "punctuation (hd s) = None" "hd s \<noteq> quote_mark"
  shows "json_lex (s @ r) = map_option (Cons t) (json_lex r)"
  using assms by (cases s) simp_all

lemma number_first: "number_ok n \<Longrightarrow> n \<noteq> [] \<Longrightarrow> num_char (hd n)"
  by (cases n) (simp_all add: number_ok_def)

lemma lexes_number:
  assumes "number_ok n" "n \<noteq> []"
  shows "lexes n [TNum n]"
proof (intro allI impI)
  fix r assume r: "value_end r"
  have h: "num_char (hd n)" by (rule number_first [OF assms])
  have tw: "takeWhile num_char (n @ r) = n"
    using assms(1) r by (cases r) (auto simp: number_ok_def list_all_iff value_end_def takeWhile_append2)
  have np: "\<not> has_prefix (n @ r) (c # w)" if "\<not> num_char c" for c w
    using h assms(2) that by (cases n) (auto simp: has_prefix_iff)
  have "word_tok (n @ r) = Some (TNum n, r)"
    using assms np [of "CHR ''n''"] np [of "CHR ''t''"] np [of "CHR ''f''"]
    by (simp add: word_tok_def tw num_char_def is_digit_def)
  then have "json_lex (n @ r) = map_option (Cons (TNum n)) (json_lex r)"
    by (rule lex_word) (use assms(2) h in \<open>auto simp: num_char_def is_digit_def json_space_def punctuation_def\<close>)
  then show "json_lex (n @ r) = map_option (append [TNum n]) (json_lex r)" by (simp add: append_literal)
qed

lemma word_tok_words: "word_tok (''null'' @ r) = Some (TNull, r)" "word_tok (''true'' @ r) = Some (TBool True, r)"
  "word_tok (''false'' @ r) = Some (TBool False, r)"
  by (simp_all add: word_tok_def has_prefix_def)

lemma lexes_words: "lexes ''null'' [TNull]" "lexes ''true'' [TBool True]" "lexes ''false'' [TBool False]"
  unfolding append_literal
  by (intro allI impI lex_word word_tok_words; simp add: json_space_def punctuation_def)+

lemma lex_json_text: "json_ok j \<Longrightarrow> lexes (json_text l j) (tokens j)"
proof (induction j arbitrary: l)
  case JNull
  show ?case unfolding json_text.simps tokens.simps by (rule lexes_words(1))
next
  case (JBool b)
  show ?case
  proof (cases b)
    case True
    then have b: "b = True" by simp
    show ?thesis unfolding json_text.simps tokens.simps b if_True by (rule lexes_words(2))
  next
    case False
    then have b: "b = False" by simp
    show ?thesis unfolding json_text.simps tokens.simps b if_False by (rule lexes_words(3))
  qed
next
  case (JNum n)
  then show ?case unfolding json_text.simps tokens.simps by (intro lexes_number) simp_all
next
  case (JStr x)
  then show ?case by (simp add: lex_json_string append_literal)
next
  case (JArr xs)
  show ?case
  proof (cases "xs = []")
    case True
    then show ?thesis by (simp add: lex_punct punctuation_def json_space_def option.map_comp o_def append_literal)
  next
    case False
    let ?l = "map_option Suc l"
    show ?thesis
    proof (intro allI impI)
      fix r assume "value_end r"
      have "json_lex (line_break l @ '']'' @ r) = map_option (Cons RBracket) (json_lex r)"
        by (simp only: lex_spaces [OF line_break_space]) (simp add: lex_punct punctuation_def json_space_def)
      with lex_joined [OF _ False value_end_punct(1) [of l r], of "json_text ?l" tokens ?l] JArr
      have "json_lex (join_with ('','' @ line_break ?l) (map (json_text ?l) xs) @ line_break l @ '']'' @ r)
          = map_option (append (sep_by Comma (map tokens xs))) (map_option (Cons RBracket) (json_lex r))"
        by simp
      moreover have "json_lex (''['' @ line_break ?l @ u) = map_option (Cons LBracket) (json_lex u)" for u
        using lex_punct [of "CHR ''[''" LBracket "line_break ?l @ u"] lex_spaces [OF line_break_space, of ?l u]
        by (simp add: punctuation_def)
      ultimately show "json_lex (json_text l (JArr xs) @ r) = map_option (append (tokens (JArr xs))) (json_lex r)"
        using False by (simp add: Let_def option.map_comp o_def append_literal)
    qed
  qed
next
  case (JObj kvs)
  show ?case
  proof (cases "kvs = []")
    case True
    then show ?thesis by (simp add: lex_punct punctuation_def json_space_def option.map_comp o_def append_literal)
  next
    case False
    let ?l = "map_option Suc l" and ?g = "\<lambda>(k, v). [TStr k, Colon] @ tokens v"
    let ?f = "\<lambda>(k, v). json_string k @ colon_text l @ json_text ?l v"
    have "lexes (?f kv) (?g kv)" if "kv \<in> set kvs" for kv
    proof -
      obtain k v where kv: "kv = (k, v)" by (cases kv)
      have "lexes (json_text ?l v) (tokens v)" by (rule JObj.IH [of kv]) (use that JObj.prems kv in auto)
      then show ?thesis
        by (simp add: kv) (simp only: lex_key append_assoc, simp add: option.map_comp o_def append_pair)
    qed
    note mem = lex_joined [OF this False]
    show ?thesis
    proof (intro allI impI)
      fix r assume "value_end r"
      have "json_lex (line_break l @ ''}'' @ r) = map_option (Cons RBrace) (json_lex r)"
        by (simp only: lex_spaces [OF line_break_space]) (simp add: lex_punct punctuation_def json_space_def)
      with mem [OF _ value_end_punct(2) [of l r], where l = ?l]
      have "json_lex (join_with ('','' @ line_break ?l) (map ?f kvs) @ line_break l @ ''}'' @ r)
          = map_option (append (sep_by Comma (map ?g kvs))) (map_option (Cons RBrace) (json_lex r))"
        by simp
      moreover have "json_lex (''{'' @ line_break ?l @ u) = map_option (Cons LBrace) (json_lex u)" for u
        using lex_punct [of "CHR ''{''" LBrace "line_break ?l @ u"] lex_spaces [OF line_break_space, of ?l u]
        by (simp add: punctuation_def)
      ultimately show "json_lex (json_text l (JObj kvs) @ r) = map_option (append (tokens (JObj kvs))) (json_lex r)"
        using False by (simp add: Let_def option.map_comp o_def append_literal)
    qed
  qed
qed

lemma json_parse_text: "json_ok j \<Longrightarrow> json_parse (json_text l j) = Some j"
  using lex_json_text [of j l] parse_tokens [of j "Suc (length (tokens j))" "[]"]
  by (simp add: json_parse_def value_end_def)

lemma json_parse_marshal: "json_ok j \<Longrightarrow> json_parse (marshal j) = Some j"
  "json_ok j \<Longrightarrow> json_parse (marshal_indent j) = Some j"
  by (simp_all add: marshal_def marshal_indent_def json_parse_text)

end
