(* ===== verification/Json_Utf8.thy ===== *)
theory Json_Utf8
  imports Json
begin

text \<open>
  Strings that are not valid UTF-8. Go's strings are bytes, and \<^verbatim>\<open>encoding/json\<close> prints each byte that begins
  no valid sequence as U+FFFD. Theory \<open>Json\<close> prints every byte above 127 as it is; here is how far that
  goes: on valid UTF-8 the two agree, and elsewhere the file does not hold the string that was saved.
\<close>

section \<open>Sequences\<close>

definition between :: "nat \<Rightarrow> nat \<Rightarrow> char \<Rightarrow> bool" where
  "between lo hi c \<longleftrightarrow> lo \<le> of_char c \<and> of_char c \<le> hi"

text \<open>The length of the valid sequence a string begins with, as \<^verbatim>\<open>utf8.DecodeRuneInString\<close> finds it: no surrogates,
  no longer form than necessary, nothing above U+10FFFF. It is 0 when there is none.\<close>

definition lead_length :: "char \<Rightarrow> nat" where
  "lead_length a =
     (if between 0 0x7F a then 1 else if between 0xC2 0xDF a then 2 else if between 0xE0 0xEF a then 3
      else if between 0xF0 0xF4 a then 4 else 0)"

definition second_ok :: "char \<Rightarrow> char \<Rightarrow> bool" where
  "second_ok a b =
     (let n = of_char a :: nat
      in between (if n = 0xE0 then 0xA0 else if n = 0xF0 then 0x90 else 0x80)
                 (if n = 0xED then 0x9F else if n = 0xF4 then 0x8F else 0xBF) b)"

definition rune_length :: "string \<Rightarrow> nat" where
  "rune_length s =
     (case s of
        [] \<Rightarrow> 0
      | a # r \<Rightarrow>
          (let n = lead_length a
           in if n \<le> length s \<and> (n < 2 \<or> second_ok a (hd r) \<and> list_all (between 0x80 0xBF) (take (n - 2) (tl r)))
              then n else 0))"

lemma rune_length_le: "rune_length s \<le> length s"
  by (simp add: rune_length_def Let_def split: list.split)

text \<open>A sequence is the same whatever follows it.\<close>

lemma rune_length_take:
  assumes "rune_length s \<noteq> 0"
  shows "rune_length (take (rune_length s) s @ t) = rune_length s"
proof -
  obtain a r where s: "s = a # r" using assms by (cases s) (simp_all add: rune_length_def)
  let ?n = "lead_length a"
  have n: "rune_length s = ?n" "?n \<noteq> 0" "?n \<le> length s"
    and ok: "?n < 2 \<or> second_ok a (hd r) \<and> list_all (between 0x80 0xBF) (take (?n - 2) (tl r))"
    using assms by (auto simp: s rune_length_def Let_def split: if_splits)
  obtain k where k: "?n = Suc k" using n(2) not0_implies_Suc by blast
  have tk: "take ?n s @ t = a # (take k r @ t)" using k s by simp
  have len: "?n \<le> length (a # (take k r @ t))" using n(3) k s by simp
  have "?n < 2 \<or> second_ok a (hd (take k r @ t)) \<and> list_all (between 0x80 0xBF) (take (?n - 2) (tl (take k r @ t)))"
  proof (cases r)
    case Nil
    with n(3) k s show ?thesis by simp
  next
    case (Cons b u)
    with ok n(3) k s show ?thesis by (cases k) auto
  qed
  with len have "rune_length (a # (take k r @ t)) = ?n" by (simp add: rune_length_def)
  then show ?thesis unfolding n(1) tk .
qed

function valid_utf8 :: "string \<Rightarrow> bool" where
  "valid_utf8 [] = True"
| "valid_utf8 (a # s) = (let n = rune_length (a # s) in if n = 0 then False else valid_utf8 (drop n (a # s)))"
  by pat_completeness auto
termination
  by (relation "measure length") auto

text \<open>What is printed instead of a string.\<close>

definition replacement_character :: string where
  "replacement_character = [CHR 0xEF, CHR 0xBF, CHR 0xBD]"

function to_utf8 :: "string \<Rightarrow> string" where
  "to_utf8 [] = []"
| "to_utf8 (a # s) =
     (let n = rune_length (a # s)
      in if n = 0 then replacement_character @ to_utf8 s else take n (a # s) @ to_utf8 (drop n (a # s)))"
  by pat_completeness auto
termination
  by (relation "measure length") auto

lemma to_utf8_id: "valid_utf8 s \<Longrightarrow> to_utf8 s = s"
proof (induction s rule: valid_utf8.induct)
  case (2 a s)
  from 2(2) have n: "rune_length (a # s) \<noteq> 0" "valid_utf8 (drop (rune_length (a # s)) (a # s))"
    by (simp_all add: Let_def split: if_splits del: drop_Suc_Cons)
  have "to_utf8 (a # s) = take (rune_length (a # s)) (a # s) @ to_utf8 (drop (rune_length (a # s)) (a # s))"
    using n(1) by (simp add: Let_def)
  also have "\<dots> = a # s" using 2(1) [OF refl n] by simp
  finally show ?case .
qed simp

lemma replacement_rune: "rune_length (replacement_character @ t) = 3"
  by (simp add: replacement_character_def rune_length_def lead_length_def second_ok_def between_def Let_def)

lemma valid_rune:
  assumes "rune_length (x @ t) = length x" "x \<noteq> []" "valid_utf8 t"
  shows "valid_utf8 (x @ t)"
proof -
  obtain a y where x: "x = a # y" using assms(2) by (cases x) auto
  have "valid_utf8 (a # y @ t) \<longleftrightarrow> rune_length (a # y @ t) \<noteq> 0 \<and> valid_utf8 (drop (rune_length (a # y @ t)) (a # y @ t))"
    by (simp add: Let_def)
  with assms x show ?thesis by simp
qed

text \<open>What is printed is valid, so a string is printed as it is exactly when it is valid.\<close>

lemma to_utf8_valid: "valid_utf8 (to_utf8 s)"
proof (induction s rule: to_utf8.induct)
  case (2 a s)
  let ?n = "rune_length (a # s)"
  show ?case
  proof (cases "?n = 0")
    case True
    have "valid_utf8 (replacement_character @ to_utf8 s)"
      by (rule valid_rune) (use 2(1) [OF refl True] replacement_rune in \<open>simp_all add: replacement_character_def\<close>)
    moreover have "to_utf8 (a # s) = replacement_character @ to_utf8 s" using True by (simp add: Let_def)
    ultimately show ?thesis by simp
  next
    case False
    have "valid_utf8 (take ?n (a # s) @ to_utf8 (drop ?n (a # s)))"
      by (rule valid_rune)
        (use 2(2) [OF refl False] rune_length_take [OF False] rune_length_le [of "a # s"] False in simp_all)
    moreover have "to_utf8 (a # s) = take ?n (a # s) @ to_utf8 (drop ?n (a # s))" using False by (simp only: to_utf8.simps Let_def if_False)
    ultimately show ?thesis by simp
  qed
qed simp

lemma to_utf8_iff: "to_utf8 s = s \<longleftrightarrow> valid_utf8 s"
  using to_utf8_id [of s] to_utf8_valid [of s] by auto

section \<open>Values\<close>

text \<open>The value \<^verbatim>\<open>encoding/json\<close> prints for a value, and the values for which it is the same one.\<close>

fun json_to_utf8 :: "json \<Rightarrow> json" where
  "json_to_utf8 (JStr s) = JStr (to_utf8 s)"
| "json_to_utf8 (JArr xs) = JArr (map json_to_utf8 xs)"
| "json_to_utf8 (JObj kvs) = JObj (map (\<lambda>(k, v). (to_utf8 k, json_to_utf8 v)) kvs)"
| "json_to_utf8 j = j"

fun json_utf8 :: "json \<Rightarrow> bool" where
  "json_utf8 (JStr s) = valid_utf8 s"
| "json_utf8 (JArr xs) = list_all json_utf8 xs"
| "json_utf8 (JObj kvs) = list_all (\<lambda>(k, v). valid_utf8 k \<and> json_utf8 v) kvs"
| "json_utf8 j = True"

lemma json_to_utf8_id: "json_utf8 j \<Longrightarrow> json_to_utf8 j = j"
proof (induction j)
  case (JArr xs)
  then show ?case by (simp add: list_all_iff map_idI)
next
  case (JObj kvs)
  have "(to_utf8 k, json_to_utf8 v) = (k, v)" if "(k, v) \<in> set kvs" for k v
    using JObj.IH [of "(k, v)" v] JObj.prems that to_utf8_id by (auto simp: list_all_iff)
  then have "map (\<lambda>(k, v). (to_utf8 k, json_to_utf8 v)) kvs = kvs" by (intro map_idI) auto
  then show ?case by simp
qed (simp_all add: to_utf8_id)

text \<open>A directory whose name holds the byte 0xFF, and one with an accent.\<close>

lemma invalid_path_replaced:
  "to_utf8 (''/srv/'' @ [CHR 0xFF]) = ''/srv/'' @ [CHR 0xEF, CHR 0xBF, CHR 0xBD]"
  "to_utf8 (''/srv/caf'' @ [CHR 0xC3, CHR 0xA9]) = ''/srv/caf'' @ [CHR 0xC3, CHR 0xA9]"
  by code_simp+

end
