(* ===== verification/Go_Errors.thy ===== *)
theory Go_Errors
  imports Go_Strings
begin

text \<open>
  Go errors. An \<open>err\<close> is what the daemon can observe of an error value: the sentinels
  \<^verbatim>\<open>errors.Is\<close> finds in its chain and its text. \<open>\<^verbatim>\<open>%w\<close>\<close> keeps the chain, \<open>\<^verbatim>\<open>%v\<close>\<close> and \<open>\<^verbatim>\<open>%s\<close>\<close> keep the
  text only.
\<close>

datatype sentinel =
    ErrInvalidLaravelPath | ErrDuplicateSiteName | ErrDuplicateDomain | ErrSiteNotFound
  | ErrInvalidDomain
  | ErrUnsupportedRuntime | ErrRuntimeNotFound | ErrUnverifiablePHP
  | ErrInvalidServiceAction
  | ErrResolverConflict | ErrManagedAssetConflict | ErrActivationValidation
  | ErrUnsupportedPackage | ErrPackageVerification | ErrRuntimeSwitchRollback
  | OsNotExist | SysEACCES | SysEPERM | CtxDone

datatype err = Err (err_kinds: "sentinel list") (err_text: string)

fun sentinel_text :: "sentinel \<Rightarrow> string" where
  "sentinel_text ErrInvalidLaravelPath = ''invalid laravel path''"
| "sentinel_text ErrDuplicateSiteName = ''duplicate site name''"
| "sentinel_text ErrDuplicateDomain = ''duplicate site domain''"
| "sentinel_text ErrSiteNotFound = ''site not found''"
| "sentinel_text ErrInvalidDomain = ''invalid site domain''"
| "sentinel_text ErrUnsupportedRuntime = ''unsupported php runtime''"
| "sentinel_text ErrRuntimeNotFound = ''php runtime not found''"
| "sentinel_text ErrUnverifiablePHP = ''unverifiable php runtime''"
| "sentinel_text ErrInvalidServiceAction = ''invalid service action''"
| "sentinel_text ErrResolverConflict = ''resolver conflict detected''"
| "sentinel_text ErrManagedAssetConflict = ''managed asset conflict''"
| "sentinel_text ErrActivationValidation = ''activation validation failed''"
| "sentinel_text ErrUnsupportedPackage = ''unsupported package target''"
| "sentinel_text ErrPackageVerification = ''package verification failed''"
| "sentinel_text ErrRuntimeSwitchRollback = ''php runtime switch rolled back''"
| "sentinel_text OsNotExist = ''file does not exist''"
| "sentinel_text SysEACCES = ''permission denied''"
| "sentinel_text SysEPERM = ''operation not permitted''"
| "sentinel_text CtxDone = ''context canceled''"

definition errors_is :: "err \<Rightarrow> sentinel \<Rightarrow> bool" where
  "errors_is e k \<longleftrightarrow> k \<in> set (err_kinds e)"

text \<open>\<^verbatim>\<open>fmt.Errorf("text")\<close>, \<^verbatim>\<open>fmt.Errorf("%w: text", Sentinel)\<close> and \<^verbatim>\<open>fmt.Errorf("text: %w", err)\<close>.\<close>

definition errorf :: "string \<Rightarrow> err" where
  "errorf m = Err [] m"

definition sentinel_err :: "sentinel \<Rightarrow> string \<Rightarrow> err" where
  "sentinel_err k m = Err [k] (sentinel_text k @ '': '' @ m)"

definition wrap_err :: "string \<Rightarrow> err \<Rightarrow> err" where
  "wrap_err m e = Err (err_kinds e) (m @ '': '' @ err_text e)"

lemma errors_is_errorf [simp]: "\<not> errors_is (errorf m) k"
  by (simp add: errors_is_def errorf_def)

lemma errors_is_sentinel [simp]: "errors_is (sentinel_err k m) k' \<longleftrightarrow> k = k'"
  by (auto simp: errors_is_def sentinel_err_def)

lemma errors_is_wrap [simp]: "errors_is (wrap_err m e) k \<longleftrightarrow> errors_is e k"
  by (simp add: errors_is_def wrap_err_def)

section \<open>System errors\<close>

datatype errno =
    ENOENT | EACCES | EPERM | EISDIR | ENOTDIR | EEXIST | ENOTEMPTY | EIO | ENOSPC | EROFS | EBUSY | ENXIO

fun errno_text :: "errno \<Rightarrow> string" where
  "errno_text ENOENT = ''no such file or directory''"
| "errno_text EACCES = ''permission denied''"
| "errno_text EPERM = ''operation not permitted''"
| "errno_text EISDIR = ''is a directory''"
| "errno_text ENOTDIR = ''not a directory''"
| "errno_text EEXIST = ''file exists''"
| "errno_text ENOTEMPTY = ''directory not empty''"
| "errno_text EIO = ''input/output error''"
| "errno_text ENOSPC = ''no space left on device''"
| "errno_text EROFS = ''read-only file system''"
| "errno_text EBUSY = ''device or resource busy''"
| "errno_text ENXIO = ''no such device or address''"

fun errno_kinds :: "errno \<Rightarrow> sentinel list" where
  "errno_kinds ENOENT = [OsNotExist]"
| "errno_kinds EACCES = [SysEACCES]"
| "errno_kinds EPERM = [SysEPERM]"
| "errno_kinds _ = []"

text \<open>A \<^verbatim>\<open>*os.PathError\<close>.\<close>

definition path_error :: "string \<Rightarrow> string \<Rightarrow> errno \<Rightarrow> err" where
  "path_error op p e = Err (errno_kinds e) (op @ '' '' @ p @ '': '' @ errno_text e)"

lemma errors_is_path_error_notexist [simp]: "errors_is (path_error op p e) OsNotExist \<longleftrightarrow> e = ENOENT"
  by (cases e) (auto simp: errors_is_def path_error_def)

end
