(* ===== verification/Go_Path.thy ===== *)
theory Go_Path
  imports Go_Strings
begin

text \<open>
  Go's \<^verbatim>\<open>path/filepath\<close> on Unix: \<^verbatim>\<open>Clean\<close>, \<^verbatim>\<open>Join\<close>, \<^verbatim>\<open>Base\<close>, \<^verbatim>\<open>Dir\<close> and \<^verbatim>\<open>IsAbs\<close>, which only look at
  the text of a path. Most facts are about \<open>abs_path ps\<close>, the clean absolute path with the
  segments \<open>ps\<close>.
\<close>

abbreviation slash :: char where
  "slash \<equiv> CHR ''/''"

fun clean_parts :: "bool \<Rightarrow> string list \<Rightarrow> string list \<Rightarrow> string list" where
  "clean_parts rooted out [] = rev out"
| "clean_parts rooted out (p # ps) =
     (if p = [] \<or> p = ''.'' then clean_parts rooted out ps
      else if p = ''..'' then
        (case out of
           [] \<Rightarrow> clean_parts rooted (if rooted then [] else [''..'']) ps
         | d # ds \<Rightarrow> (if d = ''..'' then clean_parts rooted (''..'' # out) ps
                     else clean_parts rooted ds ps))
      else clean_parts rooted (p # out) ps)"

definition path_clean :: "string \<Rightarrow> string" where
  "path_clean s =
     (if s = [] then ''.''
      else let rooted = (hd s = slash); ps = clean_parts rooted [] (split_on slash s)
           in if rooted then slash # join_with [slash] ps
              else if ps = [] then ''.'' else join_with [slash] ps)"

definition path_join :: "string list \<Rightarrow> string" where
  "path_join es =
     (case dropWhile (\<lambda>e. e = []) es of [] \<Rightarrow> [] | ds \<Rightarrow> path_clean (join_with [slash] ds))"

definition path_base :: "string \<Rightarrow> string" where
  "path_base s =
     (if s = [] then ''.''
      else let t = trim_right_char slash s
           in if t = [] then [slash] else last (split_on slash t))"

text \<open>\<^verbatim>\<open>Dir\<close> cleans everything up to and including the last slash.\<close>

definition path_dir :: "string \<Rightarrow> string" where
  "path_dir s = path_clean (rev (dropWhile (\<lambda>c. c \<noteq> slash) (rev s)))"

definition is_abs :: "string \<Rightarrow> bool" where
  "is_abs s \<longleftrightarrow> s \<noteq> [] \<and> hd s = slash"

section \<open>Clean absolute paths\<close>

definition segment :: "string \<Rightarrow> bool" where
  "segment p \<longleftrightarrow> p \<noteq> [] \<and> slash \<notin> set p \<and> p \<noteq> ''.'' \<and> p \<noteq> ''..''"

definition abs_path :: "string list \<Rightarrow> string" where
  "abs_path ps = slash # join_with [slash] ps"

lemma segmentD: "segment p \<Longrightarrow> p \<noteq> []" "segment p \<Longrightarrow> slash \<notin> set p"
  by (auto simp: segment_def)

lemma clean_parts_segments:
  "\<forall>p \<in> set ps. segment p \<Longrightarrow> clean_parts r out ps = rev out @ ps"
  by (induction ps arbitrary: out) (auto simp: segment_def)

lemma split_abs_path:
  assumes "\<forall>p \<in> set ps. segment p"
  shows "split_on slash (abs_path ps) = [] # (if ps = [] then [[]] else ps)"
proof (cases "ps = []")
  case False
  then have "split_on slash (join_with [slash] ps) = ps"
    by (rule split_join) (use assms segmentD(2) in blast)
  with False show ?thesis by (simp add: abs_path_def)
qed (simp add: abs_path_def)

lemma clean_abs_path [simp]: "\<forall>p \<in> set ps. segment p \<Longrightarrow> path_clean (abs_path ps) = abs_path ps"
  unfolding path_clean_def split_abs_path
  by (auto simp: Let_def abs_path_def clean_parts_segments)

lemma abs_path_snoc: "ps \<noteq> [] \<Longrightarrow> abs_path (ps @ [n]) = abs_path ps @ [slash] @ n"
  by (simp add: abs_path_def join_append)

lemma clean_parts_append:
  "\<forall>p \<in> set ps. segment p \<Longrightarrow> clean_parts r out (ps @ qs) = clean_parts r (rev ps @ out) qs"
  by (induction ps arbitrary: out) (auto simp: segment_def)

text \<open>Joining a clean absolute directory with further segments appends them.\<close>

lemma join_abs_path:
  assumes ps: "\<forall>p \<in> set ps. segment p" and qs: "\<forall>q \<in> set qs. segment q"
  shows "path_join (abs_path ps # qs) = abs_path (ps @ qs)"
proof (cases "qs = []")
  case True
  with ps show ?thesis by (simp add: path_join_def abs_path_def [of ps]) (simp flip: abs_path_def)
next
  case False
  have sq: "split_on slash (join_with [slash] qs) = qs"
    by (rule split_join [OF False]) (use qs segmentD(2) in blast)
  have "join_with [slash] (abs_path ps # qs) = abs_path ps @ slash # join_with [slash] qs"
    using False by (simp add: join_Cons)
  moreover have "split_on slash (abs_path ps @ slash # join_with [slash] qs)
      = ([] # (if ps = [] then [[]] else ps)) @ qs"
    using split_on_append [of slash "abs_path ps" "join_with [slash] qs"] split_abs_path [OF ps] sq
    by simp
  ultimately show ?thesis
    using ps qs
    by (simp add: path_join_def path_clean_def Let_def abs_path_def clean_parts_append
        clean_parts_segments)
qed

lemma last_slash_split:
  assumes "slash \<notin> set n"
  shows "rev (dropWhile (\<lambda>c. c \<noteq> slash) (rev (d @ slash # n))) = d @ [slash]"
proof -
  have "dropWhile (\<lambda>c. c \<noteq> slash) (rev n @ slash # rev d) = slash # rev d"
    by (subst dropWhile_append2) (use assms in auto)
  then show ?thesis by simp
qed

lemma dir_abs_path:
  assumes "\<forall>p \<in> set ps. segment p" and "segment n"
  shows "path_dir (abs_path (ps @ [n])) = abs_path ps"
proof (cases "ps = []")
  case True
  then show ?thesis
    using last_slash_split [of n "[]"] assms
    by (simp add: path_dir_def abs_path_def segmentD path_clean_def Let_def)
next
  case False
  have "path_dir (abs_path (ps @ [n])) = path_clean (abs_path ps @ [slash])"
    using last_slash_split [of n "abs_path ps"] assms
    by (simp add: path_dir_def abs_path_snoc [OF False] segmentD)
  also have "split_on slash (abs_path ps @ [slash]) = ([] # ps) @ [[]]"
    using split_on_append [of slash "abs_path ps" "[]"] split_abs_path [OF assms(1)] False by simp
  then have "path_clean (abs_path ps @ [slash]) = abs_path ps"
    using assms(1) by (simp add: path_clean_def Let_def abs_path_def clean_parts_append)
  finally show ?thesis .
qed

lemma base_abs_path:
  assumes "\<forall>p \<in> set ps. segment p" and "segment n"
  shows "path_base (abs_path (ps @ [n])) = n"
proof -
  let ?s = "abs_path (ps @ [n])"
  have sp: "split_on slash ?s = [] # ps @ [n]"
    using split_abs_path [of "ps @ [n]"] assms by simp
  have "last ?s = last n"
  proof (cases "ps = []")
    case False
    have "last (abs_path ps @ [slash] @ n) = last n"
      using assms(2) by (simp add: segmentD)
    then show ?thesis by (simp only: abs_path_snoc [OF False])
  qed (use assms(2) in \<open>simp add: abs_path_def segmentD\<close>)
  then have "last ?s \<noteq> slash"
    using segmentD [OF assms(2)] last_in_set by metis
  then have "trim_right_char slash ?s = ?s" by (simp add: trim_right_char_id)
  then show ?thesis by (simp add: path_base_def Let_def sp) (simp add: abs_path_def)
qed

lemma abs_path_inject:
  assumes "\<forall>p \<in> set ps. segment p" and "\<forall>q \<in> set qs. segment q"
  shows "abs_path ps = abs_path qs \<longleftrightarrow> ps = qs"
proof
  assume "abs_path ps = abs_path qs"
  then have "split_on slash (abs_path ps) = split_on slash (abs_path qs)" by simp
  then have "(if ps = [] then [[]] else ps) = (if qs = [] then [[]] else qs)"
    unfolding split_abs_path [OF assms(1)] split_abs_path [OF assms(2)] by simp
  moreover have "[] \<notin> set ps" "[] \<notin> set qs" using assms segmentD(1) by blast+
  ultimately show "ps = qs" by (cases "ps = []"; cases "qs = []") auto
qed simp

lemma trim_space_abs_path: "trim_space (slash # s) = [] \<longleftrightarrow> False"
  by (simp add: trim_space_def trim_by_Nil_iff is_space_def)

text \<open>The base of a path has no slash, unless it is the root itself.\<close>

lemma path_base_no_slash: "path_base s = [slash] \<or> (slash \<notin> set (path_base s) \<and> path_base s \<noteq> [])"
proof (cases "s = [] \<or> trim_right_char slash s = []")
  case False
  let ?t = "trim_right_char slash s"
  have "last (split_on slash ?t) \<in> set (split_on slash ?t)" by (simp add: last_in_set)
  then have 1: "slash \<notin> set (last (split_on slash ?t))" using split_on_parts by blast
  have "last (split_on slash ?t) \<noteq> []"
  proof
    assume e: "last (split_on slash ?t) = []"
    obtain ys where ys: "split_on slash ?t = ys @ [[]]"
      using e by (metis append_butlast_last_id split_on_nonempty)
    have t: "?t = join_with [slash] (ys @ [[]])" using join_split [of slash ?t] ys by simp
    show False
    proof (cases "ys = []")
      case True
      then show False using t False by simp
    next
      case False': False
      then have "last ?t = slash" using t by (simp add: join_append)
      then show False using trim_right_char_ends [of slash s] False by simp
    qed
  qed
  with 1 False show ?thesis by (simp add: path_base_def Let_def)
qed (auto simp: path_base_def Let_def)

end
