(* ===== verification/Go_Os.thy ===== *)
theory Go_Os
  imports Go_Errors Go_Path "HOL-Library.Word" "HOL-Library.AList"
begin

unbundle bit_operations_syntax

text \<open>
  The world the daemon acts on: a file system indexed by path, the log of the commands it has
  run, and an oracle for everything the code cannot decide itself. Each system call, command,
  clock reading or random draw takes the next tick of the world and asks the oracle about that
  tick, so an oracle is an arbitrary run of the environment: any call may fail with any errno,
  any command may print anything and exit with any status. A theorem about all worlds is a
  theorem about all such runs.

  Paths are compared as strings. Commands do not change the files of the model.
\<close>

type_synonym file_mode = "32 word"
type_synonym gotime = "string"

datatype node = File file_mode string | Dir file_mode | Sock file_mode

record environment =
  o_fault :: "nat \<Rightarrow> errno option"          \<comment> \<open>the system call of this tick fails\<close>
  o_partial :: "nat \<Rightarrow> nat"                 \<comment> \<open>bytes written before a failing write\<close>
  o_run :: "nat \<Rightarrow> string \<Rightarrow> string list \<Rightarrow> string \<times> err option" \<comment> \<open>output and exit error\<close>
  o_clock :: "nat \<Rightarrow> gotime"
  o_nano :: "nat \<Rightarrow> nat"                     \<comment> \<open>nanoseconds since the epoch\<close>
  o_rand :: "nat \<Rightarrow> char list option"
  o_ctx :: "nat \<Rightarrow> err option"              \<comment> \<open>the request's context is done\<close>
  o_cwd :: "nat \<Rightarrow> err + string"
  o_links :: "nat \<Rightarrow> string \<Rightarrow> err + string" \<comment> \<open>symbolic links resolved\<close>
  o_badglob :: "string \<Rightarrow> bool"             \<comment> \<open>a directory that is no valid glob pattern\<close>
  o_umask :: file_mode

record world =
  fs :: "(string \<times> node) list"
  tick :: nat
  calls :: "(string \<times> string list) list"     \<comment> \<open>commands run, the latest first\<close>
  orc :: environment

definition node_at :: "world \<Rightarrow> string \<Rightarrow> node option" where
  "node_at w p = map_of (fs w) p"

definition file_at :: "world \<Rightarrow> string \<Rightarrow> string option" where
  "file_at w p = (case node_at w p of Some (File m c) \<Rightarrow> Some c | _ \<Rightarrow> None)"

definition next_tick :: "world \<Rightarrow> world" where
  "next_tick w = w\<lparr>tick := Suc (tick w)\<rparr>"

definition fault :: "world \<Rightarrow> errno option" where
  "fault w = o_fault (orc w) (tick w)"

definition put_node :: "string \<Rightarrow> node \<Rightarrow> world \<Rightarrow> world" where
  "put_node p n w = w\<lparr>fs := AList.update p n (fs w)\<rparr>"

definition del_node :: "string \<Rightarrow> world \<Rightarrow> world" where
  "del_node p w = w\<lparr>fs := AList.delete p (fs w)\<rparr>"

definition dir_ok :: "world \<Rightarrow> string \<Rightarrow> bool" where
  "dir_ok w d \<longleftrightarrow> d = ''/'' \<or> d = ''.'' \<or> (case node_at w d of Some (Dir m) \<Rightarrow> True | _ \<Rightarrow> False)"

definition masked :: "world \<Rightarrow> file_mode \<Rightarrow> file_mode" where
  "masked w m = m AND NOT (o_umask (orc w))"

section \<open>System calls\<close>

definition os_read_file :: "string \<Rightarrow> world \<Rightarrow> (err + string) \<times> world" where
  "os_read_file p w =
     (case fault w of
        Some e \<Rightarrow> (Inl (path_error ''open'' p e), next_tick w)
      | None \<Rightarrow>
          (case node_at w p of
             None \<Rightarrow> (Inl (path_error ''open'' p ENOENT), next_tick w)
           | Some (Dir m) \<Rightarrow> (Inl (path_error ''read'' p EISDIR), next_tick w)
           | Some (Sock m) \<Rightarrow> (Inl (path_error ''open'' p ENXIO), next_tick w)
           | Some (File m c) \<Rightarrow> (Inr c, next_tick w)))"

text \<open>
  \<^verbatim>\<open>os.WriteFile\<close> opens with \<^verbatim>\<open>O_TRUNC\<close> and then writes: a fault on the open leaves everything as
  it was, a fault on the write leaves a prefix of the data. An existing file keeps its mode.
\<close>

definition os_write_file :: "string \<Rightarrow> string \<Rightarrow> file_mode \<Rightarrow> world \<Rightarrow> (err + unit) \<times> world" where
  "os_write_file p data m w =
     (case fault w of
        Some e \<Rightarrow> (Inl (path_error ''open'' p e), next_tick w)
      | None \<Rightarrow>
          (case node_at w p of
             Some (Dir m') \<Rightarrow> (Inl (path_error ''open'' p EISDIR), next_tick w)
           | Some (Sock m') \<Rightarrow> (Inl (path_error ''open'' p ENXIO), next_tick w)
           | other \<Rightarrow>
               (if \<not> dir_ok w (path_dir p) then (Inl (path_error ''open'' p ENOENT), next_tick w)
                else
                  let m' = (case other of Some (File m0 c) \<Rightarrow> m0 | _ \<Rightarrow> masked w m);
                      w1 = next_tick w
                  in (case fault w1 of
                        Some e \<Rightarrow>
                          (Inl (path_error ''write'' p e),
                           next_tick (put_node p (File m' (take (o_partial (orc w) (tick w1)) data)) w1))
                      | None \<Rightarrow> (Inr (), next_tick (put_node p (File m' data) w1))))))"

definition os_chmod :: "string \<Rightarrow> file_mode \<Rightarrow> world \<Rightarrow> (err + unit) \<times> world" where
  "os_chmod p m w =
     (case fault w of
        Some e \<Rightarrow> (Inl (path_error ''chmod'' p e), next_tick w)
      | None \<Rightarrow>
          (case node_at w p of
             None \<Rightarrow> (Inl (path_error ''chmod'' p ENOENT), next_tick w)
           | Some (File m' c) \<Rightarrow> (Inr (), next_tick (put_node p (File m c) w))
           | Some (Dir m') \<Rightarrow> (Inr (), next_tick (put_node p (Dir m) w))
           | Some (Sock m') \<Rightarrow> (Inr (), next_tick (put_node p (Sock m) w))))"

text \<open>\<^verbatim>\<open>os.Rename\<close> of a file or socket; it replaces a file at the target. The code renames no directory.\<close>

definition os_rename :: "string \<Rightarrow> string \<Rightarrow> world \<Rightarrow> (err + unit) \<times> world" where
  "os_rename a b w =
     (let le = (\<lambda>e. Err (errno_kinds e) (''rename '' @ a @ '' '' @ b @ '': '' @ errno_text e))
      in (case fault w of
            Some e \<Rightarrow> (Inl (le e), next_tick w)
          | None \<Rightarrow>
              (case node_at w a of
                 None \<Rightarrow> (Inl (le ENOENT), next_tick w)
               | Some (Dir m) \<Rightarrow> (Inl (le EISDIR), next_tick w)
               | Some n \<Rightarrow>
                   (if \<not> dir_ok w (path_dir b) then (Inl (le ENOENT), next_tick w)
                    else (case node_at w b of
                            Some (Dir m) \<Rightarrow> (Inl (le EEXIST), next_tick w)
                          | _ \<Rightarrow> (Inr (), next_tick (put_node b n (del_node a w))))))))"

definition has_children :: "world \<Rightarrow> string \<Rightarrow> bool" where
  "has_children w d \<longleftrightarrow> list_ex (\<lambda>(q, n). q \<noteq> d \<and> path_dir q = d) (fs w)"

definition os_remove :: "string \<Rightarrow> world \<Rightarrow> (err + unit) \<times> world" where
  "os_remove p w =
     (case fault w of
        Some e \<Rightarrow> (Inl (path_error ''remove'' p e), next_tick w)
      | None \<Rightarrow>
          (case node_at w p of
             None \<Rightarrow> (Inl (path_error ''remove'' p ENOENT), next_tick w)
           | Some (Dir m) \<Rightarrow>
               (if has_children w p then (Inl (path_error ''remove'' p ENOTEMPTY), next_tick w)
                else (Inr (), next_tick (del_node p w)))
           | Some n \<Rightarrow> (Inr (), next_tick (del_node p w))))"

definition os_stat :: "string \<Rightarrow> world \<Rightarrow> (err + node) \<times> world" where
  "os_stat p w =
     (case fault w of
        Some e \<Rightarrow> (Inl (path_error ''stat'' p e), next_tick w)
      | None \<Rightarrow> (case node_at w p of
                  None \<Rightarrow> (Inl (path_error ''stat'' p ENOENT), next_tick w)
                | Some n \<Rightarrow> (Inr n, next_tick w)))"

fun is_dir :: "node \<Rightarrow> bool" where
  "is_dir (Dir m) = True"
| "is_dir _ = False"

fun node_mode :: "node \<Rightarrow> file_mode" where
  "node_mode (File m c) = m"
| "node_mode (Dir m) = m"
| "node_mode (Sock m) = m"

text \<open>\<^verbatim>\<open>os.MkdirAll\<close>: the missing directories of the chain from the root down are made one by one.\<close>

definition dir_chain :: "string \<Rightarrow> string list" where
  "dir_chain p =
     (let ps = filter (\<lambda>q. q \<noteq> []) (split_on slash (path_clean p))
      in map (\<lambda>i. (if is_abs p then [slash] else []) @ join_with [slash] (take (Suc i) ps)) [0..<length ps])"

fun make_dirs :: "file_mode \<Rightarrow> string list \<Rightarrow> world \<Rightarrow> (err + unit) \<times> world" where
  "make_dirs m [] w = (Inr (), w)"
| "make_dirs m (d # ds) w =
     (case node_at w d of
        Some (Dir m') \<Rightarrow> make_dirs m ds w
      | Some n \<Rightarrow> (Inl (path_error ''mkdir'' d ENOTDIR), w)
      | None \<Rightarrow>
          (case fault w of
             Some e \<Rightarrow> (Inl (path_error ''mkdir'' d e), next_tick w)
           | None \<Rightarrow> make_dirs m ds (next_tick (put_node d (Dir (masked w m)) w))))"

definition os_mkdir_all :: "string \<Rightarrow> file_mode \<Rightarrow> world \<Rightarrow> (err + unit) \<times> world" where
  "os_mkdir_all p m w = make_dirs m (dir_chain p) w"

text \<open>
  \<^verbatim>\<open>filepath.Glob(filepath.Join(dir, "*" + ext))\<close>: the entries of the directory with that ending,
  sorted. \<^verbatim>\<open>Glob\<close> ignores I/O errors; it only reports a malformed pattern.
\<close>

definition glob_ext :: "string \<Rightarrow> string \<Rightarrow> world \<Rightarrow> (err + string list) \<times> world" where
  "glob_ext d ext w =
     (if o_badglob (orc w) d then (Inl (errorf ''syntax error in pattern''), next_tick w)
      else (case fault w of
              Some e \<Rightarrow> (Inr [], next_tick w)
            | None \<Rightarrow>
                (Inr (sort (remdups (map fst
                   (filter (\<lambda>(q, n). q \<noteq> d \<and> path_dir q = path_clean d \<and> has_suffix (path_base q) ext) (fs w))))),
                 next_tick w)))"

text \<open>\<^verbatim>\<open>exec.CommandContext(...).CombinedOutput()\<close> behind a \<^verbatim>\<open>commandRunner\<close>.\<close>

definition run_cmd :: "string \<Rightarrow> string list \<Rightarrow> world \<Rightarrow> (string \<times> err option) \<times> world" where
  "run_cmd name args w =
     (o_run (orc w) (tick w) name args, next_tick (w\<lparr>calls := (name, args) # calls w\<rparr>))"

definition clock_now :: "world \<Rightarrow> gotime \<times> world" where
  "clock_now w = (o_clock (orc w) (tick w), next_tick w)"

definition unix_nano :: "world \<Rightarrow> nat \<times> world" where
  "unix_nano w = (o_nano (orc w) (tick w), next_tick w)"

definition ctx_err :: "world \<Rightarrow> err option \<times> world" where
  "ctx_err w = (o_ctx (orc w) (tick w), next_tick w)"

definition rand_bytes :: "world \<Rightarrow> char list option \<times> world" where
  "rand_bytes w = (o_rand (orc w) (tick w), next_tick w)"

definition path_abs :: "string \<Rightarrow> world \<Rightarrow> (err + string) \<times> world" where
  "path_abs p w =
     (if is_abs p then (Inr (path_clean p), w)
      else (case o_cwd (orc w) (tick w) of
              Inl e \<Rightarrow> (Inl e, next_tick w)
            | Inr cwd \<Rightarrow> (Inr (path_join [cwd, p]), next_tick w)))"

definition eval_symlinks :: "string \<Rightarrow> world \<Rightarrow> (err + string) \<times> world" where
  "eval_symlinks p w = (o_links (orc w) (tick w) p, next_tick w)"

text \<open>
  For evaluation a call is unfolded only on a world that is known: the simplifier would otherwise
  rewrite the continuation of a call before its answer is.
\<close>

lemmas call_code [code] =
  os_read_file_def [of _ "\<lparr>fs = f, tick = t, calls = c, orc = r\<rparr>" for f t c r]
  os_write_file_def [of _ _ _ "\<lparr>fs = f, tick = t, calls = c, orc = r\<rparr>" for f t c r]
  os_chmod_def [of _ _ "\<lparr>fs = f, tick = t, calls = c, orc = r\<rparr>" for f t c r]
  os_rename_def [of _ _ "\<lparr>fs = f, tick = t, calls = c, orc = r\<rparr>" for f t c r]
  os_remove_def [of _ "\<lparr>fs = f, tick = t, calls = c, orc = r\<rparr>" for f t c r]
  os_stat_def [of _ "\<lparr>fs = f, tick = t, calls = c, orc = r\<rparr>" for f t c r]
  os_mkdir_all_def [of _ _ "\<lparr>fs = f, tick = t, calls = c, orc = r\<rparr>" for f t c r]
  glob_ext_def [of _ _ "\<lparr>fs = f, tick = t, calls = c, orc = r\<rparr>" for f t c r]
  run_cmd_def [of _ _ "\<lparr>fs = f, tick = t, calls = c, orc = r\<rparr>" for f t c r]
  unix_nano_def [of "\<lparr>fs = f, tick = t, calls = c, orc = r\<rparr>" for f t c r]
  clock_now_def [of "\<lparr>fs = f, tick = t, calls = c, orc = r\<rparr>" for f t c r]
  ctx_err_def [of "\<lparr>fs = f, tick = t, calls = c, orc = r\<rparr>" for f t c r]
  rand_bytes_def [of "\<lparr>fs = f, tick = t, calls = c, orc = r\<rparr>" for f t c r]
  path_abs_def [of _ "\<lparr>fs = f, tick = t, calls = c, orc = r\<rparr>" for f t c r]
  eval_symlinks_def [of _ "\<lparr>fs = f, tick = t, calls = c, orc = r\<rparr>" for f t c r]

section \<open>What the calls leave unchanged\<close>

lemma node_at_put [simp]: "node_at (put_node p n w) q = (if q = p then Some n else node_at w q)"
  by (simp add: node_at_def put_node_def update_conv')

lemma node_at_del [simp]: "node_at (del_node p w) q = (if q = p then None else node_at w q)"
  by (simp add: node_at_def del_node_def delete_conv')

lemma next_tick_simps [simp]: "fs (next_tick w) = fs w" "orc (next_tick w) = orc w"
  "calls (next_tick w) = calls w" "node_at (next_tick w) q = node_at w q"
  "tick (next_tick w) = Suc (tick w)"
  by (simp_all add: next_tick_def node_at_def)

lemma put_del_simps [simp]: "orc (put_node p n w) = orc w" "orc (del_node p w) = orc w"
  "calls (put_node p n w) = calls w" "calls (del_node p w) = calls w"
  "tick (put_node p n w) = tick w" "tick (del_node p w) = tick w"
  by (simp_all add: put_node_def del_node_def)

lemma file_at_cong: "node_at w' p = node_at w p \<Longrightarrow> file_at w' p = file_at w p"
  by (simp add: file_at_def)

lemma file_at_SomeD: "file_at w p = Some c \<Longrightarrow> \<exists>m. node_at w p = Some (File m c)"
  by (auto simp: file_at_def split: option.splits node.splits)

lemma file_at_simps [simp]:
  "file_at (next_tick w) q = file_at w q"
  "file_at (put_node p n w) q = (if q = p then (case n of File m c \<Rightarrow> Some c | _ \<Rightarrow> None) else file_at w q)"
  "file_at (del_node p w) q = (if q = p then None else file_at w q)"
  by (simp_all add: file_at_def split: node.split)

lemma file_at_None: "node_at w p = None \<Longrightarrow> file_at w p = None"
  by (simp add: file_at_def)

lemma os_read_file_world [simp]: "snd (os_read_file p w) = next_tick w"
  by (simp add: os_read_file_def split: option.split node.split)

lemma os_stat_world [simp]: "snd (os_stat p w) = next_tick w"
  by (simp add: os_stat_def split: option.split)

lemma os_write_file_frame [frame_simps]:
  "orc (snd (os_write_file p d m w)) = orc w"
  "calls (snd (os_write_file p d m w)) = calls w"
  "q \<noteq> p \<Longrightarrow> node_at (snd (os_write_file p d m w)) q = node_at w q"
  by (simp_all add: os_write_file_def Let_def split: option.split node.split)

lemma os_chmod_frame [frame_simps]:
  "orc (snd (os_chmod p m w)) = orc w"
  "calls (snd (os_chmod p m w)) = calls w"
  "q \<noteq> p \<Longrightarrow> node_at (snd (os_chmod p m w)) q = node_at w q"
  by (simp_all add: os_chmod_def split: option.split node.split)

lemma os_rename_frame [frame_simps]:
  "orc (snd (os_rename a b w)) = orc w"
  "calls (snd (os_rename a b w)) = calls w"
  "q \<noteq> a \<Longrightarrow> q \<noteq> b \<Longrightarrow> node_at (snd (os_rename a b w)) q = node_at w q"
  by (simp_all add: os_rename_def Let_def split: option.split node.split)

lemma os_remove_frame [frame_simps]:
  "orc (snd (os_remove p w)) = orc w"
  "calls (snd (os_remove p w)) = calls w"
  "q \<noteq> p \<Longrightarrow> node_at (snd (os_remove p w)) q = node_at w q"
  by (simp_all add: os_remove_def split: option.split node.split)

lemma make_dirs_frame:
  "orc (snd (make_dirs m ds w)) = orc w"
  "calls (snd (make_dirs m ds w)) = calls w"
  "node_at w q \<noteq> None \<Longrightarrow> node_at (snd (make_dirs m ds w)) q = node_at w q"
  "q \<notin> set ds \<Longrightarrow> node_at (snd (make_dirs m ds w)) q = node_at w q"
  by (induction m ds w rule: make_dirs.induct)
     (auto split: option.split node.split)

lemma os_mkdir_all_frame [frame_simps]:
  "orc (snd (os_mkdir_all p m w)) = orc w"
  "calls (snd (os_mkdir_all p m w)) = calls w"
  "node_at w q \<noteq> None \<Longrightarrow> node_at (snd (os_mkdir_all p m w)) q = node_at w q"
  "q \<notin> set (dir_chain p) \<Longrightarrow> node_at (snd (os_mkdir_all p m w)) q = node_at w q"
  by (simp_all add: os_mkdir_all_def make_dirs_frame)

text \<open>\<^verbatim>\<open>MkdirAll\<close> makes directories only: it neither makes nor changes a file.\<close>

lemma make_dirs_file_at: "file_at (snd (make_dirs m ds w)) q = file_at w q"
proof (induction m ds w rule: make_dirs.induct)
  case (2 m d ds w)
  then show ?case by (auto simp: file_at_None split: option.split node.split)
qed simp

lemma os_mkdir_all_file_at [frame_simps]: "file_at (snd (os_mkdir_all p m w)) q = file_at w q"
  by (simp add: os_mkdir_all_def make_dirs_file_at)

lemma glob_ext_world [simp]: "snd (glob_ext d ext w) = next_tick w"
  by (simp add: glob_ext_def split: option.split)

lemma run_cmd_frame [simp]:
  "orc (snd (run_cmd n a w)) = orc w" "fs (snd (run_cmd n a w)) = fs w"
  "node_at (snd (run_cmd n a w)) q = node_at w q"
  "file_at (snd (run_cmd n a w)) q = file_at w q"
  "calls (snd (run_cmd n a w)) = (n, a) # calls w"
  by (simp_all add: run_cmd_def node_at_def file_at_def)

lemma env_calls_world [simp]:
  "snd (clock_now w) = next_tick w" "snd (unix_nano w) = next_tick w" "snd (ctx_err w) = next_tick w" "snd (rand_bytes w) = next_tick w"
  "snd (eval_symlinks p w) = next_tick w"
  by (simp_all add: clock_now_def unix_nano_def ctx_err_def rand_bytes_def eval_symlinks_def)

lemma path_abs_frame [simp]:
  "orc (snd (path_abs p w)) = orc w" "fs (snd (path_abs p w)) = fs w"
  "node_at (snd (path_abs p w)) q = node_at w q" "file_at (snd (path_abs p w)) q = file_at w q"
  "calls (snd (path_abs p w)) = calls w"
  by (simp_all add: path_abs_def node_at_def file_at_def split: sum.split)

section \<open>What a successful call has done\<close>

lemma os_read_file_Inr: "fst (os_read_file p w) = Inr c \<Longrightarrow> file_at w p = Some c"
  by (auto simp: os_read_file_def file_at_def split: option.splits node.splits)

lemma os_read_file_NotExist:
  "fst (os_read_file p w) = Inl e \<Longrightarrow> errors_is e OsNotExist \<Longrightarrow> fault w = Some ENOENT \<or> node_at w p = None"
  by (auto simp: os_read_file_def split: option.splits node.splits)

lemma os_write_file_Inr:
  "fst (os_write_file p d m w) = Inr () \<Longrightarrow> file_at (snd (os_write_file p d m w)) p = Some d"
  by (auto simp: os_write_file_def file_at_def Let_def split: option.splits node.splits if_splits)

lemma os_rename_Inr:
  assumes "fst (os_rename a b w) = Inr ()" "a \<noteq> b"
  shows "node_at (snd (os_rename a b w)) b = node_at w a" "node_at (snd (os_rename a b w)) a = None"
  using assms
  by (auto simp: os_rename_def Let_def split: option.splits node.splits if_splits)

lemma os_rename_Inl: "fst (os_rename a b w) = Inl e \<Longrightarrow> snd (os_rename a b w) = next_tick w"
  by (auto simp: os_rename_def Let_def split: option.splits node.splits if_splits)

lemma os_remove_Inr: "fst (os_remove p w) = Inr () \<Longrightarrow> node_at (snd (os_remove p w)) p = None"
  by (auto simp: os_remove_def split: option.splits node.splits if_splits)

lemma os_remove_Inl: "fst (os_remove p w) = Inl e \<Longrightarrow> snd (os_remove p w) = next_tick w"
  by (auto simp: os_remove_def split: option.splits node.splits if_splits)

lemma os_chmod_Inr:
  "fst (os_chmod p m w) = Inr () \<Longrightarrow> map_option node_mode (node_at (snd (os_chmod p m w)) p) = Some m"
  by (auto simp: os_chmod_def split: option.splits node.splits)

lemma os_chmod_file_at [frame_simps]: "file_at (snd (os_chmod p m w)) q = file_at w q"
  by (auto simp: os_chmod_def file_at_def split: option.split node.split)

lemma os_stat_Inr: "fst (os_stat p w) = Inr n \<Longrightarrow> node_at w p = Some n"
  by (auto simp: os_stat_def split: option.splits)

end
