(* ===== verification/Host_Types.thy ===== *)
theory Host_Types
  imports Go_Os
begin

text \<open>
  The types of \<^verbatim>\<open>daemon/internal/host/manager.go\<close>: what the application asks of the host adapters
  and what they answer. Field names carry a prefix, since Isabelle's are global.
\<close>

record conflict =
  cf_resource :: string
  cf_owner :: string
  cf_summary :: string
  cf_remediation :: string

record resolver_stub_spec =
  sp_domain :: string
  sp_address :: string

record resolver_status =
  rs_managed :: bool
  rs_stub_path :: string
  rs_domain :: string
  rs_address :: string
  rs_owner :: string
  rs_conflicts :: "conflict list"
  rs_summary :: string
  rs_remediation :: string

record web_site =
  ws_id :: string
  ws_domain :: string
  ws_root_path :: string
  ws_public_dir :: string
  ws_php_socket_path :: string

record web_activation_result =
  wr_config_path :: string
  wr_validated :: bool
  wr_reloaded :: bool
  wr_http_url :: string
  wr_https_url :: string

record php_runtime =
  pr_version :: string
  pr_binary_path :: string
  pr_fpm_binary_path :: string
  pr_service_name :: string
  pr_socket_path :: string

record php_materialization =
  pm_version :: string
  pm_service_name :: string
  pm_socket_path :: string
  pm_pool_config_path :: string
  pm_override_path :: string
  pm_active :: bool

record php_switch_request =
  sw_site_id :: string
  sw_previous :: php_runtime
  sw_target :: php_runtime

record supported_package =
  sk_key :: string
  sk_description :: string
  sk_runtime_version :: string
  sk_packages :: "string list"

record package_receipt =
  rc_key :: string
  rc_packages :: "string list"
  rc_installed_at :: gotime

record package_verification =
  pv_key :: string
  pv_verified :: bool
  pv_details :: "(string \<times> string) list"

text \<open>\<^verbatim>\<open>ServiceAction\<close> is a string type: any other string than the four constants can arrive.\<close>

datatype service_action = ActStart | ActStop | ActRestart | ActStatus | ActOther string

fun service_action_text :: "service_action \<Rightarrow> string" where
  "service_action_text ActStart = ''start''"
| "service_action_text ActStop = ''stop''"
| "service_action_text ActRestart = ''restart''"
| "service_action_text ActStatus = ''status''"
| "service_action_text (ActOther s) = s"

definition service_action_of :: "string \<Rightarrow> service_action" where
  "service_action_of s =
     (if s = ''start'' then ActStart else if s = ''stop'' then ActStop
      else if s = ''restart'' then ActRestart else if s = ''status'' then ActStatus
      else ActOther s)"

text \<open>\<open>SvcNone\<close> is the empty string, the state of a zero \<^verbatim>\<open>ServiceStatus\<close>.\<close>

datatype service_state = SvcActive | SvcInactive | SvcFailed | SvcUnknown | SvcNone

fun service_state_text :: "service_state \<Rightarrow> string" where
  "service_state_text SvcActive = ''active''"
| "service_state_text SvcInactive = ''inactive''"
| "service_state_text SvcFailed = ''failed''"
| "service_state_text SvcUnknown = ''unknown''"
| "service_state_text SvcNone = []"

record service_status =
  st_service :: string
  st_state :: service_state
  st_summary :: string
  st_updated_at :: gotime

text \<open>Go's zero time, as RFC 3339 text, and the zero values of the structs that are returned by value.\<close>

definition zero_time :: gotime where
  "zero_time = ''0001-01-01T00:00:00Z''"

definition zero_status :: service_status where
  "zero_status = \<lparr>st_service = [], st_state = SvcNone, st_summary = [], st_updated_at = zero_time\<rparr>"

definition zero_materialization :: php_materialization where
  "zero_materialization = \<lparr>pm_version = [], pm_service_name = [], pm_socket_path = [],
     pm_pool_config_path = [], pm_override_path = [], pm_active = False\<rparr>"

lemma service_action_roundtrip: "service_action_text (service_action_of s) = s"
  by (simp add: service_action_of_def)

end
