(* ===== verification/Managed_Files.thy ===== *)
theory Managed_Files
  imports Go_Os
begin

text \<open>
  The file helpers every host adapter carries a copy of: \<^verbatim>\<open>readIfExists\<close>, \<^verbatim>\<open>writeAtomically\<close> and
  \<^verbatim>\<open>restoreFile\<close>. The copies in the \<^verbatim>\<open>php\<close> and \<^verbatim>\<open>resolved\<close> packages are the same; the one of
  \<^verbatim>\<open>caddy\<close> also forces the mode with \<^verbatim>\<open>chmod\<close>. A managed file is written beside its target and
  renamed over it, so a reader never sees half of it.
\<close>

text \<open>The modes of managed files and directories.\<close>

definition mode_0644 :: file_mode where "mode_0644 = 0x1A4"
definition mode_0755 :: file_mode where "mode_0755 = 0x1ED"

definition tmp_path :: "string \<Rightarrow> string" where
  "tmp_path p = p @ ''.tmp''"

lemma tmp_path_neq [simp]: "tmp_path p \<noteq> p" "p \<noteq> tmp_path p"
  by (simp_all add: tmp_path_def)

lemma tmp_path_inject [simp]: "tmp_path p = tmp_path q \<longleftrightarrow> p = q"
  by (simp add: tmp_path_def)

section \<open>Reading a backup\<close>

text \<open>The content (empty when there is none) and whether the file exists.\<close>

definition read_if_exists :: "string \<Rightarrow> world \<Rightarrow> (err + string \<times> bool) \<times> world" where
  "read_if_exists p w =
     (case os_read_file p w of
        (Inl e, w1) \<Rightarrow> (if errors_is e OsNotExist then (Inr ([], False), w1) else (Inl e, w1))
      | (Inr c, w1) \<Rightarrow> (Inr (c, True), w1))"

lemma read_if_exists_world [simp]: "snd (read_if_exists p w) = next_tick w"
  by (simp add: read_if_exists_def split_beta split: sum.split)

lemma read_if_exists_True: "fst (read_if_exists p w) = Inr (c, True) \<Longrightarrow> file_at w p = Some c"
  by (auto simp: read_if_exists_def split_beta split: sum.splits if_splits dest: os_read_file_Inr)

text \<open>
  A negative answer means the file is missing, but for a fault: an open that fails with ENOENT is
  the same to the code as a missing file.
\<close>

lemma read_if_exists_False:
  assumes "fst (read_if_exists p w) = Inr (c, False)"
  shows "c = []" "fault w = None \<Longrightarrow> node_at w p = None"
  using assms os_read_file_NotExist [of p w]
  by (auto simp: read_if_exists_def split_beta split: sum.splits if_splits)

section \<open>Writing through a temporary file\<close>

definition write_atomically :: "string \<Rightarrow> string \<Rightarrow> file_mode \<Rightarrow> world \<Rightarrow> (err + unit) \<times> world" where
  "write_atomically p payload mode w =
     (case os_write_file (tmp_path p) payload mode w of
        (Inl e, w1) \<Rightarrow> (Inl e, w1)
      | (Inr _, w1) \<Rightarrow> os_rename (tmp_path p) p w1)"

definition restore_file :: "string \<Rightarrow> string \<Rightarrow> bool \<Rightarrow> file_mode \<Rightarrow> world \<Rightarrow> (err + unit) \<times> world" where
  "restore_file p payload existed mode w =
     (if \<not> existed then
        (case os_remove p w of
           (Inl e, w1) \<Rightarrow> (if errors_is e OsNotExist then (Inr (), w1) else (Inl e, w1))
         | (Inr _, w1) \<Rightarrow> (Inr (), w1))
      else write_atomically p payload mode w)"

lemma write_atomically_frame [frame_simps]:
  "orc (snd (write_atomically p d m w)) = orc w"
  "calls (snd (write_atomically p d m w)) = calls w"
  "q \<noteq> p \<Longrightarrow> q \<noteq> tmp_path p \<Longrightarrow> node_at (snd (write_atomically p d m w)) q = node_at w q"
  by (simp_all add: write_atomically_def split_beta frame_simps split: sum.split)

lemma restore_file_frame [frame_simps]:
  "orc (snd (restore_file p d b m w)) = orc w"
  "calls (snd (restore_file p d b m w)) = calls w"
  "q \<noteq> p \<Longrightarrow> q \<noteq> tmp_path p \<Longrightarrow> node_at (snd (restore_file p d b m w)) q = node_at w q"
  by (simp_all add: restore_file_def split_beta frame_simps split: sum.split)

text \<open>A write that fails leaves the target exactly as it was, at whatever point it fails.\<close>

lemma write_atomically_Inl:
  assumes "fst (write_atomically p d m w) = Inl e"
  shows "node_at (snd (write_atomically p d m w)) p = node_at w p"
proof (cases "fst (os_write_file (tmp_path p) d m w)")
  case (Inl e')
  then show ?thesis by (simp add: write_atomically_def split_beta frame_simps)
next
  case (Inr u)
  with assms have "fst (os_rename (tmp_path p) p (snd (os_write_file (tmp_path p) d m w))) = Inl e"
    by (simp add: write_atomically_def split_beta)
  from os_rename_Inl [OF this] Inr show ?thesis
    by (simp add: write_atomically_def split_beta frame_simps)
qed

lemma write_atomically_Inr:
  assumes "fst (write_atomically p d m w) = Inr ()"
  shows "file_at (snd (write_atomically p d m w)) p = Some d"
    and "node_at (snd (write_atomically p d m w)) (tmp_path p) = None"
proof -
  from assms obtain u where u: "fst (os_write_file (tmp_path p) d m w) = Inr ()"
    and r: "fst (os_rename (tmp_path p) p (snd (os_write_file (tmp_path p) d m w))) = Inr ()"
    by (auto simp: write_atomically_def split_beta split: sum.splits)
  from os_write_file_Inr [OF u] os_rename_Inr [OF r] u
  show "file_at (snd (write_atomically p d m w)) p = Some d"
    and "node_at (snd (write_atomically p d m w)) (tmp_path p) = None"
    by (simp_all add: write_atomically_def split_beta file_at_def)
qed

text \<open>Old content or new content, nothing between: the reader of a managed file never sees a part.\<close>

lemma write_atomically_old_or_new:
  "node_at (snd (write_atomically p d m w)) p = node_at w p
     \<or> file_at (snd (write_atomically p d m w)) p = Some d"
  using write_atomically_Inl [of p d m w] write_atomically_Inr(1) [of p d m w]
  by (cases "fst (write_atomically p d m w)") auto

text \<open>
  Restoring a backup: when it succeeds the path holds the backed-up content again, and nothing
  when there was nothing.
\<close>

definition restored :: "string \<Rightarrow> string \<Rightarrow> bool \<Rightarrow> world \<Rightarrow> bool" where
  "restored p payload existed w \<longleftrightarrow>
     (if existed then file_at w p = Some payload else node_at w p = None)"

lemma restore_file_Inr:
  assumes "fst (restore_file p d b m w) = Inr ()" "fault w = None"
  shows "restored p d b (snd (restore_file p d b m w))"
proof (cases b)
  case True
  with assms(1) write_atomically_Inr(1) [of p d m w] show ?thesis
    by (simp add: restore_file_def restored_def)
next
  case False
  show ?thesis
  proof (cases "fst (os_remove p w)")
    case (Inl e)
    with assms False have "errors_is e OsNotExist"
      by (auto simp: restore_file_def split_beta split: if_splits)
    with Inl assms(2) have "node_at w p = None"
      by (auto simp: os_remove_def split: option.splits node.splits if_splits)
    with False Inl os_remove_Inl [OF Inl] show ?thesis
      by (simp add: restore_file_def restored_def split_beta)
  next
    case (Inr u)
    with False os_remove_Inr [of p w] show ?thesis
      by (simp add: restore_file_def restored_def split_beta)
  qed
qed

lemma restored_cong: "node_at w' p = node_at w p \<Longrightarrow> restored p d b w' = restored p d b w"
  by (simp add: restored_def file_at_def)

lemma read_if_exists_restored:
  "fst (read_if_exists p w) = Inr (c, b) \<Longrightarrow> fault w = None \<Longrightarrow> restored p c b w"
  by (cases b) (auto simp: restored_def dest: read_if_exists_True read_if_exists_False)

end
