(* ===== verification/Caddy_Manager.thy ===== *)
theory Caddy_Manager
  imports Host_Types Managed_Files
begin

text \<open>
  \<^verbatim>\<open>daemon/internal/host/ubuntu/caddy/manager.go\<close>: one file per site under the managed
  directory, an import block in the root Caddyfile, and every change validated, reloaded and
  undone when Caddy refuses it.
\<close>

definition caddy_managed_marker :: string where
  "caddy_managed_marker = ''# Managed by Lara Nux''"

definition managed_import_start :: string where
  "managed_import_start = ''# Lara Nux managed Caddy import start''"

definition managed_import_end :: string where
  "managed_import_end = ''# Lara Nux managed Caddy import end''"

definition managed_import_line :: string where
  "managed_import_line = ''import sites.d/lara-nux/*.caddy''"

record caddy_manager =
  cm_sites_dir :: string
  cm_root_config :: string

definition new_caddy_manager :: "string \<Rightarrow> string \<Rightarrow> caddy_manager" where
  "new_caddy_manager sites_dir root_config =
     \<lparr>cm_sites_dir = (if trim_space sites_dir = [] then ''/etc/caddy/sites.d/lara-nux'' else trim_space sites_dir),
      cm_root_config = (if trim_space root_config = [] then ''/etc/caddy/Caddyfile'' else trim_space root_config)\<rparr>"

section \<open>File names\<close>

fun first_non_empty :: "string list \<Rightarrow> string" where
  "first_non_empty [] = ''site''"
| "first_non_empty (v # vs) = (if trim_space v \<noteq> [] then trim_space v else first_non_empty vs)"

lemma replace_all_Nil [simp]: "replace_all old new [] = []"
  by (simp add: replace_all.simps)

lemma replace_all_hit:
  "old \<noteq> [] \<Longrightarrow> replace_all old new (old @ s) = new @ replace_all old new s"
  by (subst replace_all.simps) simp

lemma replace_all_miss:
  "\<not> has_prefix (c # s) old \<Longrightarrow> replace_all old new (c # s) = c # replace_all old new s"
  by (subst replace_all.simps) simp

lemma length_replace_all_le: "length new \<le> length old \<Longrightarrow> length (replace_all old new s) \<le> length s"
proof (induction old new s rule: replace_all.induct)
  case (1 old new s)
  show ?case
  proof (cases "s = []")
    case False
    then obtain c t where s: "s = c # t" by (meson neq_Nil_conv)
    show ?thesis
    proof (cases "old \<noteq> [] \<and> has_prefix s old")
      case True
      then obtain u where u: "s = old @ u" by (auto simp: has_prefix_iff)
      with "1.IH"(1) "1.prems" True False have "length (replace_all old new u) \<le> length u" by simp
      with u True "1.prems" show ?thesis by (simp add: replace_all_hit)
    next
      case miss: False
      with "1.IH"(2) "1.prems" False s show ?thesis by (subst replace_all.simps) auto
    qed
  qed simp
qed

lemma length_replace_all_less:
  "length new < length old \<Longrightarrow> contains s old \<Longrightarrow> length (replace_all old new s) < length s"
proof (induction s)
  case (Cons c s)
  show ?case
  proof (cases "has_prefix (c # s) old")
    case True
    then obtain u where u: "c # s = old @ u" by (auto simp: has_prefix_iff)
    have "old \<noteq> []" using Cons.prems by auto
    with u have "replace_all old new (c # s) = new @ replace_all old new u"
      by (simp add: replace_all_hit)
    moreover have "length (c # s) = length old + length u" by (simp only: u length_append)
    moreover have "length (replace_all old new u) \<le> length u"
      by (rule length_replace_all_le) (use Cons.prems in simp)
    ultimately show ?thesis using Cons.prems by simp
  next
    case False
    with Cons show ?thesis by (simp add: replace_all_miss)
  qed
qed simp

text \<open>The loop \<^verbatim>\<open>for strings.Contains(value, "--")\<close>: each round shortens the value.\<close>

function collapse_dashes :: "string \<Rightarrow> string" where
  "collapse_dashes s =
     (if contains s ''--'' then collapse_dashes (replace_all ''--'' ''-'' s) else s)"
  by pat_completeness auto
termination
  by (relation "measure length") (auto intro: length_replace_all_less)

declare collapse_dashes.simps [simp del]

definition sanitize_token :: "string \<Rightarrow> string" where
  "sanitize_token value =
     trim_char CHR ''-''
       (collapse_dashes
         (replace_chars [(CHR ''/'', CHR ''-''), (CHR '' '', CHR ''-''), (CHR ''.'', CHR ''-''), (CHR ''_'', CHR ''-'')]
           (to_lower (trim_space value))))"

definition site_filename :: "web_site \<Rightarrow> string" where
  "site_filename site = sanitize_token (first_non_empty [ws_id site, ws_domain site]) @ ''.caddy''"

section \<open>Rendering\<close>

definition render_site_config :: "web_site \<Rightarrow> string" where
  "render_site_config site =
     (let tab = CHR 0x09;
          body = [tab # ''root * '' @ go_quote (ws_public_dir site),
                  tab # ''encode zstd gzip'',
                  tab # ''php_fastcgi unix/'' @ ws_php_socket_path site,
                  tab # ''file_server'',
                  ''}'']
      in join_with nl
           ([caddy_managed_marker, ''http://'' @ ws_domain site @ '' {''] @ body
            @ [[], ''https://'' @ ws_domain site @ '' {'', tab # ''tls internal''] @ body @ [[]]))"

definition import_block :: string where
  "import_block = join_with nl [managed_import_start, managed_import_line, managed_import_end]"

definition ensure_managed_root_import :: "string \<Rightarrow> bool \<Rightarrow> string \<times> bool" where
  "ensure_managed_root_import existing existed =
     (if existed \<and> contains existing managed_import_line then (existing, False)
      else let base = trim_right_char CHR 0x0A existing
           in if base = [] then (import_block @ nl, True)
              else (base @ nl @ nl @ import_block @ nl, True))"

fun drop_block :: "bool \<Rightarrow> string list \<Rightarrow> string list" where
  "drop_block skip [] = []"
| "drop_block skip (line # ls) =
     (if trim_space line = managed_import_start then drop_block True ls
      else if trim_space line = managed_import_end then drop_block False ls
      else if skip then drop_block skip ls
      else line # drop_block skip ls)"

text \<open>The new content (\<open>None\<close> for a nil slice: nothing is left) and whether there was a block.\<close>

definition remove_managed_root_import :: "string \<Rightarrow> bool \<Rightarrow> string option \<times> bool" where
  "remove_managed_root_import existing existed =
     (if \<not> existed then (None, False)
      else if \<not> contains existing managed_import_start then (Some existing, False)
      else let result = trim_space (join_with nl (drop_block False (split_on CHR 0x0A existing)))
           in if result = [] then (None, True) else (Some (result @ nl), True))"

section \<open>Files with a forced mode\<close>

definition caddy_write_atomically :: "string \<Rightarrow> string \<Rightarrow> file_mode \<Rightarrow> world \<Rightarrow> (err + unit) \<times> world" where
  "caddy_write_atomically p payload mode w =
     (case os_write_file (tmp_path p) payload mode w of
        (Inl e, w1) \<Rightarrow> (Inl e, w1)
      | (Inr _, w1) \<Rightarrow>
          (case os_chmod (tmp_path p) mode w1 of
             (Inl e, w2) \<Rightarrow> (Inl e, snd (os_remove (tmp_path p) w2))
           | (Inr _, w2) \<Rightarrow>
               (case os_rename (tmp_path p) p w2 of
                  (Inl e, w3) \<Rightarrow> (Inl e, snd (os_remove (tmp_path p) w3))
                | (Inr _, w3) \<Rightarrow> os_chmod p mode w3)))"

definition caddy_restore_file :: "string \<Rightarrow> string \<Rightarrow> bool \<Rightarrow> file_mode \<Rightarrow> world \<Rightarrow> (err + unit) \<times> world" where
  "caddy_restore_file p payload existed mode w =
     (if \<not> existed then
        (case os_remove p w of
           (Inl e, w1) \<Rightarrow> (if errors_is e OsNotExist then (Inr (), w1) else (Inl e, w1))
         | (Inr _, w1) \<Rightarrow> (Inr (), w1))
      else caddy_write_atomically p payload mode w)"

definition ensure_dir_mode :: "string \<Rightarrow> file_mode \<Rightarrow> world \<Rightarrow> (err + unit) \<times> world" where
  "ensure_dir_mode p mode w =
     (case os_mkdir_all p mode w of
        (Inl e, w1) \<Rightarrow> (Inl e, w1)
      | (Inr _, w1) \<Rightarrow> os_chmod p mode w1)"

section \<open>Commands\<close>

definition caddy_validate :: "caddy_manager \<Rightarrow> world \<Rightarrow> (err + unit) \<times> world" where
  "caddy_validate m w =
     (case run_cmd ''caddy'' [''validate'', ''--config'', cm_root_config m, ''--adapter'', ''caddyfile''] w of
        ((out, Some e), w1) \<Rightarrow>
          (Inl (errorf (''validate caddy config: '' @ err_text e @ '' ('' @ trim_space out @ '')'')), w1)
      | ((out, None), w1) \<Rightarrow> (Inr (), w1))"

definition caddy_reload :: "world \<Rightarrow> (err + unit) \<times> world" where
  "caddy_reload w =
     (case run_cmd ''systemctl'' [''reload'', ''caddy''] w of
        ((out, Some e), w1) \<Rightarrow>
          (Inl (errorf (''reload caddy: '' @ err_text e @ '' ('' @ trim_space out @ '')'')), w1)
      | ((out, None), w1) \<Rightarrow> (Inr (), w1))"

section \<open>Activating a site\<close>

definition normalize_site :: "web_site \<Rightarrow> world \<Rightarrow> (err + web_site) \<times> world" where
  "normalize_site site w =
     (if trim_space (ws_domain site) = [] then
        (Inl (sentinel_err ErrActivationValidation ''domain is required''), w)
      else if trim_space (ws_root_path site) = [] then
        (Inl (sentinel_err ErrActivationValidation ''root path is required''), w)
      else if trim_space (ws_php_socket_path site) = [] then
        (Inl (sentinel_err ErrActivationValidation ''php socket path is required''), w)
      else
        let public_dir =
              (if trim_space (ws_public_dir site) = [] then path_join [ws_root_path site, ''public'']
               else trim_space (ws_public_dir site))
        in (case os_stat public_dir w of
              (Inl e, w1) \<Rightarrow>
                (Inl (sentinel_err ErrActivationValidation (''inspect public directory: '' @ err_text e)), w1)
            | (Inr info, w1) \<Rightarrow>
                (if \<not> is_dir info then
                   (Inl (sentinel_err ErrActivationValidation
                      (''public directory '' @ public_dir @ '' is not a directory'')), w1)
                 else
                   (Inr \<lparr>ws_id = sanitize_token (first_non_empty [ws_id site, ws_domain site]),
                         ws_domain = to_lower (trim_space (ws_domain site)),
                         ws_root_path = path_clean (ws_root_path site),
                         ws_public_dir = path_clean public_dir,
                         ws_php_socket_path = path_clean (ws_php_socket_path site)\<rparr>, w1))))"

text \<open>The root Caddyfile gets the import block if it lacks one; the result says whether it was written.\<close>

definition caddy_ensure_root ::
    "caddy_manager \<Rightarrow> string \<Rightarrow> bool \<Rightarrow> world \<Rightarrow> (err + bool) \<times> world" where
  "caddy_ensure_root m root_previous root_existed w =
     (case ensure_managed_root_import root_previous root_existed of
        (root_next, False) \<Rightarrow> (Inr False, w)
      | (root_next, True) \<Rightarrow>
          (case ensure_dir_mode (path_dir (cm_root_config m)) mode_0755 w of
             (Inl e, w1) \<Rightarrow> (Inl (wrap_err ''create caddy root config directory'' e), w1)
           | (Inr _, w1) \<Rightarrow>
               (case caddy_write_atomically (cm_root_config m) root_next mode_0644 w1 of
                  (Inl e, w2) \<Rightarrow> (Inl (wrap_err ''write caddy root config'' e), w2)
                | (Inr _, w2) \<Rightarrow> (Inr True, w2))))"

definition caddy_undo_root ::
    "caddy_manager \<Rightarrow> bool \<Rightarrow> string \<Rightarrow> bool \<Rightarrow> world \<Rightarrow> world" where
  "caddy_undo_root m root_changed root_previous root_existed w =
     (if root_changed
      then snd (caddy_restore_file (cm_root_config m) root_previous root_existed mode_0644 w) else w)"

text \<open>From the backup of the site's file to the reload, every failure undoing what was written.\<close>

definition caddy_config_path :: "caddy_manager \<Rightarrow> web_site \<Rightarrow> string" where
  "caddy_config_path m site = path_join [cm_sites_dir m, site_filename site]"

definition caddy_apply_site ::
    "caddy_manager \<Rightarrow> web_site \<Rightarrow> (world \<Rightarrow> world) \<Rightarrow> string \<Rightarrow> bool \<Rightarrow> world
       \<Rightarrow> (err + web_activation_result) \<times> world" where
  "caddy_apply_site m site undo_root previous existed w =
     (let config_path = caddy_config_path m site
      in (case caddy_validate m w of
            (Inl e, w1) \<Rightarrow>
              (Inl (sentinel_err ErrActivationValidation (err_text e)),
               undo_root (snd (caddy_restore_file config_path previous existed mode_0644 w1)))
          | (Inr _, w1) \<Rightarrow>
              (case caddy_reload w1 of
                 (Inl e, w2) \<Rightarrow>
                   (Inl (wrap_err (''reload caddy after activating '' @ ws_domain site) e),
                    snd (caddy_reload (snd (caddy_validate m
                      (undo_root (snd (caddy_restore_file config_path previous existed mode_0644 w2)))))))
               | (Inr _, w2) \<Rightarrow>
                   (Inr \<lparr>wr_config_path = config_path, wr_validated = True, wr_reloaded = True,
                         wr_http_url = ''http://'' @ ws_domain site,
                         wr_https_url = ''https://'' @ ws_domain site\<rparr>, w2))))"

definition caddy_make_site_dirs :: "caddy_manager \<Rightarrow> world \<Rightarrow> (err + unit) \<times> world" where
  "caddy_make_site_dirs m w =
     (case ensure_dir_mode (path_dir (cm_sites_dir m)) mode_0755 w of
        (Inl e, w1) \<Rightarrow> (Inl (wrap_err ''create caddy sites parent directory'' e), w1)
      | (Inr _, w1) \<Rightarrow>
          (case ensure_dir_mode (cm_sites_dir m) mode_0755 w1 of
             (Inl e, w2) \<Rightarrow> (Inl (wrap_err ''create caddy site directory'' e), w2)
           | (Inr _, w2) \<Rightarrow> (Inr (), w2)))"

definition caddy_install_site ::
    "caddy_manager \<Rightarrow> web_site \<Rightarrow> (world \<Rightarrow> world) \<Rightarrow> world
       \<Rightarrow> (err + web_activation_result) \<times> world" where
  "caddy_install_site m site undo_root w =
     (let config_path = caddy_config_path m site
      in (case read_if_exists config_path w of
            (Inl e, w1) \<Rightarrow> (Inl (wrap_err ''read existing caddy site config'' e), undo_root w1)
          | (Inr (previous, existed), w1) \<Rightarrow>
          (case caddy_make_site_dirs m w1 of
             (Inl e, w2) \<Rightarrow> (Inl e, undo_root w2)
           | (Inr _, w2) \<Rightarrow>
          (case caddy_write_atomically config_path (render_site_config site) mode_0644 w2 of
             (Inl e, w3) \<Rightarrow> (Inl (wrap_err ''write caddy site config'' e), undo_root w3)
           | (Inr _, w3) \<Rightarrow> caddy_apply_site m site undo_root previous existed w3))))"

definition caddy_activate_site ::
    "caddy_manager \<Rightarrow> web_site \<Rightarrow> world \<Rightarrow> (err + web_activation_result) \<times> world" where
  "caddy_activate_site m site0 w =
     (case normalize_site site0 w of
        (Inl e, w0) \<Rightarrow> (Inl e, w0)
      | (Inr site, w0) \<Rightarrow>
      (case read_if_exists (cm_root_config m) w0 of
         (Inl e, w1) \<Rightarrow> (Inl (wrap_err ''read caddy root config'' e), w1)
       | (Inr (root_previous, root_existed), w1) \<Rightarrow>
      (case caddy_ensure_root m root_previous root_existed w1 of
         (Inl e, w2) \<Rightarrow> (Inl e, w2)
       | (Inr root_changed, w2) \<Rightarrow>
           caddy_install_site m site (caddy_undo_root m root_changed root_previous root_existed) w2)))"

section \<open>Removing a site\<close>

text \<open>The block leaves the root Caddyfile with the last site.\<close>

definition caddy_release_root ::
    "caddy_manager \<Rightarrow> string \<Rightarrow> bool \<Rightarrow> string list \<Rightarrow> world \<Rightarrow> (err + bool) \<times> world" where
  "caddy_release_root m root_previous root_existed remaining w =
     (if remaining \<noteq> [] then (Inr False, w)
      else (case remove_managed_root_import root_previous root_existed of
              (root_next, False) \<Rightarrow> (Inr False, w)
            | (root_next, True) \<Rightarrow>
                (case caddy_restore_file (cm_root_config m)
                        (case root_next of None \<Rightarrow> [] | Some c \<Rightarrow> c) (root_next \<noteq> None) mode_0644 w of
                   (Inl e, w1) \<Rightarrow> (Inl e, w1)
                 | (Inr _, w1) \<Rightarrow> (Inr True, w1))))"

definition caddy_put_back :: "string \<Rightarrow> string \<Rightarrow> world \<Rightarrow> world" where
  "caddy_put_back config_path previous w = snd (caddy_write_atomically config_path previous mode_0644 w)"

definition caddy_remove_file ::
    "caddy_manager \<Rightarrow> string \<Rightarrow> string \<Rightarrow> string \<Rightarrow> string \<Rightarrow> bool \<Rightarrow> world \<Rightarrow> (err + unit) \<times> world" where
  "caddy_remove_file m site_id config_path previous root_previous root_existed w =
     (case glob_ext (cm_sites_dir m) ''.caddy'' w of
        (Inl e, w1) \<Rightarrow>
          (Inl (wrap_err ''list remaining caddy configs'' e), caddy_put_back config_path previous w1)
      | (Inr remaining, w1) \<Rightarrow>
      (case caddy_release_root m root_previous root_existed remaining w1 of
         (Inl e, w2) \<Rightarrow>
           (Inl (wrap_err ''remove managed caddy root import'' e), caddy_put_back config_path previous w2)
       | (Inr root_changed, w2) \<Rightarrow>
           (case caddy_validate m w2 of
              (Inl e, w3) \<Rightarrow>
                (Inl (wrap_err (''validate caddy after removing '' @ site_id) e),
                 caddy_undo_root m root_changed root_previous root_existed (caddy_put_back config_path previous w3))
            | (Inr _, w3) \<Rightarrow>
                (case caddy_reload w3 of
                   (Inl e, w4) \<Rightarrow>
                     (Inl (wrap_err (''reload caddy after removing '' @ site_id) e),
                      snd (caddy_reload (snd (caddy_validate m
                        (caddy_undo_root m root_changed root_previous root_existed
                          (caddy_put_back config_path previous w4))))))
                 | (Inr _, w4) \<Rightarrow> (Inr (), w4)))))"

definition caddy_remove_site :: "caddy_manager \<Rightarrow> string \<Rightarrow> world \<Rightarrow> (err + unit) \<times> world" where
  "caddy_remove_site m site_id w =
     (let file_name = trim_space site_id
      in if file_name = [] then (Inr (), w)
         else
           (case read_if_exists (cm_root_config m) w of
              (Inl e, w1) \<Rightarrow> (Inl (wrap_err ''read caddy root config'' e), w1)
            | (Inr (root_previous, root_existed), w1) \<Rightarrow>
              (let config_path = path_join [cm_sites_dir m, sanitize_token file_name @ ''.caddy'']
               in (case read_if_exists config_path w1 of
                     (Inl e, w2) \<Rightarrow> (Inl e, w2)
                   | (Inr (previous, existed), w2) \<Rightarrow>
                       (if \<not> existed then (Inr (), w2)
                        else if \<not> contains previous caddy_managed_marker then
                          (Inl (sentinel_err ErrManagedAssetConflict
                             (''caddy site config '' @ config_path @ '' is not owned by Lara Nux'')), w2)
                        else
                          (case os_remove config_path w2 of
                             (Inl e, w3) \<Rightarrow>
                               (if errors_is e OsNotExist
                                then caddy_remove_file m site_id config_path previous root_previous root_existed w3
                                else (Inl (wrap_err ''remove caddy site config'' e), w3))
                           | (Inr _, w3) \<Rightarrow>
                               caddy_remove_file m site_id config_path previous root_previous root_existed w3))))))"

end
