(* ===== verification/Quiet_Files.thy ===== *)
theory Quiet_Files
  imports Managed_Files
begin

text \<open>
  Files on a host whose own calls do not fail: when a write through a temporary file is refused,
  and that restoring a backup then succeeds. The rollbacks of all adapters rest on these facts.
\<close>

section \<open>Worlds whose file system does not fail\<close>

text \<open>
  In a quiet world no system call meets a fault of the environment; commands may still fail in
  any way. Calls on missing or unsuitable paths fail as always.
\<close>

definition quiet :: "world \<Rightarrow> bool" where
  "quiet w \<longleftrightarrow> (\<forall>n. o_fault (orc w) n = None)"

lemma quiet_fault: "quiet w \<Longrightarrow> fault w = None"
  by (simp add: quiet_def fault_def)

lemma quiet_orc: "quiet w \<Longrightarrow> orc w' = orc w \<Longrightarrow> quiet w'"
  by (simp add: quiet_def)

section \<open>One managed file\<close>

text \<open>
  A path is settled when a write to it cannot be refused: it holds a file, its directory is one,
  and no leftover stands at the temporary path. A write that succeeds settles its path.
\<close>

definition settled :: "world \<Rightarrow> string \<Rightarrow> bool" where
  "settled w p \<longleftrightarrow> file_at w p \<noteq> None \<and> node_at w (tmp_path p) = None \<and> dir_ok w (path_dir p)"

text \<open>Weaker, and enough for a write: the file may be missing.\<close>

definition writable :: "world \<Rightarrow> string \<Rightarrow> bool" where
  "writable w p \<longleftrightarrow> (case node_at w p of Some (Dir m) \<Rightarrow> False | _ \<Rightarrow> True)
     \<and> node_at w (tmp_path p) = None \<and> dir_ok w (path_dir p)"

lemma settled_writable: "settled w p \<Longrightarrow> writable w p"
  by (auto simp: settled_def writable_def file_at_def split: option.splits node.splits)

lemma path_dir_tmp [simp]: "path_dir (tmp_path p) = path_dir p"
  by (simp add: path_dir_def tmp_path_def)

lemma dir_ok_cong: "node_at w' d = node_at w d \<Longrightarrow> dir_ok w' d = dir_ok w d"
  by (simp add: dir_ok_def)

lemma dir_ok_put_file:
  "dir_ok (put_node p (File m c) w) d \<longleftrightarrow> (if p = d then d = ''/'' \<or> d = ''.'' else dir_ok w d)"
  by (auto simp: dir_ok_def)

lemma os_write_file_settles:
  assumes "fst (os_write_file p d m w) = Inr ()"
  shows "dir_ok (snd (os_write_file p d m w)) (path_dir p)"
    and "\<exists>m'. node_at (snd (os_write_file p d m w)) p = Some (File m' d)"
proof -
  from assms have ok: "dir_ok w (path_dir p)" and nd: "\<forall>m. node_at w p \<noteq> Some (Dir m)"
    by (auto simp: os_write_file_def Let_def split: option.splits node.splits if_splits)
  from os_write_file_Inr [OF assms]
  show "\<exists>m'. node_at (snd (os_write_file p d m w)) p = Some (File m' d)"
    by (rule file_at_SomeD)
  have "path_dir p = p \<Longrightarrow> p = ''/'' \<or> p = ''.''"
    using ok nd by (auto simp: dir_ok_def split: option.splits node.splits)
  with ok show "dir_ok (snd (os_write_file p d m w)) (path_dir p)"
    by (cases "path_dir p = p") (auto simp: dir_ok_def frame_simps)
qed

lemma quiet_write_file:
  "quiet w \<Longrightarrow> fst (os_write_file p d m w) = Inl e \<Longrightarrow> snd (os_write_file p d m w) = next_tick w"
  by (auto simp: os_write_file_def Let_def quiet_def fault_def split: option.splits node.splits if_splits)

lemma quiet_write_file_ok:
  assumes "quiet w" "dir_ok w (path_dir p)"
    and "case node_at w p of None \<Rightarrow> True | Some (File m c) \<Rightarrow> True | _ \<Rightarrow> False"
  shows "fst (os_write_file p d m w) = Inr ()"
  using assms by (auto simp: os_write_file_def Let_def quiet_def fault_def split: option.splits node.splits)

lemma quiet_chmod_file:
  "quiet w \<Longrightarrow> node_at w p = Some (File m c) \<Longrightarrow>
     fst (os_chmod p m' w) = Inr () \<and> node_at (snd (os_chmod p m' w)) p = Some (File m' c)"
  by (auto simp: os_chmod_def quiet_def fault_def)

definition proper_path :: "string \<Rightarrow> bool" where
  "proper_path p \<longleftrightarrow> path_dir p \<noteq> p \<and> path_dir p \<noteq> tmp_path p"

lemma proper_abs_path:
  assumes "\<forall>p \<in> set ps. segment p" "segment n"
  shows "proper_path (abs_path (ps @ [n]))"
proof -
  have len: "length (abs_path ps) < length (abs_path (ps @ [n]))"
    using segmentD(1) [OF assms(2)] by (cases "ps = []") (simp_all add: abs_path_snoc, simp add: abs_path_def)
  then have "length (abs_path ps) < length (tmp_path (abs_path (ps @ [n])))"
    by (simp add: tmp_path_def)
  with len show ?thesis by (auto simp: proper_path_def dir_abs_path [OF assms])
qed

lemma settled_cong:
  assumes "node_at w' p = node_at w p" "node_at w' (tmp_path p) = node_at w (tmp_path p)"
    and "node_at w' (path_dir p) = node_at w (path_dir p)"
  shows "settled w' p = settled w p"
  using assms by (simp add: settled_def file_at_def dir_ok_def)

lemma writable_cong:
  assumes "node_at w' p = node_at w p" "node_at w' (tmp_path p) = node_at w (tmp_path p)"
    and "node_at w' (path_dir p) = node_at w (path_dir p)"
  shows "writable w' p = writable w p"
  using assms by (simp add: writable_def dir_ok_def)


section \<open>Writing and restoring in a quiet world\<close>

lemma quiet_write_atomically_cases:
  assumes q: "quiet w" and proper: "proper_path p"
  obtains (refused) e where "fst (write_atomically p c m w) = Inl e"
      "\<And>x. x \<noteq> tmp_path p \<Longrightarrow> node_at (snd (write_atomically p c m w)) x = node_at w x"
      "\<not> writable w p"
  | (written) "fst (write_atomically p c m w) = Inr ()"
      "file_at (snd (write_atomically p c m w)) p = Some c"
      "settled (snd (write_atomically p c m w)) p"
proof (cases "fst (os_write_file (tmp_path p) c m w)")
  case (Inl e)
  with q have "snd (os_write_file (tmp_path p) c m w) = next_tick w" by (rule quiet_write_file)
  moreover have "\<not> writable w p"
    using quiet_write_file_ok [OF q, of "tmp_path p" c m] Inl by (auto simp: writable_def)
  ultimately show ?thesis
    using Inl by (intro refused [of e]) (simp_all add: write_atomically_def split_beta)
next
  case (Inr u)
  define w1 where "w1 = snd (os_write_file (tmp_path p) c m w)"
  from Inr have u: "fst (os_write_file (tmp_path p) c m w) = Inr ()" by simp
  have q1: "quiet w1" by (rule quiet_orc [OF q]) (simp add: w1_def frame_simps)
  have f1: "\<And>x. x \<noteq> tmp_path p \<Longrightarrow> node_at w1 x = node_at w x" by (simp add: w1_def frame_simps)
  obtain m1 where n1: "node_at w1 (tmp_path p) = Some (File m1 c)"
    using os_write_file_settles(2) [OF u] by (auto simp: w1_def)
  have d1: "dir_ok w1 (path_dir p)" using os_write_file_settles(1) [OF u] by (simp add: w1_def)
  define w2 where "w2 = snd (os_rename (tmp_path p) p w1)"
  have dn: "path_dir p \<noteq> p" "path_dir p \<noteq> tmp_path p" using proper by (simp_all add: proper_path_def)
  have unf: "write_atomically p c m w = os_rename (tmp_path p) p w1"
    using u by (simp add: write_atomically_def split_beta w1_def)
  show ?thesis
  proof (cases "fst (os_rename (tmp_path p) p w1)")
    case (Inl e)
    have "\<exists>m. node_at w1 p = Some (Dir m)"
      using Inl n1 d1 quiet_fault [OF q1]
      by (auto simp: os_rename_def Let_def split: option.splits node.splits if_splits)
    then have "\<not> writable w p" using f1 [of p] by (auto simp: writable_def)
    with Inl os_rename_Inl [OF Inl] show ?thesis
      by (intro refused [of e]) (simp_all add: unf frame_simps f1)
  next
    case (Inr u')
    then have r: "fst (os_rename (tmp_path p) p w1) = Inr ()" by simp
    have n2: "node_at w2 p = Some (File m1 c)" "node_at w2 (tmp_path p) = None"
      using os_rename_Inr [OF r] n1 by (simp_all add: w2_def)
    have d2: "dir_ok w2 (path_dir p)" using d1 dn dir_ok_cong [of w2 "path_dir p" w1]
      by (simp add: w2_def frame_simps)
    from n2 d2 r show ?thesis
      by (intro written) (simp_all add: unf w2_def [symmetric] settled_def file_at_def)
  qed
qed

lemma quiet_restore_settled:
  assumes q: "quiet w" and pp: "proper_path p" and st: "settled w p"
  shows "file_at (snd (restore_file p d b m w)) p = (if b then Some d else None)"
proof (cases b)
  case True
  show ?thesis
  proof (rule quiet_write_atomically_cases [OF q pp, of d m])
    assume "\<not> writable w p"
    with settled_writable [OF st] show ?thesis by simp
  next
    assume "file_at (snd (write_atomically p d m w)) p = Some d"
    with True show ?thesis by (simp add: restore_file_def)
  qed
next
  case False
  obtain m' c' where "node_at w p = Some (File m' c')"
    using st by (auto simp: settled_def dest: file_at_SomeD)
  with quiet_fault [OF q] have "os_remove p w = (Inr (), next_tick (del_node p w))"
    by (simp add: os_remove_def)
  with False show ?thesis by (simp add: restore_file_def)
qed

text \<open>What a backup says of the file: its content, or that there was none.\<close>

definition backup :: "string \<Rightarrow> bool \<Rightarrow> string option" where
  "backup previous existed = (if existed then Some previous else None)"

lemma read_if_exists_is_backup:
  "quiet w \<Longrightarrow> fst (read_if_exists p w) = Inr (c, b) \<Longrightarrow> backup c b = file_at w p"
  by (cases b)
     (auto simp: backup_def file_at_None dest!: quiet_fault read_if_exists_True
        dest: read_if_exists_False)

lemma file_frames [frame_simps]:
  "q \<noteq> p \<Longrightarrow> q \<noteq> tmp_path p \<Longrightarrow> file_at (snd (write_atomically p d m w)) q = file_at w q"
  "q \<noteq> p \<Longrightarrow> q \<noteq> tmp_path p \<Longrightarrow> file_at (snd (restore_file p d b m w)) q = file_at w q"
  by (simp_all add: file_at_def frame_simps)

end
