(* ===== verification/Caddy_Transactions.thy ===== *)
theory Caddy_Transactions
  imports Caddy_Manager Quiet_Files
begin

text \<open>
  What the Caddy operations do to the files: which paths they can touch at all, what a
  successful activation leaves, and that a refused change is undone.
\<close>

section \<open>Frames\<close>

lemma caddy_write_frame [frame_simps]:
  "orc (snd (caddy_write_atomically p d m w)) = orc w"
  "calls (snd (caddy_write_atomically p d m w)) = calls w"
  "q \<noteq> p \<Longrightarrow> q \<noteq> tmp_path p \<Longrightarrow> node_at (snd (caddy_write_atomically p d m w)) q = node_at w q"
  by (simp_all add: caddy_write_atomically_def split_beta frame_simps split: sum.split)

lemma caddy_restore_frame [frame_simps]:
  "orc (snd (caddy_restore_file p d b m w)) = orc w"
  "calls (snd (caddy_restore_file p d b m w)) = calls w"
  "q \<noteq> p \<Longrightarrow> q \<noteq> tmp_path p \<Longrightarrow> node_at (snd (caddy_restore_file p d b m w)) q = node_at w q"
  by (simp_all add: caddy_restore_file_def split_beta frame_simps split: sum.split)

lemma ensure_dir_frame [frame_simps]:
  "orc (snd (ensure_dir_mode p m w)) = orc w"
  "calls (snd (ensure_dir_mode p m w)) = calls w"
  "file_at (snd (ensure_dir_mode p m w)) q = file_at w q"
  "q \<noteq> p \<Longrightarrow> q \<notin> set (dir_chain p) \<Longrightarrow> node_at (snd (ensure_dir_mode p m w)) q = node_at w q"
  by (simp_all add: ensure_dir_mode_def split_beta frame_simps split: sum.split)

lemma validate_frame [frame_simps]:
  "orc (snd (caddy_validate m w)) = orc w" "node_at (snd (caddy_validate m w)) q = node_at w q"
  "file_at (snd (caddy_validate m w)) q = file_at w q"
  by (simp_all add: caddy_validate_def split_beta split: option.split)

lemma reload_frame [frame_simps]:
  "orc (snd (caddy_reload w)) = orc w" "node_at (snd (caddy_reload w)) q = node_at w q"
  "file_at (snd (caddy_reload w)) q = file_at w q"
  by (simp_all add: caddy_reload_def split_beta split: option.split)

section \<open>One managed file\<close>

text \<open>The whole write, in a quiet world, by cases on what it answers.\<close>

lemma caddy_write_cases:
  assumes q: "quiet w" and proper: "proper_path p"
  obtains (refused) e where "fst (caddy_write_atomically p c m w) = Inl e"
      "\<And>x. x \<noteq> tmp_path p \<Longrightarrow> node_at (snd (caddy_write_atomically p c m w)) x = node_at w x"
      "\<not> writable w p"
  | (written) "fst (caddy_write_atomically p c m w) = Inr ()"
      "node_at (snd (caddy_write_atomically p c m w)) p = Some (File m c)"
      "settled (snd (caddy_write_atomically p c m w)) p"
proof (cases "fst (os_write_file (tmp_path p) c m w)")
  case (Inl e)
  with q have "snd (os_write_file (tmp_path p) c m w) = next_tick w" by (rule quiet_write_file)
  moreover have "\<not> writable w p"
    using quiet_write_file_ok [OF q, of "tmp_path p" c m] Inl by (auto simp: writable_def)
  ultimately show ?thesis
    using Inl by (intro refused [of e]) (simp_all add: caddy_write_atomically_def split_beta)
next
  case (Inr u)
  define w1 where "w1 = snd (os_write_file (tmp_path p) c m w)"
  from Inr have u: "fst (os_write_file (tmp_path p) c m w) = Inr ()" by simp
  have q1: "quiet w1" by (rule quiet_orc [OF q]) (simp add: w1_def frame_simps)
  have f1: "\<And>x. x \<noteq> tmp_path p \<Longrightarrow> node_at w1 x = node_at w x" by (simp add: w1_def frame_simps)
  obtain m1 where n1: "node_at w1 (tmp_path p) = Some (File m1 c)"
    using os_write_file_settles(2) [OF u] by (auto simp: w1_def)
  have d1: "dir_ok w1 (path_dir p)" using os_write_file_settles(1) [OF u] by (simp add: w1_def)
  define w2 where "w2 = snd (os_chmod (tmp_path p) m w1)"
  have dn: "path_dir p \<noteq> p" "path_dir p \<noteq> tmp_path p" using proper by (simp_all add: proper_path_def)
  have c2: "fst (os_chmod (tmp_path p) m w1) = Inr ()"
    and n2: "node_at w2 (tmp_path p) = Some (File m c)"
    using quiet_chmod_file [OF q1 n1] by (simp_all add: w2_def)
  have q2: "quiet w2" by (rule quiet_orc [OF q1]) (simp add: w2_def frame_simps)
  have f2: "\<And>x. x \<noteq> tmp_path p \<Longrightarrow> node_at w2 x = node_at w x" by (simp add: w2_def frame_simps f1)
  have d2: "dir_ok w2 (path_dir p)"
    using d1 dn dir_ok_cong [of w2 "path_dir p" w1] by (simp add: w2_def frame_simps)
  define w3 where "w3 = snd (os_rename (tmp_path p) p w2)"
  have unf: "caddy_write_atomically p c m w = (case os_rename (tmp_path p) p w2 of
      (Inl e, w3) \<Rightarrow> (Inl e, snd (os_remove (tmp_path p) w3)) | (Inr _, w3) \<Rightarrow> os_chmod p m w3)"
    using u c2 by (simp add: caddy_write_atomically_def split_beta w1_def w2_def)
  show ?thesis
  proof (cases "fst (os_rename (tmp_path p) p w2)")
    case (Inl e)
    have "\<exists>m. node_at w2 p = Some (Dir m)"
      using Inl n2 d2 quiet_fault [OF q2]
      by (auto simp: os_rename_def Let_def split: option.splits node.splits if_splits)
    then have "\<not> writable w p" using f2 [of p] by (auto simp: writable_def)
    with Inl os_rename_Inl [OF Inl] show ?thesis
      by (intro refused [of e]) (simp_all add: unf split_beta frame_simps f2)
  next
    case (Inr u')
    then have r: "fst (os_rename (tmp_path p) p w2) = Inr ()" by simp
    have n3: "node_at w3 p = Some (File m c)" "node_at w3 (tmp_path p) = None"
      using os_rename_Inr [OF r] n2 by (simp_all add: w3_def)
    have q3: "quiet w3" by (rule quiet_orc [OF q2]) (simp add: w3_def frame_simps)
    have d3: "dir_ok w3 (path_dir p)" using d2 dn dir_ok_cong [of w3 "path_dir p" w2]
      by (simp add: w3_def frame_simps)
    have n4: "fst (os_chmod p m w3) = Inr ()" "node_at (snd (os_chmod p m w3)) p = Some (File m c)"
      using quiet_chmod_file [OF q3 n3(1)] by simp_all
    have "dir_ok (snd (os_chmod p m w3)) (path_dir p)"
      using d3 dn dir_ok_cong [of "snd (os_chmod p m w3)" "path_dir p" w3] by (simp add: frame_simps)
    with n3 n4 show ?thesis
      by (intro written) (simp_all add: unf r split_beta w3_def [symmetric] settled_def frame_simps file_at_def)
  qed
qed

lemma caddy_restore_settled:
  assumes q: "quiet w" and pp: "proper_path p" and st: "settled w p"
  shows "file_at (snd (caddy_restore_file p d b m w)) p = (if b then Some d else None)"
proof (cases b)
  case True
  show ?thesis
  proof (rule caddy_write_cases [OF q pp, of d m])
    assume "\<not> writable w p"
    with settled_writable [OF st] show ?thesis by simp
  next
    assume "node_at (snd (caddy_write_atomically p d m w)) p = Some (File m d)"
    with True show ?thesis by (simp add: caddy_restore_file_def file_at_def)
  qed
next
  case False
  obtain m' c' where "node_at w p = Some (File m' c')"
    using st by (auto simp: settled_def dest: file_at_SomeD)
  with quiet_fault [OF q] have "os_remove p w = (Inr (), next_tick (del_node p w))"
    by (simp add: os_remove_def)
  with False show ?thesis by (simp add: caddy_restore_file_def)
qed

section \<open>An activation that is refused\<close>

text \<open>
  The layout the undo steps rely on: the root Caddyfile, the site's file and their temporary
  files are four paths, none of them a directory of another or of the sites directory.
\<close>

definition caddy_layout :: "caddy_manager \<Rightarrow> string \<Rightarrow> bool" where
  "caddy_layout m cfg \<longleftrightarrow>
     (let root = cm_root_config m; dirs = path_dir root # dir_chain (path_dir root)
        @ path_dir (cm_sites_dir m) # cm_sites_dir m
        # path_dir cfg # dir_chain (path_dir (cm_sites_dir m)) @ dir_chain (cm_sites_dir m)
      in proper_path root \<and> proper_path cfg \<and> distinct [root, tmp_path root, cfg, tmp_path cfg]
       \<and> tmp_path root \<notin> set dirs \<and> cfg \<notin> set dirs \<and> tmp_path cfg \<notin> set dirs
       \<and> root \<noteq> path_dir cfg)"

lemma caddy_layoutD:
  assumes "caddy_layout m cfg"
  shows "proper_path (cm_root_config m)" "proper_path cfg"
    "cfg \<noteq> cm_root_config m" "cm_root_config m \<noteq> cfg" "cfg \<noteq> tmp_path (cm_root_config m)"
    "tmp_path (cm_root_config m) \<noteq> cfg"
    "tmp_path cfg \<noteq> cm_root_config m" "cm_root_config m \<noteq> tmp_path cfg"
    "tmp_path (cm_root_config m) \<notin> set (dir_chain (cm_sites_dir m))"
    "tmp_path (cm_root_config m) \<notin> set (dir_chain (path_dir (cm_sites_dir m)))"
    "tmp_path (cm_root_config m) \<noteq> cm_sites_dir m"
    "tmp_path (cm_root_config m) \<noteq> path_dir (cm_sites_dir m)"
    "path_dir (cm_root_config m) \<noteq> cfg" "path_dir (cm_root_config m) \<noteq> tmp_path cfg"
    "path_dir cfg \<noteq> cm_root_config m" "path_dir cfg \<noteq> tmp_path (cm_root_config m)"
  using assms by (auto simp: caddy_layout_def Let_def)

lemma dir_ok_ensure_dir: "dir_ok w d \<Longrightarrow> dir_ok (snd (ensure_dir_mode p m w)) d"
proof -
  assume d: "dir_ok w d"
  then have "dir_ok (snd (os_mkdir_all p m w)) d"
    using os_mkdir_all_frame(3) [of w d p m] by (auto simp: dir_ok_def split: option.splits)
  moreover have "dir_ok v d \<Longrightarrow> dir_ok (snd (os_chmod p m v)) d" for v
    by (auto simp: dir_ok_def os_chmod_def split: option.splits node.splits)
  ultimately show ?thesis using d
    by (simp add: ensure_dir_mode_def split_beta split: sum.split)
qed

lemma settled_ensure_dir:
  assumes "settled w p" "tmp_path p \<noteq> d" "tmp_path p \<notin> set (dir_chain d)"
  shows "settled (snd (ensure_dir_mode d m w)) p"
  using assms dir_ok_ensure_dir [of w "path_dir p" d m]
  by (simp add: settled_def frame_simps)

text \<open>What the undo of the root Caddyfile needs: it can be restored, or was never changed.\<close>

definition root_undoable :: "caddy_manager \<Rightarrow> bool \<Rightarrow> string option \<Rightarrow> world \<Rightarrow> bool" where
  "root_undoable m changed old w \<longleftrightarrow>
     (if changed then settled w (cm_root_config m) else file_at w (cm_root_config m) = old)"

lemma caddy_undo_root_frame [frame_simps]:
  "orc (caddy_undo_root m c p b w) = orc w"
  "q \<noteq> cm_root_config m \<Longrightarrow> q \<noteq> tmp_path (cm_root_config m) \<Longrightarrow>
     node_at (caddy_undo_root m c p b w) q = node_at w q"
  by (simp_all add: caddy_undo_root_def frame_simps)

lemma caddy_undo_root_file:
  assumes "quiet w" "proper_path (cm_root_config m)" "root_undoable m c (backup p b) w"
    and "q \<noteq> tmp_path (cm_root_config m)"
  shows "file_at (caddy_undo_root m c p b w) q
    = (if q = cm_root_config m then backup p b else file_at w q)"
proof (cases "q = cm_root_config m")
  case True
  with assms show ?thesis
    by (auto simp: caddy_undo_root_def root_undoable_def backup_def caddy_restore_settled)
next
  case False
  with assms(4) have "node_at (caddy_undo_root m c p b w) q = node_at w q"
    by (simp add: frame_simps)
  from file_at_cong [OF this] False show ?thesis by simp
qed

lemma root_undoable_cong:
  assumes "node_at w' (cm_root_config m) = node_at w (cm_root_config m)"
    and "node_at w' (tmp_path (cm_root_config m)) = node_at w (tmp_path (cm_root_config m))"
    and "node_at w' (path_dir (cm_root_config m)) = node_at w (path_dir (cm_root_config m))"
  shows "root_undoable m c old w' = root_undoable m c old w"
  using settled_cong [OF assms] assms(1) by (simp add: root_undoable_def file_at_def)

lemma root_undoable_ensure_dir:
  "root_undoable m c old w \<Longrightarrow> tmp_path (cm_root_config m) \<noteq> d \<Longrightarrow>
     tmp_path (cm_root_config m) \<notin> set (dir_chain d) \<Longrightarrow>
     root_undoable m c old (snd (ensure_dir_mode d md w))"
  by (auto simp: root_undoable_def settled_ensure_dir frame_simps)

text \<open>The steps after the site's file is written: a refused validation or reload puts both files back.\<close>

lemma caddy_apply_rolls_back:
  assumes lay: "caddy_layout m cfg" and cfg: "cfg = caddy_config_path m site"
    and q: "quiet w" and st: "settled w cfg" and ru: "root_undoable m c (backup rp rb) w"
    and res: "caddy_apply_site m site (caddy_undo_root m c rp rb) previous existed w = (Inl e, w')"
    and x: "x \<noteq> tmp_path (cm_root_config m)" "x \<noteq> tmp_path cfg"
  shows "file_at w' x = (if x = cm_root_config m then backup rp rb
    else if x = cfg then backup previous existed else file_at w x)"
proof -
  note L = caddy_layoutD [OF lay]
  let ?root = "cm_root_config m"
  define undone where "undone v = caddy_undo_root m c rp rb (snd (caddy_restore_file cfg previous existed mode_0644 v))" for v
  have core: "file_at (undone v) x = (if x = ?root then backup rp rb
      else if x = cfg then backup previous existed else file_at v x)"
    if v: "quiet v" "settled v cfg" "root_undoable m c (backup rp rb) v" for v
  proof -
    let ?v' = "snd (caddy_restore_file cfg previous existed mode_0644 v)"
    have "root_undoable m c (backup rp rb) ?v'"
      using v(3) L root_undoable_cong [of ?v' m v] by (simp add: frame_simps)
    moreover have "quiet ?v'" by (rule quiet_orc [OF v(1)]) (simp add: frame_simps)
    ultimately have "file_at (undone v) x = (if x = ?root then backup rp rb else file_at ?v' x)"
      unfolding undone_def by (intro caddy_undo_root_file L(1) x(1))
    moreover have "file_at ?v' cfg = backup previous existed"
      using caddy_restore_settled [OF v(1) L(2) v(2)] by (simp add: backup_def)
    moreover have "x \<noteq> cfg \<Longrightarrow> file_at ?v' x = file_at v x"
      by (rule file_at_cong) (use x(2) in \<open>simp add: frame_simps\<close>)
    ultimately show ?thesis by simp
  qed
  have stable: "quiet v" "settled v cfg" "root_undoable m c (backup rp rb) v"
    if "orc v = orc w" "\<And>y. node_at v y = node_at w y" for v
    using quiet_orc [OF q that(1)] st ru settled_cong [of v cfg w] root_undoable_cong [of v m w] that(2)
    by simp_all
  let ?w1 = "snd (caddy_validate m w)"
  let ?w2 = "snd (caddy_reload ?w1)"
  have w1: "orc ?w1 = orc w" "\<And>y. node_at ?w1 y = node_at w y" "file_at ?w1 x = file_at w x"
    and w2: "orc ?w2 = orc w" "\<And>y. node_at ?w2 y = node_at w y" "file_at ?w2 x = file_at w x"
    by (simp_all add: frame_simps)
  have "file_at w' x = file_at (undone ?w1) x \<or> file_at w' x = file_at (undone ?w2) x"
    using res
    by (auto simp: caddy_apply_site_def split_beta undone_def cfg Let_def frame_simps split: sum.splits)
  then show ?thesis using core [OF stable [OF w1(1,2)]] core [OF stable [OF w2(1,2)]] w1(3) w2(3) by auto
qed

lemma caddy_make_site_dirs_frame [frame_simps]:
  "orc (snd (caddy_make_site_dirs m w)) = orc w"
  "calls (snd (caddy_make_site_dirs m w)) = calls w"
  "file_at (snd (caddy_make_site_dirs m w)) q = file_at w q"
  by (simp_all add: caddy_make_site_dirs_def split_beta frame_simps split: sum.split)

lemma root_undoable_make_site_dirs:
  "caddy_layout m cfg \<Longrightarrow> root_undoable m c old w \<Longrightarrow>
     root_undoable m c old (snd (caddy_make_site_dirs m w))"
  by (auto simp: caddy_make_site_dirs_def split_beta intro!: root_undoable_ensure_dir
      dest: caddy_layoutD split: sum.split)

lemma caddy_install_rolls_back:
  assumes lay: "caddy_layout m cfg" and cfg: "cfg = caddy_config_path m site"
    and q: "quiet w" and ru: "root_undoable m c (backup rp rb) w"
    and res: "caddy_install_site m site (caddy_undo_root m c rp rb) w = (Inl e, w')"
    and x: "x \<noteq> tmp_path (cm_root_config m)" "x \<noteq> tmp_path cfg"
  shows "file_at w' x = (if x = cm_root_config m then backup rp rb else file_at w x)"
proof -
  note L = caddy_layoutD [OF lay]
  let ?undo = "caddy_undo_root m c rp rb" and ?content = "render_site_config site"
  have undo: "file_at (?undo v) x = (if x = cm_root_config m then backup rp rb else file_at w x)"
    if "orc v = orc w" "root_undoable m c (backup rp rb) v" "file_at v x = file_at w x" for v
    using caddy_undo_root_file [OF quiet_orc [OF q that(1)] L(1) that(2) x(1)] that(3) by simp
  define w2 where "w2 = snd (caddy_make_site_dirs m (next_tick w))"
  define w3 where "w3 = snd (caddy_write_atomically cfg ?content mode_0644 w2)"
  have ru1: "root_undoable m c (backup rp rb) (next_tick w)"
    using ru root_undoable_cong [of "next_tick w" m w] by simp
  have w2: "orc w2 = orc w" "\<And>y. file_at w2 y = file_at w y" "root_undoable m c (backup rp rb) w2"
    using root_undoable_make_site_dirs [OF lay ru1] by (simp_all add: w2_def frame_simps)
  have w3: "orc w3 = orc w" "root_undoable m c (backup rp rb) w3"
    using w2 L root_undoable_cong [of w3 m w2] by (simp_all add: w3_def frame_simps)
  have q2: "quiet w2" and q3: "quiet w3" using quiet_orc [OF q] w2(1) w3(1) by auto
  from res cfg consider
      (early) v where "w' = ?undo v" "v = next_tick w \<or> v = w2"
    | (wrote) previous existed where "fst (read_if_exists cfg w) = Inr (previous, existed)"
        "(case caddy_write_atomically cfg ?content mode_0644 w2 of
            (Inl e, v) \<Rightarrow> (Inl (wrap_err ''write caddy site config'' e), ?undo v)
          | (Inr _, v) \<Rightarrow> caddy_apply_site m site ?undo previous existed v) = (Inl e, w')"
    by (auto simp: caddy_install_site_def Let_def split_beta w2_def split: sum.splits)
  then show ?thesis
  proof cases
    case early
    then show ?thesis using undo [of v] ru1 w2 by auto
  next
    case wrote
    show ?thesis
    proof (rule caddy_write_cases [OF q2 L(2), of ?content mode_0644])
      fix e4
      assume r: "fst (caddy_write_atomically cfg ?content mode_0644 w2) = Inl e4"
        and same: "\<And>x. x \<noteq> tmp_path cfg \<Longrightarrow>
          node_at (snd (caddy_write_atomically cfg ?content mode_0644 w2)) x = node_at w2 x"
      from r wrote(2) have "w' = ?undo w3" by (simp add: w3_def split_beta)
      with undo [OF w3] file_at_cong [OF same [OF x(2)]] w2(2) show ?thesis by (simp add: w3_def)
    next
      assume r: "fst (caddy_write_atomically cfg ?content mode_0644 w2) = Inr ()"
        and st: "settled (snd (caddy_write_atomically cfg ?content mode_0644 w2)) cfg"
      from r wrote(2) have "caddy_apply_site m site ?undo previous existed w3 = (Inl e, w')"
        by (simp add: w3_def split_beta)
      from caddy_apply_rolls_back [OF lay cfg q3 st [folded w3_def] w3(2) this x]
      show ?thesis
        using read_if_exists_is_backup [OF q wrote(1)] file_at_cong [of w3 x w2] x(2) w2(2)
        by (auto simp: w3_def frame_simps)
    qed
  qed
qed

text \<open>The file an activation writes, from the site as the caller gives it.\<close>

definition caddy_target :: "caddy_manager \<Rightarrow> web_site \<Rightarrow> string" where
  "caddy_target m site = caddy_config_path m
     (site\<lparr>ws_id := sanitize_token (first_non_empty [ws_id site, ws_domain site]),
           ws_domain := to_lower (trim_space (ws_domain site))\<rparr>)"

lemma normalize_site_frame [frame_simps]:
  "orc (snd (normalize_site s w)) = orc w" "calls (snd (normalize_site s w)) = calls w"
  "node_at (snd (normalize_site s w)) q = node_at w q" "file_at (snd (normalize_site s w)) q = file_at w q"
  by (simp_all add: normalize_site_def Let_def split_beta split: sum.split)

lemma normalize_site_Inr:
  assumes "fst (normalize_site s w) = Inr site"
  shows "ws_id site = sanitize_token (first_non_empty [ws_id s, ws_domain s])"
    "ws_domain site = to_lower (trim_space (ws_domain s))"
    "caddy_config_path m site = caddy_target m s"
  using assms
  by (auto simp: normalize_site_def Let_def split_beta caddy_target_def caddy_config_path_def
      site_filename_def split: if_splits sum.splits)

lemma caddy_ensure_root_frame [frame_simps]:
  "orc (snd (caddy_ensure_root m p b w)) = orc w"
  "calls (snd (caddy_ensure_root m p b w)) = calls w"
  "q \<noteq> cm_root_config m \<Longrightarrow> q \<noteq> tmp_path (cm_root_config m) \<Longrightarrow>
     file_at (snd (caddy_ensure_root m p b w)) q = file_at w q"
  using file_at_cong [OF caddy_write_frame(3) [of q "cm_root_config m"]]
  by (auto simp: caddy_ensure_root_def split_beta frame_simps split: sum.split bool.split)

lemma caddy_ensure_root_cases:
  assumes q: "quiet w" and pp: "proper_path (cm_root_config m)"
    and x: "x \<noteq> tmp_path (cm_root_config m)"
  shows "case caddy_ensure_root m p b w of
      (Inl e, w') \<Rightarrow> file_at w' x = file_at w x
    | (Inr c, w') \<Rightarrow> root_undoable m c (file_at w (cm_root_config m)) w'"
proof -
  let ?root = "cm_root_config m"
  let ?next = "fst (ensure_managed_root_import p b)"
  define w1 where "w1 = snd (ensure_dir_mode (path_dir ?root) mode_0755 w)"
  have q1: "quiet w1" by (rule quiet_orc [OF q]) (simp add: w1_def frame_simps)
  have f1: "file_at w1 y = file_at w y" for y by (simp add: w1_def frame_simps)
  show ?thesis
  proof (rule caddy_write_cases [OF q1 pp, of ?next mode_0644])
    fix e
    assume "fst (caddy_write_atomically ?root ?next mode_0644 w1) = Inl e"
      and same: "\<And>x. x \<noteq> tmp_path ?root \<Longrightarrow>
        node_at (snd (caddy_write_atomically ?root ?next mode_0644 w1)) x = node_at w1 x"
    with file_at_cong [OF same [OF x]] f1 show ?thesis
      by (auto simp: caddy_ensure_root_def split_beta w1_def [symmetric] root_undoable_def
          split: sum.split bool.split)
  next
    assume "fst (caddy_write_atomically ?root ?next mode_0644 w1) = Inr ()"
      and "settled (snd (caddy_write_atomically ?root ?next mode_0644 w1)) ?root"
    with f1 show ?thesis
      by (auto simp: caddy_ensure_root_def split_beta w1_def [symmetric] root_undoable_def
          split: sum.split bool.split)
  qed
qed

lemma caddy_activate_undone:
  assumes lay: "caddy_layout m (caddy_target m site)" and q: "quiet w"
    and res: "caddy_activate_site m site w = (Inl e, w')"
    and x: "x \<noteq> tmp_path (cm_root_config m)" "x \<noteq> tmp_path (caddy_target m site)"
  shows "file_at w' x = file_at w x"
proof -
  note L = caddy_layoutD [OF lay]
  let ?root = "cm_root_config m"
  define w1 where "w1 = snd (normalize_site site w)"
  define w2 where "w2 = next_tick w1"
  have w1: "orc w1 = orc w" "\<And>y. file_at w1 y = file_at w y" by (simp_all add: w1_def frame_simps)
  have w2: "orc w2 = orc w" "\<And>y. file_at w2 y = file_at w y" by (simp_all add: w2_def w1)
  have q1: "quiet w1" and q2: "quiet w2" using quiet_orc [OF q] w1(1) w2(1) by auto
  from res consider (early) "w' = w1 \<or> w' = w2"
    | (root) site' p b where "fst (normalize_site site w) = Inr site'"
        "fst (read_if_exists ?root w1) = Inr (p, b)"
        "(case caddy_ensure_root m p b w2 of (Inl e, v) \<Rightarrow> (Inl e, v)
          | (Inr c, v) \<Rightarrow> caddy_install_site m site' (caddy_undo_root m c p b) v) = (Inl e, w')"
    by (auto simp: caddy_activate_site_def split_beta w1_def w2_def split: sum.splits)
  then show ?thesis
  proof cases
    case early
    then show ?thesis using w1 w2 by auto
  next
    case root
    note backup = read_if_exists_is_backup [OF q1 root(2)]
    note cases = caddy_ensure_root_cases [OF q2 L(1) x(1), of p b]
    show ?thesis
    proof (cases "fst (caddy_ensure_root m p b w2)")
      case (Inl e1)
      with root(3) cases w2 show ?thesis by (auto simp: split_beta)
    next
      case (Inr c)
      define w3 where "w3 = snd (caddy_ensure_root m p b w2)"
      have inst: "caddy_install_site m site' (caddy_undo_root m c p b) w3 = (Inl e, w')"
        using root(3) Inr by (simp add: split_beta w3_def)
      have q3: "quiet w3" by (rule quiet_orc [OF q2]) (simp add: w3_def frame_simps)
      have ru: "root_undoable m c (backup p b) w3"
        using cases Inr backup w1(2) w2(2) by (simp add: split_beta w3_def)
      have "x \<noteq> ?root \<Longrightarrow> file_at w3 x = file_at w x" using x(1) w2(2) by (simp add: w3_def frame_simps)
      with caddy_install_rolls_back [OF lay normalize_site_Inr(3) [OF root(1), symmetric] q3 ru inst x]
        backup w1(2) show ?thesis by auto
    qed
  qed
qed

end
