(* ===== verification/Caddy_Text.thy ===== *)
theory Caddy_Text
  imports Caddy_Manager
begin

text \<open>
  The text side of the Caddy adapter: what a site identifier becomes as a file name, and what
  adding and removing the managed import does to the user's root Caddyfile.
\<close>

section \<open>Collapsing dashes\<close>

text \<open>The reference for the loop: every run of dashes becomes one dash, in one pass.\<close>

fun squeeze_dashes :: "string \<Rightarrow> string" where
  "squeeze_dashes [] = []"
| "squeeze_dashes [c] = [c]"
| "squeeze_dashes (c # d # s) =
     (if c = CHR ''-'' \<and> d = CHR ''-'' then squeeze_dashes (d # s) else c # squeeze_dashes (d # s))"

lemma squeeze_id: "\<not> contains s ''--'' \<Longrightarrow> squeeze_dashes s = s"
  by (induction s rule: squeeze_dashes.induct) (auto simp: has_prefix_def)

lemma hd_squeeze: "s \<noteq> [] \<Longrightarrow> squeeze_dashes s \<noteq> [] \<and> hd (squeeze_dashes s) = hd s"
  by (induction s rule: squeeze_dashes.induct) auto

lemma squeeze_Cons:
  "squeeze_dashes (c # s) =
     (if c = CHR ''-'' \<and> s \<noteq> [] \<and> hd s = CHR ''-'' then squeeze_dashes s else c # squeeze_dashes s)"
  by (cases s) auto

lemma replace_dd_hd:
  "s \<noteq> [] \<Longrightarrow> replace_all ''--'' ''-'' s \<noteq> [] \<and> hd (replace_all ''--'' ''-'' s) = hd s"
  by (subst (1 2) replace_all.simps) (auto simp: has_prefix_iff)

lemma replace_dd_Cons: "c \<noteq> CHR ''-'' \<or> s = [] \<or> hd s \<noteq> CHR ''-'' \<Longrightarrow>
    replace_all ''--'' ''-'' (c # s) = c # replace_all ''--'' ''-'' s"
  by (rule replace_all_miss) (cases s, auto simp: has_prefix_def)

lemma replace_dd_dd: "replace_all ''--'' ''-'' (CHR ''-'' # CHR ''-'' # s) = CHR ''-'' # replace_all ''--'' ''-'' s"
  using replace_all_hit [of "''--''" "''-''" s] by simp

lemma squeeze_replace: "squeeze_dashes (replace_all ''--'' ''-'' s) = squeeze_dashes s"
proof (induction "length s" arbitrary: s rule: less_induct)
  case less
  show ?case
  proof (cases s)
    case (Cons c t)
    show ?thesis
    proof (cases "c = CHR ''-'' \<and> t \<noteq> [] \<and> hd t = CHR ''-''")
      case True
      then obtain u where t: "t = CHR ''-'' # u" by (cases t) auto
      with less [of u] Cons True replace_dd_hd [of u] show ?thesis
        by (cases "u = []") (simp_all add: replace_dd_dd squeeze_Cons [of "CHR ''-''"])
    next
      case False
      then have "replace_all ''--'' ''-'' s = c # replace_all ''--'' ''-'' t"
        using Cons replace_dd_Cons [of c t] by auto
      with less [of t] Cons False replace_dd_hd [of t] show ?thesis
        by (cases "t = []") (auto simp: squeeze_Cons [of c])
    qed
  qed simp
qed

lemma collapse_eq_squeeze: "collapse_dashes s = squeeze_dashes s"
proof (induction s rule: collapse_dashes.induct)
  case (1 s)
  then show ?case by (subst collapse_dashes.simps) (simp add: squeeze_replace squeeze_id)
qed

lemma set_squeeze: "set (squeeze_dashes s) = set s"
  by (induction s rule: squeeze_dashes.induct) auto

lemma squeeze_no_dd: "\<not> contains (squeeze_dashes s) ''--''"
proof (induction s)
  case (Cons c s)
  have "has_prefix (c # squeeze_dashes s) ''--'' \<Longrightarrow> c = CHR ''-'' \<and> s \<noteq> [] \<and> hd s = CHR ''-''"
    using hd_squeeze [of s] by (cases s; cases "squeeze_dashes s") (auto simp: has_prefix_def)
  with Cons show ?case by (auto simp: squeeze_Cons)
qed simp

section \<open>File names are single path segments\<close>

definition token_char :: "char \<Rightarrow> bool" where
  "token_char c \<longleftrightarrow> \<not> is_upper c \<and> c \<noteq> CHR ''/'' \<and> c \<noteq> CHR '' '' \<and> c \<noteq> CHR ''.'' \<and> c \<noteq> CHR ''_''"

abbreviation dashed :: "string \<Rightarrow> string" where
  "dashed \<equiv> replace_chars [(CHR ''/'', CHR ''-''), (CHR '' '', CHR ''-''), (CHR ''.'', CHR ''-''), (CHR ''_'', CHR ''-'')]"

lemma not_upper_dash [simp]: "\<not> is_upper CHR ''-''"
  by (simp add: is_upper_def)

lemma dashed_token_char: "c \<in> set (dashed (to_lower s)) \<Longrightarrow> token_char c"
  by (auto simp: replace_chars_def token_char_def to_lower_def split: if_splits)

lemma sanitize_token_chars: "c \<in> set (sanitize_token s) \<Longrightarrow> token_char c"
  using trim_by_set [of "\<lambda>x. x = CHR ''-''" "collapse_dashes (dashed (to_lower (trim_space s)))"]
    dashed_token_char [of c "trim_space s"]
  by (auto simp: sanitize_token_def trim_char_def collapse_eq_squeeze set_squeeze)

lemma dashed_id: "\<forall>c \<in> set s. token_char c \<Longrightarrow> dashed s = s"
  unfolding replace_chars_def by (rule map_idI) (simp add: token_char_def)

lemma contains_trim: "contains (trim_by P s) p \<Longrightarrow> contains s p"
proof -
  obtain a where a: "s = a @ dropWhile P s" by (metis takeWhile_dropWhile_id)
  obtain b where b: "dropWhile P s = trim_right_by P (dropWhile P s) @ b"
    unfolding trim_right_by_def by (metis rev_append rev_rev_ident takeWhile_dropWhile_id)
  assume "contains (trim_by P s) p"
  then show ?thesis
    using contains_mono [of "trim_by P s" p a b] a b by (simp add: trim_by_def trim_left_by_def)
qed

lemma sanitize_token_shape:
  "\<not> contains (sanitize_token s) ''--''"
  "sanitize_token s = [] \<or> hd (sanitize_token s) \<noteq> CHR ''-'' \<and> last (sanitize_token s) \<noteq> CHR ''-''"
  using trim_by_ends [of "\<lambda>x. x = CHR ''-''" "collapse_dashes (dashed (to_lower (trim_space s)))"]
    contains_trim [of "\<lambda>x. x = CHR ''-''" "squeeze_dashes (dashed (to_lower (trim_space s)))" "''--''"]
    squeeze_no_dd
  by (auto simp: sanitize_token_def trim_char_def collapse_eq_squeeze)

lemma sanitize_token_fixed:
  assumes "\<forall>c \<in> set s. token_char c \<and> \<not> is_space c" "\<not> contains s ''--''"
    and "s = [] \<or> hd s \<noteq> CHR ''-'' \<and> last s \<noteq> CHR ''-''"
  shows "sanitize_token s = s"
proof -
  have "trim_space s = s" by (rule trim_space_no_space) (use assms(1) in blast)
  moreover have "to_lower s = s" by (rule to_lower_id) (use assms(1) in \<open>auto simp: token_char_def\<close>)
  moreover have "dashed s = s" by (rule dashed_id) (use assms(1) in blast)
  moreover have "collapse_dashes s = s" by (simp add: collapse_eq_squeeze squeeze_id assms(2))
  moreover have "trim_char CHR ''-'' s = s" unfolding trim_char_def by (rule trim_by_id) (use assms(3) in auto)
  ultimately show ?thesis by (simp add: sanitize_token_def)
qed

text \<open>An identifier whose only white space is the blank: every identifier the registry makes is one.\<close>

definition plain_id :: "string \<Rightarrow> bool" where
  "plain_id s \<longleftrightarrow> (\<forall>c \<in> set s. is_space c \<longrightarrow> c = CHR '' '')"

lemma sanitize_no_space: "plain_id s \<Longrightarrow> c \<in> set (sanitize_token s) \<Longrightarrow> \<not> is_space c"
proof -
  assume s: "plain_id s" and c: "c \<in> set (sanitize_token s)"
  have "c \<in> set (dashed (to_lower (trim_space s)))"
    using c trim_by_set [of "\<lambda>x. x = CHR ''-''" "collapse_dashes (dashed (to_lower (trim_space s)))"]
    by (auto simp: sanitize_token_def trim_char_def collapse_eq_squeeze set_squeeze)
  then obtain d where d: "d \<in> set (trim_space s)" "c = lower_char d \<or> c = CHR ''-''"
    by (auto simp: replace_chars_def to_lower_def split: if_splits)
  have "d \<in> set s" using d(1) trim_by_set [of is_space s] by (auto simp: trim_space_def)
  show ?thesis
  proof
    assume "is_space c"
    moreover have "\<not> is_space CHR ''-''" by (simp add: is_space_def)
    ultimately have "c = lower_char d" "is_space d" using d(2) by auto
    with s \<open>d \<in> set s\<close> have "d = CHR '' ''" by (simp add: plain_id_def)
    with \<open>c = lower_char d\<close> have "c = CHR '' ''" by (simp add: lower_char_def is_upper_def)
    with sanitize_token_chars [OF c] show False by (simp add: token_char_def)
  qed
qed

lemma sanitize_idem: "plain_id s \<Longrightarrow> sanitize_token (sanitize_token s) = sanitize_token s"
  by (rule sanitize_token_fixed)
     (use sanitize_token_chars sanitize_no_space sanitize_token_shape in blast)+

lemma segment_caddy_file: "segment (sanitize_token s @ ''.caddy'')"
  using sanitize_token_chars [of slash s] by (auto simp: segment_def token_char_def)

lemma sanitize_append_injective: "sanitize_token s @ ''.caddy'' = sanitize_token t @ ''.caddy'' \<longleftrightarrow> sanitize_token s = sanitize_token t"
  by simp

section \<open>The managed import of the root Caddyfile\<close>

lemma import_block_lines:
  "split_on CHR 0x0A import_block = [managed_import_start, managed_import_line, managed_import_end]"
  unfolding import_block_def nl_def
  by (rule split_join) (auto simp: managed_import_start_def managed_import_line_def managed_import_end_def)

lemma contains_block:
  "contains (a @ import_block @ b) managed_import_line" "contains (a @ import_block @ b) managed_import_start"
proof -
  have "import_block = (managed_import_start @ nl) @ managed_import_line @ (nl @ managed_import_end)"
    and s: "import_block = [] @ managed_import_start @ (nl @ managed_import_line @ nl @ managed_import_end)"
    by (simp_all add: import_block_def)
  then have "contains import_block managed_import_line" by (metis contains_append)
  then show "contains (a @ import_block @ b) managed_import_line" by (rule contains_mono)
  from s have "contains import_block managed_import_start" by (metis contains_append)
  then show "contains (a @ import_block @ b) managed_import_start" by (rule contains_mono)
qed

lemma ensure_contains: "contains (fst (ensure_managed_root_import x b)) managed_import_line"
  using contains_block(1) [of "[]" nl]
    contains_block(1) [of "trim_right_char CHR 0x0A x @ nl @ nl" nl]
  by (auto simp: ensure_managed_root_import_def Let_def)

lemma ensure_unchanged: "snd (ensure_managed_root_import x b) = False \<Longrightarrow> fst (ensure_managed_root_import x b) = x"
  by (auto simp: ensure_managed_root_import_def Let_def split: if_splits)

definition free_of_markers :: "string list \<Rightarrow> bool" where
  "free_of_markers ls \<longleftrightarrow>
     (\<forall>l \<in> set ls. trim_space l \<noteq> managed_import_start \<and> trim_space l \<noteq> managed_import_end)"

lemma drop_block_user_lines:
  "free_of_markers ls \<Longrightarrow> drop_block False (ls @ rest) = ls @ drop_block False rest"
  by (induction ls) (auto simp: free_of_markers_def)

lemma marker_lines [simp]:
  "trim_space managed_import_start = managed_import_start" "trim_space managed_import_end = managed_import_end"
  "trim_space managed_import_line = managed_import_line"
  "managed_import_end \<noteq> managed_import_start" "managed_import_line \<noteq> managed_import_start"
  "managed_import_line \<noteq> managed_import_end" "managed_import_start \<noteq> []" "managed_import_end \<noteq> []"
  "[] \<noteq> managed_import_start" "[] \<noteq> managed_import_end"
  by (simp_all add: managed_import_start_def managed_import_end_def managed_import_line_def
      trim_space_id is_space_def)

lemma drop_block_block:
  "drop_block False ([managed_import_start, managed_import_line, managed_import_end] @ rest) = drop_block False rest"
  by simp

lemma trim_space_append_space: "\<forall>c \<in> set t. is_space c \<Longrightarrow> trim_space (s @ t) = trim_space s"
proof -
  assume t: "\<forall>c \<in> set t. is_space c"
  have r: "trim_right_by is_space (u @ t) = trim_right_by is_space u" for u
    using t by (simp add: trim_right_by_def) (subst dropWhile_append2, auto)
  show ?thesis
  proof (cases "\<forall>c \<in> set s. is_space c")
    case True
    with t have "\<forall>c \<in> set (s @ t). is_space c" by auto
    with True have "trim_space s = []" "trim_space (s @ t) = []"
      unfolding trim_space_def trim_by_Nil_iff by blast+
    then show ?thesis by simp
  next
    case False
    then obtain c where "c \<in> set s" "\<not> is_space c" by blast
    then have "dropWhile is_space (s @ t) = dropWhile is_space s @ t" by (rule dropWhile_append1)
    then show ?thesis by (simp add: trim_space_def trim_by_def trim_left_by_def r)
  qed
qed

lemma trim_space_trim_right_nl: "trim_space (trim_right_char CHR 0x0A s) = trim_space s"
proof -
  have "s = trim_right_char CHR 0x0A s @ rev (takeWhile (\<lambda>x. x = CHR 0x0A) (rev s))"
    unfolding trim_right_char_def trim_right_by_def
    by (metis rev_append rev_rev_ident takeWhile_dropWhile_id)
  moreover have "\<forall>c \<in> set (rev (takeWhile (\<lambda>x. x = CHR 0x0A) (rev s))). is_space c"
    by (auto simp: is_space_def dest: set_takeWhileD)
  ultimately show ?thesis by (metis trim_space_append_space)
qed

text \<open>What is left of the user's Caddyfile after the import was added and removed again.\<close>

lemma remove_after_ensure:
  assumes "free_of_markers (split_on CHR 0x0A (trim_right_char CHR 0x0A x))"
    and "snd (ensure_managed_root_import x b)"
  shows "remove_managed_root_import (fst (ensure_managed_root_import x b)) True
    = ((if trim_space x = [] then None else Some (trim_space x @ nl)), True)"
proof -
  let ?base = "trim_right_char CHR 0x0A x"
  let ?block = "[managed_import_start, managed_import_line, managed_import_end]"
  let ?y = "fst (ensure_managed_root_import x b)"
  have dn: "drop_block False [[]] = [[]]" "drop_block False [[], []] = [[], []]" by simp_all
  have nls: "split_on CHR 0x0A (u @ nl) = split_on CHR 0x0A u @ [[]]" for u
    using split_on_append [of "CHR 0x0A" u "[]"] by (simp add: nl_def)
  have tail: "split_on CHR 0x0A (import_block @ nl) = ?block @ [[]]"
    by (simp add: nls import_block_lines)
  have "trim_space (join_with nl (drop_block False (split_on CHR 0x0A ?y))) = trim_space x"
  proof (cases "?base = []")
    case True
    then have "?y = import_block @ nl" "trim_space x = []"
      using assms(2) trim_space_trim_right_nl [of x]
      by (auto simp: ensure_managed_root_import_def Let_def split: if_splits)
    then show ?thesis by (simp only: tail drop_block_block dn) simp
  next
    case False
    then have "?y = ?base @ CHR 0x0A # CHR 0x0A # (import_block @ nl)"
      using assms(2) by (auto simp: ensure_managed_root_import_def Let_def nl_def split: if_splits)
    then have "split_on CHR 0x0A ?y = split_on CHR 0x0A ?base @ [[]] @ ?block @ [[]]"
      by (simp add: split_on_append tail)
    moreover have "free_of_markers (split_on CHR 0x0A ?base @ [[]])"
      using assms(1) by (auto simp: free_of_markers_def)
    ultimately have "drop_block False (split_on CHR 0x0A ?y) = split_on CHR 0x0A ?base @ [[], []]"
      using drop_block_user_lines [of "split_on CHR 0x0A ?base @ [[]]" "?block @ [[]]"]
      by (simp only: append_assoc drop_block_block dn) simp
    then have "join_with nl (drop_block False (split_on CHR 0x0A ?y)) = ?base @ nl @ nl"
      using join_split [of "CHR 0x0A" ?base] by (simp add: join_append nl_def)
    then show ?thesis
      using trim_space_append_space [of "nl @ nl" ?base] trim_space_trim_right_nl [of x]
      by (simp add: nl_def is_space_def)
  qed
  moreover have "contains ?y managed_import_start"
    using assms(2) contains_block(2) [of "[]" nl] contains_block(2) [of "?base @ nl @ nl" nl]
    by (auto simp: ensure_managed_root_import_def Let_def split: if_splits)
  ultimately show ?thesis by (simp add: remove_managed_root_import_def Let_def)
qed

end
