(* ===== verification/Caddy_Correct.thy ===== *)
theory Caddy_Correct
  imports Caddy_Transactions Caddy_Text
begin

text \<open>
  What the Caddy adapter promises its callers: a successful activation has installed and
  validated the site, a refused one has undone itself, and no outcome touches other files.
\<close>

section \<open>A successful write, in any world\<close>

lemma caddy_write_Inr:
  assumes "fst (caddy_write_atomically p d m w) = Inr ()"
  shows "file_at (snd (caddy_write_atomically p d m w)) p = Some d"
proof -
  define w1 where "w1 = snd (os_write_file (tmp_path p) d m w)"
  define w2 where "w2 = snd (os_chmod (tmp_path p) m w1)"
  define w3 where "w3 = snd (os_rename (tmp_path p) p w2)"
  from assms have 1: "fst (os_write_file (tmp_path p) d m w) = Inr ()"
    and 2: "fst (os_chmod (tmp_path p) m w1) = Inr ()"
    and 3: "fst (os_rename (tmp_path p) p w2) = Inr ()"
    and 4: "snd (caddy_write_atomically p d m w) = snd (os_chmod p m w3)"
    by (auto simp: caddy_write_atomically_def split_beta w1_def w2_def w3_def split: sum.splits)
  have "file_at w2 (tmp_path p) = Some d"
    using os_write_file_Inr [OF 1] by (simp add: w2_def w1_def frame_simps)
  then have "file_at w3 p = Some d"
    using os_rename_Inr(1) [OF 3] by (simp add: w3_def file_at_def)
  then show ?thesis by (simp add: 4 frame_simps)
qed

lemma caddy_write_file_frame [frame_simps]:
  "q \<noteq> p \<Longrightarrow> q \<noteq> tmp_path p \<Longrightarrow> file_at (snd (caddy_write_atomically p d m w)) q = file_at w q"
  "q \<noteq> p \<Longrightarrow> q \<noteq> tmp_path p \<Longrightarrow> file_at (snd (caddy_restore_file p d b m w)) q = file_at w q"
  by (simp_all add: file_at_def frame_simps)

lemma caddy_undo_root_file_frame [frame_simps]:
  "q \<noteq> cm_root_config m \<Longrightarrow> q \<noteq> tmp_path (cm_root_config m) \<Longrightarrow>
     file_at (caddy_undo_root m c p b w) q = file_at w q"
  by (simp add: file_at_def frame_simps)

section \<open>Paths an activation can touch\<close>

definition caddy_paths :: "caddy_manager \<Rightarrow> string \<Rightarrow> string set" where
  "caddy_paths m cfg =
     {cm_root_config m, tmp_path (cm_root_config m), cfg, tmp_path cfg}"

lemma caddy_apply_frame [frame_simps]:
  "x \<notin> caddy_paths m (caddy_config_path m site) \<Longrightarrow>
     file_at (snd (caddy_apply_site m site (caddy_undo_root m c p b) prev ex w)) x = file_at w x"
  "orc (snd (caddy_apply_site m site (caddy_undo_root m c p b) prev ex w)) = orc w"
  by (simp_all add: caddy_apply_site_def Let_def split_beta caddy_paths_def frame_simps split: sum.split)

lemma caddy_install_frame [frame_simps]:
  "x \<notin> caddy_paths m (caddy_config_path m site) \<Longrightarrow>
     file_at (snd (caddy_install_site m site (caddy_undo_root m c p b) w)) x = file_at w x"
  "orc (snd (caddy_install_site m site (caddy_undo_root m c p b) w)) = orc w"
  by (simp_all add: caddy_install_site_def Let_def split_beta caddy_paths_def frame_simps split: sum.split)

lemma caddy_activate_frame [frame_simps]:
  "x \<notin> caddy_paths m (caddy_target m site) \<Longrightarrow>
     file_at (snd (caddy_activate_site m site w)) x = file_at w x"
  "orc (snd (caddy_activate_site m site w)) = orc w"
proof -
  assume x: "x \<notin> caddy_paths m (caddy_target m site)"
  then have r: "x \<noteq> cm_root_config m" "x \<noteq> tmp_path (cm_root_config m)" by (auto simp: caddy_paths_def)
  show "file_at (snd (caddy_activate_site m site w)) x = file_at w x"
  proof (cases "fst (normalize_site site w)")
    case (Inr site')
    with x have "x \<notin> caddy_paths m (caddy_config_path m site')" by (simp add: normalize_site_Inr(3))
    with Inr r show ?thesis
      by (simp add: caddy_activate_site_def split_beta frame_simps split: sum.split)
  qed (simp add: caddy_activate_site_def split_beta frame_simps)
next
  show "orc (snd (caddy_activate_site m site w)) = orc w"
    by (simp add: caddy_activate_site_def split_beta frame_simps split: sum.split)
qed

section \<open>A successful activation\<close>

lemma caddy_apply_Inr:
  assumes "caddy_apply_site m site undo prev ex w = (Inr r, w')"
  shows "calls w' = (''systemctl'', [''reload'', ''caddy''])
      # (''caddy'', [''validate'', ''--config'', cm_root_config m, ''--adapter'', ''caddyfile'']) # calls w"
    "\<And>x. file_at w' x = file_at w x" "wr_config_path r = caddy_config_path m site"
    "wr_validated r" "wr_reloaded r" "wr_http_url r = ''http://'' @ ws_domain site"
    "wr_https_url r = ''https://'' @ ws_domain site"
proof -
  from assms have w': "w' = snd (caddy_reload (snd (caddy_validate m w)))"
    and r: "r = \<lparr>wr_config_path = caddy_config_path m site, wr_validated = True, wr_reloaded = True,
      wr_http_url = ''http://'' @ ws_domain site, wr_https_url = ''https://'' @ ws_domain site\<rparr>"
    by (auto simp: caddy_apply_site_def Let_def split_beta split: sum.splits)
  show "calls w' = (''systemctl'', [''reload'', ''caddy''])
      # (''caddy'', [''validate'', ''--config'', cm_root_config m, ''--adapter'', ''caddyfile'']) # calls w"
    by (simp add: w' caddy_reload_def caddy_validate_def split_beta split: option.split)
  show "\<And>x. file_at w' x = file_at w x" by (simp add: w' frame_simps)
  show "wr_config_path r = caddy_config_path m site" "wr_validated r" "wr_reloaded r"
    "wr_http_url r = ''http://'' @ ws_domain site" "wr_https_url r = ''https://'' @ ws_domain site"
    by (simp_all add: r)
qed

lemma caddy_install_Inr:
  assumes "caddy_install_site m site undo w = (Inr r, w')" and cfg: "cfg = caddy_config_path m site"
  obtains previous existed v where
    "v = snd (caddy_write_atomically cfg (render_site_config site) mode_0644
            (snd (caddy_make_site_dirs m (next_tick w))))"
    "caddy_apply_site m site undo previous existed v = (Inr r, w')"
    "file_at v cfg = Some (render_site_config site)"
    "\<And>x. x \<noteq> cfg \<Longrightarrow> x \<noteq> tmp_path cfg \<Longrightarrow> file_at v x = file_at w x"
    "calls v = calls w"
proof -
  let ?w2 = "snd (caddy_make_site_dirs m (next_tick w))"
  let ?wr = "caddy_write_atomically cfg (render_site_config site) mode_0644 ?w2"
  from assms obtain previous existed where ok: "fst ?wr = Inr ()"
      and ap: "caddy_apply_site m site undo previous existed (snd ?wr) = (Inr r, w')"
    by (auto simp: caddy_install_site_def Let_def split_beta split: sum.splits)
  show ?thesis
    by (rule that [OF refl ap caddy_write_Inr [OF ok]]) (simp_all add: frame_simps)
qed

lemma caddy_ensure_root_Inr:
  assumes "fst (read_if_exists (cm_root_config m) w) = Inr (p, b)"
    and "caddy_ensure_root m p b (next_tick w) = (Inr c, v)"
  shows "\<exists>t. file_at v (cm_root_config m) = Some t \<and> contains t managed_import_line"
proof (cases "snd (ensure_managed_root_import p b)")
  case True
  with assms(2) have "file_at v (cm_root_config m) = Some (fst (ensure_managed_root_import p b))"
    using caddy_write_Inr [of "cm_root_config m" "fst (ensure_managed_root_import p b)" mode_0644
      "snd (ensure_dir_mode (path_dir (cm_root_config m)) mode_0755 (next_tick w))"]
    by (auto simp: caddy_ensure_root_def split_beta split: sum.splits)
  then show ?thesis using ensure_contains by blast
next
  case False
  then have "b" "contains p managed_import_line"
    by (auto simp: ensure_managed_root_import_def Let_def split: if_splits)
  moreover have "v = next_tick w"
    using False assms(2) by (simp add: caddy_ensure_root_def split_beta)
  ultimately show ?thesis using assms(1) read_if_exists_True by auto
qed

definition normalized_site :: "web_site \<Rightarrow> web_site" where
  "normalized_site s =
     \<lparr>ws_id = sanitize_token (first_non_empty [ws_id s, ws_domain s]),
      ws_domain = to_lower (trim_space (ws_domain s)),
      ws_root_path = path_clean (ws_root_path s),
      ws_public_dir = path_clean (if trim_space (ws_public_dir s) = []
        then path_join [ws_root_path s, ''public''] else trim_space (ws_public_dir s)),
      ws_php_socket_path = path_clean (ws_php_socket_path s)\<rparr>"

lemma normalize_site_eq: "fst (normalize_site s w) = Inr site \<Longrightarrow> site = normalized_site s"
  by (auto simp: normalize_site_def Let_def split_beta normalized_site_def split: if_splits sum.splits)

lemma caddy_activate_committed:
  assumes lay: "caddy_layout m (caddy_target m site)"
    and res: "caddy_activate_site m site w = (Inr r, w')"
  shows "file_at w' (caddy_target m site) = Some (render_site_config (normalized_site site))"
    and "\<exists>t. file_at w' (cm_root_config m) = Some t \<and> contains t managed_import_line"
    and "wr_config_path r = caddy_target m site"
    and "take 2 (calls w') = [(''systemctl'', [''reload'', ''caddy'']),
       (''caddy'', [''validate'', ''--config'', cm_root_config m, ''--adapter'', ''caddyfile''])]"
proof -
  note L = caddy_layoutD [OF lay]
  let ?w1 = "snd (normalize_site site w)"
  from res obtain site' p b c where n: "fst (normalize_site site w) = Inr site'"
      and rd: "fst (read_if_exists (cm_root_config m) ?w1) = Inr (p, b)"
      and en: "fst (caddy_ensure_root m p b (next_tick ?w1)) = Inr c"
      and inst: "caddy_install_site m site' (caddy_undo_root m c p b)
        (snd (caddy_ensure_root m p b (next_tick ?w1))) = (Inr r, w')"
    by (auto simp: caddy_activate_site_def split_beta split: sum.splits)
  obtain v where v: "caddy_ensure_root m p b (next_tick ?w1) = (Inr c, v)"
    using en by (cases "caddy_ensure_root m p b (next_tick ?w1)") auto
  have cfg: "caddy_target m site = caddy_config_path m site'" by (simp add: normalize_site_Inr(3) [OF n])
  from inst v have inst': "caddy_install_site m site' (caddy_undo_root m c p b) v = (Inr r, w')" by simp
  obtain prev ex u where
      ap: "caddy_apply_site m site' (caddy_undo_root m c p b) prev ex u = (Inr r, w')"
      and u: "file_at u (caddy_target m site) = Some (render_site_config site')"
      and fr: "\<And>x. x \<noteq> caddy_target m site \<Longrightarrow> x \<noteq> tmp_path (caddy_target m site) \<Longrightarrow> file_at u x = file_at v x"
    by (rule caddy_install_Inr [OF inst' cfg]) blast
  note A = caddy_apply_Inr [OF ap]
  show "file_at w' (caddy_target m site) = Some (render_site_config (normalized_site site))"
    using u A(2) normalize_site_eq [OF n] by simp
  show "\<exists>t. file_at w' (cm_root_config m) = Some t \<and> contains t managed_import_line"
    using caddy_ensure_root_Inr [OF rd v] fr [of "cm_root_config m"] L A(2) by simp
  show "wr_config_path r = caddy_target m site" using A(3) cfg by simp
  show "take 2 (calls w') = [(''systemctl'', [''reload'', ''caddy'']),
       (''caddy'', [''validate'', ''--config'', cm_root_config m, ''--adapter'', ''caddyfile''])]"
    by (simp add: A(1))
qed

end
