(* ===== verification/Caddy_Removal.thy ===== *)
theory Caddy_Removal
  imports Caddy_Transactions
begin

text \<open>
  Removing a site: which paths it can touch, that a foreign file is refused untouched, and that
  a removal Caddy refuses puts everything back.
\<close>

lemma caddy_put_back_file:
  assumes "quiet w" "proper_path p" "writable w p" "x \<noteq> tmp_path p"
  shows "file_at (snd (caddy_write_atomically p c m w)) x = (if x = p then Some c else file_at w x)"
proof (rule caddy_write_cases [OF assms(1,2), of c m])
  assume "\<not> writable w p"
  with assms(3) show ?thesis by simp
next
  assume "node_at (snd (caddy_write_atomically p c m w)) p = Some (File m c)"
  then show ?thesis
    using assms(4) file_at_cong [of "snd (caddy_write_atomically p c m w)" x w]
    by (auto simp: file_at_def frame_simps)
qed

definition caddy_removal_target :: "caddy_manager \<Rightarrow> string \<Rightarrow> string" where
  "caddy_removal_target m site_id = path_join [cm_sites_dir m, sanitize_token (trim_space site_id) @ ''.caddy'']"

text \<open>The root Caddyfile once the last site is gone: written, removed or left, and always undoable.\<close>

lemma caddy_release_root_frame [frame_simps]:
  "orc (snd (caddy_release_root m p b rem w)) = orc w"
  "x \<noteq> cm_root_config m \<Longrightarrow> x \<noteq> tmp_path (cm_root_config m) \<Longrightarrow>
     node_at (snd (caddy_release_root m p b rem w)) x = node_at w x"
  by (simp_all add: caddy_release_root_def split_beta frame_simps split: sum.split bool.split)

lemma caddy_restore_quiet:
  assumes q: "quiet w" and pp: "proper_path p" and wr: "writable w p"
  shows "fst (caddy_restore_file p c b m w) = Inl e \<Longrightarrow> file_at (snd (caddy_restore_file p c b m w)) p = file_at w p"
    and "fst (caddy_restore_file p c b m w) = Inr () \<Longrightarrow> writable (snd (caddy_restore_file p c b m w)) p"
proof -
  have dn: "path_dir p \<noteq> p" using pp by (simp add: proper_path_def)
  have rm: "snd (os_remove p w) = next_tick w \<or> snd (os_remove p w) = next_tick (del_node p w)"
    by (auto simp: os_remove_def split: option.split node.split)
  have ok: "writable (next_tick w) p" "writable (next_tick (del_node p w)) p"
    using wr dn by (auto simp: writable_def dir_ok_def)
  show "writable (snd (caddy_restore_file p c b m w)) p" if "fst (caddy_restore_file p c b m w) = Inr ()"
  proof (cases b)
    case False
    with rm ok show ?thesis by (auto simp: caddy_restore_file_def split_beta split: sum.split)
  next
    case True
    show ?thesis
    proof (rule caddy_write_cases [OF q pp, of c m])
      assume "\<not> writable w p"
      with wr show ?thesis by simp
    next
      assume "settled (snd (caddy_write_atomically p c m w)) p"
      from settled_writable [OF this] True show ?thesis by (simp add: caddy_restore_file_def)
    qed
  qed
  show "file_at (snd (caddy_restore_file p c b m w)) p = file_at w p" if "fst (caddy_restore_file p c b m w) = Inl e"
  proof (cases b)
    case False
    with that show ?thesis
      by (auto simp: caddy_restore_file_def split_beta os_remove_Inl split: sum.splits if_splits)
  next
    case True
    show ?thesis
    proof (rule caddy_write_cases [OF q pp, of c m])
      assume "\<not> writable w p"
      with wr show ?thesis by simp
    next
      assume "fst (caddy_write_atomically p c m w) = Inr ()"
      with True that show ?thesis by (simp add: caddy_restore_file_def)
    qed
  qed
qed

lemma caddy_release_root_quiet:
  assumes q: "quiet w" and pp: "proper_path (cm_root_config m)" and wr: "writable w (cm_root_config m)"
  shows "fst (caddy_release_root m p b rem w) = Inl e \<Longrightarrow>
      file_at (snd (caddy_release_root m p b rem w)) (cm_root_config m) = file_at w (cm_root_config m)"
    and "fst (caddy_release_root m p b rem w) = Inr False \<Longrightarrow> snd (caddy_release_root m p b rem w) = w"
    and "fst (caddy_release_root m p b rem w) = Inr True \<Longrightarrow>
      b \<and> writable (snd (caddy_release_root m p b rem w)) (cm_root_config m)"
proof -
  note R = caddy_restore_quiet [OF q pp wr]
  have b: "snd (remove_managed_root_import p b) \<Longrightarrow> b"
    by (simp add: remove_managed_root_import_def split: if_splits)
  show "fst (caddy_release_root m p b rem w) = Inl e \<Longrightarrow>
      file_at (snd (caddy_release_root m p b rem w)) (cm_root_config m) = file_at w (cm_root_config m)"
    by (auto simp: caddy_release_root_def split_beta R(1) split: sum.splits if_splits bool.splits)
  show "fst (caddy_release_root m p b rem w) = Inr False \<Longrightarrow> snd (caddy_release_root m p b rem w) = w"
    by (auto simp: caddy_release_root_def split_beta split: sum.splits if_splits bool.splits)
  show "fst (caddy_release_root m p b rem w) = Inr True \<Longrightarrow>
      b \<and> writable (snd (caddy_release_root m p b rem w)) (cm_root_config m)"
    using b by (auto simp: caddy_release_root_def split_beta R(2) split: sum.splits if_splits bool.splits)
qed

text \<open>The removal from the moment the site's file is gone.\<close>

lemma caddy_remove_file_undone:
  assumes lay: "caddy_layout m cfg" and q: "quiet w"
    and wr: "writable w cfg" "writable w (cm_root_config m)"
    and rt: "backup rp rb = file_at w (cm_root_config m)"
    and res: "caddy_remove_file m i cfg previous rp rb w = (Inl e, w')"
    and x: "x \<noteq> tmp_path (cm_root_config m)" "x \<noteq> tmp_path cfg"
  shows "file_at w' x = (if x = cfg then Some previous else file_at w x)"
proof -
  note L = caddy_layoutD [OF lay]
  let ?put = "\<lambda>v. snd (caddy_write_atomically cfg previous mode_0644 v)"
  define w1 where "w1 = next_tick w"
  define rel where "rel = caddy_release_root m rp rb"
  have q1: "quiet w1" and wr1: "writable w1 cfg" "writable w1 (cm_root_config m)"
    using q wr by (simp_all add: w1_def quiet_def writable_def dir_ok_def)
  have f1: "\<And>y. file_at w1 y = file_at w y" by (simp add: w1_def)
  have put: "file_at (?put v) x = (if x = cfg then Some previous else file_at w x)"
    if "quiet v" "writable v cfg" "x \<noteq> cfg \<Longrightarrow> file_at v x = file_at w x" for v
    using caddy_put_back_file [OF that(1) L(2) that(2) x(2), of previous mode_0644] that(3) by auto
  have undo: "file_at (caddy_undo_root m c rp rb (?put v)) x = (if x = cfg then Some previous else file_at w x)"
    if v: "orc v = orc w" "writable v cfg" "x \<noteq> cfg \<Longrightarrow> x \<noteq> cm_root_config m \<Longrightarrow> file_at v x = file_at w x"
      and c: "if c then rb \<and> writable v (cm_root_config m)
        else file_at v (cm_root_config m) = file_at w (cm_root_config m)" for c v
  proof -
    have qv: "quiet v" "quiet (?put v)" using quiet_orc [OF q] v(1) by (simp_all add: frame_simps)
    have p: "file_at (?put v) y = (if y = cfg then Some previous else file_at v y)" if "y \<noteq> tmp_path cfg" for y
      by (rule caddy_put_back_file [OF qv(1) L(2) v(2) that])
    show ?thesis
    proof (cases c)
      case True
      with c have b: rb and wv: "writable v (cm_root_config m)" by simp_all
      have "writable (?put v) (cm_root_config m)"
        using wv L writable_cong [of "?put v" "cm_root_config m" v] by (simp add: frame_simps)
      from caddy_put_back_file [OF qv(2) L(1) this x(1), of rp mode_0644] True b rt v(3) p [OF x(2)] L
      show ?thesis by (auto simp: caddy_undo_root_def caddy_restore_file_def backup_def)
    next
      case False
      with c v(3) p [OF x(2)] show ?thesis by (auto simp: caddy_undo_root_def)
    qed
  qed
  have frame: "orc (snd (rel rem w1)) = orc w" "writable (snd (rel rem w1)) cfg"
      "x \<noteq> cm_root_config m \<Longrightarrow> file_at (snd (rel rem w1)) x = file_at w x" for rem
  proof -
    show "orc (snd (rel rem w1)) = orc w" by (simp add: rel_def frame_simps w1_def)
    show "writable (snd (rel rem w1)) cfg"
      using wr1(1) L writable_cong [of "snd (rel rem w1)" cfg w1] by (simp add: rel_def frame_simps)
    show "x \<noteq> cm_root_config m \<Longrightarrow> file_at (snd (rel rem w1)) x = file_at w x"
      using x(1) file_at_cong [of "snd (rel rem w1)" x w1] f1 by (simp add: rel_def frame_simps)
  qed
  note R = caddy_release_root_quiet [OF q1 L(1) wr1(2), of rp rb, folded rel_def]
  consider (glob) "w' = ?put w1"
    | (release) rem e' where "fst (rel rem w1) = Inl e'" "w' = ?put (snd (rel rem w1))"
    | (refused) rem c v where "fst (rel rem w1) = Inr c" "orc v = orc (snd (rel rem w1))"
        "\<And>y. node_at v y = node_at (snd (rel rem w1)) y"
        "w' = caddy_undo_root m c rp rb (?put v) \<or>
         w' = snd (caddy_reload (snd (caddy_validate m (caddy_undo_root m c rp rb (?put v)))))"
  proof (cases "fst (glob_ext (cm_sites_dir m) ''.caddy'' w)")
    case (Inl e1)
    with res show ?thesis by (intro glob) (simp add: caddy_remove_file_def caddy_put_back_def split_beta w1_def)
  next
    case rem: (Inr rem)
    show ?thesis
    proof (cases "fst (rel rem w1)")
      case (Inl e1)
      with rem res show ?thesis
        by (intro release [of rem e1]) (simp_all add: caddy_remove_file_def caddy_put_back_def split_beta w1_def rel_def)
    next
      case (Inr c)
      define v1 where "v1 = snd (caddy_validate m (snd (rel rem w1)))"
      define v2 where "v2 = snd (caddy_reload v1)"
      from rem Inr res have "w' = caddy_undo_root m c rp rb (?put v1) \<or>
         w' = snd (caddy_reload (snd (caddy_validate m (caddy_undo_root m c rp rb (?put v2)))))"
        by (simp add: caddy_remove_file_def caddy_put_back_def split_beta w1_def [symmetric] rel_def [symmetric]
            v1_def v2_def split: sum.splits)
      then show ?thesis
      proof
        assume "w' = caddy_undo_root m c rp rb (?put v1)"
        then show ?thesis by (intro refused [OF Inr, of v1]) (simp_all add: v1_def frame_simps)
      next
        assume "w' = snd (caddy_reload (snd (caddy_validate m (caddy_undo_root m c rp rb (?put v2)))))"
        then show ?thesis by (intro refused [OF Inr, of v2]) (simp_all add: v1_def v2_def frame_simps)
      qed
    qed
  qed
  then show ?thesis
  proof cases
    case glob
    with put [OF q1 wr1(1)] f1 show ?thesis by simp
  next
    case release
    have "quiet (snd (rel rem w1))" by (rule quiet_orc [OF q frame(1)])
    with put [OF _ frame(2)] R(1) [OF release(1)] frame(3) f1 release(2) show ?thesis by metis
  next
    case refused
    have v: "orc v = orc w" "writable v cfg" "\<And>y. file_at v y = file_at (snd (rel rem w1)) y"
      using refused(2,3) frame writable_cong [of v cfg "snd (rel rem w1)"] by (simp_all add: file_at_def)
    have c: "if c then rb \<and> writable v (cm_root_config m)
        else file_at v (cm_root_config m) = file_at w (cm_root_config m)"
    proof (cases c)
      case True
      with R(3) refused(1) writable_cong [of v "cm_root_config m" "snd (rel rem w1)"] refused(3)
      show ?thesis by simp
    next
      case False
      with R(2) [of rem] refused(1) v(3) f1 show ?thesis by simp
    qed
    have "x \<noteq> cfg \<Longrightarrow> x \<noteq> cm_root_config m \<Longrightarrow> file_at v x = file_at w x" using v(3) frame(3) by simp
    with undo [OF v(1,2) _ c] refused(4) show ?thesis by (auto simp: frame_simps)
  qed
qed

text \<open>The whole removal.\<close>

lemma caddy_remove_site_cases:
  assumes "caddy_remove_site m i w = (r, w')" "cfg = caddy_removal_target m i"
  obtains (untouched) "fs w' = fs w" "orc w' = orc w"
  | (removal) rp rb t e w0 where "fst (read_if_exists (cm_root_config m) w) = Inr (rp, rb)"
      "fst (read_if_exists cfg (next_tick w)) = Inr (t, True)" "contains t caddy_managed_marker"
      "w0 = next_tick (next_tick w)"
      "fst (os_remove cfg w0) = Inr () \<or> fst (os_remove cfg w0) = Inl e \<and> errors_is e OsNotExist"
      "caddy_remove_file m i cfg t rp rb (snd (os_remove cfg w0)) = (r, w')"
  using assms
  by (auto simp: caddy_remove_site_def Let_def split_beta caddy_removal_target_def os_remove_Inl
      split: if_splits sum.splits)

lemma caddy_remove_undone:
  assumes lay: "caddy_layout m (caddy_removal_target m i)" and q: "quiet w"
    and wr: "writable w (caddy_removal_target m i)" "writable w (cm_root_config m)"
    and res: "caddy_remove_site m i w = (Inl e, w')"
    and x: "x \<noteq> tmp_path (cm_root_config m)" "x \<noteq> tmp_path (caddy_removal_target m i)"
  shows "file_at w' x = file_at w x"
proof (rule caddy_remove_site_cases [OF res refl])
  assume "fs w' = fs w"
  then show ?thesis by (simp add: file_at_def node_at_def)
next
  let ?cfg = "caddy_removal_target m i"
  note L = caddy_layoutD [OF lay]
  fix rp rb t e1 w0
  assume rd: "fst (read_if_exists (cm_root_config m) w) = Inr (rp, rb)"
    and t: "fst (read_if_exists ?cfg (next_tick w)) = Inr (t, True)"
    and w0: "w0 = next_tick (next_tick w)"
    and rm: "caddy_remove_file m i ?cfg t rp rb (snd (os_remove ?cfg w0)) = (Inl e, w')"
  define v where "v = snd (os_remove ?cfg w0)"
  have tx: "file_at w ?cfg = Some t" using read_if_exists_True [OF t] by simp
  have q0: "quiet w0" using q by (simp add: w0 quiet_def)
  obtain m' where "node_at w0 ?cfg = Some (File m' t)"
    using tx file_at_SomeD [of w0 ?cfg t] by (auto simp: w0 file_at_def)
  with quiet_fault [OF q0] have v: "v = next_tick (del_node ?cfg w0)"
    by (simp add: v_def os_remove_def)
  have "path_dir ?cfg \<noteq> ?cfg" using L(2) by (simp add: proper_path_def)
  with wr L have wv: "writable v ?cfg" "writable v (cm_root_config m)"
    by (simp_all add: v w0 writable_def dir_ok_def)
  have qv: "quiet v" using q by (simp add: v w0 quiet_def)
  have rv: "backup rp rb = file_at v (cm_root_config m)"
    using read_if_exists_is_backup [OF q rd] L by (simp add: v w0)
  have "caddy_remove_file m i ?cfg t rp rb v = (Inl e, w')" using rm by (simp add: v_def)
  from caddy_remove_file_undone [OF lay qv wv rv this x] tx show ?thesis by (auto simp: v w0)
qed

text \<open>A file without the marker is never removed or changed.\<close>

lemma caddy_remove_foreign:
  assumes "file_at w (caddy_removal_target m i) = Some t" "\<not> contains t caddy_managed_marker"
  shows "fs (snd (caddy_remove_site m i w)) = fs w"
proof (rule caddy_remove_site_cases [of m i w "fst (caddy_remove_site m i w)" "snd (caddy_remove_site m i w)"])
  fix t' :: string
  assume "fst (read_if_exists (caddy_removal_target m i) (next_tick w)) = Inr (t', True)"
    and c: "contains t' caddy_managed_marker"
  from read_if_exists_True [OF this(1)] assms(1) have "t' = t" by simp
  with c assms(2) show ?thesis by simp
qed simp_all

lemma caddy_remove_file_gone:
  assumes "caddy_remove_file m i cfg t rp rb w = (Inr (), w')"
    and "cfg \<noteq> cm_root_config m" "cfg \<noteq> tmp_path (cm_root_config m)"
  shows "node_at w' cfg = node_at w cfg"
  using assms
  by (auto simp: caddy_remove_file_def caddy_put_back_def split_beta frame_simps split: sum.splits)

lemma caddy_remove_done:
  assumes lay: "caddy_layout m (caddy_removal_target m i)"
    and "file_at w (caddy_removal_target m i) = Some t" "quiet w"
    and ne: "trim_space i \<noteq> []" and res: "caddy_remove_site m i w = (Inr (), w')"
  shows "file_at w' (caddy_removal_target m i) = None"
proof -
  let ?cfg = "caddy_removal_target m i"
  note L = caddy_layoutD [OF lay]
  define w2 where "w2 = next_tick (next_tick w)"
  have f: "fault (next_tick w) = None" "fault w2 = None" using assms(3) by (simp_all add: fault_def quiet_def w2_def)
  obtain m' where n: "node_at w ?cfg = Some (File m' t)" using file_at_SomeD [OF assms(2)] by blast
  then have rd: "fst (read_if_exists ?cfg (next_tick w)) = Inr (t, True)"
    using f by (simp add: read_if_exists_def os_read_file_def split_beta)
  have del: "os_remove ?cfg w2 = (Inr (), next_tick (del_node ?cfg w2))"
    using n f by (simp add: os_remove_def w2_def)
  with res ne obtain rp rb where
      rm: "caddy_remove_file m i ?cfg t rp rb (next_tick (del_node ?cfg w2)) = (Inr (), w')"
    using rd del
    by (auto simp: caddy_remove_site_def Let_def split_beta caddy_removal_target_def [symmetric]
        w2_def [symmetric] split: if_splits sum.splits)
  from caddy_remove_file_gone [OF rm L(3,5)] show ?thesis by (simp add: file_at_None)
qed

end
