(* ===== verification/Sample_Worlds.thy ===== *)
theory Sample_Worlds
  imports Go_Os
begin

text \<open>
  Concrete worlds for the witnesses: a file system given as a list, an environment whose calls
  do not fail of themselves, and a command oracle chosen by the witness.
\<close>

definition sample_env :: "(nat \<Rightarrow> string \<Rightarrow> string list \<Rightarrow> string \<times> err option) \<Rightarrow> environment" where
  "sample_env r = \<lparr>o_fault = (\<lambda>n. None), o_partial = (\<lambda>n. 0), o_run = r,
     o_clock = (\<lambda>n. ''2024-05-01T10:00:00Z''), o_nano = (\<lambda>n. n), o_rand = (\<lambda>n. Some ''12345678''), o_ctx = (\<lambda>n. None),
     o_cwd = (\<lambda>n. Inr ''/root''), o_links = (\<lambda>n p. Inr p), o_badglob = (\<lambda>d. False), o_umask = 0\<rparr>"

definition sample_world ::
    "(nat \<Rightarrow> string \<Rightarrow> string list \<Rightarrow> string \<times> err option) \<Rightarrow> (string \<times> node) list \<Rightarrow> world" where
  "sample_world r files = \<lparr>fs = files, tick = 0, calls = [], orc = sample_env r\<rparr>"

definition all_succeed :: "nat \<Rightarrow> string \<Rightarrow> string list \<Rightarrow> string \<times> err option" where
  "all_succeed n c args = ([], None)"

text \<open>Every command whose first argument is the given one fails.\<close>

definition refusing :: "string \<Rightarrow> nat \<Rightarrow> string \<Rightarrow> string list \<Rightarrow> string \<times> err option" where
  "refusing arg n c args =
     (if args \<noteq> [] \<and> hd args = arg then (''refused'', Some (errorf ''exit status 1'')) else ([], None))"

lemma sample_world_quiet [simp]: "o_fault (orc (sample_world r files)) n = None"
  by (simp add: sample_world_def sample_env_def)

end
