(* ===== verification/Caddy_Properties.thy ===== *)
theory Caddy_Properties
  imports Caddy_Correct Caddy_Removal Sample_Worlds
begin

text \<open>
  The properties of the Caddy adapter, each with a witness that runs the model on a concrete host.
\<close>

section \<open>The installed configuration\<close>

text \<open>\<^verbatim>\<open>NewManager("", "")\<close>, the way the daemon builds the adapter, and a host with one project on it.\<close>

definition default_caddy :: caddy_manager where
  "default_caddy = new_caddy_manager [] []"

definition sample_site :: web_site where
  "sample_site = \<lparr>ws_id = ''blog'', ws_domain = ''Blog.test'', ws_root_path = ''/srv/blog'',
     ws_public_dir = [], ws_php_socket_path = ''/run/php/php8.3-fpm.sock''\<rparr>"

definition sample_host :: "(nat \<Rightarrow> string \<Rightarrow> string list \<Rightarrow> string \<times> err option) \<Rightarrow> world" where
  "sample_host r = sample_world r
     [(''/srv/blog/public'', Dir mode_0755), (''/etc/caddy'', Dir mode_0755),
      (''/etc/caddy/Caddyfile'', File mode_0644 ''import x'')]"

lemma default_caddy_eq: "default_caddy = \<lparr>cm_sites_dir = abs_path [''etc'', ''caddy'', ''sites.d'', ''lara-nux''],
    cm_root_config = abs_path [''etc'', ''caddy'', ''Caddyfile'']\<rparr>"
  by code_simp

lemma caddy_target_token: "\<exists>i. caddy_target m site = path_join [cm_sites_dir m, sanitize_token i @ ''.caddy'']"
  by (auto simp: caddy_target_def caddy_config_path_def site_filename_def)

lemma default_segments: "\<forall>p \<in> set [''etc'', ''caddy'', ''sites.d'', ''lara-nux'']. segment p"
  by code_simp

lemma default_target:
  "path_join [cm_sites_dir default_caddy, sanitize_token i @ ''.caddy'']
     = abs_path ([''etc'', ''caddy'', ''sites.d'', ''lara-nux''] @ [sanitize_token i @ ''.caddy''])"
  using join_abs_path [OF default_segments, of "[sanitize_token i @ ''.caddy'']"] segment_caddy_file
  by (simp add: default_caddy_eq)

lemma default_target_prefix:
  "abs_path ([''etc'', ''caddy'', ''sites.d'', ''lara-nux''] @ [n]) = ''/etc/caddy/sites.d/lara-nux/'' @ n"
  by (simp add: abs_path_def)

lemma default_layout_target:
  "caddy_layout default_caddy (path_join [cm_sites_dir default_caddy, sanitize_token i @ ''.caddy''])"
proof -
  let ?ps = "[''etc'', ''caddy'', ''sites.d'', ''lara-nux'']" and ?n = "sanitize_token i @ ''.caddy''"
  let ?cfg = "abs_path (?ps @ [?n])" and ?root = "cm_root_config default_caddy"
  have dir: "path_dir ?cfg = abs_path ?ps" by (rule dir_abs_path [OF default_segments segment_caddy_file])
  have proper: "proper_path ?cfg" "proper_path ?root"
    using proper_abs_path [OF default_segments segment_caddy_file]
    by simp code_simp
  have len: "length ?cfg > length (''/etc/caddy/sites.d/lara-nux/'')" unfolding default_target_prefix by simp
  have dirs: "set (path_dir ?root # dir_chain (path_dir ?root) @ path_dir (cm_sites_dir default_caddy)
      # cm_sites_dir default_caddy # abs_path ?ps # dir_chain (path_dir (cm_sites_dir default_caddy))
      @ dir_chain (cm_sites_dir default_caddy))
    = {''/etc'', ''/etc/caddy'', ''/etc/caddy/sites.d'', ''/etc/caddy/sites.d/lara-nux''}"
    by code_simp
  have short: "\<forall>d \<in> {''/etc'', ''/etc/caddy'', ''/etc/caddy/sites.d'', ''/etc/caddy/sites.d/lara-nux''}.
      length d < length (''/etc/caddy/sites.d/lara-nux/'')" by simp
  have root: "?root = ''/etc/caddy/Caddyfile''" by code_simp
  let ?dirs = "{''/etc'', ''/etc/caddy'', ''/etc/caddy/sites.d'', ''/etc/caddy/sites.d/lara-nux''}"
  have long: "x \<notin> ?dirs" if "length x \<ge> length ''/etc/caddy/sites.d/lara-nux/''" for x
    using short that by (metis leD)
  have "?cfg \<notin> ?dirs" "tmp_path ?cfg \<notin> ?dirs" using len by (auto intro!: long simp: tmp_path_def)
  moreover have "distinct [?root, tmp_path ?root, ?cfg, tmp_path ?cfg]" "?root \<noteq> path_dir ?cfg"
      "tmp_path ?root \<notin> ?dirs"
    using len unfolding dir by (auto simp: root tmp_path_def) (auto simp: abs_path_def)
  ultimately show ?thesis
    unfolding default_target caddy_layout_def Let_def dir dirs using proper by simp
qed

section \<open>Activating\<close>

text \<open>C9: an activation that fails - a refused configuration, a failed reload, an unwritable path - leaves
  every file of the host as it was. The host's own calls do not fail here (the restore itself needs
  them); commands may fail in any way, and the two temporary files are excepted.\<close>

theorem caddy_failed_activation_undone:
  assumes "caddy_layout m (caddy_target m site)" and "quiet w"
    and "caddy_activate_site m site w = (Inl e, w')"
    and "x \<noteq> tmp_path (cm_root_config m)" and "x \<noteq> tmp_path (caddy_target m site)"
  shows "file_at w' x = file_at w x"
  by (rule caddy_activate_undone [OF assms])

definition refused_run :: "(err + web_activation_result) \<times> world" where
  "refused_run = caddy_activate_site default_caddy sample_site (sample_host (refusing ''validate''))"

lemma refused_run_facts:
  "caddy_layout default_caddy (caddy_target default_caddy sample_site)"
  "is_Inl (fst refused_run)" "length (calls (snd refused_run)) = 1"
  "''/etc/caddy/Caddyfile'' \<noteq> tmp_path (cm_root_config default_caddy)"
  "''/etc/caddy/Caddyfile'' \<noteq> tmp_path (caddy_target default_caddy sample_site)"
  "file_at (sample_host (refusing ''validate'')) ''/etc/caddy/Caddyfile'' = Some ''import x''"
  by code_simp+

theorem caddy_failed_activation_undone_witness:
  "file_at (snd refused_run) ''/etc/caddy/Caddyfile'' = Some ''import x'' \<and> calls (snd refused_run) \<noteq> []"
proof -
  obtain e where e: "fst refused_run = Inl e" using refused_run_facts(2) by (cases "fst refused_run") auto
  have q: "quiet (sample_host (refusing ''validate''))" by (simp add: quiet_def sample_host_def)
  have "caddy_activate_site default_caddy sample_site (sample_host (refusing ''validate'')) = (Inl e, snd refused_run)"
    unfolding e [symmetric] by (simp add: refused_run_def)
  from caddy_failed_activation_undone [OF refused_run_facts(1) q this refused_run_facts(4,5)]
  show ?thesis using refused_run_facts(3,6) by auto
qed

text \<open>C21: an activation that succeeds has installed the rendered site, the root Caddyfile imports the
  managed directory, and the last two commands were the validation of the root Caddyfile and then
  the reload - whatever faults the host met on the way.\<close>

theorem caddy_successful_activation:
  assumes "caddy_layout m (caddy_target m site)" and "caddy_activate_site m site w = (Inr r, w')"
  shows "file_at w' (caddy_target m site) = Some (render_site_config (normalized_site site))
    \<and> (\<exists>t. file_at w' (cm_root_config m) = Some t \<and> contains t managed_import_line)
    \<and> wr_config_path r = caddy_target m site
    \<and> take 2 (calls w') = [(''systemctl'', [''reload'', ''caddy'']),
         (''caddy'', [''validate'', ''--config'', cm_root_config m, ''--adapter'', ''caddyfile''])]"
  using caddy_activate_committed [OF assms] by simp

definition accepted_run :: "(err + web_activation_result) \<times> world" where
  "accepted_run = caddy_activate_site default_caddy sample_site (sample_host all_succeed)"

lemma accepted_run_ok: "\<not> is_Inl (fst accepted_run)"
  by code_simp

theorem caddy_successful_activation_witness:
  "file_at (snd accepted_run) (caddy_target default_caddy sample_site)
     = Some (render_site_config (normalized_site sample_site))"
proof -
  obtain r where r: "fst accepted_run = Inr r" using accepted_run_ok by (cases "fst accepted_run") auto
  have "caddy_activate_site default_caddy sample_site (sample_host all_succeed) = (Inr r, snd accepted_run)"
    unfolding r [symmetric] by (simp add: accepted_run_def)
  from caddy_successful_activation [OF refused_run_facts(1) this] show ?thesis by blast
qed

text \<open>C26: whatever an activation answers and whatever fails on the way, no file changes but the root
  Caddyfile, the site's own file and their two temporary files.\<close>

theorem caddy_activation_touches_only:
  assumes "x \<noteq> cm_root_config m" and "x \<noteq> tmp_path (cm_root_config m)"
    and "x \<noteq> caddy_target m site" and "x \<noteq> tmp_path (caddy_target m site)"
  shows "file_at (snd (caddy_activate_site m site w)) x = file_at w x"
  by (rule caddy_activate_frame) (use assms in \<open>simp add: caddy_paths_def\<close>)

theorem caddy_activation_touches_only_witness:
  "file_at (snd accepted_run) ''/etc/caddy/other'' = None"
proof -
  have "''/etc/caddy/other'' \<noteq> cm_root_config default_caddy"
    "''/etc/caddy/other'' \<noteq> tmp_path (cm_root_config default_caddy)"
    "''/etc/caddy/other'' \<noteq> caddy_target default_caddy sample_site"
    "''/etc/caddy/other'' \<noteq> tmp_path (caddy_target default_caddy sample_site)"
    "file_at (sample_host all_succeed) ''/etc/caddy/other'' = None"
    by code_simp+
  with caddy_activation_touches_only [of "''/etc/caddy/other''" default_caddy sample_site "sample_host all_succeed"]
  show ?thesis by (simp add: accepted_run_def)
qed

text \<open>C22: with the paths the daemon uses, every site whatsoever - any ID, any domain, slashes and dots
  included - gets a file directly inside the managed directory, and the layout the rollback of the
  activation and of the removal needs holds for it.\<close>

theorem caddy_sites_stay_inside:
  "path_dir (caddy_target default_caddy site) = ''/etc/caddy/sites.d/lara-nux''
    \<and> caddy_layout default_caddy (caddy_target default_caddy site)
    \<and> caddy_layout default_caddy (caddy_removal_target default_caddy site_id)"
proof -
  obtain i where i: "caddy_target default_caddy site = path_join [cm_sites_dir default_caddy, sanitize_token i @ ''.caddy'']"
    using caddy_target_token by blast
  have "abs_path [''etc'', ''caddy'', ''sites.d'', ''lara-nux''] = ''/etc/caddy/sites.d/lara-nux''" by code_simp
  with dir_abs_path [OF default_segments segment_caddy_file]
  show ?thesis using default_layout_target by (simp add: i default_target caddy_removal_target_def)
qed

text \<open>C29: the loop that collapses dashes, which replaces every pair until none is left, ends for every
  string and computes what one pass that drops a dash before a dash computes.\<close>

theorem collapse_dashes_one_pass: "collapse_dashes s = squeeze_dashes s"
  by (rule collapse_eq_squeeze)

section \<open>The import in the root Caddyfile\<close>

text \<open>C30: taking the managed block out of a root Caddyfile it was added to gives the user's content
  back, up to the blank space at its ends; a file with nothing of the user's is removed.\<close>

theorem root_import_round_trip:
  assumes "free_of_markers (split_on CHR 0x0A (trim_right_char CHR 0x0A x))"
    and "snd (ensure_managed_root_import x existed)"
  shows "remove_managed_root_import (fst (ensure_managed_root_import x existed)) True
    = ((if trim_space x = [] then None else Some (trim_space x @ nl)), True)"
  by (rule remove_after_ensure [OF assms])

theorem root_import_round_trip_witness:
  "remove_managed_root_import (fst (ensure_managed_root_import (''localhost'' @ nl) True)) True
     = (Some (''localhost'' @ nl), True)"
proof -
  have "free_of_markers (split_on CHR 0x0A (trim_right_char CHR 0x0A (''localhost'' @ nl)))"
    "snd (ensure_managed_root_import (''localhost'' @ nl) True)"
    "trim_space (''localhost'' @ nl) = ''localhost''"
    by code_simp+
  from root_import_round_trip [OF this(1,2)] this(3) show ?thesis by simp
qed

section \<open>Removing\<close>

text \<open>C17: a removal that fails - Caddy refuses what is left, the reload fails, the remaining files cannot be
  listed - puts the site's file and the root Caddyfile back, and has changed no other file. The host's
  own system calls do not fail here (with \<^verbatim>\<open>EIO\<close> or \<^verbatim>\<open>ENOSPC\<close> in the restore nothing is claimed), both files
  are on writable paths, the four paths are apart (\<open>caddy_layout\<close>), and the two temporary files are
  excepted.\<close>

theorem caddy_failed_removal_undone:
  assumes "caddy_layout m (caddy_removal_target m i)" and "quiet w"
    and "writable w (caddy_removal_target m i)" and "writable w (cm_root_config m)"
    and "caddy_remove_site m i w = (Inl e, w')"
    and "x \<noteq> tmp_path (cm_root_config m)" and "x \<noteq> tmp_path (caddy_removal_target m i)"
  shows "file_at w' x = file_at w x"
  by (rule caddy_remove_undone [OF assms])

definition host_with_site :: "(nat \<Rightarrow> string \<Rightarrow> string list \<Rightarrow> string \<times> err option) \<Rightarrow> world" where
  "host_with_site r = sample_world r
     [(''/etc/caddy'', Dir mode_0755), (''/etc/caddy/sites.d/lara-nux'', Dir mode_0755),
      (''/etc/caddy/Caddyfile'', File mode_0644 (import_block @ nl)),
      (''/etc/caddy/sites.d/lara-nux/blog.caddy'', File mode_0644 (caddy_managed_marker @ nl)),
      (''/etc/caddy/sites.d/lara-nux/mine.caddy'', File mode_0644 ''mine.test'')]"

lemma host_removal_fails:
  "is_Inl (fst (caddy_remove_site default_caddy ''blog'' (host_with_site (refusing ''validate''))))"
  by code_simp

lemma host_removal_works:
  "fst (caddy_remove_site default_caddy ''blog'' (host_with_site all_succeed)) = Inr ()"
  by code_simp

lemma host_writable_root:
  "writable (host_with_site (refusing ''validate'')) (cm_root_config default_caddy)"
  by code_simp

lemma host_writable_site:
  "writable (host_with_site (refusing ''validate'')) (caddy_removal_target default_caddy ''blog'')"
  by code_simp

lemma host_paths_differ:
  "caddy_removal_target default_caddy ''blog'' \<noteq> tmp_path (cm_root_config default_caddy)"
  by code_simp

lemma host_id_given:
  "trim_space ''blog'' \<noteq> []"
  by code_simp

lemma host_with_site_files:
  "file_at (host_with_site r) (caddy_removal_target default_caddy ''blog'') = Some (caddy_managed_marker @ nl)"
  "file_at (host_with_site r) (caddy_removal_target default_caddy ''mine'') = Some ''mine.test''"
  "\<not> contains ''mine.test'' caddy_managed_marker"
  by code_simp+

lemma quiet_host_with_site: "quiet (host_with_site r)"
  by (simp add: quiet_def host_with_site_def)

lemma removal_layout: "caddy_layout default_caddy (caddy_removal_target default_caddy i)"
  unfolding caddy_removal_target_def by (rule default_layout_target)

theorem caddy_failed_removal_undone_witness:
  "file_at (snd (caddy_remove_site default_caddy ''blog'' (host_with_site (refusing ''validate''))))
     (caddy_removal_target default_caddy ''blog'') = Some (caddy_managed_marker @ nl)"
proof -
  let ?run = "caddy_remove_site default_caddy ''blog'' (host_with_site (refusing ''validate''))"
  obtain e where e: "fst ?run = Inl e" using is_InlD [OF host_removal_fails] by blast
  have "?run = (Inl e, snd ?run)" unfolding e [symmetric] by simp
  from caddy_failed_removal_undone [OF removal_layout quiet_host_with_site host_writable_site host_writable_root this
    host_paths_differ]
  show ?thesis using host_with_site_files(1) by simp
qed

text \<open>A removal that succeeds has deleted the file of the site it names.\<close>

theorem caddy_successful_removal:
  assumes "caddy_layout m (caddy_removal_target m i)" and "quiet w" and "trim_space i \<noteq> []"
    and "file_at w (caddy_removal_target m i) = Some t" and "caddy_remove_site m i w = (Inr (), w')"
  shows "file_at w' (caddy_removal_target m i) = None"
  by (rule caddy_remove_done [OF assms(1,4,2,3,5)])

theorem caddy_successful_removal_witness:
  "file_at (snd (caddy_remove_site default_caddy ''blog'' (host_with_site all_succeed)))
     (caddy_removal_target default_caddy ''blog'') = None"
proof -
  let ?run = "caddy_remove_site default_caddy ''blog'' (host_with_site all_succeed)"
  have "?run = (Inr (), snd ?run)" unfolding host_removal_works [symmetric] by simp
  from caddy_successful_removal [OF removal_layout quiet_host_with_site host_id_given
    host_with_site_files(1) this] show ?thesis .
qed

text \<open>C32: a file that does not carry the marker of Lara Nux is never deleted, changed or moved by a
  removal, and nothing else is either, whatever the rest of the host does.\<close>

theorem caddy_foreign_file_kept:
  assumes "file_at w (caddy_removal_target m i) = Some t" and "\<not> contains t caddy_managed_marker"
  shows "fs (snd (caddy_remove_site m i w)) = fs w"
  by (rule caddy_remove_foreign [OF assms])

theorem caddy_foreign_file_kept_witness:
  "fs (snd (caddy_remove_site default_caddy ''mine'' (host_with_site all_succeed))) = fs (host_with_site all_succeed)"
  by (rule caddy_foreign_file_kept [OF host_with_site_files(2,3)])

end
