(* ===== verification/Php_Fpm_Manager.thy ===== *)
theory Php_Fpm_Manager
  imports Host_Types Quiet_Files
begin

text \<open>
  \<^verbatim>\<open>daemon/internal/host/ubuntu/php/manager.go\<close>: the FPM pool and the systemd override of a PHP
  runtime, written with a backup, validated by \<^verbatim>\<open>php-fpm -t\<close>, activated by a restart, and put back
  when a step after the writes fails.
\<close>

definition managed_pool_marker :: string where
  "managed_pool_marker = ''; Managed by Lara Nux''"

definition managed_override_marker :: string where
  "managed_override_marker = ''# Managed by Lara Nux''"

record fpm_manager =
  fm_php_root :: string
  fm_systemd_dir :: string
  fm_socket_dir :: string

definition or_default :: "string \<Rightarrow> string \<Rightarrow> string" where
  "or_default v d = (if trim_space v = [] then d else trim_space v)"

definition new_fpm_manager :: "string \<Rightarrow> string \<Rightarrow> string \<Rightarrow> fpm_manager" where
  "new_fpm_manager php_root systemd_dir socket_dir =
     \<lparr>fm_php_root = or_default php_root ''/etc/php'',
      fm_systemd_dir = or_default systemd_dir ''/etc/systemd/system'',
      fm_socket_dir = or_default socket_dir ''/run/php''\<rparr>"

definition render_pool_config :: "php_runtime \<Rightarrow> string" where
  "render_pool_config rt =
     join_with nl [managed_pool_marker, ''[lara-nux]'', ''user = www-data'', ''group = www-data'',
       ''listen = '' @ pr_socket_path rt, ''listen.owner = caddy'', ''listen.group = caddy'', ''pm = dynamic'',
       ''pm.max_children = 10'', ''pm.start_servers = 2'', ''pm.min_spare_servers = 1'',
       ''pm.max_spare_servers = 4'', ''chdir = /'', []]"

definition render_override_config :: string where
  "render_override_config =
     join_with nl [managed_override_marker, ''[Service]'', ''RuntimeDirectory=php'', ''RuntimeDirectoryMode=0755'', []]"

definition fpm_normalize :: "fpm_manager \<Rightarrow> php_runtime \<Rightarrow> err + php_runtime \<times> php_materialization" where
  "fpm_normalize m rt =
     (let version = trim_prefix (trim_space (to_lower (pr_version rt))) ''php''
      in if version = [] then Inl (sentinel_err ErrActivationValidation ''php version is required'')
         else
           let service_name = or_default (pr_service_name rt) (''php'' @ version @ ''-fpm'');
               fpm_binary = or_default (pr_fpm_binary_path rt) (path_join [''/usr/sbin'', ''php-fpm'' @ version]);
               socket_path = or_default (pr_socket_path rt)
                 (path_join [fm_socket_dir m, ''lara-nux-php'' @ version @ ''-fpm.sock''])
           in Inr (rt\<lparr>pr_version := version, pr_service_name := service_name,
                      pr_fpm_binary_path := fpm_binary, pr_socket_path := socket_path\<rparr>,
                   \<lparr>pm_version = version, pm_service_name = service_name, pm_socket_path = socket_path,
                    pm_pool_config_path = path_join [fm_php_root m, version, ''fpm'', ''pool.d'', ''lara-nux.conf''],
                    pm_override_path = path_join [fm_systemd_dir m, service_name @ ''.d'', ''lara-nux.conf''],
                    pm_active = False\<rparr>))"

section \<open>Commands\<close>

definition run_checked :: "string \<Rightarrow> string list \<Rightarrow> string \<Rightarrow> world \<Rightarrow> (err + unit) \<times> world" where
  "run_checked name args what w =
     (case run_cmd name args w of
        ((out, Some e), w1) \<Rightarrow> (Inl (errorf (what @ '': '' @ err_text e @ '' ('' @ trim_space out @ '')'')), w1)
      | ((out, None), w1) \<Rightarrow> (Inr (), w1))"

definition fpm_validate :: "php_runtime \<Rightarrow> world \<Rightarrow> (err + unit) \<times> world" where
  "fpm_validate rt w =
     run_checked (pr_fpm_binary_path rt) [''-t''] (''validate php-fpm runtime '' @ pr_version rt) w"

definition fpm_daemon_reload :: "world \<Rightarrow> (err + unit) \<times> world" where
  "fpm_daemon_reload w = run_checked ''systemctl'' [''daemon-reload''] ''systemd daemon-reload failed'' w"

definition fpm_restart :: "string \<Rightarrow> world \<Rightarrow> (err + unit) \<times> world" where
  "fpm_restart service w =
     run_checked ''systemctl'' [''restart'', service] (''restart php-fpm service '' @ service) w"

section \<open>Materializing a runtime\<close>

text \<open>Backups: content and existence of the pool file, then of the override file.\<close>

definition fpm_rollback ::
    "php_runtime \<Rightarrow> php_materialization \<Rightarrow> string \<times> bool \<Rightarrow> string \<times> bool \<Rightarrow> world \<Rightarrow> world" where
  "fpm_rollback rt mat pool override w =
     (let w1 = snd (restore_file (pm_pool_config_path mat) (fst pool) (snd pool) mode_0644 w);
          w2 = snd (restore_file (pm_override_path mat) (fst override) (snd override) mode_0644 w1);
          w3 = snd (fpm_daemon_reload w2)
      in snd (run_cmd ''systemctl'' [''restart'', pr_service_name rt] w3))"

definition fpm_activate ::
    "php_runtime \<Rightarrow> php_materialization \<Rightarrow> string \<times> bool \<Rightarrow> string \<times> bool \<Rightarrow> world
       \<Rightarrow> (err + php_materialization) \<times> world" where
  "fpm_activate rt mat pool override w =
     (case fpm_daemon_reload w of
        (Inl e, w1) \<Rightarrow>
          (Inl (wrap_err ''reload systemd before php-fpm validation'' e), fpm_rollback rt mat pool override w1)
      | (Inr _, w1) \<Rightarrow>
      (case fpm_validate rt w1 of
         (Inl e, w2) \<Rightarrow> (Inl e, fpm_rollback rt mat pool override w2)
       | (Inr _, w2) \<Rightarrow>
       (case fpm_restart (pr_service_name rt) w2 of
          (Inl e, w3) \<Rightarrow> (Inl e, fpm_rollback rt mat pool override w3)
        | (Inr _, w3) \<Rightarrow> (Inr (mat\<lparr>pm_active := True\<rparr>), w3))))"

definition fpm_make_dirs :: "fpm_manager \<Rightarrow> php_materialization \<Rightarrow> world \<Rightarrow> (err + unit) \<times> world" where
  "fpm_make_dirs m mat w =
     (case os_mkdir_all (path_dir (pm_pool_config_path mat)) mode_0755 w of
        (Inl e, w1) \<Rightarrow> (Inl (wrap_err ''create php pool directory'' e), w1)
      | (Inr _, w1) \<Rightarrow>
      (case os_mkdir_all (path_dir (pm_override_path mat)) mode_0755 w1 of
         (Inl e, w2) \<Rightarrow> (Inl (wrap_err ''create systemd override directory'' e), w2)
       | (Inr _, w2) \<Rightarrow>
       (case os_mkdir_all (fm_socket_dir m) mode_0755 w2 of
          (Inl e, w3) \<Rightarrow> (Inl (wrap_err ''create php socket directory'' e), w3)
        | (Inr _, w3) \<Rightarrow> (Inr (), w3))))"

definition fpm_write_assets ::
    "php_runtime \<Rightarrow> php_materialization \<Rightarrow> string \<times> bool \<Rightarrow> world \<Rightarrow> (err + unit) \<times> world" where
  "fpm_write_assets rt mat pool w =
     (case write_atomically (pm_pool_config_path mat) (render_pool_config rt) mode_0644 w of
        (Inl e, w1) \<Rightarrow> (Inl (wrap_err ''write php-fpm pool config'' e), w1)
      | (Inr _, w1) \<Rightarrow>
      (case write_atomically (pm_override_path mat) render_override_config mode_0644 w1 of
         (Inl e, w2) \<Rightarrow>
           (Inl (wrap_err ''write php-fpm override config'' e),
            snd (restore_file (pm_pool_config_path mat) (fst pool) (snd pool) mode_0644 w2))
       | (Inr _, w2) \<Rightarrow> (Inr (), w2)))"

definition fpm_materialize :: "fpm_manager \<Rightarrow> php_runtime \<Rightarrow> world \<Rightarrow> (err + php_materialization) \<times> world" where
  "fpm_materialize m runtime w =
     (case fpm_normalize m runtime of
        Inl e \<Rightarrow> (Inl e, w)
      | Inr (rt, mat) \<Rightarrow>
      (case read_if_exists (pm_pool_config_path mat) w of
         (Inl e, w1) \<Rightarrow> (Inl (wrap_err ''read php-fpm pool backup'' e), w1)
       | (Inr pool, w1) \<Rightarrow>
       (case read_if_exists (pm_override_path mat) w1 of
          (Inl e, w2) \<Rightarrow> (Inl (wrap_err ''read php-fpm override backup'' e), w2)
        | (Inr override, w2) \<Rightarrow>
        (case fpm_make_dirs m mat w2 of
           (Inl e, w3) \<Rightarrow> (Inl e, w3)
         | (Inr _, w3) \<Rightarrow>
         (case fpm_write_assets rt mat pool w3 of
            (Inl e, w4) \<Rightarrow> (Inl e, w4)
          | (Inr _, w4) \<Rightarrow> fpm_activate rt mat pool override w4)))))"

definition fpm_switch :: "fpm_manager \<Rightarrow> php_switch_request \<Rightarrow> world \<Rightarrow> (err + php_materialization) \<times> world" where
  "fpm_switch m req w =
     (case fpm_materialize m (sw_target req) w of
        (Inl e, w1) \<Rightarrow>
          (Inl (sentinel_err ErrRuntimeSwitchRollback (err_text e)),
           if trim_space (pr_service_name (sw_previous req)) \<noteq> []
           then snd (run_cmd ''systemctl'' [''restart'', pr_service_name (sw_previous req)] w1) else w1)
      | (Inr mat, w1) \<Rightarrow> (Inr mat, w1))"

section \<open>Removing a runtime\<close>

definition is_managed_php_asset :: "string \<Rightarrow> bool" where
  "is_managed_php_asset payload \<longleftrightarrow>
     contains payload managed_pool_marker \<or> contains payload managed_override_marker"

definition fpm_remove_managed_file :: "string \<Rightarrow> world \<Rightarrow> (err + unit) \<times> world" where
  "fpm_remove_managed_file p w =
     (case read_if_exists p w of
        (Inl e, w1) \<Rightarrow> (Inl e, w1)
      | (Inr (payload, existed), w1) \<Rightarrow>
          (if \<not> existed then (Inr (), w1)
           else if \<not> is_managed_php_asset payload then
             (Inl (sentinel_err ErrManagedAssetConflict
                (''php-fpm asset '' @ p @ '' is not owned by Lara Nux'')), w1)
           else
             (case os_remove p w1 of
                (Inl e, w2) \<Rightarrow>
                  (if errors_is e OsNotExist then (Inr (), w2)
                   else (Inl (wrap_err (''remove managed php-fpm asset '' @ p) e), w2))
              | (Inr _, w2) \<Rightarrow> (Inr (), w2))))"

definition fpm_remove :: "fpm_manager \<Rightarrow> php_runtime \<Rightarrow> world \<Rightarrow> (err + unit) \<times> world" where
  "fpm_remove m runtime w =
     (case fpm_normalize m runtime of
        Inl e \<Rightarrow> (Inl e, w)
      | Inr (rt, mat) \<Rightarrow>
      (case fpm_remove_managed_file (pm_pool_config_path mat) w of
         (Inl e, w1) \<Rightarrow> (Inl e, w1)
       | (Inr _, w1) \<Rightarrow>
       (case fpm_remove_managed_file (pm_override_path mat) w1 of
          (Inl e, w2) \<Rightarrow> (Inl e, w2)
        | (Inr _, w2) \<Rightarrow>
        (case fpm_daemon_reload w2 of
           (Inl e, w3) \<Rightarrow> (Inl e, w3)
         | (Inr _, w3) \<Rightarrow> fpm_restart (pm_service_name mat) w3))))"

end
