(* ===== verification/Php_Fpm_Correct.thy ===== *)
theory Php_Fpm_Correct
  imports Php_Fpm_Manager Sample_Worlds
begin

text \<open>
  A PHP runtime is materialized completely or not at all, and removing one deletes only files
  that carry a marker of Lara Nux.
\<close>

section \<open>Frames\<close>

lemma run_checked_frame [frame_simps]:
  "fs (snd (run_checked n a t w)) = fs w" "orc (snd (run_checked n a t w)) = orc w"
  "node_at (snd (run_checked n a t w)) q = node_at w q" "file_at (snd (run_checked n a t w)) q = file_at w q"
  "calls (snd (run_checked n a t w)) = (n, a) # calls w"
  by (simp_all add: run_checked_def split_beta split: option.split)

lemma fpm_commands_frame [frame_simps]:
  "orc (snd (fpm_validate rt w)) = orc w" "node_at (snd (fpm_validate rt w)) q = node_at w q"
  "file_at (snd (fpm_validate rt w)) q = file_at w q"
  "orc (snd (fpm_daemon_reload w)) = orc w" "node_at (snd (fpm_daemon_reload w)) q = node_at w q"
  "file_at (snd (fpm_daemon_reload w)) q = file_at w q"
  "orc (snd (fpm_restart s w)) = orc w" "node_at (snd (fpm_restart s w)) q = node_at w q"
  "file_at (snd (fpm_restart s w)) q = file_at w q"
  by (simp_all add: fpm_validate_def fpm_daemon_reload_def fpm_restart_def frame_simps)

lemma fpm_make_dirs_frame [frame_simps]:
  "orc (snd (fpm_make_dirs m mat w)) = orc w" "file_at (snd (fpm_make_dirs m mat w)) q = file_at w q"
  "calls (snd (fpm_make_dirs m mat w)) = calls w"
  by (simp_all add: fpm_make_dirs_def split_beta frame_simps split: sum.split)

section \<open>The layout and the rollback\<close>

definition fpm_layout :: "php_materialization \<Rightarrow> bool" where
  "fpm_layout mat \<longleftrightarrow>
     (let p = pm_pool_config_path mat; q = pm_override_path mat
      in proper_path p \<and> proper_path q \<and> distinct [p, tmp_path p, q, tmp_path q]
       \<and> path_dir p \<noteq> q \<and> path_dir p \<noteq> tmp_path q \<and> path_dir q \<noteq> p \<and> path_dir q \<noteq> tmp_path p)"

lemma fpm_layoutD:
  assumes "fpm_layout mat"
  shows "proper_path (pm_pool_config_path mat)" "proper_path (pm_override_path mat)"
    "pm_pool_config_path mat \<noteq> pm_override_path mat" "pm_override_path mat \<noteq> pm_pool_config_path mat"
    "pm_pool_config_path mat \<noteq> tmp_path (pm_override_path mat)"
    "pm_override_path mat \<noteq> tmp_path (pm_pool_config_path mat)"
    "tmp_path (pm_pool_config_path mat) \<noteq> pm_override_path mat"
    "tmp_path (pm_override_path mat) \<noteq> pm_pool_config_path mat"
    "path_dir (pm_pool_config_path mat) \<noteq> pm_override_path mat"
    "path_dir (pm_pool_config_path mat) \<noteq> tmp_path (pm_override_path mat)"
    "path_dir (pm_override_path mat) \<noteq> pm_pool_config_path mat"
    "path_dir (pm_override_path mat) \<noteq> tmp_path (pm_pool_config_path mat)"
  using assms by (auto simp: fpm_layout_def Let_def)

lemma settled_write_other:
  assumes "settled w q" "p \<noteq> q" "tmp_path p \<noteq> q" "p \<noteq> tmp_path q" "path_dir q \<noteq> p" "path_dir q \<noteq> tmp_path p"
  shows "settled (snd (write_atomically p d m w)) q" "settled (snd (restore_file p d b m w)) q"
  using assms settled_cong [of "snd (write_atomically p d m w)" q w] settled_cong [of "snd (restore_file p d b m w)" q w]
  by (auto simp: frame_simps)

lemma fpm_rollback_files:
  assumes lay: "fpm_layout mat" and q: "quiet w"
    and st: "settled w (pm_pool_config_path mat)" "settled w (pm_override_path mat)"
    and x: "x \<noteq> tmp_path (pm_pool_config_path mat)" "x \<noteq> tmp_path (pm_override_path mat)"
  shows "file_at (fpm_rollback rt mat pool ov w) x =
    (if x = pm_pool_config_path mat then backup (fst pool) (snd pool)
     else if x = pm_override_path mat then backup (fst ov) (snd ov) else file_at w x)"
proof -
  note L = fpm_layoutD [OF lay]
  define w1 where "w1 = snd (restore_file (pm_pool_config_path mat) (fst pool) (snd pool) mode_0644 w)"
  define w2 where "w2 = snd (restore_file (pm_override_path mat) (fst ov) (snd ov) mode_0644 w1)"
  have q1: "quiet w1" by (rule quiet_orc [OF q]) (simp add: w1_def frame_simps)
  have "settled w1 (pm_override_path mat)"
    unfolding w1_def by (rule settled_write_other(2) [OF st(2)]) (use L in simp_all)
  from quiet_restore_settled [OF q1 L(2) this]
  have 2: "file_at w2 (pm_override_path mat) = backup (fst ov) (snd ov)" by (simp add: w2_def backup_def)
  have 1: "file_at w1 (pm_pool_config_path mat) = backup (fst pool) (snd pool)"
    using quiet_restore_settled [OF q L(1) st(1)] by (simp add: w1_def backup_def)
  have "file_at (fpm_rollback rt mat pool ov w) x = file_at w2 x"
    by (simp add: fpm_rollback_def Let_def w1_def w2_def frame_simps)
  moreover have "x \<noteq> pm_override_path mat \<Longrightarrow> file_at w2 x = file_at w1 x"
    using x by (simp add: w2_def frame_simps)
  moreover have "x \<noteq> pm_pool_config_path mat \<Longrightarrow> file_at w1 x = file_at w x"
    using x by (simp add: w1_def frame_simps)
  ultimately show ?thesis using 1 2 L by auto
qed

section \<open>All or nothing\<close>

lemma fpm_write_assets_cases:
  assumes lay: "fpm_layout mat" and q: "quiet w" and pool: "backup (fst pool) (snd pool) = file_at w (pm_pool_config_path mat)"
  shows "case fpm_write_assets rt mat pool w of
      (Inl e, v) \<Rightarrow> (\<forall>x. x \<noteq> tmp_path (pm_pool_config_path mat) \<longrightarrow> x \<noteq> tmp_path (pm_override_path mat) \<longrightarrow>
         file_at v x = file_at w x)
    | (Inr _, v) \<Rightarrow> settled v (pm_pool_config_path mat) \<and> settled v (pm_override_path mat)"
proof -
  note L = fpm_layoutD [OF lay]
  let ?p = "pm_pool_config_path mat" and ?q = "pm_override_path mat"
  define w1 where "w1 = snd (write_atomically ?p (render_pool_config rt) mode_0644 w)"
  define w2 where "w2 = snd (write_atomically ?q render_override_config mode_0644 w1)"
  have q1: "quiet w1" by (rule quiet_orc [OF q]) (simp add: w1_def frame_simps)
  have q2: "quiet w2" by (rule quiet_orc [OF q1]) (simp add: w2_def frame_simps)
  show ?thesis
  proof (rule quiet_write_atomically_cases [OF q L(1), of "render_pool_config rt" mode_0644])
    fix e
    assume r: "fst (write_atomically ?p (render_pool_config rt) mode_0644 w) = Inl e"
      and same: "\<And>x. x \<noteq> tmp_path ?p \<Longrightarrow>
        node_at (snd (write_atomically ?p (render_pool_config rt) mode_0644 w)) x = node_at w x"
    then show ?thesis by (simp add: fpm_write_assets_def split_beta file_at_def)
  next
    assume r: "fst (write_atomically ?p (render_pool_config rt) mode_0644 w) = Inr ()"
      and st: "settled (snd (write_atomically ?p (render_pool_config rt) mode_0644 w)) ?p"
    show ?thesis
    proof (rule quiet_write_atomically_cases [OF q1 L(2), of render_override_config mode_0644])
      fix e
      assume r2: "fst (write_atomically ?q render_override_config mode_0644 w1) = Inl e"
        and same: "\<And>x. x \<noteq> tmp_path ?q \<Longrightarrow> node_at (snd (write_atomically ?q render_override_config mode_0644 w1)) x = node_at w1 x"
      have "settled w2 ?p" unfolding w2_def
        by (rule settled_write_other(1) [OF st [folded w1_def]]) (use L in simp_all)
      note restored = quiet_restore_settled [OF q2 L(1) this, of "fst pool" "snd pool" mode_0644]
      have keep: "file_at (snd (restore_file ?p (fst pool) (snd pool) mode_0644 w2)) x = file_at w x"
        if x: "x \<noteq> tmp_path ?p" "x \<noteq> tmp_path ?q" for x
      proof (cases "x = ?p")
        case True
        with restored pool show ?thesis by (simp add: backup_def)
      next
        case False
        with x have "file_at (snd (restore_file ?p (fst pool) (snd pool) mode_0644 w2)) x = file_at w2 x"
          by (simp add: frame_simps)
        also have "\<dots> = file_at w1 x" using same [OF x(2)] by (simp add: file_at_def w2_def)
        also have "\<dots> = file_at w x" using False x by (simp add: w1_def frame_simps)
        finally show ?thesis .
      qed
      then show ?thesis using r r2 by (simp add: fpm_write_assets_def split_beta w1_def w2_def)
    next
      assume r2: "fst (write_atomically ?q render_override_config mode_0644 w1) = Inr ()"
        and st2: "settled (snd (write_atomically ?q render_override_config mode_0644 w1)) ?q"
      have "settled w2 ?p" unfolding w2_def
        by (rule settled_write_other(1) [OF st [folded w1_def]]) (use L in simp_all)
      with r r2 st2 show ?thesis by (simp add: fpm_write_assets_def split_beta w1_def w2_def)
    qed
  qed
qed

lemma fpm_activate_Inl:
  assumes "fpm_activate rt mat pool ov w = (Inl e, w')"
  obtains v where "w' = fpm_rollback rt mat pool ov v" "orc v = orc w" "\<And>y. node_at v y = node_at w y"
proof -
  let ?w1 = "snd (fpm_daemon_reload w)"
  let ?w2 = "snd (fpm_validate rt ?w1)"
  let ?w3 = "snd (fpm_restart (pr_service_name rt) ?w2)"
  from assms consider "w' = fpm_rollback rt mat pool ov ?w1" | "w' = fpm_rollback rt mat pool ov ?w2"
    | "w' = fpm_rollback rt mat pool ov ?w3"
    by (auto simp: fpm_activate_def split_beta split: sum.splits)
  then show ?thesis
    by cases (erule that; simp add: frame_simps)+
qed

lemma fpm_materialize_undone:
  assumes nm: "fpm_normalize m runtime = Inr (rt, mat)" and lay: "fpm_layout mat" and q: "quiet w"
    and res: "fpm_materialize m runtime w = (Inl e, w')"
    and x: "x \<noteq> tmp_path (pm_pool_config_path mat)" "x \<noteq> tmp_path (pm_override_path mat)"
  shows "file_at w' x = file_at w x"
proof -
  let ?p = "pm_pool_config_path mat" and ?q = "pm_override_path mat"
  define w2 where "w2 = next_tick (next_tick w)"
  define w3 where "w3 = snd (fpm_make_dirs m mat w2)"
  have w3: "orc w3 = orc w" "\<And>y. file_at w3 y = file_at w y" by (simp_all add: w3_def w2_def frame_simps)
  have q1: "quiet (next_tick w)" and q3: "quiet w3" using quiet_orc [OF q] w3(1) by simp_all
  from res nm consider (early) "w' = next_tick w \<or> w' = w2 \<or> w' = w3"
    | (wrote) pool ov where "fst (read_if_exists ?p w) = Inr pool" "fst (read_if_exists ?q (next_tick w)) = Inr ov"
        "(case fpm_write_assets rt mat pool w3 of (Inl e, w4) \<Rightarrow> (Inl e, w4)
          | (Inr _, w4) \<Rightarrow> fpm_activate rt mat pool ov w4) = (Inl e, w')"
    by (auto simp: fpm_materialize_def split_beta w2_def w3_def split: sum.splits)
  then show ?thesis
  proof cases
    case early
    then show ?thesis using w3 by (auto simp: w2_def)
  next
    case wrote
    have pool: "backup (fst pool) (snd pool) = file_at w3 ?p"
      using read_if_exists_is_backup [OF q, of ?p "fst pool" "snd pool"] wrote(1) w3 by simp
    have ov: "backup (fst ov) (snd ov) = file_at w ?q"
      using read_if_exists_is_backup [OF q1, of ?q "fst ov" "snd ov"] wrote(2) by simp
    define w4 where "w4 = snd (fpm_write_assets rt mat pool w3)"
    note C = fpm_write_assets_cases [OF lay q3 pool, of rt]
    show ?thesis
    proof (cases "fst (fpm_write_assets rt mat pool w3)")
      case (Inl e')
      with C wrote(3) w3 x show ?thesis by (auto simp: split_beta)
    next
      case (Inr u)
      with wrote(3) have "fpm_activate rt mat pool ov w4 = (Inl e, w')" by (simp add: split_beta w4_def)
      then obtain v where v: "w' = fpm_rollback rt mat pool ov v" "orc v = orc w4" "\<And>y. node_at v y = node_at w4 y"
        by (rule fpm_activate_Inl) blast
      have fr: "orc w4 = orc w3" "x \<noteq> ?p \<Longrightarrow> x \<noteq> ?q \<Longrightarrow> file_at w4 x = file_at w3 x"
        using x by (auto simp: w4_def fpm_write_assets_def split_beta frame_simps split: sum.split)
      have qv: "quiet v" using quiet_orc [OF q] v(2) fr(1) w3(1) by simp
      have "settled v ?p" "settled v ?q"
        using C Inr v(3) settled_cong [of v ?p w4] settled_cong [of v ?q w4] by (simp_all add: split_beta w4_def)
      from fpm_rollback_files [OF lay qv this x, of rt pool ov] pool ov v(3) fr(2) w3(2)
      show ?thesis by (auto simp: v(1) file_at_def)
    qed
  qed
qed

section \<open>Frames of the whole operation\<close>

lemma fpm_activate_frame:
  assumes "x \<noteq> pm_pool_config_path mat" "x \<noteq> tmp_path (pm_pool_config_path mat)"
    "x \<noteq> pm_override_path mat" "x \<noteq> tmp_path (pm_override_path mat)"
  shows "file_at (snd (fpm_activate rt mat pool ov w)) x = file_at w x"
    "file_at (snd (fpm_write_assets rt mat pool w)) x = file_at w x"
  using assms
  by (simp_all add: fpm_activate_def fpm_write_assets_def fpm_rollback_def Let_def split_beta frame_simps split: sum.split)

lemma fpm_materialize_frame:
  assumes "fpm_normalize m runtime = Inr (rt, mat)"
    and x: "x \<noteq> pm_pool_config_path mat" "x \<noteq> tmp_path (pm_pool_config_path mat)"
    "x \<noteq> pm_override_path mat" "x \<noteq> tmp_path (pm_override_path mat)"
  shows "file_at (snd (fpm_materialize m runtime w)) x = file_at w x"
  using assms(1)
  by (simp add: fpm_materialize_def split_beta fpm_activate_frame [OF x] frame_simps split: sum.split)

section \<open>Success\<close>

lemma fpm_activate_Inr:
  assumes "fpm_activate rt mat pool ov w = (Inr r, w')"
  shows "r = mat\<lparr>pm_active := True\<rparr>" "\<And>x. file_at w' x = file_at w x"
    "calls w' = (''systemctl'', [''restart'', pr_service_name rt]) # (pr_fpm_binary_path rt, [''-t''])
      # (''systemctl'', [''daemon-reload'']) # calls w"
proof -
  from assms have w': "w' = snd (fpm_restart (pr_service_name rt) (snd (fpm_validate rt (snd (fpm_daemon_reload w)))))"
    and r: "r = mat\<lparr>pm_active := True\<rparr>"
    by (auto simp: fpm_activate_def split_beta split: sum.splits)
  show "r = mat\<lparr>pm_active := True\<rparr>" by (rule r)
  show "file_at w' x = file_at w x" for x by (simp add: w' frame_simps)
  show "calls w' = (''systemctl'', [''restart'', pr_service_name rt]) # (pr_fpm_binary_path rt, [''-t''])
      # (''systemctl'', [''daemon-reload'']) # calls w"
    by (simp add: w' fpm_restart_def fpm_validate_def fpm_daemon_reload_def frame_simps)
qed

lemma fpm_write_assets_Inr:
  assumes "fst (fpm_write_assets rt mat pool w) = Inr ()" and L: "fpm_layout mat"
  shows "file_at (snd (fpm_write_assets rt mat pool w)) (pm_pool_config_path mat) = Some (render_pool_config rt)"
    "file_at (snd (fpm_write_assets rt mat pool w)) (pm_override_path mat) = Some render_override_config"
proof -
  let ?w1 = "snd (write_atomically (pm_pool_config_path mat) (render_pool_config rt) mode_0644 w)"
  from assms(1) have 1: "fst (write_atomically (pm_pool_config_path mat) (render_pool_config rt) mode_0644 w) = Inr ()"
    and 2: "fst (write_atomically (pm_override_path mat) render_override_config mode_0644 ?w1) = Inr ()"
    and v: "snd (fpm_write_assets rt mat pool w) =
      snd (write_atomically (pm_override_path mat) render_override_config mode_0644 ?w1)"
    by (auto simp: fpm_write_assets_def split_beta split: sum.splits)
  show "file_at (snd (fpm_write_assets rt mat pool w)) (pm_pool_config_path mat) = Some (render_pool_config rt)"
    using write_atomically_Inr(1) [OF 1] fpm_layoutD [OF L] by (simp add: v frame_simps)
  show "file_at (snd (fpm_write_assets rt mat pool w)) (pm_override_path mat) = Some render_override_config"
    using write_atomically_Inr(1) [OF 2] by (simp add: v)
qed

lemma fpm_materialize_Inr:
  assumes nm: "fpm_normalize m runtime = Inr (rt, mat)" and lay: "fpm_layout mat"
    and res: "fpm_materialize m runtime w = (Inr r, w')"
  shows "r = mat\<lparr>pm_active := True\<rparr>"
    and "file_at w' (pm_pool_config_path mat) = Some (render_pool_config rt)"
    and "file_at w' (pm_override_path mat) = Some render_override_config"
    and "take 3 (calls w') = [(''systemctl'', [''restart'', pr_service_name rt]), (pr_fpm_binary_path rt, [''-t'']),
      (''systemctl'', [''daemon-reload''])]"
proof -
  define w3 where "w3 = snd (fpm_make_dirs m mat (next_tick (next_tick w)))"
  define w4 where "w4 pool = snd (fpm_write_assets rt mat pool w3)" for pool
  from res nm obtain pool ov where wr: "fst (fpm_write_assets rt mat pool w3) = Inr ()"
      and ac: "fpm_activate rt mat pool ov (w4 pool) = (Inr r, w')"
    by (auto simp: fpm_materialize_def split_beta w3_def w4_def split: sum.splits)
  note A = fpm_activate_Inr [OF ac] and W = fpm_write_assets_Inr [OF wr lay, folded w4_def]
  show "r = mat\<lparr>pm_active := True\<rparr>" by (rule A(1))
  show "file_at w' (pm_pool_config_path mat) = Some (render_pool_config rt)"
    "file_at w' (pm_override_path mat) = Some render_override_config" using A(2) W by simp_all
  show "take 3 (calls w') = [(''systemctl'', [''restart'', pr_service_name rt]), (pr_fpm_binary_path rt, [''-t'']),
      (''systemctl'', [''daemon-reload''])]" by (simp add: A(3))
qed

section \<open>Removal\<close>

lemma fpm_remove_managed_file_foreign:
  assumes "file_at w p = Some t" "\<not> is_managed_php_asset t"
  shows "\<exists>e. fst (fpm_remove_managed_file p w) = Inl e \<and> (fault w = None \<longrightarrow> errors_is e ErrManagedAssetConflict)
      \<or> fault w = Some ENOENT"
    "fs (snd (fpm_remove_managed_file p w)) = fs w"
proof -
  obtain m where n: "node_at w p = Some (File m t)" using file_at_SomeD [OF assms(1)] by blast
  show "\<exists>e. fst (fpm_remove_managed_file p w) = Inl e \<and> (fault w = None \<longrightarrow> errors_is e ErrManagedAssetConflict)
      \<or> fault w = Some ENOENT"
    "fs (snd (fpm_remove_managed_file p w)) = fs w"
    using n assms(2)
    by (auto simp: fpm_remove_managed_file_def read_if_exists_def os_read_file_def split_beta split: option.split)
qed

lemma fpm_remove_foreign:
  assumes "fpm_normalize m runtime = Inr (rt, mat)" and "quiet w"
    and "file_at w (pm_pool_config_path mat) = Some t" "\<not> is_managed_php_asset t"
  shows "fs (snd (fpm_remove m runtime w)) = fs w"
    "\<exists>e. fst (fpm_remove m runtime w) = Inl e \<and> errors_is e ErrManagedAssetConflict"
  using assms(1) quiet_fault [OF assms(2)] fpm_remove_managed_file_foreign [OF assms(3,4)]
  by (auto simp: fpm_remove_def split_beta)

lemma fpm_normalize_Inr:
  "fpm_normalize m r = Inr (rt, mat) \<Longrightarrow> pr_service_name rt = pm_service_name mat"
  by (auto simp: fpm_normalize_def Let_def split: if_splits)

section \<open>Properties\<close>

definition default_fpm :: fpm_manager where
  "default_fpm = new_fpm_manager [] [] []"

definition sample_runtime :: php_runtime where
  "sample_runtime = \<lparr>pr_version = ''PHP8.3'', pr_binary_path = ''/usr/bin/php8.3'', pr_fpm_binary_path = [],
     pr_service_name = [], pr_socket_path = []\<rparr>"

definition php_host :: "(nat \<Rightarrow> string \<Rightarrow> string list \<Rightarrow> string \<times> err option) \<Rightarrow> world" where
  "php_host r = sample_world r
     [(''/etc/php/8.3/fpm/pool.d'', Dir mode_0755), (''/run/php'', Dir mode_0755),
      (''/etc/php/8.3/fpm/pool.d/lara-nux.conf'', File mode_0644 ''old pool'')]"

definition sample_rt :: php_runtime where
  "sample_rt = \<lparr>pr_version = ''8.3'', pr_binary_path = ''/usr/bin/php8.3'',
     pr_fpm_binary_path = ''/usr/sbin/php-fpm8.3'', pr_service_name = ''php8.3-fpm'',
     pr_socket_path = ''/run/php/lara-nux-php8.3-fpm.sock''\<rparr>"

definition sample_mat :: php_materialization where
  "sample_mat = \<lparr>pm_version = ''8.3'', pm_service_name = ''php8.3-fpm'',
     pm_socket_path = ''/run/php/lara-nux-php8.3-fpm.sock'',
     pm_pool_config_path = ''/etc/php/8.3/fpm/pool.d/lara-nux.conf'',
     pm_override_path = ''/etc/systemd/system/php8.3-fpm.d/lara-nux.conf'', pm_active = False\<rparr>"

lemma sample_fpm_facts:
  "fpm_normalize default_fpm sample_runtime = Inr (sample_rt, sample_mat)"
  "fpm_layout sample_mat"
  "is_Inl (fst (fpm_materialize default_fpm sample_runtime (php_host (refusing ''-t''))))"
  "\<not> is_Inl (fst (fpm_materialize default_fpm sample_runtime (php_host all_succeed)))"
  "pm_pool_config_path sample_mat \<noteq> tmp_path (pm_pool_config_path sample_mat)"
  "pm_pool_config_path sample_mat \<noteq> tmp_path (pm_override_path sample_mat)"
  by code_simp+

lemma php_host_facts [simp]: "quiet (php_host r)"
  "file_at (php_host r) (pm_pool_config_path sample_mat) = Some ''old pool''" "\<not> is_managed_php_asset ''old pool''"
  by (simp add: quiet_def php_host_def) code_simp+

text \<open>C10: a runtime that cannot be materialized - a configuration \<^verbatim>\<open>php-fpm -t\<close> refuses, a restart that fails,
  a path that cannot be written - leaves every file as it was, the pool and the override included. The
  host's own system calls do not fail here (the restore needs them too: after \<^verbatim>\<open>ENOSPC\<close> or \<^verbatim>\<open>EIO\<close> nothing
  is claimed); commands may fail in any way, the pool and the override are two proper paths, neither
  the directory of the other (\<open>fpm_layout\<close>), and their two temporary files are excepted.\<close>

theorem fpm_failed_materialization_undone:
  assumes "fpm_normalize m runtime = Inr (rt, mat)" and "fpm_layout mat" and "quiet w"
    and "fpm_materialize m runtime w = (Inl e, w')"
    and "x \<noteq> tmp_path (pm_pool_config_path mat)" and "x \<noteq> tmp_path (pm_override_path mat)"
  shows "file_at w' x = file_at w x"
  by (rule fpm_materialize_undone [OF assms])

theorem fpm_failed_materialization_undone_witness:
  "file_at (snd (fpm_materialize default_fpm sample_runtime (php_host (refusing ''-t''))))
     (pm_pool_config_path sample_mat) = Some ''old pool''"
proof -
  let ?run = "fpm_materialize default_fpm sample_runtime (php_host (refusing ''-t''))"
  obtain e where e: "fst ?run = Inl e" using is_InlD [OF sample_fpm_facts(3)] by blast
  have "?run = (Inl e, snd ?run)" unfolding e [symmetric] by simp
  from fpm_failed_materialization_undone [OF sample_fpm_facts(1,2) php_host_facts(1) this sample_fpm_facts(5,6)]
  show ?thesis by simp
qed

text \<open>C23: a runtime that has been materialized has its pool and override installed, and systemd was
  reloaded, the configuration validated and the service restarted, in that order, after the writes.\<close>

theorem fpm_successful_materialization:
  assumes "fpm_normalize m runtime = Inr (rt, mat)" and "fpm_layout mat"
    and "fpm_materialize m runtime w = (Inr r, w')"
  shows "r = mat\<lparr>pm_active := True\<rparr>
    \<and> file_at w' (pm_pool_config_path mat) = Some (render_pool_config rt)
    \<and> file_at w' (pm_override_path mat) = Some render_override_config
    \<and> take 3 (calls w') = [(''systemctl'', [''restart'', pr_service_name rt]), (pr_fpm_binary_path rt, [''-t'']),
         (''systemctl'', [''daemon-reload''])]"
  using fpm_materialize_Inr [OF assms] by simp

theorem fpm_successful_materialization_witness:
  "file_at (snd (fpm_materialize default_fpm sample_runtime (php_host all_succeed))) (pm_pool_config_path sample_mat)
     = Some (render_pool_config sample_rt)"
proof -
  let ?run = "fpm_materialize default_fpm sample_runtime (php_host all_succeed)"
  obtain r where r: "fst ?run = Inr r" using not_is_InlD [OF sample_fpm_facts(4)] by blast
  have "?run = (Inr r, snd ?run)" unfolding r [symmetric] by simp
  from fpm_successful_materialization [OF sample_fpm_facts(1,2) this] show ?thesis by simp
qed

text \<open>C19: a switch that fails reports \<^verbatim>\<open>ErrRuntimeSwitchRollback\<close>, has put back every file, and has restarted
  the service of the previous runtime as its last command. The conditions are those of the failed
  materialization - system calls that do not fail, the layout of the two files, their temporary files
  excepted - and a previous runtime whose service name is not blank.\<close>

theorem fpm_failed_switch_rolls_back:
  assumes "fpm_normalize m (sw_target req) = Inr (rt, mat)" and "fpm_layout mat" and "quiet w"
    and "fpm_switch m req w = (Inl e, w')"
    and "x \<noteq> tmp_path (pm_pool_config_path mat)" and "x \<noteq> tmp_path (pm_override_path mat)"
    and "trim_space (pr_service_name (sw_previous req)) \<noteq> []"
  shows "errors_is e ErrRuntimeSwitchRollback \<and> file_at w' x = file_at w x
    \<and> hd (calls w') = (''systemctl'', [''restart'', pr_service_name (sw_previous req)])"
proof -
  let ?run = "fpm_materialize m (sw_target req) w"
  from assms(4) obtain e' where e': "fst ?run = Inl e'" "e = sentinel_err ErrRuntimeSwitchRollback (err_text e')"
      and w': "w' = snd (run_cmd ''systemctl'' [''restart'', pr_service_name (sw_previous req)] (snd ?run))"
    using assms(7) by (auto simp: fpm_switch_def split_beta split: sum.splits)
  have "?run = (Inl e', snd ?run)" unfolding e'(1) [symmetric] by simp
  from fpm_materialize_undone [OF assms(1-3) this assms(5,6)] e' w' show ?thesis by simp
qed

definition sample_switch :: php_switch_request where
  "sample_switch = \<lparr>sw_site_id = ''blog'', sw_previous = sample_rt\<lparr>pr_service_name := ''php8.2-fpm''\<rparr>,
     sw_target = sample_runtime\<rparr>"

lemma sample_switch_fails: "is_Inl (fst (fpm_switch default_fpm sample_switch (php_host (refusing ''-t''))))"
  "trim_space (pr_service_name (sw_previous sample_switch)) \<noteq> []"
  "pr_service_name (sw_previous sample_switch) = ''php8.2-fpm''" "sw_target sample_switch = sample_runtime"
  by code_simp+

theorem fpm_failed_switch_rolls_back_witness:
  "hd (calls (snd (fpm_switch default_fpm sample_switch (php_host (refusing ''-t'')))))
     = (''systemctl'', [''restart'', ''php8.2-fpm''])"
proof -
  let ?run = "fpm_switch default_fpm sample_switch (php_host (refusing ''-t''))"
  obtain e where e: "fst ?run = Inl e" using is_InlD [OF sample_switch_fails(1)] by blast
  have "?run = (Inl e, snd ?run)" unfolding e [symmetric] by simp
  from fpm_failed_switch_rolls_back [OF sample_fpm_facts(1) [folded sample_switch_fails(4)] sample_fpm_facts(2)
    php_host_facts(1) this sample_fpm_facts(5,6) sample_switch_fails(2)]
  show ?thesis by (simp add: sample_switch_fails(3))
qed

text \<open>C33: removing a runtime whose pool file is not Lara Nux's own is refused with
  \<^verbatim>\<open>ErrManagedAssetConflict\<close>, and no file of the host changes.\<close>

theorem fpm_foreign_pool_kept:
  assumes "fpm_normalize m runtime = Inr (rt, mat)" and "quiet w"
    and "file_at w (pm_pool_config_path mat) = Some t" and "\<not> is_managed_php_asset t"
  shows "fs (snd (fpm_remove m runtime w)) = fs w
    \<and> (\<exists>e. fst (fpm_remove m runtime w) = Inl e \<and> errors_is e ErrManagedAssetConflict)"
  using fpm_remove_foreign [OF assms] by simp

theorem fpm_foreign_pool_kept_witness:
  "fs (snd (fpm_remove default_fpm sample_runtime (php_host all_succeed))) = fs (php_host all_succeed)"
  using fpm_foreign_pool_kept [OF sample_fpm_facts(1) php_host_facts] by blast

end
