(* ===== verification/Resolved_Manager.thy ===== *)
theory Resolved_Manager
  imports Host_Types Quiet_Files Sample_Worlds
begin

text \<open>
  \<^verbatim>\<open>daemon/internal/host/ubuntu/resolved/manager.go\<close>: the systemd-resolved drop-in that routes the
  development domain to the machine. It is written only when no other configuration claims the
  domain, and put back when the resolver does not restart.
\<close>

definition resolver_marker :: string where
  "resolver_marker = ''# Managed by Lara Nux''"

record resolved_manager =
  rm_main_config :: string
  rm_drop_in_dir :: string
  rm_stub_path :: string

definition new_resolved_manager :: "string \<Rightarrow> string \<Rightarrow> string \<Rightarrow> resolved_manager" where
  "new_resolved_manager main_config drop_in stub =
     (let main = (if trim_space main_config = [] then ''/etc/systemd/resolved.conf'' else trim_space main_config);
          dir = (if trim_space drop_in = [] then ''/etc/systemd/resolved.conf.d'' else trim_space drop_in)
      in \<lparr>rm_main_config = main, rm_drop_in_dir = dir,
          rm_stub_path = (if trim_space stub = [] then path_join [dir, ''lara-nux-test.conf''] else trim_space stub)\<rparr>)"

definition normalize_spec :: "resolver_stub_spec \<Rightarrow> resolver_stub_spec" where
  "normalize_spec spec =
     (let domain = trim_prefix (to_lower (trim_space (sp_domain spec))) ''.'';
          address = trim_space (sp_address spec)
      in \<lparr>sp_domain = (if domain = [] then ''test'' else domain),
          sp_address = (if address = [] then ''127.0.0.1'' else address)\<rparr>)"

definition render_stub :: "resolver_stub_spec \<Rightarrow> string" where
  "render_stub spec =
     join_with nl [resolver_marker, ''[Resolve]'', ''DNS='' @ sp_address spec, ''Domains=~'' @ sp_domain spec, []]"

definition is_managed_content :: "string \<Rightarrow> bool" where
  "is_managed_content payload = contains payload resolver_marker"

definition claims_line :: "string \<Rightarrow> string \<Rightarrow> bool" where
  "claims_line needle line0 =
     (let line = trim_space line0
      in if line = [] \<or> has_prefix line ''#'' \<or> has_prefix line '';'' then False
         else (case cut_at CHR ''='' line of
                 (key, value, found) \<Rightarrow>
                   found \<and> equal_fold (trim_space key) ''Domains''
                   \<and> list_ex (\<lambda>token. equal_fold (trim_space token) needle) (go_fields value)))"

definition owns_domain :: "string \<Rightarrow> string \<Rightarrow> bool" where
  "owns_domain payload domain =
     list_ex (claims_line (''~'' @ trim_prefix (to_lower (trim_space domain)) ''.'')) (split_on CHR 0x0A payload)"

section \<open>Other claimants\<close>

definition claim_conflict :: "string \<Rightarrow> string \<Rightarrow> conflict" where
  "claim_conflict domain p =
     \<lparr>cf_resource = p, cf_owner = ''external'',
      cf_summary = ''Resolver config '' @ p @ '' already claims routing for ~'' @ domain @ ''.'',
      cf_remediation = ''Remove the ~'' @ domain @ '' claim from '' @ p
        @ '' or let Lara Nux manage a different development domain.''\<rparr>"

fun scan_claims :: "string \<Rightarrow> string \<Rightarrow> string list \<Rightarrow> world \<Rightarrow> (err + conflict list) \<times> world" where
  "scan_claims stub domain [] w = (Inr [], w)"
| "scan_claims stub domain (p # ps) w =
     (if p = stub then scan_claims stub domain ps w
      else (case read_if_exists p w of
              (Inl e, w1) \<Rightarrow> (Inl (wrap_err (''inspect resolver config '' @ p) e), w1)
            | (Inr (payload, existed), w1) \<Rightarrow>
                (if \<not> existed \<or> \<not> owns_domain payload domain then scan_claims stub domain ps w1
                 else (case scan_claims stub domain ps w1 of
                         (Inl e, w2) \<Rightarrow> (Inl e, w2)
                       | (Inr cs, w2) \<Rightarrow> (Inr (claim_conflict domain p # cs), w2)))))"

definition external_claimants :: "resolved_manager \<Rightarrow> string \<Rightarrow> world \<Rightarrow> (err + conflict list) \<times> world" where
  "external_claimants m domain w =
     (case glob_ext (rm_drop_in_dir m) ''.conf'' w of
        (Inl e, w1) \<Rightarrow> (Inl (wrap_err ''list resolver drop-ins'' e), w1)
      | (Inr drop_ins, w1) \<Rightarrow> scan_claims (rm_stub_path m) domain (sort (rm_main_config m # drop_ins)) w1)"

section \<open>Inspecting\<close>

definition available_status :: "resolved_manager \<Rightarrow> resolver_stub_spec \<Rightarrow> resolver_status" where
  "available_status m spec =
     \<lparr>rs_managed = False, rs_stub_path = rm_stub_path m, rs_domain = sp_domain spec,
      rs_address = sp_address spec, rs_owner = ''available'', rs_conflicts = [],
      rs_summary = ''Resolver domain ~'' @ sp_domain spec @ '' is available for Lara Nux management.'',
      rs_remediation = []\<rparr>"

definition foreign_stub_conflict :: "resolved_manager \<Rightarrow> resolver_stub_spec \<Rightarrow> conflict" where
  "foreign_stub_conflict m spec =
     \<lparr>cf_resource = rm_stub_path m, cf_owner = ''external'',
      cf_summary = ''Existing resolver stub at '' @ rm_stub_path m @ '' is not owned by Lara Nux.'',
      cf_remediation = ''Move or merge the external resolver drop-in before Lara Nux manages ~''
        @ sp_domain spec @ ''.''\<rparr>"

definition stub_status :: "resolved_manager \<Rightarrow> resolver_stub_spec \<Rightarrow> string \<Rightarrow> resolver_status" where
  "stub_status m spec payload =
     (let status = available_status m spec
      in if \<not> is_managed_content payload then
           status\<lparr>rs_owner := ''external'', rs_conflicts := [foreign_stub_conflict m spec]\<rparr>
         else if trim_space payload = trim_space (render_stub spec) then
           status\<lparr>rs_managed := True, rs_owner := ''lara-nux'',
                  rs_summary := ''Resolver domain ~'' @ sp_domain spec @ '' is already managed by Lara Nux.''\<rparr>
         else
           status\<lparr>rs_owner := ''lara-nux'',
                  rs_summary := ''Resolver domain ~'' @ sp_domain spec @ '' is managed by Lara Nux with drifted content.''\<rparr>)"

definition conflict_status :: "resolver_stub_spec \<Rightarrow> conflict list \<Rightarrow> resolver_status \<Rightarrow> resolver_status" where
  "conflict_status spec claimants status0 =
     (let status = status0\<lparr>rs_conflicts := rs_conflicts status0 @ claimants\<rparr>
      in if rs_conflicts status = [] then status
         else status\<lparr>rs_owner := ''conflict'', rs_managed := False,
           rs_summary := ''Resolver ownership for ~'' @ sp_domain spec @ '' conflicts with existing host configuration.'',
           rs_remediation := ''Remove or update the conflicting resolver drop-ins before Lara Nux manages ~''
             @ sp_domain spec @ ''.''\<rparr>)"

type_synonym resolver_result = "(resolver_status \<times> err option) \<times> world"

definition resolved_inspect :: "resolved_manager \<Rightarrow> resolver_stub_spec \<Rightarrow> world \<Rightarrow> resolver_result" where
  "resolved_inspect m spec0 w =
     (let spec = normalize_spec spec0; status0 = available_status m spec
      in (case ctx_err w of
            (Some e, w1) \<Rightarrow> ((status0, Some e), w1)
          | (None, w1) \<Rightarrow>
          (case read_if_exists (rm_stub_path m) w1 of
             (Inl e, w2) \<Rightarrow> ((status0, Some (wrap_err ''inspect managed resolver stub'' e)), w2)
           | (Inr (payload, existed), w2) \<Rightarrow>
               (let status = (if existed then stub_status m spec payload else status0)
                in (case external_claimants m (sp_domain spec) w2 of
                      (Inl e, w3) \<Rightarrow> ((status, Some e), w3)
                    | (Inr claimants, w3) \<Rightarrow> ((conflict_status spec claimants status, None), w3))))))"

section \<open>Installing and removing the stub\<close>

definition resolved_reload :: "world \<Rightarrow> (err + unit) \<times> world" where
  "resolved_reload w =
     (case run_cmd ''systemctl'' [''restart'', ''systemd-resolved''] w of
        ((out, Some e), w1) \<Rightarrow>
          (Inl (errorf (''restart systemd-resolved: '' @ err_text e @ '' ('' @ trim_space out @ '')'')), w1)
      | ((out, None), w1) \<Rightarrow>
          (case run_cmd ''resolvectl'' [''flush-caches''] w1 of
             ((out2, Some e), w2) \<Rightarrow>
               (Inl (errorf (''flush resolved caches: '' @ err_text e @ '' ('' @ trim_space out2 @ '')'')), w2)
           | ((out2, None), w2) \<Rightarrow> (Inr (), w2)))"

definition resolved_install :: "resolved_manager \<Rightarrow> resolver_stub_spec \<Rightarrow> world \<Rightarrow> (err + unit) \<times> world" where
  "resolved_install m spec w =
     (case read_if_exists (rm_stub_path m) w of
        (Inl e, w1) \<Rightarrow> (Inl (wrap_err ''read resolver stub backup'' e), w1)
      | (Inr (previous, existed), w1) \<Rightarrow>
      (case os_mkdir_all (path_dir (rm_stub_path m)) mode_0755 w1 of
         (Inl e, w2) \<Rightarrow> (Inl (wrap_err ''create resolver drop-in directory'' e), w2)
       | (Inr _, w2) \<Rightarrow>
       (case write_atomically (rm_stub_path m) (render_stub spec) mode_0644 w2 of
          (Inl e, w3) \<Rightarrow> (Inl (wrap_err ''write resolver stub'' e), w3)
        | (Inr _, w3) \<Rightarrow>
        (case resolved_reload w3 of
           (Inl e, w4) \<Rightarrow>
             (Inl (wrap_err ''apply resolver stub'' e),
              snd (resolved_reload (snd (restore_file (rm_stub_path m) previous existed mode_0644 w4))))
         | (Inr _, w4) \<Rightarrow> (Inr (), w4)))))"

definition resolved_ensure :: "resolved_manager \<Rightarrow> resolver_stub_spec \<Rightarrow> world \<Rightarrow> resolver_result" where
  "resolved_ensure m spec0 w =
     (let spec = normalize_spec spec0
      in (case resolved_inspect m spec w of
            ((status, Some e), w1) \<Rightarrow> ((status, Some e), w1)
          | ((status, None), w1) \<Rightarrow>
              (if rs_conflicts status \<noteq> [] then
                 ((status, Some (sentinel_err ErrResolverConflict (rs_summary status))), w1)
               else (case resolved_install m spec w1 of
                       (Inl e, w2) \<Rightarrow> ((status, Some e), w2)
                     | (Inr _, w2) \<Rightarrow> resolved_inspect m spec w2))))"

definition resolved_remove_reload :: "resolved_manager \<Rightarrow> string \<Rightarrow> world \<Rightarrow> (err + unit) \<times> world" where
  "resolved_remove_reload m payload w =
     (case resolved_reload w of
        (Inl e, w1) \<Rightarrow>
          (Inl (wrap_err ''reload resolver after removing managed stub'' e),
           snd (resolved_reload (snd (write_atomically (rm_stub_path m) payload mode_0644 w1))))
      | (Inr _, w1) \<Rightarrow> (Inr (), w1))"

definition resolved_remove :: "resolved_manager \<Rightarrow> world \<Rightarrow> (err + unit) \<times> world" where
  "resolved_remove m w =
     (case read_if_exists (rm_stub_path m) w of
        (Inl e, w1) \<Rightarrow> (Inl e, w1)
      | (Inr (payload, existed), w1) \<Rightarrow>
          (if \<not> existed then (Inr (), w1)
           else if \<not> is_managed_content payload then
             (Inl (sentinel_err ErrManagedAssetConflict
                (''resolver stub at '' @ rm_stub_path m @ '' is not owned by Lara Nux'')), w1)
           else
             (case os_remove (rm_stub_path m) w1 of
                (Inl e, w2) \<Rightarrow>
                  (if errors_is e OsNotExist then resolved_remove_reload m payload w2
                   else (Inl (wrap_err ''remove resolver stub'' e), w2))
              | (Inr _, w2) \<Rightarrow> resolved_remove_reload m payload w2)))"

section \<open>Frames\<close>

lemma scan_claims_frame [frame_simps]:
  "fs (snd (scan_claims st d ps w)) = fs w" "orc (snd (scan_claims st d ps w)) = orc w"
  "calls (snd (scan_claims st d ps w)) = calls w"
  by (induction ps arbitrary: w) (simp_all add: split_beta split: sum.split)

lemma external_claimants_frame [frame_simps]:
  "fs (snd (external_claimants m d w)) = fs w" "orc (snd (external_claimants m d w)) = orc w"
  "calls (snd (external_claimants m d w)) = calls w"
  by (simp_all add: external_claimants_def split_beta frame_simps split: sum.split)

lemma resolved_inspect_frame [frame_simps]:
  "fs (snd (resolved_inspect m sp w)) = fs w" "orc (snd (resolved_inspect m sp w)) = orc w"
  "calls (snd (resolved_inspect m sp w)) = calls w"
  by (simp_all add: resolved_inspect_def Let_def split_beta frame_simps split: sum.split option.split)

lemma resolved_inspect_files [frame_simps]:
  "node_at (snd (resolved_inspect m sp w)) q = node_at w q" "file_at (snd (resolved_inspect m sp w)) q = file_at w q"
  by (simp_all add: node_at_def file_at_def frame_simps)

lemma resolved_reload_frame [frame_simps]:
  "fs (snd (resolved_reload w)) = fs w" "orc (snd (resolved_reload w)) = orc w"
  "node_at (snd (resolved_reload w)) q = node_at w q" "file_at (snd (resolved_reload w)) q = file_at w q"
  by (simp_all add: resolved_reload_def split_beta split: option.split)

lemma resolved_install_frame [frame_simps]:
  "orc (snd (resolved_install m sp w)) = orc w"
  "q \<noteq> rm_stub_path m \<Longrightarrow> q \<noteq> tmp_path (rm_stub_path m) \<Longrightarrow>
     file_at (snd (resolved_install m sp w)) q = file_at w q"
  by (simp_all add: resolved_install_def split_beta frame_simps split: sum.split)

section \<open>Installing is all or nothing\<close>

lemma resolved_install_Inr:
  assumes "resolved_install m sp w = (Inr (), w')"
  shows "file_at w' (rm_stub_path m) = Some (render_stub sp)"
    "take 2 (calls w') = [(''resolvectl'', [''flush-caches'']), (''systemctl'', [''restart'', ''systemd-resolved''])]"
proof -
  let ?w2 = "snd (os_mkdir_all (path_dir (rm_stub_path m)) mode_0755 (next_tick w))"
  let ?wr = "write_atomically (rm_stub_path m) (render_stub sp) mode_0644 ?w2"
  from assms have wr: "fst ?wr = Inr ()" and re: "fst (resolved_reload (snd ?wr)) = Inr ()"
    and w': "w' = snd (resolved_reload (snd ?wr))"
    by (auto simp: resolved_install_def split_beta split: sum.splits)
  show "file_at w' (rm_stub_path m) = Some (render_stub sp)"
    using write_atomically_Inr(1) [OF wr] by (simp add: w' frame_simps)
  show "take 2 (calls w') = [(''resolvectl'', [''flush-caches'']), (''systemctl'', [''restart'', ''systemd-resolved''])]"
    using re by (auto simp: w' resolved_reload_def split_beta split: option.splits)
qed

lemma resolved_install_Inl:
  assumes q: "quiet w" and pp: "proper_path (rm_stub_path m)"
    and res: "resolved_install m sp w = (Inl e, w')" and x: "x \<noteq> tmp_path (rm_stub_path m)"
  shows "file_at w' x = file_at w x"
proof -
  let ?p = "rm_stub_path m"
  define w2 where "w2 = snd (os_mkdir_all (path_dir ?p) mode_0755 (next_tick w))"
  have w2: "orc w2 = orc w" "\<And>y. file_at w2 y = file_at w y" by (simp_all add: w2_def frame_simps)
  have q2: "quiet w2" by (rule quiet_orc [OF q w2(1)])
  from res consider (early) "w' = next_tick w \<or> w' = w2"
    | (wrote) prev ex where "fst (read_if_exists ?p w) = Inr (prev, ex)"
        "(case write_atomically ?p (render_stub sp) mode_0644 w2 of (Inl e, w3) \<Rightarrow> (Inl (wrap_err ''write resolver stub'' e), w3)
          | (Inr _, w3) \<Rightarrow> (case resolved_reload w3 of
              (Inl e, w4) \<Rightarrow> (Inl (wrap_err ''apply resolver stub'' e),
                snd (resolved_reload (snd (restore_file ?p prev ex mode_0644 w4))))
            | (Inr _, w4) \<Rightarrow> (Inr (), w4))) = (Inl e, w')"
    by (auto simp: resolved_install_def split_beta w2_def split: sum.splits)
  then show ?thesis
  proof cases
    case early
    then show ?thesis using w2 by auto
  next
    case wrote
    show ?thesis
    proof (rule quiet_write_atomically_cases [OF q2 pp, of "render_stub sp" mode_0644])
      fix e'
      assume "fst (write_atomically ?p (render_stub sp) mode_0644 w2) = Inl e'"
        and same: "\<And>x. x \<noteq> tmp_path ?p \<Longrightarrow> node_at (snd (write_atomically ?p (render_stub sp) mode_0644 w2)) x = node_at w2 x"
      with wrote(2) same [OF x] w2 show ?thesis by (auto simp: split_beta file_at_def)
    next
      assume r: "fst (write_atomically ?p (render_stub sp) mode_0644 w2) = Inr ()"
        and st: "settled (snd (write_atomically ?p (render_stub sp) mode_0644 w2)) ?p"
      define w4 where "w4 = snd (resolved_reload (snd (write_atomically ?p (render_stub sp) mode_0644 w2)))"
      have q4: "quiet w4" by (rule quiet_orc [OF q2]) (simp add: w4_def frame_simps)
      have "settled w4 ?p"
        using st settled_cong [of w4 ?p "snd (write_atomically ?p (render_stub sp) mode_0644 w2)"]
        by (simp add: w4_def frame_simps)
      note restored = quiet_restore_settled [OF q4 pp this, of prev ex mode_0644]
      have "file_at w' x = file_at (snd (restore_file ?p prev ex mode_0644 w4)) x"
        using wrote(2) r by (auto simp: split_beta w4_def frame_simps split: sum.splits)
      moreover have "x \<noteq> ?p \<Longrightarrow> file_at (snd (restore_file ?p prev ex mode_0644 w4)) x = file_at w x"
        using x w2 by (simp add: w4_def frame_simps)
      ultimately show ?thesis
        using restored read_if_exists_is_backup [OF q wrote(1)] by (cases "x = ?p") (auto simp: backup_def)
    qed
  qed
qed

end
