(* ===== verification/Resolved_Correct.thy ===== *)
theory Resolved_Correct
  imports Resolved_Manager
begin

text \<open>
  The resolver stub is installed only when nobody else claims the domain, completely or not at
  all, and it is a claim other managers recognise.
\<close>

section \<open>Claims are found\<close>

lemma scan_finds_claim:
  assumes "quiet w" "fst (scan_claims st d ps w) = Inr cs" "p \<in> set ps" "p \<noteq> st"
    "file_at w p = Some t" "owns_domain t d"
  shows "claim_conflict d p \<in> set cs"
  using assms(1-3,5)
proof (induction ps arbitrary: w cs)
  case (Cons q ps)
  have q1: "quiet (next_tick w)" using Cons.prems(1) by (simp add: quiet_def)
  obtain mo where "node_at w p = Some (File mo t)" using file_at_SomeD [OF Cons.prems(4)] by blast
  then have rd: "fst (read_if_exists p w) = Inr (t, True)"
    using quiet_fault [OF Cons.prems(1)] by (simp add: read_if_exists_def os_read_file_def split_beta)
  show ?case
  proof (cases "q = p")
    case True
    with Cons.prems(2) rd assms(4,6) show ?thesis
      by (auto simp: split_beta split: sum.splits)
  next
    case False
    with Cons.prems have "p \<in> set ps" "file_at (next_tick w) p = Some t" by simp_all
    with Cons.IH [OF Cons.prems(1)] Cons.IH [OF q1] Cons.prems(2) \<open>file_at w p = Some t\<close> show ?thesis
      by (auto simp: split_beta split: sum.splits if_splits)
  qed
qed simp

lemma glob_finds:
  assumes "fst (glob_ext d ext w) = Inr ps" "quiet w" "node_at w p \<noteq> None" "p \<noteq> d"
    "path_dir p = path_clean d" "has_suffix (path_base p) ext"
  shows "p \<in> set ps"
proof -
  obtain n where "(p, n) \<in> set (fs w)" using assms(3) by (auto simp: node_at_def dest: map_of_SomeD)
  with assms quiet_fault [OF assms(2)] show ?thesis
    by (force simp: glob_ext_def split: if_splits)
qed

text \<open>A file that the resolver reads: the main configuration or a drop-in.\<close>

definition resolver_file :: "resolved_manager \<Rightarrow> string \<Rightarrow> bool" where
  "resolver_file m p \<longleftrightarrow> p = rm_main_config m \<or>
     (p \<noteq> rm_drop_in_dir m \<and> path_dir p = path_clean (rm_drop_in_dir m) \<and> has_suffix (path_base p) ''.conf'')"

lemma claimants_found:
  assumes "quiet w" "fst (external_claimants m d w) = Inr cs" "resolver_file m p" "p \<noteq> rm_stub_path m"
    "file_at w p = Some t" "owns_domain t d"
  shows "cs \<noteq> []"
proof -
  from assms(2) obtain ps where g: "fst (glob_ext (rm_drop_in_dir m) ''.conf'' w) = Inr ps"
      and s: "fst (scan_claims (rm_stub_path m) d (sort (rm_main_config m # ps)) (next_tick w)) = Inr cs"
    by (auto simp: external_claimants_def split_beta split: sum.splits)
  have "node_at w p \<noteq> None" using file_at_SomeD [OF assms(5)] by auto
  with glob_finds [OF g assms(1)] assms(3) have "p \<in> set (sort (rm_main_config m # ps))"
    by (auto simp: resolver_file_def set_insort_key)
  with scan_finds_claim [OF _ s _ assms(4) _ assms(6)] assms(1,5) show ?thesis
    by (force simp: quiet_def)
qed

lemma inspect_reports_claim:
  assumes "quiet w" "resolver_file m p" "p \<noteq> rm_stub_path m" "file_at w p = Some t"
    "owns_domain t (sp_domain (normalize_spec sp))" "snd (fst (resolved_inspect m sp w)) = None"
  shows "rs_conflicts (fst (fst (resolved_inspect m sp w))) \<noteq> []"
proof -
  define w2 where "w2 = next_tick (next_tick w)"
  from assms(6) obtain cs s0 where c: "fst (external_claimants m (sp_domain (normalize_spec sp)) w2) = Inr cs"
      and st: "fst (fst (resolved_inspect m sp w)) = conflict_status (normalize_spec sp) cs s0"
    by (auto simp: resolved_inspect_def Let_def split_beta w2_def split: sum.splits option.splits)
  have "quiet w2" "file_at w2 p = Some t" using assms(1,4) by (simp_all add: w2_def quiet_def)
  with claimants_found [OF _ c assms(2,3) _ assms(5)] have "cs \<noteq> []" by blast
  then show ?thesis by (simp add: st conflict_status_def Let_def)
qed

lemma inspect_reports_foreign_stub:
  assumes "quiet w" "file_at w (rm_stub_path m) = Some t" "\<not> is_managed_content t"
    "snd (fst (resolved_inspect m sp w)) = None"
  shows "rs_conflicts (fst (fst (resolved_inspect m sp w))) \<noteq> []"
proof -
  obtain mo where "node_at (next_tick w) (rm_stub_path m) = Some (File mo t)"
    using file_at_SomeD [OF assms(2)] by auto
  moreover have "fault (next_tick w) = None" using assms(1) by (simp add: quiet_def fault_def)
  ultimately have "fst (read_if_exists (rm_stub_path m) (next_tick w)) = Inr (t, True)"
    by (simp add: read_if_exists_def os_read_file_def split_beta)
  with assms(3,4) show ?thesis
    by (auto simp: resolved_inspect_def Let_def split_beta stub_status_def conflict_status_def
        split: sum.splits option.splits)
qed

lemma ensure_stops_at_conflict:
  assumes "snd (fst (resolved_inspect m (normalize_spec sp) w)) = None \<Longrightarrow>
      rs_conflicts (fst (fst (resolved_inspect m (normalize_spec sp) w))) \<noteq> []"
  shows "fs (snd (resolved_ensure m sp w)) = fs w" "snd (fst (resolved_ensure m sp w)) \<noteq> None"
  using assms
  by (auto simp: resolved_ensure_def Let_def split_beta frame_simps split: option.splits)

section \<open>A complete installation\<close>

lemma inspect_managed_iff:
  assumes "file_at w (rm_stub_path m) = Some c"
    and "snd (fst (resolved_inspect m sp w)) = None" and "fault (next_tick w) \<noteq> Some ENOENT"
    and "is_managed_content c"
  shows "rs_managed (fst (fst (resolved_inspect m sp w)))
    \<longleftrightarrow> rs_conflicts (fst (fst (resolved_inspect m sp w))) = [] \<and> trim_space c = trim_space (render_stub (normalize_spec sp))"
proof -
  obtain mo where "node_at (next_tick w) (rm_stub_path m) = Some (File mo c)"
    using file_at_SomeD [OF assms(1)] by auto
  then have "(\<exists>e. fst (read_if_exists (rm_stub_path m) (next_tick w)) = Inl e)
      \<or> fst (read_if_exists (rm_stub_path m) (next_tick w)) = Inr (c, True)"
    using assms(3) by (auto simp: read_if_exists_def os_read_file_def split_beta split: option.splits)
  with assms(2,4) show ?thesis
    by (auto simp: resolved_inspect_def Let_def split_beta stub_status_def conflict_status_def available_status_def
        split: sum.splits option.splits)
qed

lemma rendered_is_managed: "is_managed_content (render_stub sp)"
  unfolding is_managed_content_def render_stub_def
  using contains_append [of "[]" resolver_marker] by simp

section \<open>The stub is a claim\<close>

definition plain_domain :: "string \<Rightarrow> bool" where
  "plain_domain d \<longleftrightarrow> d \<noteq> [] \<and> hd d \<noteq> CHR ''.'' \<and> (\<forall>c \<in> set d. \<not> is_space c \<and> \<not> is_upper c)"

lemma fields_acc_no_space: "\<forall>c \<in> set s. \<not> is_space c \<Longrightarrow> fields_acc cur s = (if rev cur @ s = [] then [] else [rev cur @ s])"
  by (induction s arbitrary: cur) auto

lemma plain_domain_normal:
  assumes "plain_domain d"
  shows "trim_prefix (to_lower (trim_space d)) ''.'' = d"
proof -
  have "to_lower (trim_space d) = d"
    using assms by (simp add: plain_domain_def trim_space_no_space to_lower_id)
  moreover have "\<not> has_prefix d ''.''" using assms by (cases d) (auto simp: plain_domain_def has_prefix_def)
  ultimately show ?thesis by (simp add: trim_prefix_def)
qed

lemma domains_line_claims:
  assumes "plain_domain d"
  shows "claims_line (''~'' @ d) (''Domains=~'' @ d)"
proof -
  let ?v = "''~'' @ d"
  have ns: "\<forall>c \<in> set ?v. \<not> is_space c" using assms by (auto simp: plain_domain_def is_space_def)
  have "trim_space (''Domains='' @ ?v) = ''Domains='' @ ?v"
    by (rule trim_space_no_space) (use ns in \<open>auto simp: is_space_def\<close>)
  moreover have "cut_at CHR ''='' (''Domains='' @ ?v) = (''Domains'', ?v, True)"
    by (simp add: cut_at_def)
  moreover have "go_fields ?v = [?v]" using fields_acc_no_space [OF ns, of "[]"] by (simp add: go_fields_def)
  moreover have "trim_space ''Domains'' = ''Domains''" by code_simp
  ultimately show ?thesis
    using trim_space_no_space [OF ns] by (simp add: claims_line_def Let_def has_prefix_def)
qed

lemma render_owns:
  assumes "plain_domain (sp_domain sp)" "CHR 0x0A \<notin> set (sp_address sp)"
  shows "owns_domain (render_stub sp) (sp_domain sp)"
proof -
  have nl: "CHR 0x0A \<notin> set (sp_domain sp)" using assms(1) by (auto simp: plain_domain_def is_space_def)
  have "split_on CHR 0x0A (render_stub sp)
      = [resolver_marker, ''[Resolve]'', ''DNS='' @ sp_address sp, ''Domains=~'' @ sp_domain sp, []]"
    unfolding render_stub_def nl_def
    by (rule split_join) (use assms(2) nl in \<open>auto simp: resolver_marker_def\<close>)
  moreover have "''~'' @ trim_prefix (to_lower (trim_space (sp_domain sp))) ''.'' = ''~'' @ sp_domain sp"
    by (simp add: plain_domain_normal [OF assms(1)])
  ultimately show ?thesis using domains_line_claims [OF assms(1)] by (simp add: owns_domain_def)
qed

section \<open>Properties\<close>

definition default_resolved :: resolved_manager where
  "default_resolved = new_resolved_manager [] [] []"

definition test_spec :: resolver_stub_spec where
  "test_spec = \<lparr>sp_domain = ''.Test '', sp_address = []\<rparr>"

definition dnsmasq_conf :: string where
  "dnsmasq_conf = join_with nl [''[Resolve]'', ''domains = ~corp ~TEST'']"

definition resolver_host ::
    "(nat \<Rightarrow> string \<Rightarrow> string list \<Rightarrow> string \<times> err option) \<Rightarrow> (string \<times> node) list \<Rightarrow> world" where
  "resolver_host r files = sample_world r
     ((''/etc/systemd'', Dir mode_0755) # (''/etc/systemd/resolved.conf.d'', Dir mode_0755) # files)"

lemma resolver_host_quiet [simp]: "quiet (resolver_host r files)"
  by (simp add: quiet_def resolver_host_def)

text \<open>C11: when the main resolver configuration or any drop-in other than Lara Nux's own claims the domain, the
  stub is not installed: the request fails and no file of the host changes.\<close>

theorem resolver_respects_claims:
  assumes "quiet w" and "resolver_file m p" and "p \<noteq> rm_stub_path m" and "file_at w p = Some t"
    and "owns_domain t (sp_domain (normalize_spec (normalize_spec spec)))"
  shows "fs (snd (resolved_ensure m spec w)) = fs w \<and> snd (fst (resolved_ensure m spec w)) \<noteq> None"
  using ensure_stops_at_conflict [OF inspect_reports_claim [OF assms]] by simp

theorem resolver_respects_claims_witness:
  "snd (fst (resolved_ensure default_resolved test_spec (resolver_host all_succeed
     [(''/etc/systemd/resolved.conf.d/dnsmasq.conf'', File mode_0644 dnsmasq_conf)]))) \<noteq> None"
proof -
  let ?p = "''/etc/systemd/resolved.conf.d/dnsmasq.conf''"
  let ?w = "resolver_host all_succeed [(?p, File mode_0644 dnsmasq_conf)]"
  have "resolver_file default_resolved ?p" "?p \<noteq> rm_stub_path default_resolved"
    "file_at ?w ?p = Some dnsmasq_conf"
    "owns_domain dnsmasq_conf (sp_domain (normalize_spec (normalize_spec test_spec)))"
    by code_simp+
  from resolver_respects_claims [OF resolver_host_quiet this] show ?thesis by blast
qed

lemma resolved_remove_foreign:
  assumes "file_at w (rm_stub_path m) = Some t" "\<not> is_managed_content t" "quiet w"
  shows "fs (snd (resolved_remove m w)) = fs w" "is_Inl (fst (resolved_remove m w))"
proof -
  obtain mo where "node_at w (rm_stub_path m) = Some (File mo t)" using file_at_SomeD [OF assms(1)] by blast
  with quiet_fault [OF assms(3)] assms(2)
  show "fs (snd (resolved_remove m w)) = fs w" "is_Inl (fst (resolved_remove m w))"
    by (simp_all add: resolved_remove_def read_if_exists_def os_read_file_def split_beta)
qed

text \<open>C27: a stub that does not carry the marker of Lara Nux is neither overwritten nor removed: both requests
  fail and no file of the host changes.\<close>

theorem resolver_foreign_stub_kept:
  assumes "quiet w" and "file_at w (rm_stub_path m) = Some t" and "\<not> is_managed_content t"
  shows "fs (snd (resolved_ensure m spec w)) = fs w \<and> snd (fst (resolved_ensure m spec w)) \<noteq> None
    \<and> fs (snd (resolved_remove m w)) = fs w \<and> is_Inl (fst (resolved_remove m w))"
  using ensure_stops_at_conflict [OF inspect_reports_foreign_stub [OF assms]]
    resolved_remove_foreign [OF assms(2,3,1)] by simp

theorem resolver_foreign_stub_kept_witness:
  "is_Inl (fst (resolved_remove default_resolved (resolver_host all_succeed
     [(''/etc/systemd/resolved.conf.d/lara-nux-test.conf'', File mode_0644 ''DNS=1.1.1.1'')])))"
proof -
  let ?w = "resolver_host all_succeed
     [(''/etc/systemd/resolved.conf.d/lara-nux-test.conf'', File mode_0644 ''DNS=1.1.1.1'')]"
  have "file_at ?w (rm_stub_path default_resolved) = Some ''DNS=1.1.1.1''" "\<not> is_managed_content ''DNS=1.1.1.1''"
    by code_simp+
  from resolver_foreign_stub_kept [OF resolver_host_quiet this] show ?thesis by blast
qed

text \<open>C18: a stub that could not be installed - its path cannot be written, the resolver did not restart, its
  caches were not flushed - leaves every file as it was, but for the stub's temporary file; one that was
  installed is on disk, and the resolver was restarted and flushed after the write. The host's own
  system calls do not fail here (the restore needs them) and the stub's path is a proper one, a file in
  a directory; commands may fail in any way.\<close>

theorem resolver_install_all_or_nothing:
  assumes "quiet w" and "proper_path (rm_stub_path m)" and "resolved_install m spec w = (res, w')"
    and "x \<noteq> tmp_path (rm_stub_path m)"
  shows "case res of
      Inl e \<Rightarrow> file_at w' x = file_at w x
    | Inr u \<Rightarrow> file_at w' (rm_stub_path m) = Some (render_stub spec)
        \<and> take 2 (calls w') = [(''resolvectl'', [''flush-caches'']), (''systemctl'', [''restart'', ''systemd-resolved''])]"
  using resolved_install_Inl [OF assms(1,2) _ assms(4)] resolved_install_Inr assms(3)
  by (cases res) auto

theorem resolver_install_all_or_nothing_witness:
  "file_at (snd (resolved_install default_resolved test_spec (resolver_host (refusing ''flush-caches'') [])))
     (rm_stub_path default_resolved) = None"
proof -
  let ?w = "resolver_host (refusing ''flush-caches'') []"
  have p: "proper_path (rm_stub_path default_resolved)"
    and x: "rm_stub_path default_resolved \<noteq> tmp_path (rm_stub_path default_resolved)"
    and n: "file_at ?w (rm_stub_path default_resolved) = None"
    and f: "is_Inl (fst (resolved_install default_resolved test_spec ?w))"
    by code_simp+
  let ?run = "resolved_install default_resolved test_spec ?w"
  obtain e where e: "fst ?run = Inl e" using is_InlD [OF f] by blast
  have "?run = (Inl e, snd ?run)" unfolding e [symmetric] by simp
  from resolver_install_all_or_nothing [OF resolver_host_quiet p this x] n show ?thesis by simp
qed

text \<open>Normalizing a specification twice changes nothing, unless the dot that is dropped from the domain is
  followed by another dot or by a space.\<close>

lemma normalize_spec_settles:
  assumes "d = trim_prefix (to_lower (trim_space (sp_domain spec))) ''.''"
    and "d = [] \<or> hd d \<noteq> CHR ''.'' \<and> \<not> is_space (hd d)"
  shows "normalize_spec (normalize_spec spec) = normalize_spec spec"
proof -
  let ?t = "trim_space (sp_domain spec)"
  obtain k where k: "d = to_lower (drop k ?t)"
    using assms(1) by (metis trim_prefix_def drop_0 drop_map to_lower_def)
  have "trim_prefix (to_lower (trim_space d)) ''.'' = d" if d: "d \<noteq> []"
  proof -
    have t: "drop k ?t \<noteq> []" using d k by auto
    then have "?t \<noteq> []" "last (drop k ?t) = last ?t" by (auto simp: last_drop)
    moreover have "last d = lower_char (last (drop k ?t))" using t k by (simp add: to_lower_def last_map del: drop_eq_Nil)
    ultimately have "\<not> is_space (last d)" using trim_by_ends [of is_space "sp_domain spec"] by (simp add: trim_space_def)
    then have "trim_space d = d" using assms(2) d by (intro trim_space_id) simp
    moreover have "to_lower d = d" by (simp add: k)
    ultimately show ?thesis using assms(2) d by (cases d) (auto simp: trim_prefix_def has_prefix_def)
  qed
  moreover have "trim_prefix (to_lower (trim_space ''test'')) ''.'' = ''test''" by code_simp
  moreover have "trim_space ''127.0.0.1'' = ''127.0.0.1''" by code_simp
  ultimately show ?thesis using assms(1) by (auto simp: normalize_spec_def Let_def)
qed

text \<open>C28: after a request that succeeds the stub on disk is the rendered one, and the status says the domain
  is managed exactly when it reports no conflict and the specification, normalized once more, is still
  rendered to that stub. It is unless a dot is left at the front of the domain, or a space
  (\<open>normalize_spec_settles\<close>): for \<^verbatim>\<open>..test\<close> the stub just written is reported as drifted
  (\<open>two_dots_drift\<close>).\<close>

theorem resolver_ensure_success:
  assumes "resolved_ensure m spec w = ((status, None), w')" and "quiet w"
  shows "file_at w' (rm_stub_path m) = Some (render_stub (normalize_spec spec))
    \<and> (rs_managed status \<longleftrightarrow> rs_conflicts status = []
        \<and> trim_space (render_stub (normalize_spec spec)) = trim_space (render_stub (normalize_spec (normalize_spec spec))))"
proof -
  let ?s = "normalize_spec spec"
  define w1 where "w1 = snd (resolved_inspect m ?s w)"
  define w2 where "w2 = snd (resolved_install m ?s w1)"
  from assms(1) have i: "fst (resolved_install m ?s w1) = Inr ()"
    and l: "resolved_inspect m ?s w2 = ((status, None), w')"
    by (auto simp: resolved_ensure_def Let_def split_beta w1_def w2_def split: option.splits if_splits sum.splits)
  have f: "file_at w2 (rm_stub_path m) = Some (render_stub ?s)"
    using resolved_install_Inr(1) [of m ?s w1 w2] i by (metis prod.collapse w2_def)
  have "quiet w2" by (rule quiet_orc [OF assms(2)]) (simp add: w1_def w2_def frame_simps)
  then have "fault (next_tick w2) \<noteq> Some ENOENT" by (simp add: quiet_def fault_def)
  with inspect_managed_iff [of w2 m "render_stub ?s" ?s] f l rendered_is_managed
  have "rs_managed status \<longleftrightarrow> rs_conflicts status = []
      \<and> trim_space (render_stub ?s) = trim_space (render_stub (normalize_spec ?s))" by simp
  moreover have "file_at w' (rm_stub_path m) = file_at w2 (rm_stub_path m)"
    using resolved_inspect_files(2) [of m ?s w2] by (simp add: l)
  ultimately show ?thesis using f by simp
qed

theorem resolver_ensure_success_witness:
  "file_at (snd (resolved_ensure default_resolved test_spec (resolver_host all_succeed [])))
     (rm_stub_path default_resolved) = Some (render_stub (normalize_spec test_spec))"
proof -
  let ?run = "resolved_ensure default_resolved test_spec (resolver_host all_succeed [])"
  have "snd (fst ?run) = None" by code_simp
  then have "?run = ((fst (fst ?run), None), snd ?run)" by (metis prod.collapse)
  then show ?thesis using resolver_ensure_success [OF _ resolver_host_quiet] by blast
qed

text \<open>C31: the stub Lara Nux writes for a domain is a claim to that domain in the sense of its own scan, so a
  second manager that reads it reports the conflict.\<close>

theorem rendered_stub_owns_domain:
  assumes "plain_domain (sp_domain spec)" and "CHR 0x0A \<notin> set (sp_address spec)"
  shows "owns_domain (render_stub spec) (sp_domain spec) \<and> is_managed_content (render_stub spec)"
  using render_owns [OF assms] rendered_is_managed by simp

theorem rendered_stub_owns_domain_witness:
  "owns_domain (render_stub (normalize_spec test_spec)) ''test''"
proof -
  have "sp_domain (normalize_spec test_spec) = ''test''" "plain_domain ''test''"
    "CHR 0x0A \<notin> set (sp_address (normalize_spec test_spec))"
    by code_simp+
  with rendered_stub_owns_domain [of "normalize_spec test_spec"] show ?thesis by simp
qed

text \<open>The specification is normalized once by the caller and once more by the inspection; with two leading
  dots the two disagree, and the stub that has just been written is reported as drifted.\<close>

definition dotted_spec :: resolver_stub_spec where
  "dotted_spec = \<lparr>sp_domain = ''..test'', sp_address = []\<rparr>"

lemma two_dots_drift:
  "normalize_spec (normalize_spec dotted_spec) \<noteq> normalize_spec dotted_spec"
  "\<not> rs_managed (fst (fst (resolved_ensure default_resolved dotted_spec (resolver_host all_succeed []))))"
  "snd (fst (resolved_ensure default_resolved dotted_spec (resolver_host all_succeed []))) = None"
  by code_simp+

end
