(* ===== verification/Package_Manager.thy ===== *)
theory Package_Manager
  imports Host_Types Quiet_Files Sample_Worlds
begin

text \<open>
  \<^verbatim>\<open>daemon/internal/host/ubuntu/packages/manager.go\<close>: the fixed catalog of bundles, their installation
  with apt, their verification with dpkg, and the inventory of the PHP runtimes that are there.
\<close>

definition php_bundle :: "string \<Rightarrow> supported_package" where
  "php_bundle version =
     \<lparr>sk_key = ''php-'' @ version, sk_description = ''Supported PHP runtime '' @ version @ '' for Laravel sites.'',
      sk_runtime_version = version,
      sk_packages = map (\<lambda>suffix. ''php'' @ version @ suffix)
        [[], ''-cli'', ''-fpm'', ''-curl'', ''-mbstring'', ''-xml'', ''-zip'', ''-sqlite3'']\<rparr>"

definition supported_catalog :: "supported_package list" where
  "supported_catalog =
     \<lparr>sk_key = ''caddy'', sk_description = ''Local TLS/web server for Lara Nux sites.'', sk_runtime_version = [],
      sk_packages = [''caddy'']\<rparr> # map php_bundle [''8.1'', ''8.2'', ''8.3'', ''8.4'']"

definition supported_packages :: "supported_package list" where
  "supported_packages = sort_key sk_key supported_catalog"

definition find_supported :: "string \<Rightarrow> err + supported_package" where
  "find_supported key =
     (case find_by sk_key (to_lower (trim_space key)) supported_catalog of
        None \<Rightarrow> Inl (sentinel_err ErrUnsupportedPackage key)
      | Some b \<Rightarrow> Inr b)"

definition dpkg_args :: "string \<Rightarrow> string list" where
  "dpkg_args package_name = [''-W'', ''-f=${Status}|${Version}'', package_name]"

definition inspect_package :: "string \<Rightarrow> world \<Rightarrow> (string \<times> err option) \<times> world" where
  "inspect_package package_name w =
     (case run_cmd ''dpkg-query'' (dpkg_args package_name) w of
        ((output, e), w1) \<Rightarrow>
          (let status = trim_space output
           in case e of
                Some x \<Rightarrow> ((status, Some x), w1)
              | None \<Rightarrow>
                  (if \<not> has_prefix status ''install ok installed|''
                   then ((status, Some (errorf (''package '' @ package_name @ '' is not installed''))), w1)
                   else ((status, None), w1))))"

text \<open>The details by package name, and whether every package verified.\<close>

fun verify_all :: "string list \<Rightarrow> world \<Rightarrow> ((string \<times> string) list \<times> bool) \<times> world" where
  "verify_all [] w = (([], True), w)"
| "verify_all (p # ps) w =
     (case inspect_package p w of
        ((status, e), w1) \<Rightarrow>
          (case verify_all ps w1 of
             ((details, ok), w2) \<Rightarrow> (((p, status) # details, e = None \<and> ok), w2)))"

definition zero_verification :: package_verification where
  "zero_verification = \<lparr>pv_key = [], pv_verified = False, pv_details = []\<rparr>"

definition package_verify :: "string \<Rightarrow> world \<Rightarrow> (package_verification \<times> err option) \<times> world" where
  "package_verify key w =
     (case find_supported key of
        Inl e \<Rightarrow> ((zero_verification, Some e), w)
      | Inr b \<Rightarrow>
          (case verify_all (sk_packages b) w of
             ((details, ok), w1) \<Rightarrow>
               (let v = \<lparr>pv_key = sk_key b, pv_verified = ok, pv_details = details\<rparr>
                in if \<not> ok then
                     ((v, Some (sentinel_err ErrPackageVerification
                        (''bundle '' @ sk_key b @ '' has missing or unverified packages''))), w1)
                   else ((v, None), w1))))"

definition apt_args :: "supported_package \<Rightarrow> string list" where
  "apt_args b = [''install'', ''-y'', ''--no-install-recommends''] @ sk_packages b"

definition package_acquire :: "string \<Rightarrow> world \<Rightarrow> (err + package_receipt) \<times> world" where
  "package_acquire key w =
     (case find_supported key of
        Inl e \<Rightarrow> (Inl e, w)
      | Inr b \<Rightarrow>
          (case run_cmd ''apt-get'' (apt_args b) w of
             ((output, Some e), w1) \<Rightarrow>
               (Inl (errorf (''install package bundle '' @ sk_key b @ '': '' @ err_text e @ '' (''
                  @ trim_space output @ '')'')), w1)
           | ((output, None), w1) \<Rightarrow>
               (case package_verify (sk_key b) w1 of
                  ((v, Some e), w2) \<Rightarrow> (Inl e, w2)
                | ((v, None), w2) \<Rightarrow>
                    (if \<not> pv_verified v then
                       (Inl (sentinel_err ErrPackageVerification
                          (''package bundle '' @ sk_key b @ '' did not verify after installation'')), w2)
                     else (case clock_now w2 of
                             (now, w3) \<Rightarrow>
                               (Inr \<lparr>rc_key = sk_key b, rc_packages = sk_packages b, rc_installed_at = now\<rparr>, w3))))))"

definition file_exists :: "string \<Rightarrow> world \<Rightarrow> bool \<times> world" where
  "file_exists p w =
     (case os_stat p w of (Inl e, w1) \<Rightarrow> (False, w1) | (Inr info, w1) \<Rightarrow> (\<not> is_dir info, w1))"

definition bundle_runtime :: "string \<Rightarrow> php_runtime" where
  "bundle_runtime version =
     \<lparr>pr_version = version, pr_binary_path = path_join [''/usr/bin'', ''php'' @ version],
      pr_fpm_binary_path = path_join [''/usr/sbin'', ''php-fpm'' @ version],
      pr_service_name = ''php'' @ version @ ''-fpm'',
      pr_socket_path = path_join [''/run/php'', ''lara-nux-php'' @ version @ ''-fpm.sock'']\<rparr>"

text \<open>The second file is looked for only when the first is there.\<close>

definition runtime_present :: "supported_package \<Rightarrow> world \<Rightarrow> bool \<times> world" where
  "runtime_present b w =
     (if sk_runtime_version b = [] then (False, w)
      else (case package_verify (sk_key b) w of
              ((v, e), w1) \<Rightarrow>
                (if e \<noteq> None \<or> \<not> pv_verified v then (False, w1)
                 else (case file_exists (pr_binary_path (bundle_runtime (sk_runtime_version b))) w1 of
                         (False, w2) \<Rightarrow> (False, w2)
                       | (True, w2) \<Rightarrow> file_exists (pr_fpm_binary_path (bundle_runtime (sk_runtime_version b))) w2))))"

fun scan_inventory :: "supported_package list \<Rightarrow> world \<Rightarrow> php_runtime list \<times> world" where
  "scan_inventory [] w = ([], w)"
| "scan_inventory (b # bs) w =
     (case runtime_present b w of
        (present, w1) \<Rightarrow>
          (case scan_inventory bs w1 of
             (rs, w2) \<Rightarrow> (if present then bundle_runtime (sk_runtime_version b) # rs else rs, w2)))"

definition refresh_inventory :: "world \<Rightarrow> php_runtime list \<times> world" where
  "refresh_inventory w =
     (case scan_inventory supported_catalog w of (rs, w1) \<Rightarrow> (sort_key pr_version rs, w1))"

section \<open>Frames and logs\<close>

lemma inspect_package_frame [frame_simps]:
  "fs (snd (inspect_package p w)) = fs w" "orc (snd (inspect_package p w)) = orc w"
  "calls (snd (inspect_package p w)) = (''dpkg-query'', dpkg_args p) # calls w"
  "tick (snd (inspect_package p w)) = Suc (tick w)"
  by (simp_all add: inspect_package_def split_beta Let_def run_cmd_def split: option.split)

lemma verify_all_frame [frame_simps]:
  "fs (snd (verify_all ps w)) = fs w" "orc (snd (verify_all ps w)) = orc w"
  "calls (snd (verify_all ps w)) = rev (map (\<lambda>p. (''dpkg-query'', dpkg_args p)) ps) @ calls w"
  by (induction ps arbitrary: w) (simp_all add: split_beta frame_simps)

lemma package_verify_frame [frame_simps]:
  "fs (snd (package_verify k w)) = fs w" "orc (snd (package_verify k w)) = orc w"
  by (simp_all add: package_verify_def split_beta Let_def frame_simps split: sum.split)

text \<open>What dpkg must have answered for a package to count as installed.\<close>

definition dpkg_installed :: "environment \<Rightarrow> nat \<Rightarrow> string \<Rightarrow> bool" where
  "dpkg_installed env n p \<longleftrightarrow>
     (case o_run env n ''dpkg-query'' (dpkg_args p) of
        (out, e) \<Rightarrow> e = None \<and> has_prefix (trim_space out) ''install ok installed|'')"

lemma inspect_package_ok:
  "snd (fst (inspect_package p w)) = None \<longleftrightarrow> dpkg_installed (orc w) (tick w) p"
  by (auto simp: inspect_package_def split_beta Let_def run_cmd_def dpkg_installed_def split: option.split)

lemma verify_all_ok:
  "snd (fst (verify_all ps w)) \<longleftrightarrow> (\<forall>i < length ps. dpkg_installed (orc w) (tick w + i) (ps ! i))"
proof (induction ps arbitrary: w)
  case (Cons p ps)
  then show ?case
    by (simp add: split_beta inspect_package_ok frame_simps All_less_Suc2)
qed simp

section \<open>The catalog\<close>

lemma catalog_found: "\<forall>b \<in> set supported_catalog. find_supported (sk_key b) = Inr b"
  by code_simp

lemma find_supported_Inr: "find_supported k = Inr b \<Longrightarrow> b \<in> set supported_catalog \<and> sk_key b = to_lower (trim_space k)"
  using find_by_SomeD [of sk_key] by (auto simp: find_supported_def split: option.splits)

lemma package_acquire_Inr:
  assumes "package_acquire key w = (Inr r, w')"
  obtains b where "find_supported key = Inr b" "rc_key r = sk_key b" "rc_packages r = sk_packages b"
    "o_run (orc w) (tick w) ''apt-get'' (apt_args b) = (fst (o_run (orc w) (tick w) ''apt-get'' (apt_args b)), None)"
    "\<forall>i < length (sk_packages b). dpkg_installed (orc w) (Suc (tick w) + i) (sk_packages b ! i)"
    "calls w' = rev (map (\<lambda>p. (''dpkg-query'', dpkg_args p)) (sk_packages b)) @ (''apt-get'', apt_args b) # calls w"
proof -
  from assms obtain b where b: "find_supported key = Inr b"
    by (auto simp: package_acquire_def split: sum.splits)
  then have b2: "find_supported (sk_key b) = Inr b" using catalog_found find_supported_Inr [OF b] by blast
  define w1 where "w1 = snd (run_cmd ''apt-get'' (apt_args b) w)"
  have w1: "orc w1 = orc w" "tick w1 = Suc (tick w)" "calls w1 = (''apt-get'', apt_args b) # calls w"
    by (simp_all add: w1_def run_cmd_def)
  from assms b b2 have ok: "snd (o_run (orc w) (tick w) ''apt-get'' (apt_args b)) = None"
      "snd (fst (verify_all (sk_packages b) w1))"
    and r: "rc_key r = sk_key b" "rc_packages r = sk_packages b"
    and w': "w' = next_tick (snd (verify_all (sk_packages b) w1))"
    by (auto simp: package_acquire_def package_verify_def split_beta Let_def run_cmd_def w1_def
        split: option.splits if_splits)
  show ?thesis
    by (rule that [OF b r]) (use ok w1 in \<open>auto simp: w' verify_all_ok frame_simps prod_eq_iff\<close>)
qed

section \<open>The inventory\<close>

definition is_plain_file :: "world \<Rightarrow> string \<Rightarrow> bool" where
  "is_plain_file w p \<longleftrightarrow> (case node_at w p of Some n \<Rightarrow> \<not> is_dir n | None \<Rightarrow> False)"

lemma file_exists_True: "fst (file_exists p w) \<Longrightarrow> is_plain_file w p"
  by (auto simp: file_exists_def split_beta is_plain_file_def split: sum.splits dest: os_stat_Inr)

lemma file_exists_frame [frame_simps]: "fs (snd (file_exists p w)) = fs w"
  by (simp add: file_exists_def split_beta split: sum.split)

lemma runtime_present_frame [frame_simps]: "fs (snd (runtime_present b w)) = fs w"
  by (simp add: runtime_present_def split_beta frame_simps split: bool.split)

lemma is_plain_file_cong: "fs w' = fs w \<Longrightarrow> is_plain_file w' p = is_plain_file w p"
  by (simp add: is_plain_file_def node_at_def)

lemma runtime_present_True:
  assumes "fst (runtime_present b w)"
  shows "sk_runtime_version b \<noteq> []" "is_plain_file w (pr_binary_path (bundle_runtime (sk_runtime_version b)))"
    "is_plain_file w (pr_fpm_binary_path (bundle_runtime (sk_runtime_version b)))"
proof -
  let ?r = "bundle_runtime (sk_runtime_version b)"
  define w1 where "w1 = snd (package_verify (sk_key b) w)"
  define w2 where "w2 = snd (file_exists (pr_binary_path ?r) w1)"
  from assms have 1: "fst (file_exists (pr_binary_path ?r) w1)" and 2: "fst (file_exists (pr_fpm_binary_path ?r) w2)"
    and v: "sk_runtime_version b \<noteq> []"
    by (auto simp: runtime_present_def split_beta w1_def w2_def split: if_splits bool.splits)
  have "fs w1 = fs w" "fs w2 = fs w" by (simp_all add: w1_def w2_def frame_simps)
  with file_exists_True [OF 1] file_exists_True [OF 2] v
  show "sk_runtime_version b \<noteq> []" "is_plain_file w (pr_binary_path ?r)" "is_plain_file w (pr_fpm_binary_path ?r)"
    by (simp_all add: is_plain_file_def node_at_def)
qed

lemma scan_inventory_sound:
  "r \<in> set (fst (scan_inventory bs w)) \<Longrightarrow>
     \<exists>b \<in> set bs. r = bundle_runtime (sk_runtime_version b) \<and> sk_runtime_version b \<noteq> []
       \<and> is_plain_file w (pr_binary_path r) \<and> is_plain_file w (pr_fpm_binary_path r)"
proof (induction bs arbitrary: w)
  case (Cons b bs)
  have fs: "fs (snd (runtime_present b w)) = fs w" by (simp add: frame_simps)
  from Cons.prems consider "r \<in> set (fst (scan_inventory bs (snd (runtime_present b w))))"
    | "fst (runtime_present b w)" "r = bundle_runtime (sk_runtime_version b)"
    by (auto simp: split_beta split: if_splits)
  then show ?case
  proof cases
    case 1
    from Cons.IH [OF this] show ?thesis unfolding is_plain_file_cong [OF fs] by auto
  next
    case 2
    with runtime_present_True [OF 2(1)] show ?thesis by auto
  qed
qed simp

lemma scan_inventory_subseq:
  "subseq (map pr_version (fst (scan_inventory bs w))) (map sk_runtime_version bs)"
  by (induction bs arbitrary: w) (auto simp: split_beta bundle_runtime_def)

lemma subseq_distinct_aux: "subseq xs ys \<Longrightarrow> distinct ys \<Longrightarrow> distinct xs"
  by (induction rule: list_emb.induct) (auto dest: list_emb_set)

lemma refresh_inventory_sorted: "sorted_wrt (<) (map pr_version (fst (refresh_inventory w)))"
proof -
  have "distinct (map sk_runtime_version supported_catalog)" by code_simp
  with scan_inventory_subseq [of supported_catalog w]
  have "distinct (map pr_version (fst (scan_inventory supported_catalog w)))"
    by (rule subseq_distinct_aux)
  then have "distinct (map pr_version (sort_key pr_version (fst (scan_inventory supported_catalog w))))"
    by (simp add: distinct_map)
  then show ?thesis by (simp add: refresh_inventory_def split_beta strict_sorted_iff)
qed

section \<open>Properties\<close>

text \<open>C24: a bundle counts as acquired only when apt succeeded and then dpkg reported every one of its packages
  as installed, in the order of the catalog; nothing else was run, and the receipt names exactly the
  packages of a bundle of the catalog.\<close>

theorem acquired_means_verified:
  assumes "package_acquire key w = (Inr r, w')"
  shows "\<exists>b \<in> set supported_catalog. sk_key b = to_lower (trim_space key) \<and> rc_packages r = sk_packages b
    \<and> (\<forall>i < length (sk_packages b). dpkg_installed (orc w) (Suc (tick w) + i) (sk_packages b ! i))
    \<and> calls w' = rev (map (\<lambda>p. (''dpkg-query'', dpkg_args p)) (sk_packages b)) @ (''apt-get'', apt_args b) # calls w"
  by (rule package_acquire_Inr [OF assms]) (use find_supported_Inr in blast)

definition dpkg_happy :: "nat \<Rightarrow> string \<Rightarrow> string list \<Rightarrow> string \<times> err option" where
  "dpkg_happy n c args = (if c = ''dpkg-query'' then ''install ok installed|2.7'' else [], None)"

theorem acquired_means_verified_witness:
  "\<exists>b \<in> set supported_catalog. sk_key b = ''caddy''
     \<and> calls (snd (package_acquire ''Caddy '' (sample_world dpkg_happy [])))
       = rev (map (\<lambda>p. (''dpkg-query'', dpkg_args p)) (sk_packages b)) @ [(''apt-get'', apt_args b)]"
proof -
  let ?w = "sample_world dpkg_happy []"
  have "\<not> is_Inl (fst (package_acquire ''Caddy '' ?w))" by code_simp
  then obtain r where r: "fst (package_acquire ''Caddy '' ?w) = Inr r" using not_is_InlD by blast
  have "package_acquire ''Caddy '' ?w = (Inr r, snd (package_acquire ''Caddy '' ?w))"
    unfolding r [symmetric] by simp
  from acquired_means_verified [OF this] obtain b where "b \<in> set supported_catalog"
    "sk_key b = to_lower (trim_space ''Caddy '')"
    "calls (snd (package_acquire ''Caddy '' ?w))
       = rev (map (\<lambda>p. (''dpkg-query'', dpkg_args p)) (sk_packages b)) @ (''apt-get'', apt_args b) # calls ?w"
    by blast
  moreover have "to_lower (trim_space ''Caddy '') = ''caddy''" "calls ?w = []" by code_simp+
  ultimately show ?thesis by auto
qed

text \<open>C25: the inventory lists only runtimes of the catalog whose PHP and FPM binaries are on the host as files,
  with the paths, service and socket of their version, each version once and in order.\<close>

theorem inventory_sound:
  "(\<forall>r \<in> set (fst (refresh_inventory w)). \<exists>v \<in> {''8.1'', ''8.2'', ''8.3'', ''8.4''}. r = bundle_runtime v
      \<and> is_plain_file w (pr_binary_path r) \<and> is_plain_file w (pr_fpm_binary_path r))
   \<and> sorted_wrt (<) (map pr_version (fst (refresh_inventory w)))"
proof -
  have v: "\<forall>b \<in> set supported_catalog. sk_runtime_version b \<noteq> [] \<longrightarrow>
      sk_runtime_version b \<in> {''8.1'', ''8.2'', ''8.3'', ''8.4''}"
    by code_simp
  show ?thesis
  proof (intro conjI ballI)
    fix r assume "r \<in> set (fst (refresh_inventory w))"
    then have "r \<in> set (fst (scan_inventory supported_catalog w))" by (simp add: refresh_inventory_def split_beta)
    from scan_inventory_sound [OF this] v
    show "\<exists>v \<in> {''8.1'', ''8.2'', ''8.3'', ''8.4''}. r = bundle_runtime v
      \<and> is_plain_file w (pr_binary_path r) \<and> is_plain_file w (pr_fpm_binary_path r)" by blast
  qed (rule refresh_inventory_sorted)
qed

theorem inventory_sound_witness:
  "sorted_wrt (<) (map pr_version (fst (refresh_inventory (sample_world dpkg_happy
     [(''/usr/bin/php8.3'', File mode_0755 []), (''/usr/sbin/php-fpm8.3'', File mode_0755 [])]))))"
  using inventory_sound by blast

end
