(* ===== verification/Systemd_Manager.thy ===== *)
theory Systemd_Manager
  imports Host_Types Quiet_Files
begin

text \<open>
  \<^verbatim>\<open>daemon/internal/host/ubuntu/systemd/manager.go\<close>: the systemctl calls behind a service action,
  and what their output says of the service. Both results of a Go call that returns a status beside
  an error are kept, since the callers use the status of a failed action.
\<close>

definition service_summary :: "string \<Rightarrow> err option \<Rightarrow> string" where
  "service_summary output e =
     (case e of None \<Rightarrow> output
      | Some x \<Rightarrow> (if output = [] then err_text x else output))"

definition parse_service_state :: "string \<Rightarrow> err option \<Rightarrow> service_state \<times> string" where
  "parse_service_state output e =
     (let trimmed = trim_space output
      in if trimmed = ''active'' \<or> trimmed = ''activating'' then (SvcActive, service_summary trimmed e)
         else if trimmed = ''inactive'' \<or> trimmed = ''deactivating'' then (SvcInactive, service_summary trimmed e)
         else if trimmed = ''failed'' then (SvcFailed, service_summary trimmed e)
         else if trimmed = [] then
           (case e of Some x \<Rightarrow> (SvcUnknown, err_text x) | None \<Rightarrow> (SvcUnknown, ''service state unknown''))
         else (SvcUnknown, service_summary trimmed e))"

type_synonym status_result = "(service_status \<times> err option) \<times> world"

definition systemd_status :: "string \<Rightarrow> world \<Rightarrow> status_result" where
  "systemd_status service w =
     (case run_cmd ''systemctl'' [''is-active'', service] w of
        ((output, e), w1) \<Rightarrow>
          (case parse_service_state output e of
             (state, summary) \<Rightarrow>
               (case clock_now w1 of
                  (now, w2) \<Rightarrow>
                    (let status = \<lparr>st_service = service, st_state = state, st_summary = summary,
                                   st_updated_at = now\<rparr>
                     in case e of
                          Some x \<Rightarrow>
                            (if state = SvcUnknown
                             then ((status, Some (wrap_err (''inspect service '' @ service) x)), w2)
                             else ((status, None), w2))
                        | None \<Rightarrow> ((status, None), w2)))))"

definition systemd_run_action :: "string \<Rightarrow> service_action \<Rightarrow> world \<Rightarrow> status_result" where
  "systemd_run_action service action w =
     (case run_cmd ''systemctl'' [service_action_text action, service] w of
        ((output, Some e), w1) \<Rightarrow>
          (case systemd_status service w1 of
             ((status, _), w2) \<Rightarrow>
               (let output' = (if trim_space output = [] then err_text e else output)
                in ((status\<lparr>st_summary := trim_space output'\<rparr>,
                     Some (wrap_err (service_action_text action @ '' '' @ service) e)), w2)))
      | ((output, None), w1) \<Rightarrow> systemd_status service w1)"

definition systemd_action :: "string \<Rightarrow> service_action \<Rightarrow> world \<Rightarrow> status_result" where
  "systemd_action service action w =
     (case action of
        ActStatus \<Rightarrow> systemd_status service w
      | ActOther s \<Rightarrow> ((zero_status, Some (errorf (''unsupported service action: '' @ s))), w)
      | _ \<Rightarrow> systemd_run_action service action w)"

definition systemd_start :: "string \<Rightarrow> world \<Rightarrow> status_result" where
  "systemd_start service w = systemd_action service ActStart w"

definition systemd_stop :: "string \<Rightarrow> world \<Rightarrow> status_result" where
  "systemd_stop service w = systemd_action service ActStop w"

definition systemd_restart :: "string \<Rightarrow> world \<Rightarrow> status_result" where
  "systemd_restart service w = systemd_action service ActRestart w"

section \<open>What a status says\<close>

text \<open>
  The words systemctl prints for a unit it knows. For these an exit status other than zero is no
  error: \<^verbatim>\<open>systemctl is-active\<close> exits with 3 for every unit that is not active.
\<close>

definition known_state :: "string \<Rightarrow> service_state option" where
  "known_state output =
     map_of [(''active'', SvcActive), (''activating'', SvcActive), (''inactive'', SvcInactive),
             (''deactivating'', SvcInactive), (''failed'', SvcFailed)] (trim_space output)"

lemma parse_known: "fst (parse_service_state output e) = (case known_state output of Some s \<Rightarrow> s | None \<Rightarrow> SvcUnknown)"
  by (auto simp: parse_service_state_def known_state_def Let_def split: option.split)

lemma known_not_unknown: "known_state output = Some s \<Longrightarrow> s \<noteq> SvcUnknown \<and> s \<noteq> SvcNone"
  by (auto simp: known_state_def split: if_splits)

lemma systemd_status_frame [frame_simps]:
  "fs (snd (systemd_status s w)) = fs w" "orc (snd (systemd_status s w)) = orc w"
  "node_at (snd (systemd_status s w)) q = node_at w q" "file_at (snd (systemd_status s w)) q = file_at w q"
  "calls (snd (systemd_status s w)) = (''systemctl'', [''is-active'', s]) # calls w"
  by (simp_all add: systemd_status_def split_beta Let_def split: option.split)

lemma systemd_status_result:
  assumes "o_run (orc w) (tick w) ''systemctl'' [''is-active'', s] = (out, e)"
  shows "st_service (fst (fst (systemd_status s w))) = s"
    "st_state (fst (fst (systemd_status s w))) = (case known_state out of Some k \<Rightarrow> k | None \<Rightarrow> SvcUnknown)"
    "snd (fst (systemd_status s w)) \<noteq> None \<longleftrightarrow> e \<noteq> None \<and> known_state out = None"
  using assms parse_known [of out e] known_not_unknown [of out]
  by (auto simp: systemd_status_def split_beta Let_def run_cmd_def split: option.splits)

lemma systemd_action_frame [frame_simps]:
  "fs (snd (systemd_action s a w)) = fs w" "orc (snd (systemd_action s a w)) = orc w"
  "node_at (snd (systemd_action s a w)) q = node_at w q" "file_at (snd (systemd_action s a w)) q = file_at w q"
  by (simp_all add: systemd_action_def systemd_run_action_def split_beta Let_def frame_simps
      split: service_action.split option.split)

text \<open>The commands an action runs: none when it is not one of the four.\<close>

fun action_commands :: "string \<Rightarrow> service_action \<Rightarrow> (string \<times> string list) list" where
  "action_commands s (ActOther a) = []"
| "action_commands s ActStatus = [(''systemctl'', [''is-active'', s])]"
| "action_commands s a = [(''systemctl'', [''is-active'', s]), (''systemctl'', [service_action_text a, s])]"

lemma systemd_action_calls:
  "calls (snd (systemd_action s a w)) = action_commands s a @ calls w"
  by (cases a)
     (simp_all add: systemd_action_def systemd_run_action_def split_beta Let_def frame_simps split: option.split)

end
