(* ===== verification/Service_Manager.thy ===== *)
theory Service_Manager
  imports Systemd_Manager Sample_Worlds
begin

text \<open>
  \<^verbatim>\<open>daemon/internal/app/service_manager.go\<close>: the application's service manager in front of the
  host's. The Go interface \<^verbatim>\<open>host.ServiceManager\<close> is a record of its methods; what the manager
  relies on is the locale \<open>service_host_contract\<close>, which the systemd adapter satisfies.
\<close>

record service_host =
  sh_action :: "string \<Rightarrow> service_action \<Rightarrow> world \<Rightarrow> status_result"
  sh_status :: "string \<Rightarrow> world \<Rightarrow> status_result"

definition systemd_host :: service_host where
  "systemd_host = \<lparr>sh_action = systemd_action, sh_status = systemd_status\<rparr>"

definition service_action_run :: "service_host \<Rightarrow> string \<Rightarrow> service_action \<Rightarrow> world \<Rightarrow> status_result" where
  "service_action_run h service0 action w =
     (let service = trim_space service0
      in if service = [] then
           ((zero_status, Some (sentinel_err ErrInvalidServiceAction ''service name is required'')), w)
         else
           (case action of
              ActOther s \<Rightarrow> ((zero_status, Some (sentinel_err ErrInvalidServiceAction s)), w)
            | _ \<Rightarrow> sh_action h service action w))"

definition service_start :: "service_host \<Rightarrow> string \<Rightarrow> world \<Rightarrow> status_result" where
  "service_start h service w = service_action_run h service ActStart w"

definition service_stop :: "service_host \<Rightarrow> string \<Rightarrow> world \<Rightarrow> status_result" where
  "service_stop h service w = service_action_run h service ActStop w"

definition service_restart :: "service_host \<Rightarrow> string \<Rightarrow> world \<Rightarrow> status_result" where
  "service_restart h service w = service_action_run h service ActRestart w"

definition service_status_of :: "service_host \<Rightarrow> string \<Rightarrow> world \<Rightarrow> status_result" where
  "service_status_of h service0 w =
     (let service = trim_space service0
      in if service = [] then
           ((zero_status, Some (sentinel_err ErrInvalidServiceAction ''service name is required'')), w)
         else sh_status h service w)"

section \<open>The contract of a service host\<close>

text \<open>
  What the application may assume of the host: asking for the status is the status operation, no
  action touches a file, and a status names the service it was asked about.
\<close>

locale service_host_contract =
  fixes h :: service_host
  assumes action_status: "sh_action h s ActStatus w = sh_status h s w"
    and action_files: "fs (snd (sh_action h s a w)) = fs w"
    and action_orc: "orc (snd (sh_action h s a w)) = orc w"
    and status_name: "st_service (fst (fst (sh_status h s w))) = s"
begin

lemma status_files: "fs (snd (sh_status h s w)) = fs w" "orc (snd (sh_status h s w)) = orc w"
  using action_files [of s ActStatus w] action_orc [of s ActStatus w] by (simp_all add: action_status)

lemma run_files: "fs (snd (service_action_run h s a w)) = fs w" "orc (snd (service_action_run h s a w)) = orc w"
  by (simp_all add: service_action_run_def Let_def action_files action_orc split: service_action.split)

lemma run_status: "service_action_run h s ActStatus w = service_status_of h s w"
  by (simp add: service_action_run_def service_status_of_def action_status Let_def)

lemma run_trimmed: "service_action_run h (trim_space s) a w = service_action_run h s a w"
  by (simp add: service_action_run_def)

lemma status_of_name:
  "trim_space s \<noteq> [] \<Longrightarrow> st_service (fst (fst (service_status_of h s w))) = trim_space s"
  by (simp add: service_status_of_def status_name)

text \<open>A request that is refused never reaches the host.\<close>

lemma refused_not_run:
  "trim_space s = [] \<or> (\<exists>t. a = ActOther t) \<Longrightarrow>
     snd (service_action_run h s a w) = w
     \<and> (\<exists>e. fst (service_action_run h s a w) = (zero_status, Some e) \<and> errors_is e ErrInvalidServiceAction)"
  by (auto simp: service_action_run_def Let_def)

end

lemma systemd_status_name: "st_service (fst (fst (systemd_status s w))) = s"
  using systemd_status_result(1) [of w s] by (metis surj_pair)

interpretation systemd: service_host_contract systemd_host
  by unfold_locales
     (simp_all add: systemd_host_def systemd_action_def systemd_status_name systemd_run_action_def
       split_beta Let_def frame_simps split: service_action.split option.split)

section \<open>Properties\<close>

lemma service_run_calls:
  "calls (snd (service_action_run systemd_host s a w)) =
     (if trim_space s = [] then [] else action_commands (trim_space s) a) @ calls w"
  by (cases a) (simp_all add: service_action_run_def Let_def systemd_host_def systemd_action_calls)

text \<open>A service action runs the \<^verbatim>\<open>systemctl\<close> verb of the action and then asks for the state, on the
  trimmed name; a blank name or an action that is not one of the four runs no command at all. No
  action changes a file.\<close>

theorem service_action_commands:
  "calls (snd (service_action_run systemd_host s a w))
     = (if trim_space s = [] then [] else action_commands (trim_space s) a) @ calls w
   \<and> fs (snd (service_action_run systemd_host s a w)) = fs w"
  using service_run_calls systemd.run_files by simp

text \<open>A blank name and an action that is not one of the four are refused with
  \<^verbatim>\<open>ErrInvalidServiceAction\<close> and the zero status, before anything is run.\<close>

theorem service_action_refused:
  assumes "trim_space s = [] \<or> (\<exists>t. a = ActOther t)"
  shows "\<exists>e. service_action_run systemd_host s a w = ((zero_status, Some e), w) \<and> errors_is e ErrInvalidServiceAction"
proof -
  from systemd.refused_not_run [OF assms, of w] obtain e where
      "snd (service_action_run systemd_host s a w) = w"
      "fst (service_action_run systemd_host s a w) = (zero_status, Some e)" "errors_is e ErrInvalidServiceAction"
    by blast
  then show ?thesis by (metis prod.collapse)
qed

theorem service_action_refused_witness:
  "\<exists>e. service_action_run systemd_host ''php8.3-fpm'' (ActOther ''reload'') (sample_world all_succeed [])
     = ((zero_status, Some e), sample_world all_succeed []) \<and> errors_is e ErrInvalidServiceAction"
  by (rule service_action_refused) simp

text \<open>C34: the answer of a status request: the state is the one systemctl printed, whatever its exit
  status, and there is an error exactly when the command failed without printing a state it knows.\<close>

theorem status_error_iff_unknown:
  assumes "o_run (orc w) (tick w) ''systemctl'' [''is-active'', trim_space s] = (out, e)"
    and "trim_space s \<noteq> []"
  shows "st_state (fst (fst (service_status_of systemd_host s w)))
      = (case known_state out of Some k \<Rightarrow> k | None \<Rightarrow> SvcUnknown)
    \<and> (snd (fst (service_status_of systemd_host s w)) \<noteq> None \<longleftrightarrow> e \<noteq> None \<and> known_state out = None)"
  using systemd_status_result [OF assms(1)] assms(2)
  by (simp add: service_status_of_def systemd_host_def)

theorem status_error_iff_unknown_witness:
  "st_state (fst (fst (service_status_of systemd_host ''caddy ''
      (sample_world (\<lambda>n c args. (''inactive'', Some (errorf ''exit status 3''))) [])))) = SvcInactive"
proof -
  let ?w = "sample_world (\<lambda>n c args. (''inactive'', Some (errorf ''exit status 3''))) []"
  have "trim_space ''caddy '' \<noteq> []" "known_state ''inactive'' = Some SvcInactive" by code_simp+
  with status_error_iff_unknown [of ?w "''caddy ''" "''inactive''" "Some (errorf ''exit status 3'')"]
  show ?thesis by (simp add: sample_world_def sample_env_def)
qed

end
