(* ===== verification/Host_Reads.thy ===== *)
theory Host_Reads
  imports Go_Os
begin

text \<open>
  Calls that only look: they take a tick of the world and leave its files, its commands and its
  environment as they are. A chain of such calls before a write is taken apart with the rules
  \<open>reads\<close> and put together again with transitivity.
\<close>

named_theorems reads "the call leaves the host as it is"

definition same_host :: "world \<Rightarrow> world \<Rightarrow> bool" where
  "same_host w w' \<longleftrightarrow> fs w' = fs w \<and> orc w' = orc w \<and> calls w' = calls w"

lemma same_host_refl [simp]: "same_host w w"
  by (simp add: same_host_def)

lemma same_host_trans [trans]: "same_host w w1 \<Longrightarrow> same_host w1 w2 \<Longrightarrow> same_host w w2"
  by (simp add: same_host_def)

lemma same_host_next [simp]: "same_host w (next_tick w)"
  by (simp add: same_host_def)

lemma same_hostD:
  assumes "same_host w w'"
  shows "orc w' = orc w" "node_at w' p = node_at w p" "file_at w' p = file_at w p" "calls w' = calls w"
  using assms by (simp_all add: same_host_def node_at_def file_at_def)

lemma same_host_nodes: "same_host w w' \<Longrightarrow> node_at w' = node_at w"
  by (rule ext) (rule same_hostD)

lemma reads_basic [reads]:
  "os_read_file p w = (r1, w1) \<Longrightarrow> same_host w w1"
  "os_stat p w = (r2, w1) \<Longrightarrow> same_host w w1"
  "glob_ext d ext w = (r3, w1) \<Longrightarrow> same_host w w1"
  "clock_now w = (r4, w1) \<Longrightarrow> same_host w w1"
  "unix_nano w = (r5, w1) \<Longrightarrow> same_host w w1"
  "ctx_err w = (r6, w1) \<Longrightarrow> same_host w w1"
  "rand_bytes w = (r7, w1) \<Longrightarrow> same_host w w1"
  "eval_symlinks p w = (r8, w1) \<Longrightarrow> same_host w w1"
  by ((drule arg_cong [where f = snd], auto)+)

lemma reads_path_abs [reads]: "path_abs p w = (r, w1) \<Longrightarrow> same_host w w1"
  by (auto simp: path_abs_def split: if_splits sum.splits)

text \<open>When a call fails: it failed itself, or what follows it did.\<close>

named_theorems failure_iff "when an operation returns a given error"

lemma bind_Inl_iff [failure_iff]:
  "(case r of (s, w) \<Rightarrow> (case s of Inl e \<Rightarrow> (Inl (g e w), h e w) | Inr x \<Rightarrow> f x w)) = (Inl y, w')
     \<longleftrightarrow> (\<exists>e w1. r = (Inl e, w1) \<and> y = g e w1 \<and> w' = h e w1) \<or> (\<exists>x w1. r = (Inr x, w1) \<and> f x w1 = (Inl y, w'))"
  by (auto split: prod.split sum.split)

lemma bind_Some_error_Inl_iff [failure_iff]:
  "(case r of (s, w) \<Rightarrow> (case s of None \<Rightarrow> f w | Some e \<Rightarrow> (Inl (g e w), h e w))) = (Inl y, w')
     \<longleftrightarrow> (\<exists>e w1. r = (Some e, w1) \<and> y = g e w1 \<and> w' = h e w1) \<or> (\<exists>w1. r = (None, w1) \<and> f w1 = (Inl y, w'))"
  by (auto split: prod.split option.split)

lemma bind_value_Inl_iff [failure_iff]:
  "(case r of (x, w) \<Rightarrow> f x w) = (Inl y, w') \<longleftrightarrow> (\<exists>x w1. r = (x, w1) \<and> f x w1 = (Inl y, w'))"
  by (cases r) auto

lemma case_sum_Inl_iff [failure_iff]:
  "(case s of Inl e \<Rightarrow> (Inl (g e), h e) | Inr x \<Rightarrow> f x) = (Inl y, w')
     \<longleftrightarrow> (\<exists>e. s = Inl e \<and> y = g e \<and> w' = h e) \<or> (\<exists>x. s = Inr x \<and> f x = (Inl y, w'))"
  by (cases s) auto

lemma case_error_Inl_iff [failure_iff]:
  "(case s of None \<Rightarrow> f | Some e \<Rightarrow> (Inl (g e), h e)) = (Inl y, w')
     \<longleftrightarrow> (\<exists>e. s = Some e \<and> y = g e \<and> w' = h e) \<or> s = None \<and> f = (Inl y, w')"
  by (cases s) auto

lemma case_found_Inl_iff [failure_iff]:
  "(case s of None \<Rightarrow> (Inl e, w) | Some x \<Rightarrow> f x) = (Inl y, w')
     \<longleftrightarrow> s = None \<and> y = e \<and> w' = w \<or> (\<exists>x. s = Some x \<and> f x = (Inl y, w'))"
  by (cases s) auto

lemma guard_Inl_iff [failure_iff]:
  "(if c then (Inl e, w) else f) = (Inl y, w') \<longleftrightarrow> c \<and> y = e \<and> w' = w \<or> \<not> c \<and> f = (Inl y, w')"
  by auto

end
