(* ===== verification/State_Store.thy ===== *)
theory State_Store
  imports Json Quiet_Files Host_Types Host_Reads
begin

text \<open>
  \<^verbatim>\<open>daemon/internal/app/state_store.go\<close>: a value is kept as indented JSON in one file, replaced by a
  rename. The decoding of a value into a Go struct follows \<^verbatim>\<open>json.Unmarshal\<close>: fields are matched
  without regard to case, the last one wins, null and missing fields leave the zero value, unknown
  fields are ignored, a value of the wrong kind is an error. The texts of the errors of
  \<^verbatim>\<open>encoding/json\<close> are not modelled.
\<close>

section \<open>Decoding structs\<close>

definition wrong_kind :: err where
  "wrong_kind = errorf ''json: cannot unmarshal value''"

definition json_members :: "json \<Rightarrow> err + (string \<times> json) list" where
  "json_members j =
     (case j of JObj kvs \<Rightarrow> Inr kvs | JNull \<Rightarrow> Inr [] | _ \<Rightarrow> Inl wrong_kind)"

fun is_str :: "json \<Rightarrow> bool" where
  "is_str (JStr s) = True"
| "is_str _ = False"

fun str_of :: "json \<Rightarrow> string" where
  "str_of (JStr s) = s"
| "str_of _ = []"

text \<open>The values given for a field, in order, without the nulls.\<close>

definition field_values :: "string \<Rightarrow> (string \<times> json) list \<Rightarrow> json list" where
  "field_values name kvs = filter (\<lambda>v. v \<noteq> JNull) (map snd (filter (\<lambda>(k, v). equal_fold k name) kvs))"

definition str_field :: "string \<Rightarrow> string \<Rightarrow> (string \<times> json) list \<Rightarrow> err + string" where
  "str_field zero name kvs =
     (let vs = field_values name kvs
      in if list_all is_str vs then Inr (if vs = [] then zero else str_of (last vs)) else Inl wrong_kind)"

text \<open>
  RFC 3339: the form in which \<^verbatim>\<open>time.Time\<close> is written and the only one it is read from. A time is kept as
  its text (Go keeps the instant, and would print a fraction without the zeros at its end).
\<close>

definition digits_n :: "nat \<Rightarrow> rx" where
  "digits_n n = foldr Seq_rx (replicate n (Class_rx is_digit)) Eps_rx"

definition char_rx :: "char \<Rightarrow> rx" where
  "char_rx c = Class_rx (\<lambda>x. x = c)"

definition rfc3339_rx :: rx where
  "rfc3339_rx =
     foldr Seq_rx
       [digits_n 4, char_rx CHR ''-'', digits_n 2, char_rx CHR ''-'', digits_n 2, char_rx CHR ''T'',
        digits_n 2, char_rx CHR '':'', digits_n 2, char_rx CHR '':'', digits_n 2,
        Opt_rx (Seq_rx (char_rx CHR ''.'') digits_rx)]
       (Alt_rx (char_rx CHR ''Z'')
          (foldr Seq_rx [Class_rx (\<lambda>c. c = CHR ''+'' \<or> c = CHR ''-''), digits_n 2, char_rx CHR '':''] (digits_n 2)))"

text \<open>The ranges \<^verbatim>\<open>time.Time\<close> checks: a day of the calendar, a time of the day, an offset of less than a day.\<close>

definition number_at :: "nat \<Rightarrow> nat \<Rightarrow> string \<Rightarrow> int" where
  "number_at i n t = foldl (\<lambda>v c. 10 * v + (of_char c - 48)) 0 (take n (drop i t))"

definition days_in :: "int \<Rightarrow> int \<Rightarrow> int" where
  "days_in year month =
     (if month = 2 then (if year mod 4 = 0 \<and> (year mod 100 \<noteq> 0 \<or> year mod 400 = 0) then 29 else 28)
      else if month = 4 \<or> month = 6 \<or> month = 9 \<or> month = 11 then 30 else 31)"

definition time_in_range :: "gotime \<Rightarrow> bool" where
  "time_in_range t \<longleftrightarrow>
     1 \<le> number_at 5 2 t \<and> number_at 5 2 t \<le> 12
     \<and> 1 \<le> number_at 8 2 t \<and> number_at 8 2 t \<le> days_in (number_at 0 4 t) (number_at 5 2 t)
     \<and> number_at 11 2 t \<le> 23 \<and> number_at 14 2 t \<le> 59 \<and> number_at 17 2 t \<le> 59
     \<and> (last t = CHR ''Z''
         \<or> number_at (length t - 5) 2 t \<le> 23 \<and> number_at (length t - 2) 2 t \<le> 59)"

definition time_ok :: "gotime \<Rightarrow> bool" where
  "time_ok t \<longleftrightarrow> rx_match rfc3339_rx t \<and> time_in_range t"

definition time_field :: "string \<Rightarrow> (string \<times> json) list \<Rightarrow> err + gotime" where
  "time_field name kvs =
     (let vs = field_values name kvs
      in if list_all (\<lambda>v. is_str v \<and> time_ok (str_of v)) vs
         then Inr (if vs = [] then zero_time else str_of (last vs)) else Inl wrong_kind)"

fun is_arr :: "json \<Rightarrow> bool" where
  "is_arr (JArr js) = True"
| "is_arr _ = False"

text \<open>A list field: null and a missing field are the nil slice, which reads as no elements.\<close>

fun decode_all :: "(json \<Rightarrow> err + 'a) \<Rightarrow> json list \<Rightarrow> err + 'a list" where
  "decode_all dec [] = Inr []"
| "decode_all dec (j # js) =
     (case dec j of
        Inl e \<Rightarrow> Inl e
      | Inr x \<Rightarrow> (case decode_all dec js of Inl e \<Rightarrow> Inl e | Inr xs \<Rightarrow> Inr (x # xs)))"

definition list_field :: "(json \<Rightarrow> err + 'a) \<Rightarrow> string \<Rightarrow> (string \<times> json) list \<Rightarrow> err + 'a list" where
  "list_field dec name kvs =
     (let vs = field_values name kvs
      in if \<not> list_all is_arr vs then Inl wrong_kind
         else if vs = [] then Inr []
         else (case last vs of JArr js \<Rightarrow> decode_all dec js | _ \<Rightarrow> Inl wrong_kind))"

section \<open>Loading and saving\<close>

definition load_state :: "(json \<Rightarrow> err + 'a) \<Rightarrow> 'a \<Rightarrow> string \<Rightarrow> world \<Rightarrow> (err + 'a) \<times> world" where
  "load_state dec zero p w =
     (case os_read_file p w of
        (Inl e, w1) \<Rightarrow>
          (if errors_is e OsNotExist then (Inr zero, w1)
           else (Inl (wrap_err (''read state file '' @ p) e), w1))
      | (Inr payload, w1) \<Rightarrow>
          (if payload = [] then (Inr zero, w1)
           else (case json_parse payload of
                   None \<Rightarrow> (Inl (errorf (''decode state file '' @ p @ '': invalid JSON'')), w1)
                 | Some j \<Rightarrow>
                     (case dec j of
                        Inl e \<Rightarrow> (Inl (wrap_err (''decode state file '' @ p) e), w1)
                      | Inr x \<Rightarrow> (Inr x, w1)))))"

definition mode_0750 :: file_mode where "mode_0750 = 0x1E8"
definition mode_0640 :: file_mode where "mode_0640 = 0x1A0"

definition save_state :: "string \<Rightarrow> json \<Rightarrow> file_mode \<Rightarrow> world \<Rightarrow> (err + unit) \<times> world" where
  "save_state p j mode w =
     (case os_mkdir_all (path_dir p) mode_0750 w of
        (Inl e, w1) \<Rightarrow> (Inl (wrap_err (''create state directory for '' @ p) e), w1)
      | (Inr _, w1) \<Rightarrow>
      (case os_write_file (tmp_path p) (marshal_indent j) mode w1 of
         (Inl e, w2) \<Rightarrow> (Inl (wrap_err (''write state file '' @ p) e), w2)
       | (Inr _, w2) \<Rightarrow>
       (case os_rename (tmp_path p) p w2 of
          (Inl e, w3) \<Rightarrow> (Inl (wrap_err (''commit state file '' @ p) e), w3)
        | (Inr _, w3) \<Rightarrow> (Inr (), w3))))"

section \<open>What is stored\<close>

text \<open>The value a state file stands for; an absent or empty file stands for the zero value.\<close>

definition stored :: "(json \<Rightarrow> err + 'a) \<Rightarrow> 'a \<Rightarrow> string \<Rightarrow> world \<Rightarrow> 'a option" where
  "stored dec zero p w =
     (case node_at w p of
        None \<Rightarrow> Some zero
      | Some (File m t) \<Rightarrow>
          (if t = [] then Some zero
           else (case json_parse t of
                   None \<Rightarrow> None
                 | Some j \<Rightarrow> (case dec j of Inl e \<Rightarrow> None | Inr x \<Rightarrow> Some x)))
      | _ \<Rightarrow> None)"

text \<open>A call never reports an existing file as missing; any other fault may occur at any time.\<close>

definition truthful :: "world \<Rightarrow> bool" where
  "truthful w \<longleftrightarrow> (\<forall>n. o_fault (orc w) n \<noteq> Some ENOENT)"

lemma quiet_truthful: "quiet w \<Longrightarrow> truthful w"
  by (simp add: quiet_def truthful_def)

lemma truthful_orc: "truthful w \<Longrightarrow> orc w' = orc w \<Longrightarrow> truthful w'"
  by (simp add: truthful_def)

lemma load_state_world [simp]: "snd (load_state dec zero p w) = next_tick w"
  by (simp add: load_state_def split_beta split: sum.split option.split)

lemma reads_load_state [reads]: "load_state dec zero p w = (r, w1) \<Longrightarrow> same_host w w1"
  using load_state_world [of dec zero p w] by (auto simp del: load_state_world)

lemma load_state_Inr:
  assumes "truthful w" "fst (load_state dec zero p w) = Inr x"
  shows "stored dec zero p w = Some x"
proof -
  have "fault w \<noteq> Some ENOENT" using assms(1) by (simp add: truthful_def fault_def)
  with assms(2) show ?thesis
    by (auto simp: load_state_def stored_def os_read_file_def split_beta
        split: sum.splits option.splits node.splits if_splits)
qed

lemma load_state_quiet:
  assumes "fault w = None" "stored dec zero p w = Some x"
  shows "fst (load_state dec zero p w) = Inr x"
  using assms
  by (auto simp: load_state_def stored_def os_read_file_def split_beta
      split: sum.splits option.splits node.splits if_splits)

lemma stored_cong: "node_at w' p = node_at w p \<Longrightarrow> stored dec zero p w' = stored dec zero p w"
  by (simp add: stored_def)

lemma marshal_indent_nonempty: "json_ok j \<Longrightarrow> marshal_indent j \<noteq> []"
  using json_parse_marshal(2) [of j] by (auto simp: json_parse_def)

lemma save_state_frame [frame_simps]:
  "orc (snd (save_state p j m w)) = orc w" "calls (snd (save_state p j m w)) = calls w"
  "q \<noteq> p \<Longrightarrow> q \<noteq> tmp_path p \<Longrightarrow> file_at (snd (save_state p j m w)) q = file_at w q"
  using file_at_cong [OF os_write_file_frame(3)] file_at_cong [OF os_rename_frame(3)]
  by (simp_all add: save_state_def split_beta frame_simps split: sum.split)

text \<open>A save that succeeds stores the value; one that fails leaves what was stored.\<close>

lemma save_state_Inr:
  assumes "fst (save_state p j m w) = Inr ()" "json_ok j" "dec j = Inr x"
  shows "stored dec zero p (snd (save_state p j m w)) = Some x"
proof -
  let ?w1 = "snd (os_mkdir_all (path_dir p) mode_0750 w)"
  let ?w2 = "snd (os_write_file (tmp_path p) (marshal_indent j) m ?w1)"
  from assms(1) have w: "fst (os_write_file (tmp_path p) (marshal_indent j) m ?w1) = Inr ()"
    and r: "fst (os_rename (tmp_path p) p ?w2) = Inr ()"
    and v: "snd (save_state p j m w) = snd (os_rename (tmp_path p) p ?w2)"
    by (auto simp: save_state_def split_beta split: sum.splits)
  obtain mo where "node_at ?w2 (tmp_path p) = Some (File mo (marshal_indent j))"
    using os_write_file_Inr [OF w] file_at_SomeD by blast
  with os_rename_Inr(1) [OF r] v have "node_at (snd (save_state p j m w)) p = Some (File mo (marshal_indent j))"
    by simp
  with assms(2,3) show ?thesis
    by (simp add: stored_def marshal_indent_nonempty json_parse_marshal)
qed

lemma save_state_Inl:
  assumes "fst (save_state p j m w) = Inl e" "p \<notin> set (dir_chain (path_dir p))"
  shows "node_at (snd (save_state p j m w)) p = node_at w p"
  using assms os_rename_Inl [of "tmp_path p" p]
  by (auto simp: save_state_def split_beta frame_simps split: sum.splits)

text \<open>A file that is there decides what is stored.\<close>

lemma stored_file:
  "file_at w p = Some t \<Longrightarrow> stored dec zero p w =
     (if t = [] then Some zero
      else (case json_parse t of None \<Rightarrow> None | Some j \<Rightarrow> (case dec j of Inl e \<Rightarrow> None | Inr x \<Rightarrow> Some x)))"
  by (drule file_at_SomeD) (auto simp: stored_def)

lemma stored_file_cong:
  "file_at w p \<noteq> None \<Longrightarrow> file_at w' p = file_at w p \<Longrightarrow> stored dec zero p w' = stored dec zero p w"
  by (auto simp: stored_file)

lemma save_state_file:
  "fst (save_state p j m w) = Inr () \<Longrightarrow> file_at (snd (save_state p j m w)) p = Some (marshal_indent j)"
  using os_write_file_Inr [of "tmp_path p" "marshal_indent j" m "snd (os_mkdir_all (path_dir p) mode_0750 w)"]
    os_rename_Inr(1) [of "tmp_path p" p "snd (os_write_file (tmp_path p) (marshal_indent j) m (snd (os_mkdir_all (path_dir p) mode_0750 w)))"]
  by (auto simp: save_state_def split_beta file_at_def split: sum.splits)

section \<open>Fields of printed structs\<close>

text \<open>Names that differ in lower case are told apart.\<close>

lemma fold_names: "distinct (map to_lower ks) \<Longrightarrow> k \<in> set ks \<Longrightarrow> n \<in> set ks \<Longrightarrow> equal_fold k n \<longleftrightarrow> k = n"
  by (auto simp: distinct_map equal_fold_def dest: inj_onD)

lemma field_values_Nil [simp]: "field_values n [] = []"
  by (simp add: field_values_def)

lemma field_values_Cons [simp]:
  "field_values n ((k, v) # kvs) = (if equal_fold k n \<and> v \<noteq> JNull then v # field_values n kvs else field_values n kvs)"
  by (auto simp: field_values_def)

lemma field_values_append [simp]: "field_values n (xs @ ys) = field_values n xs @ field_values n ys"
  by (simp add: field_values_def)

lemma decode_all_map: "(\<And>x. x \<in> set xs \<Longrightarrow> dec (enc x) = Inr x) \<Longrightarrow> decode_all dec (map enc xs) = Inr xs"
  by (induction xs) simp_all

section \<open>The contract of a state file\<close>

text \<open>
  A registry keeps its state in one file: an encoder and a decoder that agree on the states it can
  be in, and a zero value for the file that is not there. What is loaded is then what was saved.
\<close>

locale json_store =
  fixes enc :: "'a \<Rightarrow> json" and dec :: "json \<Rightarrow> err + 'a" and zero :: 'a and good :: "'a \<Rightarrow> bool"
  assumes dec_enc: "good x \<Longrightarrow> dec (enc x) = Inr x"
    and enc_ok: "json_ok (enc x)"
begin

lemma text_roundtrip: "good x \<Longrightarrow> map_option dec (json_parse (marshal_indent (enc x))) = Some (Inr x)"
  by (simp add: json_parse_marshal enc_ok dec_enc)

lemma saved: "fst (save_state p (enc x) m w) = Inr () \<Longrightarrow> good x \<Longrightarrow> stored dec zero p (snd (save_state p (enc x) m w)) = Some x"
  by (rule save_state_Inr) (simp_all add: enc_ok dec_enc)

lemma saved_or_kept:
  assumes "good x" "p \<notin> set (dir_chain (path_dir p))"
  shows "stored dec zero p (snd (save_state p (enc x) m w))
    = (if is_Inl (fst (save_state p (enc x) m w)) then stored dec zero p w else Some x)"
proof (cases "fst (save_state p (enc x) m w)")
  case (Inl e)
  then show ?thesis using stored_cong [OF save_state_Inl [OF Inl assms(2)]] by simp
next
  case (Inr u)
  then show ?thesis using saved [of p x m w] assms(1) by simp
qed

lemma loaded_back:
  "fst (save_state p (enc x) m w) = Inr () \<Longrightarrow> good x \<Longrightarrow> fault (snd (save_state p (enc x) m w)) = None
    \<Longrightarrow> fst (load_state dec zero p (snd (save_state p (enc x) m w))) = Inr x"
  by (rule load_state_quiet) (simp_all add: saved)

end

end
