(* ===== verification/Php_Registry.thy ===== *)
theory Php_Registry
  imports State_Store Sample_Worlds
begin

text \<open>
  \<^verbatim>\<open>daemon/internal/app/php_registry.go\<close>: the PHP runtimes the daemon has verified, kept in
  \<^verbatim>\<open>php-runtimes.json\<close>. Every operation holds the registry's mutex from start to end, so it is one step.
\<close>

section \<open>Versions\<close>

definition supported_php_versions :: "string list" where
  "supported_php_versions = [''8.1'', ''8.2'', ''8.3'', ''8.4'']"

definition normalize_php_version :: "string \<Rightarrow> string" where
  "normalize_php_version raw = trim_space (trim_prefix (trim_space (to_lower raw)) ''php'')"

definition php_fpm_service_name :: "string \<Rightarrow> string" where
  "php_fpm_service_name version = ''php'' @ normalize_php_version version @ ''-fpm''"

definition is_supported :: "string \<Rightarrow> bool" where
  "is_supported version \<longleftrightarrow> normalize_php_version version \<in> set supported_php_versions"

section \<open>Records and their file\<close>

record php_runtime_record =
  rr_version :: string
  rr_binary_path :: string
  rr_fpm_service :: string
  rr_source :: string
  rr_registered_at :: gotime

record runtime_registration_input =
  ri_version :: string
  ri_binary_path :: string
  ri_fpm_service :: string
  ri_source :: string

record php_state =
  ps_default :: string
  ps_runtimes :: "php_runtime_record list"

definition empty_php_state :: php_state where
  "empty_php_state = \<lparr>ps_default = [], ps_runtimes = []\<rparr>"

definition omit_empty :: "string \<Rightarrow> string \<Rightarrow> (string \<times> json) list" where
  "omit_empty name v = (if v = [] then [] else [(name, JStr v)])"

definition runtime_json :: "php_runtime_record \<Rightarrow> json" where
  "runtime_json r =
     JObj ([(''version'', JStr (rr_version r)), (''binaryPath'', JStr (rr_binary_path r)),
            (''fpmService'', JStr (rr_fpm_service r))]
           @ omit_empty ''source'' (rr_source r) @ [(''registeredAt'', JStr (rr_registered_at r))])"

definition runtime_of_json :: "json \<Rightarrow> err + php_runtime_record" where
  "runtime_of_json j =
     (case json_members j of
        Inl e \<Rightarrow> Inl e
      | Inr kvs \<Rightarrow>
          (case (str_field [] ''version'' kvs, str_field [] ''binaryPath'' kvs, str_field [] ''fpmService'' kvs,
                 str_field [] ''source'' kvs, time_field ''registeredAt'' kvs) of
             (Inr v, Inr b, Inr f, Inr s, Inr t) \<Rightarrow>
               Inr \<lparr>rr_version = v, rr_binary_path = b, rr_fpm_service = f, rr_source = s, rr_registered_at = t\<rparr>
           | _ \<Rightarrow> Inl wrong_kind))"

definition php_state_json :: "php_state \<Rightarrow> json" where
  "php_state_json st =
     JObj (omit_empty ''defaultVersion'' (ps_default st) @ [(''runtimes'', JArr (map runtime_json (ps_runtimes st)))])"

definition php_state_of_json :: "json \<Rightarrow> err + php_state" where
  "php_state_of_json j =
     (case json_members j of
        Inl e \<Rightarrow> Inl e
      | Inr kvs \<Rightarrow>
          (case (str_field [] ''defaultVersion'' kvs, list_field runtime_of_json ''runtimes'' kvs) of
             (Inr d, Inr rs) \<Rightarrow> Inr \<lparr>ps_default = d, ps_runtimes = rs\<rparr>
           | _ \<Rightarrow> Inl wrong_kind))"

definition php_load :: "string \<Rightarrow> world \<Rightarrow> (err + php_state) \<times> world" where
  "php_load p w = load_state php_state_of_json empty_php_state p w"

definition php_save :: "string \<Rightarrow> php_state \<Rightarrow> world \<Rightarrow> (err + unit) \<times> world" where
  "php_save p st w = save_state p (php_state_json st) mode_0640 w"

section \<open>Verifying a binary\<close>

definition exec_bits :: file_mode where
  "exec_bits = 0x49"

definition normalize_executable_path :: "string \<Rightarrow> world \<Rightarrow> (err + string) \<times> world" where
  "normalize_executable_path p w =
     (if trim_space p = [] then (Inl (sentinel_err ErrUnverifiablePHP ''php binary path is required''), w)
      else (case path_abs (trim_space p) w of
              (Inl e, w1) \<Rightarrow> (Inl (sentinel_err ErrUnverifiablePHP (''resolve binary path: '' @ err_text e)), w1)
            | (Inr full, w1) \<Rightarrow>
                (case os_stat full w1 of
                   (Inl e, w2) \<Rightarrow> (Inl (sentinel_err ErrUnverifiablePHP (''inspect binary path: '' @ err_text e)), w2)
                 | (Inr info, w2) \<Rightarrow>
                     (if is_dir info then (Inl (sentinel_err ErrUnverifiablePHP (full @ '' is a directory'')), w2)
                      else if (node_mode info AND exec_bits) = 0 then
                        (Inl (sentinel_err ErrUnverifiablePHP (full @ '' is not executable'')), w2)
                      else (Inr full, w2)))))"

definition version_script :: "string list" where
  "version_script = [''-r'', ''echo PHP_MAJOR_VERSION, '' @ [CHR 0x22] @ ''.'' @ [CHR 0x22] @ '', PHP_MINOR_VERSION;'']"

definition detect_runtime_version :: "string \<Rightarrow> world \<Rightarrow> (err + string) \<times> world" where
  "detect_runtime_version binary w =
     (case run_cmd binary version_script w of
        ((output, Some e), w1) \<Rightarrow>
          (Inl (sentinel_err ErrUnverifiablePHP (''inspect php version from '' @ binary @ '': '' @ err_text e
             @ '' ('' @ trim_space output @ '')'')), w1)
      | ((output, None), w1) \<Rightarrow>
          (if normalize_php_version output = [] then
             (Inl (sentinel_err ErrUnverifiablePHP (''php binary '' @ binary @ '' returned an empty version'')), w1)
           else (Inr (normalize_php_version output), w1)))"

definition verify_runtime :: "string \<Rightarrow> string \<Rightarrow> world \<Rightarrow> (err + string) \<times> world" where
  "verify_runtime requested binary w =
     (case detect_runtime_version binary w of
        (Inl e, w1) \<Rightarrow> (Inl e, w1)
      | (Inr actual, w1) \<Rightarrow>
          (if \<not> is_supported actual then
             (Inl (sentinel_err ErrUnsupportedRuntime (''detected PHP '' @ actual @ '' at '' @ binary
                @ '' is outside the supported matrix'')), w1)
           else if requested \<noteq> [] \<and> requested \<noteq> actual then
             (Inl (sentinel_err ErrUnverifiablePHP (''binary '' @ binary @ '' reports PHP '' @ actual @ '' but ''
                @ requested @ '' was requested'')), w1)
           else (Inr actual, w1)))"

section \<open>Operations\<close>

definition has_version :: "string \<Rightarrow> php_runtime_record \<Rightarrow> bool" where
  "has_version v r \<longleftrightarrow> rr_version r = v"

text \<open>The first record of the version is replaced, or the record is added; then the list is sorted.\<close>

definition put_runtime :: "php_runtime_record \<Rightarrow> php_state \<Rightarrow> php_state" where
  "put_runtime r st =
     (let v = rr_version r; rs = ps_runtimes st;
          rs' = (if list_ex (has_version v) rs then replace_first (has_version v) r rs else rs @ [r])
      in \<lparr>ps_default = (if ps_default st = [] then v else ps_default st), ps_runtimes = sort_key rr_version rs'\<rparr>)"

definition php_register :: "string \<Rightarrow> runtime_registration_input \<Rightarrow> world \<Rightarrow> (err + php_runtime_record) \<times> world" where
  "php_register p inp w =
     (case ctx_err w of
        (Some e, w1) \<Rightarrow> (Inl e, w1)
      | (None, w1) \<Rightarrow>
      (case normalize_executable_path (ri_binary_path inp) w1 of
         (Inl e, w2) \<Rightarrow> (Inl e, w2)
       | (Inr binary, w2) \<Rightarrow>
       (case verify_runtime (normalize_php_version (ri_version inp)) binary w2 of
          (Inl e, w3) \<Rightarrow> (Inl e, w3)
        | (Inr version, w3) \<Rightarrow>
        (case php_load p w3 of
           (Inl e, w4) \<Rightarrow> (Inl e, w4)
         | (Inr st, w4) \<Rightarrow>
         (case clock_now w4 of
            (now, w5) \<Rightarrow>
              (let r = \<lparr>rr_version = version, rr_binary_path = binary,
                         rr_fpm_service = (if trim_space (ri_fpm_service inp) = [] then php_fpm_service_name version
                                           else trim_space (ri_fpm_service inp)),
                         rr_source = trim_space (ri_source inp), rr_registered_at = now\<rparr>
               in (case php_save p (put_runtime r st) w5 of
                     (Inl e, w6) \<Rightarrow> (Inl e, w6)
                   | (Inr _, w6) \<Rightarrow> (Inr r, w6))))))))"

definition php_list :: "string \<Rightarrow> world \<Rightarrow> (err + php_runtime_record list) \<times> world" where
  "php_list p w =
     (case ctx_err w of
        (Some e, w1) \<Rightarrow> (Inl e, w1)
      | (None, w1) \<Rightarrow>
          (case php_load p w1 of (Inl e, w2) \<Rightarrow> (Inl e, w2) | (Inr st, w2) \<Rightarrow> (Inr (ps_runtimes st), w2)))"

definition find_runtime :: "string \<Rightarrow> php_state \<Rightarrow> php_runtime_record option" where
  "find_runtime v st = find_by rr_version v (ps_runtimes st)"

definition php_get :: "string \<Rightarrow> string \<Rightarrow> world \<Rightarrow> (err + php_runtime_record) \<times> world" where
  "php_get p version w =
     (case ctx_err w of
        (Some e, w1) \<Rightarrow> (Inl e, w1)
      | (None, w1) \<Rightarrow>
          (case php_load p w1 of
             (Inl e, w2) \<Rightarrow> (Inl e, w2)
           | (Inr st, w2) \<Rightarrow>
               (case find_runtime (normalize_php_version version) st of
                  None \<Rightarrow> (Inl (sentinel_err ErrRuntimeNotFound (normalize_php_version version)), w2)
                | Some r \<Rightarrow> (Inr r, w2))))"

definition php_default_runtime :: "string \<Rightarrow> world \<Rightarrow> (err + php_runtime_record) \<times> world" where
  "php_default_runtime p w =
     (case ctx_err w of
        (Some e, w1) \<Rightarrow> (Inl e, w1)
      | (None, w1) \<Rightarrow>
          (case php_load p w1 of
             (Inl e, w2) \<Rightarrow> (Inl e, w2)
           | (Inr st, w2) \<Rightarrow>
               (if ps_default st = [] then
                  (Inl (sentinel_err ErrRuntimeNotFound ''no default runtime configured''), w2)
                else (case find_runtime (ps_default st) st of
                        None \<Rightarrow> (Inl (sentinel_err ErrRuntimeNotFound (''default runtime '' @ ps_default st)), w2)
                      | Some r \<Rightarrow> (Inr r, w2)))))"

definition php_set_default :: "string \<Rightarrow> string \<Rightarrow> world \<Rightarrow> (err + php_runtime_record) \<times> world" where
  "php_set_default p version w =
     (case ctx_err w of
        (Some e, w1) \<Rightarrow> (Inl e, w1)
      | (None, w1) \<Rightarrow>
          (case php_load p w1 of
             (Inl e, w2) \<Rightarrow> (Inl e, w2)
           | (Inr st, w2) \<Rightarrow>
               (case find_runtime (normalize_php_version version) st of
                  None \<Rightarrow> (Inl (sentinel_err ErrRuntimeNotFound (normalize_php_version version)), w2)
                | Some r \<Rightarrow>
                    (case php_save p (st\<lparr>ps_default := normalize_php_version version\<rparr>) w2 of
                       (Inl e, w3) \<Rightarrow> (Inl e, w3)
                     | (Inr _, w3) \<Rightarrow> (Inr r, w3)))))"

end
