(* ===== verification/Php_Registry_Correct.thy ===== *)
theory Php_Registry_Correct
  imports Php_Registry
begin

text \<open>
  The invariant of the runtime registry - only supported versions, each once and in order, and a
  default that exists - and what registering, selecting and looking up do to the stored state.
\<close>

section \<open>The state file\<close>

definition runtime_keys :: "string list" where
  "runtime_keys = [''version'', ''binaryPath'', ''fpmService'', ''source'', ''registeredAt'', ''defaultVersion'', ''runtimes'']"

lemma runtime_keys_distinct: "distinct (map to_lower runtime_keys)"
  by code_simp

lemmas runtime_key_fold = fold_names [OF runtime_keys_distinct]

lemma field_values_omit [simp]:
  "field_values n (omit_empty k v) = (if v \<noteq> [] \<and> equal_fold k n then [JStr v] else [])"
  by (simp add: omit_empty_def)

lemma runtime_json_roundtrip: "time_ok (rr_registered_at r) \<Longrightarrow> runtime_of_json (runtime_json r) = Inr r"
  by (simp add: runtime_of_json_def runtime_json_def json_members_def str_field_def time_field_def Let_def
      runtime_key_fold runtime_keys_def)

definition php_times_ok :: "php_state \<Rightarrow> bool" where
  "php_times_ok st \<longleftrightarrow> (\<forall>r \<in> set (ps_runtimes st). time_ok (rr_registered_at r))"

lemma php_state_json_roundtrip: "php_times_ok st \<Longrightarrow> php_state_of_json (php_state_json st) = Inr st"
  by (simp add: php_state_of_json_def php_state_json_def json_members_def str_field_def list_field_def Let_def
      runtime_key_fold runtime_keys_def php_times_ok_def decode_all_map runtime_json_roundtrip)

lemma php_state_json_ok: "json_ok (php_state_json st)"
  by (auto simp: php_state_json_def runtime_json_def omit_empty_def)

interpretation php_file: json_store php_state_json php_state_of_json empty_php_state php_times_ok
  by unfold_locales (simp_all add: php_state_json_roundtrip php_state_json_ok)

text \<open>The state a world holds for a registry at a path.\<close>

definition php_stored :: "string \<Rightarrow> world \<Rightarrow> php_state option" where
  "php_stored p w = stored php_state_of_json empty_php_state p w"

lemma php_load_Inr: "truthful w \<Longrightarrow> fst (php_load p w) = Inr st \<Longrightarrow> php_stored p w = Some st"
  unfolding php_load_def php_stored_def by (rule load_state_Inr)

lemma php_load_world [simp]: "snd (php_load p w) = next_tick w"
  by (simp add: php_load_def)

lemma php_save_Inr:
  "fst (php_save p st w) = Inr () \<Longrightarrow> php_times_ok st \<Longrightarrow> php_stored p (snd (php_save p st w)) = Some st"
  unfolding php_save_def php_stored_def by (rule php_file.saved)

lemma php_stored_cong: "node_at w' p = node_at w p \<Longrightarrow> php_stored p w' = php_stored p w"
  by (simp add: php_stored_def stored_def)

section \<open>The invariant\<close>

definition php_ok :: "php_state \<Rightarrow> bool" where
  "php_ok st \<longleftrightarrow>
     sorted_wrt (<) (map rr_version (ps_runtimes st))
     \<and> (\<forall>r \<in> set (ps_runtimes st). is_supported (rr_version r) \<and> time_ok (rr_registered_at r))
     \<and> (if ps_runtimes st = [] then ps_default st = []
        else ps_default st \<in> set (map rr_version (ps_runtimes st)))"

lemma empty_php_ok: "php_ok empty_php_state"
  by (simp add: php_ok_def empty_php_state_def)

lemma php_ok_times: "php_ok st \<Longrightarrow> php_times_ok st"
  by (simp add: php_ok_def php_times_ok_def)

lemma php_ok_distinct: "php_ok st \<Longrightarrow> distinct (map rr_version (ps_runtimes st))"
  by (simp add: php_ok_def strict_sorted_iff)

lemma supported_nonempty: "is_supported v \<Longrightarrow> v \<noteq> []"
  by (auto simp: is_supported_def supported_php_versions_def normalize_php_version_def trim_prefix_def has_prefix_def)

lemma map_replace_version:
  "map rr_version (replace_first (has_version (rr_version r)) r rs) = map rr_version rs"
  by (rule map_replace_first) (simp add: has_version_def)

lemma sort_key_strict: "distinct (map f xs) \<Longrightarrow> sorted_wrt (<) (map f (sort_key f xs))"
  by (simp add: strict_sorted_iff distinct_map)

lemma put_runtime_set:
  assumes "distinct (map rr_version (ps_runtimes st))"
  shows "set (ps_runtimes (put_runtime r st))
    = insert r {x \<in> set (ps_runtimes st). rr_version x \<noteq> rr_version r}"
proof -
  let ?P = "has_version (rr_version r)"
  have "set (replace_first ?P r rs) = insert r {x \<in> set rs. rr_version x \<noteq> rr_version r}"
    if "list_ex ?P rs" "distinct (map rr_version rs)" for rs
    using that
  proof (induction rs)
    case (Cons x rs)
    then show ?case by (auto simp: has_version_def list_ex_iff image_iff)
  qed simp
  then show ?thesis
    using assms by (auto simp: put_runtime_def Let_def has_version_def list_ex_iff)
qed

lemma put_runtime_ok:
  assumes ok: "php_ok st" and r: "is_supported (rr_version r)" "time_ok (rr_registered_at r)"
  shows "php_ok (put_runtime r st)"
proof -
  note D = php_ok_distinct [OF ok]
  note S = put_runtime_set [OF D, of r]
  have "distinct (map rr_version (if list_ex (has_version (rr_version r)) (ps_runtimes st)
      then replace_first (has_version (rr_version r)) r (ps_runtimes st) else ps_runtimes st @ [r]))"
    using D by (auto simp: map_replace_version has_version_def list_ex_iff)
  then have sorted: "sorted_wrt (<) (map rr_version (ps_runtimes (put_runtime r st)))"
    by (simp add: put_runtime_def Let_def sort_key_strict)
  have def: "ps_default (put_runtime r st) = (if ps_default st = [] then rr_version r else ps_default st)"
    by (simp add: put_runtime_def Let_def)
  have "ps_default (put_runtime r st) \<in> rr_version ` set (ps_runtimes (put_runtime r st))"
    using ok unfolding S def by (auto simp: php_ok_def split: if_splits)
  moreover have "ps_runtimes (put_runtime r st) \<noteq> []" using S by auto
  ultimately show ?thesis
    using ok r sorted S unfolding php_ok_def by auto
qed

section \<open>The operations on the stored state\<close>

text \<open>The daemon's clock prints RFC 3339 times, as \<^verbatim>\<open>time.Time\<close> does.\<close>

definition clock_ok :: "world \<Rightarrow> bool" where
  "clock_ok w \<longleftrightarrow> (\<forall>n. time_ok (o_clock (orc w) n))"

lemma normalize_executable_world:
  "snd (normalize_executable_path p w) =
     (if trim_space p = [] then w
      else let r = path_abs (trim_space p) w in if is_Inl (fst r) then snd r else next_tick (snd r))"
  unfolding normalize_executable_path_def split_beta Let_def
  by (cases "fst (path_abs (trim_space p) w)";
      cases "fst (os_stat (projr (fst (path_abs (trim_space p) w))) (snd (path_abs (trim_space p) w)))";
      simp only: sum.case sum.sel snd_conv if_distrib [of snd] os_stat_world if_cancel fst_conv is_Inl.simps if_True if_False)

lemma normalize_executable_frame [frame_simps]:
  "orc (snd (normalize_executable_path p w)) = orc w" "node_at (snd (normalize_executable_path p w)) q = node_at w q"
  by (simp_all add: normalize_executable_world Let_def)

lemma detect_runtime_world: "snd (detect_runtime_version b w) = snd (run_cmd b version_script w)"
  unfolding detect_runtime_version_def split_beta
  by (cases "snd (fst (run_cmd b version_script w))") (simp_all only: option.case snd_conv if_distrib [of snd] if_cancel)

lemma verify_runtime_world: "snd (verify_runtime req b w) = snd (run_cmd b version_script w)"
  unfolding verify_runtime_def split_beta detect_runtime_world [symmetric]
  by (cases "fst (detect_runtime_version b w)") (simp_all only: sum.case snd_conv if_distrib [of snd] if_cancel)

lemma verify_runtime_frame [frame_simps]:
  "orc (snd (verify_runtime r b w)) = orc w" "node_at (snd (verify_runtime r b w)) q = node_at w q"
  by (simp_all add: verify_runtime_world)

lemma detect_runtime_Inr:
  assumes "fst (detect_runtime_version b w) = Inr v"
  shows "snd (o_run (orc w) (tick w) b version_script) = None"
    "v = normalize_php_version (fst (o_run (orc w) (tick w) b version_script))"
  using assms
  by (simp_all add: detect_runtime_version_def run_cmd_def split_beta split: option.splits if_splits)

lemma verify_runtime_Inr:
  assumes "fst (verify_runtime req b w) = Inr v"
  shows "is_supported v" "req = [] \<or> req = v" "fst (detect_runtime_version b w) = Inr v"
proof -
  from assms obtain u where "fst (detect_runtime_version b w) = Inr u"
    by (auto simp: verify_runtime_def split_beta split: sum.splits)
  with assms show "is_supported v" "req = [] \<or> req = v" "fst (detect_runtime_version b w) = Inr v"
    by (auto simp: verify_runtime_def split_beta split: if_splits)
qed

text \<open>A successful registration, taken apart.\<close>

lemma php_register_Inr:
  assumes res: "php_register p inp w = (Inr r, w')" and t: "truthful w" and c: "clock_ok w"
  obtains st where "php_stored p w = Some st"
    "is_supported (rr_version r)" "time_ok (rr_registered_at r)"
    "php_ok st \<Longrightarrow> php_stored p w' = Some (put_runtime r st)"
    "normalize_php_version (ri_version inp) = [] \<or> normalize_php_version (ri_version inp) = rr_version r"
proof -
  define w1 where "w1 = next_tick w"
  define w2 where "w2 = snd (normalize_executable_path (ri_binary_path inp) w1)"
  from res obtain b where b: "fst (normalize_executable_path (ri_binary_path inp) w1) = Inr b"
    by (auto simp: php_register_def split_beta w1_def split: option.splits sum.splits)
  define w3 where "w3 = snd (verify_runtime (normalize_php_version (ri_version inp)) b w2)"
  from res b obtain v st where v: "fst (verify_runtime (normalize_php_version (ri_version inp)) b w2) = Inr v"
      and st: "fst (php_load p w3) = Inr st"
      and rv: "rr_version r = v" "rr_registered_at r = o_clock (orc w3) (Suc (tick w3))"
      and sv: "fst (php_save p (put_runtime r st) (next_tick (next_tick w3))) = Inr ()"
      and w': "w' = snd (php_save p (put_runtime r st) (next_tick (next_tick w3)))"
    by (auto simp: php_register_def split_beta Let_def w1_def w2_def w3_def clock_now_def
        split: option.splits sum.splits)
  have w3: "orc w3 = orc w" "node_at w3 p = node_at w p" by (simp_all add: w3_def w2_def w1_def frame_simps)
  have "php_stored p w3 = Some st" using php_load_Inr [OF truthful_orc [OF t w3(1)] st] .
  then have s: "php_stored p w = Some st" using php_stored_cong [OF w3(2)] by simp
  have tm: "time_ok (rr_registered_at r)" using c by (simp add: rv(2) clock_ok_def w3(1))
  note V = verify_runtime_Inr [OF v]
  have "php_stored p w' = Some (put_runtime r st)" if "php_ok st"
    unfolding w' using put_runtime_ok [OF that _ tm] V(1) rv(1)
    by (intro php_save_Inr [OF sv] php_ok_times) simp
  with s V tm rv show ?thesis by (intro that) auto
qed

lemma php_set_default_Inr:
  assumes res: "php_set_default p version w = (Inr r, w')" and t: "truthful w"
  obtains st where "php_stored p w = Some st" "find_runtime (normalize_php_version version) st = Some r"
    "php_ok st \<Longrightarrow> php_stored p w' = Some (st\<lparr>ps_default := normalize_php_version version\<rparr>)"
proof -
  define w1 where "w1 = next_tick w"
  from res obtain st where st: "fst (php_load p w1) = Inr st"
      and f: "find_runtime (normalize_php_version version) st = Some r"
      and sv: "fst (php_save p (st\<lparr>ps_default := normalize_php_version version\<rparr>) (next_tick w1)) = Inr ()"
      and w': "w' = snd (php_save p (st\<lparr>ps_default := normalize_php_version version\<rparr>) (next_tick w1))"
    by (auto simp: php_set_default_def split_beta w1_def split: option.splits sum.splits)
  have "php_stored p w1 = Some st" using php_load_Inr [OF truthful_orc [OF t] st] by (simp add: w1_def)
  then have "php_stored p w = Some st" using php_stored_cong [of w1 p w] by (simp add: w1_def)
  moreover have "php_stored p w' = Some (st\<lparr>ps_default := normalize_php_version version\<rparr>)" if "php_ok st"
    unfolding w' by (rule php_save_Inr [OF sv]) (use php_ok_times [OF that] in \<open>simp add: php_times_ok_def\<close>)
  ultimately show ?thesis using f by (intro that) auto
qed

lemma set_default_ok:
  assumes "php_ok st" "find_runtime v st = Some r"
  shows "php_ok (st\<lparr>ps_default := v\<rparr>)"
proof -
  have "r \<in> set (ps_runtimes st)" "rr_version r = v"
    using find_by_SomeD [of rr_version v "ps_runtimes st" r] assms(2) by (simp_all add: find_runtime_def)
  with assms(1) show ?thesis by (auto simp: php_ok_def split: if_splits)
qed

section \<open>Properties\<close>

lemma sample_clock_ok: "time_ok ''2024-05-01T10:00:00Z''"
  by code_simp

abbreviation runtimes_file :: string where
  "runtimes_file \<equiv> ''/var/lib/lara-nux/php-runtimes.json''"

definition reporting :: "string \<Rightarrow> nat \<Rightarrow> string \<Rightarrow> string list \<Rightarrow> string \<times> err option" where
  "reporting version n c args = (version @ nl, None)"

definition binary_host :: "string \<Rightarrow> world" where
  "binary_host version = sample_world (reporting version)
     [(''/usr/bin/php'', File mode_0755 []), (''/var/lib/lara-nux'', Dir mode_0750)]"

definition php_input :: runtime_registration_input where
  "php_input = \<lparr>ri_version = ''PHP8.3'', ri_binary_path = ''/usr/bin/php'', ri_fpm_service = [], ri_source = ''apt''\<rparr>"

lemma binary_host_facts [simp]: "truthful (binary_host v)" "clock_ok (binary_host v)" "quiet (binary_host v)"
  "o_ctx (orc (binary_host v)) n = None"
  by (simp_all add: binary_host_def truthful_def quiet_def clock_ok_def sample_world_def sample_env_def sample_clock_ok)

text \<open>What a registration has seen: its binary was run with the version script and ended well, and the version
  recorded is what it printed, normalized.\<close>

definition printed_version :: "world \<Rightarrow> php_runtime_record \<Rightarrow> bool" where
  "printed_version w r \<longleftrightarrow>
     (\<exists>n out. o_run (orc w) n (rr_binary_path r) version_script = (out, None) \<and> rr_version r = normalize_php_version out)"

lemma php_register_printed:
  assumes res: "php_register p inp w = (Inr r, w')"
  shows "printed_version w r"
proof -
  let ?w2 = "snd (normalize_executable_path (ri_binary_path inp) (next_tick w))"
  from res obtain b where b: "fst (normalize_executable_path (ri_binary_path inp) (next_tick w)) = Inr b"
    by (auto simp: php_register_def split_beta split: option.splits sum.splits)
  with res obtain v where v: "fst (verify_runtime (normalize_php_version (ri_version inp)) b ?w2) = Inr v"
      and r: "rr_version r = v" "rr_binary_path r = b"
    by (auto simp: php_register_def split_beta Let_def split: option.splits sum.splits)
  from detect_runtime_Inr [OF verify_runtime_Inr(3) [OF v]]
  have "snd (o_run (orc w) (tick ?w2) b version_script) = None"
    "v = normalize_php_version (fst (o_run (orc w) (tick ?w2) b version_script))"
    by (simp_all add: frame_simps)
  with r show ?thesis unfolding printed_version_def by (metis prod.collapse)
qed

text \<open>The code accepts a version when, normalized once more, it is one of the catalog. It is one of the catalog
  itself, or still begins with \<^verbatim>\<open>php\<close>.\<close>

lemma normalized_supported:
  assumes "is_supported v" "v = normalize_php_version x"
  shows "v \<in> set supported_php_versions \<or> has_prefix v ''php''"
proof (cases "has_prefix v ''php''")
  case False
  let ?u = "trim_space (to_lower x)"
  have v: "v = trim_space (trim_prefix ?u ''php'')" using assms(2) by (simp add: normalize_php_version_def)
  have "set v \<subseteq> set (to_lower x)"
    unfolding v trim_space_def trim_prefix_def
    by (auto dest!: subsetD [OF trim_by_set] in_set_dropD split: if_splits)
  then have "\<forall>c \<in> set v. \<not> is_upper c" by (auto simp: to_lower_def)
  then have "to_lower v = v" by (rule to_lower_id)
  then have "normalize_php_version v = v" using False v by (simp add: normalize_php_version_def trim_prefix_def)
  with assms(1) show ?thesis by (simp add: is_supported_def)
qed simp

text \<open>C35: a runtime that is registered was verified: its binary was run, ended well, and printed the version
  that is recorded (without its \<^verbatim>\<open>php\<close> and the spaces around it), which is the one that was asked for if
  one was, and which the code counts as supported: it is in the catalog, or is once another \<^verbatim>\<open>php\<close> is
  taken from its front (\<open>doubled_prefix_registered\<close>). On a registry that is well formed in this sense
  (\<open>php_ok\<close>) the runtime then stands in place of any earlier one of the same version, and the registry
  is still well formed: sorted, each version once, each supported as the code checks it, and with a
  default that exists.\<close>

theorem php_registration_keeps_invariant:
  assumes "php_register p inp w = (Inr r, w')" and "truthful w" and "clock_ok w"
    and "php_stored p w = Some st" and "php_ok st"
  shows "php_stored p w' = Some (put_runtime r st) \<and> php_ok (put_runtime r st)
    \<and> is_supported (rr_version r) \<and> printed_version w r
    \<and> (rr_version r \<in> set supported_php_versions \<or> has_prefix (rr_version r) ''php'')
    \<and> (normalize_php_version (ri_version inp) = [] \<or> normalize_php_version (ri_version inp) = rr_version r)"
proof -
  from php_register_Inr [OF assms(1-3)] obtain st' where R: "php_stored p w = Some st'"
      "is_supported (rr_version r)" "time_ok (rr_registered_at r)"
      "php_ok st' \<Longrightarrow> php_stored p w' = Some (put_runtime r st')"
      "normalize_php_version (ri_version inp) = [] \<or> normalize_php_version (ri_version inp) = rr_version r"
    by metis
  moreover have v: "printed_version w r" by (rule php_register_printed [OF assms(1)])
  moreover have "rr_version r \<in> set supported_php_versions \<or> has_prefix (rr_version r) ''php''"
    using normalized_supported [OF R(2)] v unfolding printed_version_def by blast
  ultimately show ?thesis using put_runtime_ok [OF assms(5)] assms(4,5) by simp
qed

text \<open>A binary that prints its version behind two prefixes is registered under a version that is not normal.\<close>

definition any_input :: runtime_registration_input where
  "any_input = php_input\<lparr>ri_version := []\<rparr>"

lemma doubled_prefix_registered:
  "case fst (php_register runtimes_file any_input (binary_host ''phpphp8.3'')) of
     Inl e \<Rightarrow> False | Inr r \<Rightarrow> rr_version r = ''php8.3'' \<and> normalize_php_version (rr_version r) = ''8.3''"
  by code_simp

lemma php_registered: "\<not> is_Inl (fst (php_register runtimes_file php_input (binary_host ''8.3'')))"
  by code_simp

lemma binary_host_stored: "php_stored runtimes_file (binary_host v) = Some empty_php_state"
  by (simp add: php_stored_def stored_def node_at_def binary_host_def sample_world_def)

theorem php_registration_keeps_invariant_witness:
  "\<exists>r. php_stored runtimes_file (snd (php_register runtimes_file php_input (binary_host ''8.3'')))
     = Some (put_runtime r empty_php_state)"
proof -
  obtain r where "fst (php_register runtimes_file php_input (binary_host ''8.3'')) = Inr r"
    using not_is_InlD [OF php_registered] by blast
  then have "php_register runtimes_file php_input (binary_host ''8.3'')
      = (Inr r, snd (php_register runtimes_file php_input (binary_host ''8.3'')))"
    by (metis prod.collapse)
  from php_registration_keeps_invariant [OF this _ _ binary_host_stored empty_php_ok] show ?thesis by auto
qed

lemma php_default_runtime_works:
  assumes "quiet w" "\<forall>n. o_ctx (orc w) n = None" "php_stored p w = Some st" "ps_default st \<noteq> []"
    "find_runtime (ps_default st) st = Some r"
  shows "fst (php_default_runtime p w) = Inr r"
proof -
  have "fst (load_state php_state_of_json empty_php_state p (next_tick w)) = Inr st"
    by (rule load_state_quiet)
       (use assms(1,3) php_stored_cong [of "next_tick w" p w] in \<open>simp_all add: quiet_def fault_def php_stored_def\<close>)
  with assms(2,4,5) show ?thesis
    by (simp add: php_default_runtime_def split_beta php_load_def ctx_err_def)
qed

lemma php_set_default_orc: "orc (snd (php_set_default p v w)) = orc w"
  unfolding php_set_default_def split_beta php_save_def
  by (simp add: frame_simps split: option.split sum.split)

lemma php_set_default_works:
  assumes "quiet w" "\<forall>n. o_ctx (orc w) n = None" "php_stored p w = Some st"
    "find_runtime (normalize_php_version v) st = Some r"
    "fst (php_save p (st\<lparr>ps_default := normalize_php_version v\<rparr>) (next_tick (next_tick w))) = Inr ()"
  shows "fst (php_set_default p v w) = Inr r"
proof -
  have "fst (load_state php_state_of_json empty_php_state p (next_tick w)) = Inr st"
    by (rule load_state_quiet)
       (use assms(1,3) php_stored_cong [of "next_tick w" p w] in \<open>simp_all add: quiet_def fault_def php_stored_def\<close>)
  with assms(2,4,5) show ?thesis
    by (simp add: php_set_default_def split_beta php_load_def ctx_err_def)
qed

text \<open>C36: the runtime made the default is the one that later requests for the default get, and changing
  the default changes nothing else of the registry.\<close>

theorem php_default_round_trip:
  assumes "php_set_default p version w = (Inr r, w')" and "quiet w" and "\<forall>n. o_ctx (orc w) n = None"
    and "php_stored p w = Some st" and "php_ok st"
  shows "fst (php_default_runtime p w') = Inr r
    \<and> php_stored p w' = Some (st\<lparr>ps_default := rr_version r\<rparr>) \<and> php_ok (st\<lparr>ps_default := rr_version r\<rparr>)"
proof -
  from php_set_default_Inr [OF assms(1) quiet_truthful [OF assms(2)]] assms(4,5)
  have f: "find_runtime (normalize_php_version version) st = Some r"
    and s: "php_stored p w' = Some (st\<lparr>ps_default := normalize_php_version version\<rparr>)" by (metis option.inject)+
  have v: "rr_version r = normalize_php_version version" "r \<in> set (ps_runtimes st)"
    using find_by_SomeD [OF f [unfolded find_runtime_def]] by simp_all
  have "is_supported (rr_version r)" using v(2) assms(5) by (simp add: php_ok_def)
  then have ne: "normalize_php_version version \<noteq> []" using supported_nonempty v(1) by auto
  have o: "orc w' = orc w" using php_set_default_orc [of p version w] assms(1) by simp
  have "fst (php_default_runtime p w') = Inr r"
    by (rule php_default_runtime_works [OF _ _ s])
       (use assms(2,3) o ne f in \<open>simp_all add: quiet_def find_runtime_def\<close>)
  with s set_default_ok [OF assms(5) f] v(1) show ?thesis by simp
qed

definition runtime_83 :: php_runtime_record where
  "runtime_83 = \<lparr>rr_version = ''8.3'', rr_binary_path = ''/usr/bin/php'', rr_fpm_service = ''php8.3-fpm'',
     rr_source = ''apt'', rr_registered_at = ''2024-05-01T10:00:00Z''\<rparr>"

definition runtimes_83 :: php_state where
  "runtimes_83 = \<lparr>ps_default = ''8.3'', ps_runtimes = [runtime_83]\<rparr>"

definition runtime_host :: world where
  "runtime_host = sample_world all_succeed
     [(''/var/lib/lara-nux'', Dir mode_0750), (runtimes_file, File mode_0640 (marshal_indent (php_state_json runtimes_83)))]"

lemma runtimes_83_facts:
  "php_ok runtimes_83" "find_runtime (normalize_php_version '' PHP8.3'') runtimes_83 = Some runtime_83"
  by (simp_all add: php_ok_def runtimes_83_def runtime_83_def sample_clock_ok is_supported_def) code_simp+

lemma runtime_host_facts [simp]: "quiet runtime_host" "o_ctx (orc runtime_host) n = None"
  by (simp_all add: runtime_host_def quiet_def sample_world_def sample_env_def)

lemma runtime_host_stored: "php_stored runtimes_file runtime_host = Some runtimes_83"
proof -
  have "file_at runtime_host runtimes_file = Some (marshal_indent (php_state_json runtimes_83))"
    by (simp add: runtime_host_def sample_world_def file_at_def node_at_def)
  then show ?thesis
    unfolding php_stored_def
    by (simp add: stored_file marshal_indent_nonempty json_parse_marshal php_state_json_ok php_state_json_roundtrip
        php_ok_times [OF runtimes_83_facts(1)])
qed

theorem php_default_round_trip_witness:
  "fst (php_default_runtime runtimes_file (snd (php_set_default runtimes_file '' PHP8.3'' runtime_host))) = Inr runtime_83"
proof -
  have "fst (php_save runtimes_file (runtimes_83\<lparr>ps_default := normalize_php_version '' PHP8.3''\<rparr>)
      (next_tick (next_tick runtime_host))) = Inr ()" by code_simp
  from php_set_default_works [OF _ _ runtime_host_stored runtimes_83_facts(2) this]
  have "php_set_default runtimes_file '' PHP8.3'' runtime_host
      = (Inr runtime_83, snd (php_set_default runtimes_file '' PHP8.3'' runtime_host))"
    by (metis runtime_host_facts prod.collapse)
  from php_default_round_trip [OF this _ _ runtime_host_stored runtimes_83_facts(1)] show ?thesis by simp
qed

end
