(* ===== verification/Site_Registry.thy ===== *)
theory Site_Registry
  imports Php_Registry
begin

text \<open>
  \<^verbatim>\<open>daemon/internal/app/site_registry.go\<close>: the sites the daemon serves, kept in \<^verbatim>\<open>sites.json\<close>. Every
  operation but \<^verbatim>\<open>SetStatus\<close> holds the registry's mutex from start to end, so it is one step;
  \<^verbatim>\<open>SetStatus\<close> is a \<^verbatim>\<open>Get\<close> followed by an \<^verbatim>\<open>Update\<close>. Times are in UTC. \<^verbatim>\<open>sort.Slice\<close> may order equal
  domains in any way; the model keeps their order.
\<close>

section \<open>Records and their file\<close>

text \<open>\<^verbatim>\<open>SiteStatus\<close> is a string type.\<close>

type_synonym site_status = string

abbreviation status_ready :: site_status where "status_ready \<equiv> ''ready''"
abbreviation status_degraded :: site_status where "status_degraded \<equiv> ''degraded''"
abbreviation status_conflict :: site_status where "status_conflict \<equiv> ''conflict''"

record site_record =
  si_id :: string
  si_name :: string
  si_root_path :: string
  si_domain :: string
  si_php_version :: string
  si_tls :: string
  si_status :: site_status
  si_status_message :: string
  si_created_at :: gotime
  si_updated_at :: gotime
  si_last_checked_at :: gotime

record site_registration_input =
  sr_root_path :: string
  sr_domain :: string
  sr_php_version :: string

text \<open>The tag \<^verbatim>\<open>omitempty\<close> has no effect on \<^verbatim>\<open>lastCheckedAt\<close>: a struct is never empty.\<close>

definition site_json :: "site_record \<Rightarrow> json" where
  "site_json s =
     JObj ([(''id'', JStr (si_id s)), (''name'', JStr (si_name s)), (''rootPath'', JStr (si_root_path s)),
            (''domain'', JStr (si_domain s)), (''phpVersion'', JStr (si_php_version s)), (''tls'', JStr (si_tls s)),
            (''status'', JStr (si_status s))]
           @ omit_empty ''statusMessage'' (si_status_message s)
           @ [(''createdAt'', JStr (si_created_at s)), (''updatedAt'', JStr (si_updated_at s)),
              (''lastCheckedAt'', JStr (si_last_checked_at s))])"

definition site_of_json :: "json \<Rightarrow> err + site_record" where
  "site_of_json j =
     (case json_members j of
        Inl e \<Rightarrow> Inl e
      | Inr kvs \<Rightarrow>
          (case (str_field [] ''id'' kvs, str_field [] ''name'' kvs, str_field [] ''rootPath'' kvs,
                 str_field [] ''domain'' kvs, str_field [] ''phpVersion'' kvs, str_field [] ''tls'' kvs) of
             (Inr i, Inr n, Inr r, Inr d, Inr v, Inr t) \<Rightarrow>
               (case (str_field [] ''status'' kvs, str_field [] ''statusMessage'' kvs, time_field ''createdAt'' kvs,
                      time_field ''updatedAt'' kvs, time_field ''lastCheckedAt'' kvs) of
                  (Inr s, Inr m, Inr c, Inr u, Inr l) \<Rightarrow>
                    Inr \<lparr>si_id = i, si_name = n, si_root_path = r, si_domain = d, si_php_version = v, si_tls = t,
                         si_status = s, si_status_message = m, si_created_at = c, si_updated_at = u,
                         si_last_checked_at = l\<rparr>
                | _ \<Rightarrow> Inl wrong_kind)
           | _ \<Rightarrow> Inl wrong_kind))"

text \<open>The state is the list of sites.\<close>

definition site_state_json :: "site_record list \<Rightarrow> json" where
  "site_state_json sites = JObj [(''sites'', JArr (map site_json sites))]"

definition site_state_of_json :: "json \<Rightarrow> err + site_record list" where
  "site_state_of_json j =
     (case json_members j of Inl e \<Rightarrow> Inl e | Inr kvs \<Rightarrow> list_field site_of_json ''sites'' kvs)"

definition site_load :: "string \<Rightarrow> world \<Rightarrow> (err + site_record list) \<times> world" where
  "site_load p w = load_state site_state_of_json [] p w"

definition site_save :: "string \<Rightarrow> site_record list \<Rightarrow> world \<Rightarrow> (err + unit) \<times> world" where
  "site_save p sites w = save_state p (site_state_json sites) mode_0640 w"

section \<open>Checking the input\<close>

definition normalize_root_path :: "string \<Rightarrow> world \<Rightarrow> (err + string) \<times> world" where
  "normalize_root_path root w =
     (if trim_space root = [] then (Inl (sentinel_err ErrInvalidLaravelPath ''rootPath is required''), w)
      else (case path_abs (trim_space root) w of
              (Inl e, w1) \<Rightarrow> (Inl (sentinel_err ErrInvalidLaravelPath (''resolve absolute path: '' @ err_text e)), w1)
            | (Inr full, w1) \<Rightarrow>
                (case eval_symlinks full w1 of
                   (Inr resolved, w2) \<Rightarrow> (Inr resolved, w2)
                 | (Inl e, w2) \<Rightarrow>
                     (if errors_is e OsNotExist then (Inr full, w2)
                      else (Inl (sentinel_err ErrInvalidLaravelPath (''resolve symlinks: '' @ err_text e)), w2)))))"

definition laravel_files :: "string list" where
  "laravel_files = [''artisan'', path_join [''public'', ''index.php''], ''composer.json'']"

fun check_laravel_files :: "string \<Rightarrow> string list \<Rightarrow> world \<Rightarrow> (err + unit) \<times> world" where
  "check_laravel_files root [] w = (Inr (), w)"
| "check_laravel_files root (required # rest) w =
     (case os_stat (path_join [root, required]) w of
        (Inl e, w1) \<Rightarrow> (Inl (sentinel_err ErrInvalidLaravelPath (''missing '' @ required)), w1)
      | (Inr info, w1) \<Rightarrow>
          (if is_dir info then (Inl (sentinel_err ErrInvalidLaravelPath (''expected file at '' @ required)), w1)
           else check_laravel_files root rest w1))"

definition validate_laravel_path :: "string \<Rightarrow> world \<Rightarrow> (err + unit) \<times> world" where
  "validate_laravel_path root w =
     (case os_stat root w of
        (Inl e, w1) \<Rightarrow> (Inl (sentinel_err ErrInvalidLaravelPath (''inspect project root: '' @ err_text e)), w1)
      | (Inr info, w1) \<Rightarrow>
          (if \<not> is_dir info then (Inl (sentinel_err ErrInvalidLaravelPath (root @ '' is not a directory'')), w1)
           else check_laravel_files root laravel_files w1))"

definition label_edge :: "char \<Rightarrow> bool" where
  "label_edge c \<longleftrightarrow> is_lower c \<or> is_digit c"

definition domain_label_rx :: rx where
  "domain_label_rx =
     Seq_rx (Class_rx label_edge)
       (Opt_rx (Seq_rx (Star_rx (Class_rx (\<lambda>c. label_edge c \<or> c = CHR ''-''))) (Class_rx label_edge)))"

fun check_labels :: "string list \<Rightarrow> err option" where
  "check_labels [] = None"
| "check_labels (label # rest) =
     (if rx_match domain_label_rx label then check_labels rest
      else Some (sentinel_err ErrInvalidDomain (''label '' @ go_quote label @ '' is not a valid local hostname segment'')))"

definition normalize_domain :: "string \<Rightarrow> string \<Rightarrow> err + string" where
  "normalize_domain raw fallback =
     (let lowered = to_lower (trim_space raw);
          value = (if lowered = [] then fallback @ ''.test'' else lowered)
      in if \<not> has_suffix value ''.test'' then
           Inl (sentinel_err ErrInvalidDomain (''domain '' @ go_quote value @ '' must end with .test''))
         else if trim_suffix value ''.test'' = [] then
           Inl (sentinel_err ErrInvalidDomain (''domain '' @ go_quote value @ '' must include a hostname label''))
         else (case check_labels (split_on CHR ''.'' (trim_suffix value ''.test'')) of
                 Some e \<Rightarrow> Inl e
               | None \<Rightarrow> Inr value))"

text \<open>The loop of \<^verbatim>\<open>deriveSiteName\<close>: what is built so far and whether it ends with a dash.\<close>

fun slug_loop :: "string \<Rightarrow> bool \<Rightarrow> string \<Rightarrow> string" where
  "slug_loop built last_dash [] = built"
| "slug_loop built last_dash (c # s) =
     (if is_lower c \<or> is_digit c then slug_loop (built @ [c]) False s
      else if c = CHR ''-'' then
        (if built \<noteq> [] \<and> \<not> last_dash then slug_loop (built @ ''-'') True s else slug_loop built last_dash s)
      else slug_loop built last_dash s)"

definition derive_site_name :: "string \<Rightarrow> string" where
  "derive_site_name root =
     (let base = replace_chars [(CHR ''_'', CHR ''-''), (CHR '' '', CHR ''-''), (CHR ''.'', CHR ''-'')]
                   (to_lower (trim_space (path_base root)));
          name = trim_char CHR ''-'' (slug_loop [] False base)
      in if name = [] then ''site'' else name)"

definition new_record_id :: "world \<Rightarrow> string \<times> world" where
  "new_record_id w =
     (case rand_bytes w of
        (None, w1) \<Rightarrow> (case unix_nano w1 of (n, w2) \<Rightarrow> (''site-'' @ itoa n, w2))
      | (Some bytes, w1) \<Rightarrow> (''site-'' @ hex_encode bytes, w1))"

section \<open>Operations\<close>

fun site_clash :: "string \<Rightarrow> string \<Rightarrow> site_record list \<Rightarrow> err option" where
  "site_clash name domain [] = None"
| "site_clash name domain (s # sites) =
     (if equal_fold (si_name s) name then
        Some (sentinel_err ErrDuplicateSiteName (''site name '' @ go_quote name @ '' is already registered''))
      else if equal_fold (si_domain s) domain then
        Some (sentinel_err ErrDuplicateDomain (''domain '' @ go_quote domain @ '' is already registered''))
      else site_clash name domain sites)"

definition new_site :: "string \<Rightarrow> string \<Rightarrow> string \<Rightarrow> string \<Rightarrow> string \<Rightarrow> gotime \<Rightarrow> site_record" where
  "new_site i name root domain version now =
     \<lparr>si_id = i, si_name = name, si_root_path = root, si_domain = domain,
      si_php_version = normalize_php_version version, si_tls = ''auto'', si_status = status_ready,
      si_status_message = ''Site registered and ready for orchestration.'',
      si_created_at = now, si_updated_at = now, si_last_checked_at = now\<rparr>"

definition site_register :: "string \<Rightarrow> site_registration_input \<Rightarrow> world \<Rightarrow> (err + site_record) \<times> world" where
  "site_register p inp w =
     (case ctx_err w of
        (Some e, w1) \<Rightarrow> (Inl e, w1)
      | (None, w1) \<Rightarrow>
      (case normalize_root_path (sr_root_path inp) w1 of
         (Inl e, w2) \<Rightarrow> (Inl e, w2)
       | (Inr root, w2) \<Rightarrow>
       (case validate_laravel_path root w2 of
          (Inl e, w3) \<Rightarrow> (Inl e, w3)
        | (Inr _, w3) \<Rightarrow>
        (case site_load p w3 of
           (Inl e, w4) \<Rightarrow> (Inl e, w4)
         | (Inr sites, w4) \<Rightarrow>
         (case normalize_domain (sr_domain inp) (derive_site_name root) of
            Inl e \<Rightarrow> (Inl e, w4)
          | Inr domain \<Rightarrow>
          (case site_clash (derive_site_name root) domain sites of
             Some e \<Rightarrow> (Inl e, w4)
           | None \<Rightarrow>
           (case clock_now w4 of
              (now, w5) \<Rightarrow>
              (case new_record_id w5 of
                 (i, w6) \<Rightarrow>
                   (let s = new_site i (derive_site_name root) root domain (sr_php_version inp) now
                    in (case site_save p (sites @ [s]) w6 of
                          (Inl e, w7) \<Rightarrow> (Inl e, w7)
                        | (Inr _, w7) \<Rightarrow> (Inr s, w7)))))))))))"

definition site_list :: "string \<Rightarrow> world \<Rightarrow> (err + site_record list) \<times> world" where
  "site_list p w =
     (case ctx_err w of
        (Some e, w1) \<Rightarrow> (Inl e, w1)
      | (None, w1) \<Rightarrow>
          (case site_load p w1 of
             (Inl e, w2) \<Rightarrow> (Inl e, w2)
           | (Inr sites, w2) \<Rightarrow> (Inr (sort_key si_domain sites), w2)))"

definition find_site :: "string \<Rightarrow> site_record list \<Rightarrow> site_record option" where
  "find_site i sites = find_by si_id i sites"

definition site_get :: "string \<Rightarrow> string \<Rightarrow> world \<Rightarrow> (err + site_record) \<times> world" where
  "site_get p i w =
     (case ctx_err w of
        (Some e, w1) \<Rightarrow> (Inl e, w1)
      | (None, w1) \<Rightarrow>
          (case site_load p w1 of
             (Inl e, w2) \<Rightarrow> (Inl e, w2)
           | (Inr sites, w2) \<Rightarrow>
               (case find_site i sites of
                  None \<Rightarrow> (Inl (sentinel_err ErrSiteNotFound i), w2)
                | Some s \<Rightarrow> (Inr s, w2))))"

definition has_id :: "string \<Rightarrow> site_record \<Rightarrow> bool" where
  "has_id i s \<longleftrightarrow> si_id s = i"

definition updated_site :: "site_record \<Rightarrow> site_record \<Rightarrow> gotime \<Rightarrow> site_record" where
  "updated_site s old now = s\<lparr>si_created_at := si_created_at old, si_updated_at := now\<rparr>"

definition site_update :: "string \<Rightarrow> site_record \<Rightarrow> world \<Rightarrow> (err + site_record) \<times> world" where
  "site_update p s w =
     (case ctx_err w of
        (Some e, w1) \<Rightarrow> (Inl e, w1)
      | (None, w1) \<Rightarrow>
          (case site_load p w1 of
             (Inl e, w2) \<Rightarrow> (Inl e, w2)
           | (Inr sites, w2) \<Rightarrow>
               (case find_site (si_id s) sites of
                  None \<Rightarrow> (Inl (sentinel_err ErrSiteNotFound (si_id s)), w2)
                | Some old \<Rightarrow>
                    (case clock_now w2 of
                       (now, w3) \<Rightarrow>
                         (let s' = updated_site s old now
                          in (case site_save p (replace_first (has_id (si_id s)) s' sites) w3 of
                                (Inl e, w4) \<Rightarrow> (Inl e, w4)
                              | (Inr _, w4) \<Rightarrow> (Inr s', w4)))))))"

definition site_delete :: "string \<Rightarrow> string \<Rightarrow> world \<Rightarrow> (err + unit) \<times> world" where
  "site_delete p i w =
     (case ctx_err w of
        (Some e, w1) \<Rightarrow> (Inl e, w1)
      | (None, w1) \<Rightarrow>
          (case site_load p w1 of
             (Inl e, w2) \<Rightarrow> (Inl e, w2)
           | (Inr sites, w2) \<Rightarrow>
               (case find_site i sites of
                  None \<Rightarrow> (Inl (sentinel_err ErrSiteNotFound i), w2)
                | Some s \<Rightarrow> site_save p (remove_first (has_id i) sites) w2)))"

definition site_set_status ::
    "string \<Rightarrow> string \<Rightarrow> site_status \<Rightarrow> string \<Rightarrow> gotime \<Rightarrow> world \<Rightarrow> (err + site_record) \<times> world" where
  "site_set_status p i status message checked_at w =
     (case site_get p i w of
        (Inl e, w1) \<Rightarrow> (Inl e, w1)
      | (Inr s, w1) \<Rightarrow>
          site_update p (s\<lparr>si_status := status, si_status_message := trim_space message,
                           si_last_checked_at := checked_at\<rparr>) w1)"

end
