(* ===== verification/Site_Registry_Correct.thy ===== *)
theory Site_Registry_Correct
  imports Site_Registry Php_Registry_Correct Json_Utf8
begin

text \<open>
  The invariant of the site registry - no two sites share a name or a domain, every domain is a
  valid name under \<^verbatim>\<open>.test\<close> - and what each operation does to the stored list.
\<close>

section \<open>Names and domains\<close>

text \<open>A name a derived site name can be: a hostname label.\<close>

definition host_label :: "string \<Rightarrow> bool" where
  "host_label s \<longleftrightarrow> s \<noteq> [] \<and> (\<forall>c \<in> set s. label_edge c \<or> c = CHR ''-'') \<and> label_edge (hd s) \<and> label_edge (last s)"

lemma domain_label_iff: "rx_match domain_label_rx s \<longleftrightarrow> host_label s"
proof
  assume "rx_match domain_label_rx s"
  then show "host_label s"
    by (auto simp: rx_match_iff domain_label_rx_def Opt_rx_def rx_lang_simps rx_lang_Star_Class host_label_def)
next
  assume s: "host_label s"
  have "rx_lang domain_label_rx s"
  proof (cases "length s = 1")
    case True
    then obtain c where "s = [c]" by (auto simp: length_Suc_conv)
    then have "rx_lang (Class_rx label_edge) s" using s by (simp add: rx_lang_Class host_label_def)
    then show ?thesis
      using rx_lang.seq [OF _ rx_lang.alt2 [OF rx_lang.eps]] unfolding domain_label_rx_def Opt_rx_def by fastforce
  next
    case False
    then obtain c m d where m: "s = [c] @ (m @ [d])"
      using s by (cases s; cases "tl s" rule: rev_cases) (auto simp: host_label_def)
    then have tail: "rx_lang (Seq_rx (Star_rx (Class_rx (\<lambda>c. label_edge c \<or> c = CHR ''-''))) (Class_rx label_edge)) (m @ [d])"
      using s by (intro rx_lang.seq) (auto simp: rx_lang_Star_Class rx_lang_Class host_label_def)
    have "rx_lang (Class_rx label_edge) [c]" using m s by (simp add: rx_lang_Class host_label_def)
    then show ?thesis
      unfolding domain_label_rx_def Opt_rx_def m by (rule rx_lang.seq [OF _ rx_lang.alt1 [OF tail]])
  qed
  then show "rx_match domain_label_rx s" by (simp add: rx_match_iff)
qed

lemma check_labels_None_iff: "check_labels ls = None \<longleftrightarrow> (\<forall>l \<in> set ls. host_label l)"
  by (induction ls) (auto simp: domain_label_iff)

definition valid_domain :: "string \<Rightarrow> bool" where
  "valid_domain d \<longleftrightarrow> (\<exists>h. d = h @ ''.test'' \<and> h \<noteq> [] \<and> (\<forall>l \<in> set (split_on CHR ''.'' h). host_label l))"

lemma valid_domain_iff:
  "valid_domain v \<longleftrightarrow> has_suffix v ''.test'' \<and> trim_suffix v ''.test'' \<noteq> []
     \<and> check_labels (split_on CHR ''.'' (trim_suffix v ''.test'')) = None"
  unfolding valid_domain_def has_suffix_iff check_labels_None_iff by auto

lemma normalize_domain_Inr:
  "normalize_domain raw name = Inr d \<longleftrightarrow>
     d = (if trim_space raw = [] then name @ ''.test'' else to_lower (trim_space raw)) \<and> valid_domain d"
proof -
  have empty: "to_lower (trim_space raw) = [] \<longleftrightarrow> trim_space raw = []" by (simp add: to_lower_def)
  let ?v = "if trim_space raw = [] then name @ ''.test'' else to_lower (trim_space raw)"
  have "normalize_domain raw name = Inr d \<longleftrightarrow> d = ?v \<and> has_suffix ?v ''.test'' \<and> trim_suffix ?v ''.test'' \<noteq> []
      \<and> check_labels (split_on CHR ''.'' (trim_suffix ?v ''.test'')) = None"
    unfolding normalize_domain_def Let_def empty by (simp split: option.split) blast
  then show ?thesis unfolding valid_domain_iff by (cases "d = ?v") simp_all
qed

lemma label_edge_dash: "\<not> label_edge CHR ''-''"
  by (simp add: label_edge_def is_lower_def is_digit_def)

lemma slug_loop_ok:
  assumes "\<forall>c \<in> set b. label_edge c \<or> c = CHR ''-''"
  shows "\<forall>c \<in> set (slug_loop b l s). label_edge c \<or> c = CHR ''-''"
  using assms
  by (induction b l s rule: slug_loop.induct) (auto simp: label_edge_def)

lemma trim_by_ends_not: "trim_by P s = [] \<or> \<not> P (hd (trim_by P s)) \<and> \<not> P (last (trim_by P s))"
  using trim_by_ends [of P s] by blast

lemma derive_site_name_label: "host_label (derive_site_name root)"
proof -
  obtain t where t: "derive_site_name root = (if trim_char CHR ''-'' t = [] then ''site'' else trim_char CHR ''-'' t)"
    and ok: "\<forall>c \<in> set t. label_edge c \<or> c = CHR ''-''"
    using slug_loop_ok [of "[]" False] by (auto simp: derive_site_name_def Let_def)
  show ?thesis
  proof (cases "trim_char CHR ''-'' t = []")
    case True
    then show ?thesis by (simp add: t host_label_def label_edge_def is_lower_def)
  next
    case False
    let ?u = "trim_char CHR ''-'' t"
    have sub: "\<forall>c \<in> set ?u. label_edge c \<or> c = CHR ''-''"
      using ok trim_by_set [of "\<lambda>x. x = CHR ''-''" t] by (auto simp: trim_char_def)
    moreover have "hd ?u \<noteq> CHR ''-''" "last ?u \<noteq> CHR ''-''"
      using trim_by_ends_not [of "\<lambda>x. x = CHR ''-''" t] False by (auto simp: trim_char_def)
    moreover have "hd ?u \<in> set ?u" "last ?u \<in> set ?u" using False by simp_all
    ultimately show ?thesis using False by (auto simp: t host_label_def)
  qed
qed

lemma host_label_no_dot: "host_label s \<Longrightarrow> CHR ''.'' \<notin> set s"
  by (auto simp: host_label_def label_edge_def is_lower_def is_digit_def)

lemma host_label_domain: "host_label s \<Longrightarrow> valid_domain (s @ ''.test'')"
  using split_on_no_sep [OF host_label_no_dot] by (auto simp: valid_domain_def host_label_def)

lemma host_label_lower: "host_label s \<Longrightarrow> to_lower s = s"
  by (rule to_lower_id) (auto simp: host_label_def label_edge_def is_lower_def is_digit_def is_upper_def)

text \<open>C37: whatever the project directory is called - capitals, spaces, dots, nothing but punctuation, the
  root directory - the name derived from it is a hostname label, and with a blank domain the site
  gets that name under \<^verbatim>\<open>.test\<close>; the derived name never makes a registration fail.\<close>

theorem derived_domain_accepted:
  "host_label (derive_site_name root)
    \<and> (trim_space raw = [] \<longrightarrow> normalize_domain raw (derive_site_name root) = Inr (derive_site_name root @ ''.test''))"
  using derive_site_name_label [of root] host_label_domain [OF derive_site_name_label]
  by (simp add: normalize_domain_Inr)

theorem derived_domain_accepted_witness:
  "normalize_domain '' '' (derive_site_name ''/srv/My_App v2.0!'') = Inr ''my-app-v2-0.test''"
proof -
  have "trim_space '' '' = []" "derive_site_name ''/srv/My_App v2.0!'' = ''my-app-v2-0''" by code_simp+
  with derived_domain_accepted [of "''/srv/My_App v2.0!''" "'' ''"] show ?thesis by simp
qed

section \<open>The state file\<close>

definition site_keys :: "string list" where
  "site_keys = [''id'', ''name'', ''rootPath'', ''domain'', ''phpVersion'', ''tls'', ''status'', ''statusMessage'',
     ''createdAt'', ''updatedAt'', ''lastCheckedAt'', ''sites'']"

lemma site_keys_distinct: "distinct (map to_lower site_keys)"
  by code_simp

lemmas site_key_fold = fold_names [OF site_keys_distinct]

definition site_times_ok :: "site_record \<Rightarrow> bool" where
  "site_times_ok s \<longleftrightarrow> time_ok (si_created_at s) \<and> time_ok (si_updated_at s) \<and> time_ok (si_last_checked_at s)"

lemma site_json_roundtrip: "site_times_ok s \<Longrightarrow> site_of_json (site_json s) = Inr s"
  by (simp add: site_of_json_def site_json_def json_members_def str_field_def time_field_def Let_def
      site_key_fold site_keys_def site_times_ok_def)

lemma site_state_json_roundtrip:
  "\<forall>s \<in> set sites. site_times_ok s \<Longrightarrow> site_state_of_json (site_state_json sites) = Inr sites"
  by (simp add: site_state_of_json_def site_state_json_def json_members_def list_field_def Let_def
      decode_all_map site_json_roundtrip)

lemma site_state_json_ok: "json_ok (site_state_json sites)"
  by (auto simp: site_state_json_def site_json_def omit_empty_def)

interpretation site_file: json_store site_state_json site_state_of_json "[]" "\<lambda>sites. \<forall>s \<in> set sites. site_times_ok s"
  by unfold_locales (simp_all add: site_state_json_roundtrip site_state_json_ok)

definition site_stored :: "string \<Rightarrow> world \<Rightarrow> site_record list option" where
  "site_stored p w = stored site_state_of_json [] p w"

lemma site_stored_cong: "node_at w' p = node_at w p \<Longrightarrow> site_stored p w' = site_stored p w"
  by (simp add: site_stored_def stored_def)

lemma reads_site_load [reads]: "site_load p w = (r, w1) \<Longrightarrow> same_host w w1"
  unfolding site_load_def by (rule reads)

lemma site_load_Inr:
  assumes "site_load p w1 = (Inr sites, w2)" "truthful w1"
  shows "site_stored p w1 = Some sites"
  using load_state_Inr [OF assms(2), of site_state_of_json "[]" p sites] assms(1)
  by (simp add: site_load_def site_stored_def)

section \<open>What the operations read\<close>

lemma reads_normalize_root [reads]: "normalize_root_path r w = (x, w1) \<Longrightarrow> same_host w w1"
  unfolding normalize_root_path_def
  by (auto split: if_splits prod.splits sum.splits dest!: reads elim: same_host_trans)

lemma reads_check_files [reads]: "check_laravel_files root names w = (x, w1) \<Longrightarrow> same_host w w1"
proof (induction root names w rule: check_laravel_files.induct)
  case (2 root f names w)
  then show ?case
    by (auto split: if_splits prod.splits sum.splits dest!: reads_basic(2) elim: same_host_trans)
qed simp

lemma reads_validate_path [reads]: "validate_laravel_path root w = (x, w1) \<Longrightarrow> same_host w w1"
  unfolding validate_laravel_path_def
  by (auto split: if_splits prod.splits sum.splits dest!: reads elim: same_host_trans)

lemma reads_new_record_id [reads]: "new_record_id w = (i, w1) \<Longrightarrow> same_host w w1"
  unfolding new_record_id_def
  by (auto split: option.splits prod.splits dest!: reads elim: same_host_trans)

section \<open>The invariant\<close>

definition sites_ok :: "site_record list \<Rightarrow> bool" where
  "sites_ok sites \<longleftrightarrow>
     distinct (map (\<lambda>s. to_lower (si_name s)) sites) \<and> distinct (map (\<lambda>s. to_lower (si_domain s)) sites)
     \<and> (\<forall>s \<in> set sites. valid_domain (si_domain s) \<and> site_times_ok s)"

lemma sites_ok_Nil: "sites_ok []"
  by (simp add: sites_ok_def)

lemma site_clash_None_iff:
  "site_clash n d sites = None \<longleftrightarrow> (\<forall>s \<in> set sites. \<not> equal_fold (si_name s) n \<and> \<not> equal_fold (si_domain s) d)"
  by (induction sites) auto

lemma sites_ok_add:
  assumes "sites_ok sites" "site_clash (si_name s) (si_domain s) sites = None" "valid_domain (si_domain s)" "site_times_ok s"
  shows "sites_ok (sites @ [s])"
  using assms by (auto simp: sites_ok_def site_clash_None_iff equal_fold_def image_iff)

lemma sites_ok_remove: "sites_ok sites \<Longrightarrow> sites_ok (remove_first P sites)"
  using set_remove_first_subset [of P sites] by (auto simp: sites_ok_def distinct_map_remove_first)

lemma sites_ok_times: "sites_ok sites \<Longrightarrow> \<forall>s \<in> set sites. site_times_ok s"
  by (simp add: sites_ok_def)

section \<open>The operations on the stored sites\<close>

text \<open>A registration that succeeds, taken apart.\<close>

lemma site_register_Inr:
  assumes res: "site_register p inp w = (Inr s, w')" and t: "truthful w" and c: "clock_ok w"
  obtains sites root where "site_stored p w = Some sites" "si_name s = derive_site_name root" "si_root_path s = root"
    "normalize_domain (sr_domain inp) (si_name s) = Inr (si_domain s)"
    "site_clash (si_name s) (si_domain s) sites = None" "site_times_ok s"
    "si_php_version s = normalize_php_version (sr_php_version inp)" "si_status s = status_ready"
    "\<forall>x \<in> set sites. site_times_ok x \<Longrightarrow> site_stored p w' = Some (sites @ [s])"
    "orc w' = orc w" "file_at w' p \<noteq> None"
proof -
  from res obtain w1 root w2 w3 sites w4 d now w5 i w6 where
      e: "ctx_err w = (None, w1)" "normalize_root_path (sr_root_path inp) w1 = (Inr root, w2)"
        "validate_laravel_path root w2 = (Inr (), w3)" "site_load p w3 = (Inr sites, w4)"
      and d: "normalize_domain (sr_domain inp) (derive_site_name root) = Inr d"
        "site_clash (derive_site_name root) d sites = None"
      and n: "clock_now w4 = (now, w5)" "new_record_id w5 = (i, w6)"
      and s: "s = new_site i (derive_site_name root) root d (sr_php_version inp) now"
      and sv: "site_save p (sites @ [s]) w6 = (Inr (), w')"
    unfolding site_register_def by (auto simp: result_iff Let_def)
  have w3: "same_host w w3"
    using reads_basic(6) [OF e(1)] reads_normalize_root [OF e(2)] reads_validate_path [OF e(3)]
    by (blast intro: same_host_trans)
  have w4: "same_host w w4" using same_host_trans [OF w3] reads_site_load [OF e(4)] by blast
  have w6: "same_host w w6" using w4 reads_basic(4) [OF n(1)] reads_new_record_id [OF n(2)] by (blast intro: same_host_trans)
  have st: "site_stored p w = Some sites"
    using site_load_Inr [OF e(4) truthful_orc [OF t same_hostD(1) [OF w3]]]
      site_stored_cong [OF same_hostD(2) [OF w3]] by simp
  have "time_ok now" using n(1) c same_hostD(1) [OF w4] by (auto simp: clock_now_def clock_ok_def)
  then have tm: "site_times_ok s" by (simp add: s new_site_def site_times_ok_def)
  have sv': "fst (save_state p (site_state_json (sites @ [s])) mode_0640 w6) = Inr ()"
    and w': "w' = snd (save_state p (site_state_json (sites @ [s])) mode_0640 w6)"
    using sv by (simp_all add: site_save_def)
  have "site_stored p w' = Some (sites @ [s])" if "\<forall>x \<in> set sites. site_times_ok x"
    unfolding w' site_stored_def using that tm by (intro site_file.saved [OF sv']) simp
  moreover have "orc w' = orc w" unfolding w' by (simp add: frame_simps same_hostD(1) [OF w6])
  moreover have "file_at w' p \<noteq> None" unfolding w' using save_state_file [OF sv'] by simp
  ultimately show ?thesis using st d s tm by (intro that [of sites root]) (simp_all add: new_site_def)
qed

lemma site_save_kept:
  assumes "site_save p sites w = (Inl e, w')" "p \<notin> set (dir_chain (path_dir p))"
  shows "node_at w' p = node_at w p"
  using save_state_Inl [OF _ assms(2), of "site_state_json sites" mode_0640 w e] assms(1)
  by (simp add: site_save_def)

lemma site_save_orc: "site_save p sites w = (x, w') \<Longrightarrow> orc w' = orc w"
  using save_state_frame(1) [of p "site_state_json sites" mode_0640 w] by (simp add: site_save_def)

lemma site_save_Inr:
  assumes "site_save p sites w = (Inr (), w')" "\<forall>s \<in> set sites. site_times_ok s"
  shows "site_stored p w' = Some sites" "file_at w' p \<noteq> None"
  using assms site_file.saved [of p sites mode_0640 w] save_state_file [of p "site_state_json sites" mode_0640 w]
  by (simp_all add: site_save_def site_stored_def)

text \<open>A registration that fails leaves the state file as it was.\<close>

lemma site_register_Inl:
  assumes res: "site_register p inp w = (Inl e, w')" and p: "p \<notin> set (dir_chain (path_dir p))"
  shows "node_at w' p = node_at w p"
  using site_save_kept [OF _ p] res unfolding site_register_def failure_iff Let_def
  by (elim disjE exE conjE) (auto dest!: reads [THEN same_host_nodes])

lemma site_loaded:
  assumes "ctx_err w = (None, w1)" "site_load p w1 = (Inr sites, w2)" "truthful w"
  shows "site_stored p w = Some sites" "same_host w w2"
proof -
  have w1: "same_host w w1" by (rule reads_basic(6) [OF assms(1)])
  show "same_host w w2" by (rule same_host_trans [OF w1 reads_site_load [OF assms(2)]])
  show "site_stored p w = Some sites"
    using site_load_Inr [OF assms(2) truthful_orc [OF assms(3) same_hostD(1) [OF w1]]]
      site_stored_cong [OF same_hostD(2) [OF w1]] by simp
qed

lemma site_get_Inr:
  assumes "site_get p i w = (Inr s, w')" "truthful w"
  shows "\<exists>sites. site_stored p w = Some sites \<and> find_site i sites = Some s" "same_host w w'"
  using assms(1) site_loaded [OF _ _ assms(2)] unfolding site_get_def result_iff by (elim exE conjE; blast)+

lemma site_list_Inr:
  assumes "site_list p w = (Inr xs, w')" "truthful w"
  shows "\<exists>sites. site_stored p w = Some sites \<and> xs = sort_key si_domain sites" "same_host w w'"
  using assms(1) site_loaded [OF _ _ assms(2)] unfolding site_list_def result_iff by (elim exE conjE; blast)+

lemma reads_site_get [reads]: "site_get p i w = (x, w1) \<Longrightarrow> same_host w w1"
  unfolding site_get_def
  by (auto split: option.splits prod.splits sum.splits dest!: reads elim: same_host_trans)

lemma reads_site_list [reads]: "site_list p w = (x, w1) \<Longrightarrow> same_host w w1"
  unfolding site_list_def
  by (auto split: option.splits prod.splits sum.splits dest!: reads elim: same_host_trans)

lemma site_delete_Inr:
  assumes res: "site_delete p i w = (Inr (), w')" and t: "truthful w"
  obtains sites s where "site_stored p w = Some sites" "find_site i sites = Some s" "orc w' = orc w"
    "\<forall>x \<in> set sites. site_times_ok x \<Longrightarrow> site_stored p w' = Some (remove_first (has_id i) sites)"
proof -
  from res obtain w1 sites w2 s where e: "ctx_err w = (None, w1)" "site_load p w1 = (Inr sites, w2)"
      and f: "find_site i sites = Some s" and sv: "site_save p (remove_first (has_id i) sites) w2 = (Inr (), w')"
    unfolding site_delete_def result_iff by blast
  note L = site_loaded [OF e t]
  have "site_stored p w' = Some (remove_first (has_id i) sites)" if "\<forall>x \<in> set sites. site_times_ok x"
    by (rule site_save_Inr [OF sv]) (use that set_remove_first_subset [of "has_id i" sites] in blast)
  with f L site_save_orc [OF sv] show ?thesis by (intro that) (simp_all add: same_hostD(1))
qed

lemma site_delete_Inl:
  assumes res: "site_delete p i w = (Inl e, w')" and p: "p \<notin> set (dir_chain (path_dir p))"
  shows "node_at w' p = node_at w p"
  using site_save_kept [OF _ p] res unfolding site_delete_def failure_iff
  by (elim disjE exE conjE) (auto dest!: reads [THEN same_host_nodes])

lemma site_update_Inr:
  assumes res: "site_update p s w = (Inr s', w')" and t: "truthful w" and c: "clock_ok w"
  obtains sites old now where "site_stored p w = Some sites" "find_site (si_id s) sites = Some old" "time_ok now"
    "s' = updated_site s old now" "orc w' = orc w"
    "\<forall>x \<in> set sites. site_times_ok x \<Longrightarrow> time_ok (si_last_checked_at s) \<Longrightarrow>
       site_stored p w' = Some (replace_first (has_id (si_id s)) s' sites)"
proof -
  from res obtain w1 sites w2 old now w3 u where e: "ctx_err w = (None, w1)" "site_load p w1 = (Inr sites, w2)"
      and f: "find_site (si_id s) sites = Some old" and n: "clock_now w2 = (now, w3)"
      and s': "updated_site s old now = s'"
      and sv0: "site_save p (replace_first (has_id (si_id s)) (updated_site s old now) sites) w3 = (Inr u, w')"
    unfolding site_update_def result_iff Let_def prod.inject sum.inject by blast
  have sv: "site_save p (replace_first (has_id (si_id s)) s' sites) w3 = (Inr (), w')" using sv0 s' by simp
  note L = site_loaded [OF e t]
  have w3: "same_host w w3" using L(2) reads_basic(4) [OF n] by (rule same_host_trans)
  have tn: "time_ok now" using n c same_hostD(1) [OF L(2)] by (auto simp: clock_now_def clock_ok_def)
  have old: "old \<in> set sites" using find_by_SomeD [OF f [unfolded find_site_def]] by simp
  have "site_stored p w' = Some (replace_first (has_id (si_id s)) s' sites)"
    if "\<forall>x \<in> set sites. site_times_ok x" "time_ok (si_last_checked_at s)"
  proof (rule site_save_Inr [OF sv])
    have "site_times_ok s'" using that old tn by (auto simp: s' [symmetric] updated_site_def site_times_ok_def)
    then show "\<forall>x \<in> set (replace_first (has_id (si_id s)) s' sites). site_times_ok x"
      using that(1) set_replace_first_subset [of "has_id (si_id s)" s' sites] by blast
  qed
  with L f tn s' [symmetric] site_save_orc [OF sv] show ?thesis by (intro that) (simp_all add: same_hostD(1) [OF w3])
qed

lemma site_update_Inl:
  assumes res: "site_update p s w = (Inl e, w')" and p: "p \<notin> set (dir_chain (path_dir p))"
  shows "node_at w' p = node_at w p"
  using site_save_kept [OF _ p] res unfolding site_update_def failure_iff Let_def
  by (elim disjE exE conjE) (auto dest!: reads [THEN same_host_nodes])

section \<open>Properties\<close>

abbreviation sites_file :: string where
  "sites_file \<equiv> ''/var/lib/lara-nux/sites.json''"

definition project_host :: "(nat \<Rightarrow> string \<Rightarrow> string list \<Rightarrow> string \<times> err option) \<Rightarrow> (string \<times> node) list \<Rightarrow> world" where
  "project_host r rest = sample_world r
     ([(''/srv/My_Blog'', Dir mode_0755), (''/srv/My_Blog/artisan'', File mode_0644 []),
       (''/srv/My_Blog/public/index.php'', File mode_0644 []), (''/srv/My_Blog/composer.json'', File mode_0644 []),
       (''/var/lib/lara-nux'', Dir mode_0750)] @ rest)"

lemma project_host_facts [simp]: "truthful (project_host r rest)" "clock_ok (project_host r rest)"
  by (simp_all add: project_host_def truthful_def clock_ok_def sample_world_def sample_env_def sample_clock_ok)

definition blog_input :: site_registration_input where
  "blog_input = \<lparr>sr_root_path = ''/srv/My_Blog'', sr_domain = [], sr_php_version = ''8.3''\<rparr>"

definition stored_blog :: site_record where
  "stored_blog = new_site ''site-1'' ''my-blog'' ''/srv/My_Blog'' ''my-blog.test'' ''8.3'' ''2024-05-01T10:00:00Z''"

text \<open>On a host without faults a deletion gets as far as the write.\<close>

lemma site_delete_works:
  assumes "quiet w" "\<forall>n. o_ctx (orc w) n = None" "site_stored p w = Some sites"
  shows "fst (site_delete p i w) =
    (case find_site i sites of
       None \<Rightarrow> Inl (sentinel_err ErrSiteNotFound i)
     | Some s \<Rightarrow> fst (site_save p (remove_first (has_id i) sites) (next_tick (next_tick w))))"
proof -
  have "fst (load_state site_state_of_json [] p (next_tick w)) = Inr sites"
    by (rule load_state_quiet)
       (use assms(1,3) site_stored_cong [of "next_tick w" p w] in \<open>simp_all add: quiet_def fault_def site_stored_def\<close>)
  with assms(2) show ?thesis
    by (simp add: site_delete_def split_beta site_load_def ctx_err_def split: option.split)
qed

lemma project_host_calm:
  "quiet (project_host all_succeed rest)" "\<forall>n. o_ctx (orc (project_host all_succeed rest)) n = None"
  by (simp_all add: project_host_def quiet_def sample_world_def sample_env_def)

text \<open>A registration that succeeds adds exactly the site it returns; its name is the one derived from
  its directory, its domain is a valid name under \<^verbatim>\<open>.test\<close>, and no two sites share a name or a domain,
  capitals or not.\<close>

theorem site_registration_keeps_invariant:
  assumes "site_register p inp w = (Inr s, w')" and "truthful w" and "clock_ok w"
    and "site_stored p w = Some sites" and "sites_ok sites"
  shows "site_stored p w' = Some (sites @ [s]) \<and> sites_ok (sites @ [s])
    \<and> si_name s = derive_site_name (si_root_path s) \<and> valid_domain (si_domain s)"
proof -
  from site_register_Inr [OF assms(1-3)] obtain xs root where X: "site_stored p w = Some xs"
      "si_name s = derive_site_name root" "si_root_path s = root"
      "normalize_domain (sr_domain inp) (si_name s) = Inr (si_domain s)"
      "site_clash (si_name s) (si_domain s) xs = None" "site_times_ok s"
      "\<forall>x \<in> set xs. site_times_ok x \<Longrightarrow> site_stored p w' = Some (xs @ [s])"
    by metis
  have xs: "xs = sites" using X(1) assms(4) by simp
  have d: "valid_domain (si_domain s)" using X(4) unfolding normalize_domain_Inr by (rule conjunct2)
  show ?thesis
    using X(2,3,7) sites_ok_add [OF assms(5) _ d X(6)] X(5) sites_ok_times [OF assms(5)] d by (simp add: xs)
qed

lemma blog_registered: "\<not> is_Inl (fst (site_register sites_file blog_input (project_host all_succeed [])))"
  by code_simp

lemma blog_empty: "site_stored sites_file (project_host all_succeed []) = Some []"
  by code_simp

theorem site_registration_keeps_invariant_witness:
  "\<exists>s. site_stored sites_file (snd (site_register sites_file blog_input (project_host all_succeed []))) = Some [s]"
proof -
  obtain s where "fst (site_register sites_file blog_input (project_host all_succeed [])) = Inr s"
    using not_is_InlD [OF blog_registered] by blast
  then have "site_register sites_file blog_input (project_host all_succeed [])
      = (Inr s, snd (site_register sites_file blog_input (project_host all_succeed [])))"
    by (metis prod.collapse)
  from site_registration_keeps_invariant [OF this _ _ blog_empty sites_ok_Nil] show ?thesis by auto
qed

text \<open>C38: an operation on the sites that fails - an invalid directory, a name taken, an unknown ID, a full
  disk in the middle of the write - leaves what is stored as it was.\<close>

theorem site_failures_change_nothing:
  assumes "p \<notin> set (dir_chain (path_dir p))"
  shows "(is_Inl (fst (site_register p inp w)) \<longrightarrow> site_stored p (snd (site_register p inp w)) = site_stored p w)
    \<and> (is_Inl (fst (site_update p s w)) \<longrightarrow> site_stored p (snd (site_update p s w)) = site_stored p w)
    \<and> (is_Inl (fst (site_delete p i w)) \<longrightarrow> site_stored p (snd (site_delete p i w)) = site_stored p w)"
proof -
  have kept: "is_Inl (fst r) \<longrightarrow> site_stored p (snd r) = site_stored p w"
    if "\<And>e w'. r = (Inl e, w') \<Longrightarrow> node_at w' p = node_at w p" for r :: "(err + 'x) \<times> world"
    using that is_InlD [of "fst r"] site_stored_cong [of "snd r" p w] by (metis prod.collapse)
  show ?thesis
    by (intro conjI; rule kept) (erule site_register_Inl site_update_Inl site_delete_Inl, rule assms)+
qed

theorem site_failures_change_nothing_witness:
  "site_stored sites_file (snd (site_delete sites_file ''site-1'' (project_host all_succeed []))) = Some []"
proof -
  have p: "sites_file \<notin> set (dir_chain (path_dir sites_file))" by code_simp
  have f: "is_Inl (fst (site_delete sites_file ''site-1'' (project_host all_succeed [])))"
    unfolding site_delete_works [OF project_host_calm blog_empty] by (simp add: find_site_def find_by_def)
  from mp [OF conjunct2 [OF conjunct2 [OF site_failures_change_nothing [OF p]]] f] show ?thesis unfolding blog_empty .
qed

section \<open>Refinement of a map from IDs\<close>

text \<open>The list of sites as a map from IDs to sites.\<close>

definition sites_map :: "site_record list \<Rightarrow> string \<rightharpoonup> site_record" where
  "sites_map sites i = find_site i sites"

lemma sites_map_replace:
  assumes "si_id s' = i" "find_site i sites \<noteq> None"
  shows "sites_map (replace_first (has_id i) s' sites) = (sites_map sites)(i \<mapsto> s')"
  using assms by (induction sites) (auto simp: sites_map_def find_site_def find_by_def has_id_def fun_eq_iff)

lemma sites_map_remove:
  assumes "distinct (map si_id sites)"
  shows "sites_map (remove_first (has_id i) sites) = (sites_map sites)(i := None)"
  using assms
proof (induction sites)
  case (Cons s sites)
  have "find_by si_id i sites = None" if "si_id s = i"
  proof -
    have "i \<notin> si_id ` set sites" using Cons.prems that by simp
    then show ?thesis unfolding find_by_None_iff by blast
  qed
  then show ?case
    using Cons by (auto simp: sites_map_def find_site_def find_by_def has_id_def fun_eq_iff)
qed (simp add: sites_map_def find_site_def find_by_def fun_eq_iff)

lemma sites_map_add:
  "si_id s \<notin> si_id ` set sites \<Longrightarrow> sites_map (sites @ [s]) = (sites_map sites)(si_id s \<mapsto> s)"
  by (induction sites) (auto simp: sites_map_def find_site_def find_by_def fun_eq_iff)

text \<open>C20: seen as a map from IDs to sites, the stored registry is that map: a lookup that succeeds
  returns its entry, an update replaces one entry and a deletion clears one, and no other entry
  is touched.\<close>

theorem site_registry_refines_map:
  assumes "truthful w" and "clock_ok w" and "site_stored p w = Some sites" and "distinct (map si_id sites)"
    and "\<forall>x \<in> set sites. site_times_ok x" and "time_ok (si_last_checked_at s)"
  shows "(site_get p i w = (Inr x, w') \<longrightarrow> sites_map sites i = Some x)
    \<and> (site_update p s w = (Inr y, w') \<longrightarrow>
         map_option sites_map (site_stored p w') = Some ((sites_map sites)(si_id s \<mapsto> y)) \<and> si_id y = si_id s)
    \<and> (site_delete p i w = (Inr (), w') \<longrightarrow> map_option sites_map (site_stored p w') = Some ((sites_map sites)(i := None)))"
proof (intro conjI impI)
  assume "site_get p i w = (Inr x, w')"
  from site_get_Inr(1) [OF this assms(1)] show "sites_map sites i = Some x" using assms(3) by (simp add: sites_map_def)
next
  assume "site_update p s w = (Inr y, w')"
  from site_update_Inr [OF this assms(1,2)] obtain xs old now where U: "site_stored p w = Some xs"
      "find_site (si_id s) xs = Some old" "y = updated_site s old now"
      "\<forall>x \<in> set xs. site_times_ok x \<Longrightarrow> time_ok (si_last_checked_at s) \<Longrightarrow>
        site_stored p w' = Some (replace_first (has_id (si_id s)) y xs)"
    by metis
  from U(3) show i: "si_id y = si_id s" by (simp add: updated_site_def)
  show "map_option sites_map (site_stored p w') = Some ((sites_map sites)(si_id s \<mapsto> y))"
    using U assms(3,5,6) sites_map_replace [OF i] by simp
next
  assume "site_delete p i w = (Inr (), w')"
  from site_delete_Inr [OF this assms(1)] obtain xs where "site_stored p w = Some xs"
      "\<forall>x \<in> set xs. site_times_ok x \<Longrightarrow> site_stored p w' = Some (remove_first (has_id i) xs)"
    by metis
  then show "map_option sites_map (site_stored p w') = Some ((sites_map sites)(i := None))"
    using assms(3-5) sites_map_remove by simp
qed

definition blog_host :: "(nat \<Rightarrow> string \<Rightarrow> string list \<Rightarrow> string \<times> err option) \<Rightarrow> world" where
  "blog_host r = project_host r [(sites_file, File mode_0640 (marshal_indent (site_state_json [stored_blog])))]"

lemma stored_blog_times: "site_times_ok stored_blog"
  by (simp add: stored_blog_def new_site_def site_times_ok_def sample_clock_ok)

lemma blog_host_file: "file_at (blog_host r) sites_file = Some (marshal_indent (site_state_json [stored_blog]))"
  by (simp add: blog_host_def project_host_def sample_world_def file_at_def node_at_def)

lemma blog_host_stored: "site_stored sites_file (blog_host r) = Some [stored_blog]"
  using stored_blog_times
  by (simp add: site_stored_def stored_file [OF blog_host_file] marshal_indent_nonempty json_parse_marshal
      site_state_json_ok site_state_json_roundtrip)

lemma blog_deleted: "fst (site_delete sites_file ''site-1'' (blog_host all_succeed)) = Inr ()"
proof -
  have "find_site ''site-1'' [stored_blog] = Some stored_blog" by code_simp
  moreover have "fst (site_save sites_file (remove_first (has_id ''site-1'') [stored_blog])
      (next_tick (next_tick (blog_host all_succeed)))) = Inr ()" by code_simp
  ultimately show ?thesis
    using site_delete_works [OF project_host_calm blog_host_stored [unfolded blog_host_def], of "''site-1''", folded blog_host_def]
    by simp
qed

theorem site_registry_refines_map_witness:
  "map_option sites_map (site_stored sites_file (snd (site_delete sites_file ''site-1'' (blog_host all_succeed))))
     = Some ((sites_map [stored_blog])(''site-1'' := None))"
proof -
  have d: "site_delete sites_file ''site-1'' (blog_host all_succeed)
      = (Inr (), snd (site_delete sites_file ''site-1'' (blog_host all_succeed)))"
    using blog_deleted by (metis prod.collapse)
  have h: "truthful (blog_host all_succeed)" "clock_ok (blog_host all_succeed)" by (simp_all add: blog_host_def)
  have "distinct (map si_id [stored_blog])" "\<forall>x \<in> set [stored_blog]. site_times_ok x"
    using stored_blog_times by simp_all
  from site_registry_refines_map [OF h blog_host_stored this, of stored_blog] d stored_blog_times
  show ?thesis by (simp add: site_times_ok_def)
qed


lemma blog_saved: "fst (site_save sites_file [stored_blog] (project_host all_succeed [])) = Inr ()"
  by code_simp


end
