(* ===== verification/App_Interfaces.thy ===== *)
theory App_Interfaces
  imports Site_Registry_Correct Caddy_Correct Caddy_Removal Php_Fpm_Correct Resolved_Correct Service_Manager Package_Manager
begin

text \<open>
  The Go interfaces the application services are built on (\<^verbatim>\<open>daemon/internal/app/orchestration.go\<close>,
  \<^verbatim>\<open>runtime_onboarding.go\<close>): each is a record of its methods, a field that may be nil is an option.
  The daemon fills them with the registries and the Ubuntu adapters, as \<^verbatim>\<open>main\<close> does. The helpers that
  turn records of the application into those of the host are here as well.
\<close>

section \<open>The interfaces\<close>

record runtime_resolver =
  rt_get :: "string \<Rightarrow> world \<Rightarrow> (err + php_runtime_record) \<times> world"
  rt_default :: "world \<Rightarrow> (err + php_runtime_record) \<times> world"
  rt_list :: "world \<Rightarrow> (err + php_runtime_record list) \<times> world"

record site_store =
  ss_register :: "site_registration_input \<Rightarrow> world \<Rightarrow> (err + site_record) \<times> world"
  ss_get :: "string \<Rightarrow> world \<Rightarrow> (err + site_record) \<times> world"
  ss_update :: "site_record \<Rightarrow> world \<Rightarrow> (err + site_record) \<times> world"
  ss_delete :: "string \<Rightarrow> world \<Rightarrow> (err + unit) \<times> world"
  ss_list :: "world \<Rightarrow> (err + site_record list) \<times> world"

record resolver_provisioner =
  rp_inspect :: "resolver_stub_spec \<Rightarrow> world \<Rightarrow> resolver_result"
  rp_ensure :: "resolver_stub_spec \<Rightarrow> world \<Rightarrow> resolver_result"
  rp_remove :: "world \<Rightarrow> (err + unit) \<times> world"

record web_activator =
  wa_activate :: "web_site \<Rightarrow> world \<Rightarrow> (err + web_activation_result) \<times> world"
  wa_remove :: "string \<Rightarrow> world \<Rightarrow> (err + unit) \<times> world"

record php_materializer =
  mt_materialize :: "php_runtime \<Rightarrow> world \<Rightarrow> (err + php_materialization) \<times> world"
  mt_switch :: "php_switch_request \<Rightarrow> world \<Rightarrow> (err + php_materialization) \<times> world"

record service_controller =
  sc_start :: "string \<Rightarrow> world \<Rightarrow> status_result"
  sc_restart :: "string \<Rightarrow> world \<Rightarrow> status_result"
  sc_status :: "string \<Rightarrow> world \<Rightarrow> status_result"

section \<open>What the daemon puts behind them\<close>

definition file_runtimes :: "string \<Rightarrow> runtime_resolver" where
  "file_runtimes p = \<lparr>rt_get = php_get p, rt_default = php_default_runtime p, rt_list = php_list p\<rparr>"

definition file_sites :: "string \<Rightarrow> site_store" where
  "file_sites p = \<lparr>ss_register = site_register p, ss_get = site_get p, ss_update = site_update p,
     ss_delete = site_delete p, ss_list = site_list p\<rparr>"

definition resolved_provisioner :: "resolved_manager \<Rightarrow> resolver_provisioner" where
  "resolved_provisioner m = \<lparr>rp_inspect = resolved_inspect m, rp_ensure = resolved_ensure m, rp_remove = resolved_remove m\<rparr>"

definition caddy_activator :: "caddy_manager \<Rightarrow> web_activator" where
  "caddy_activator m = \<lparr>wa_activate = caddy_activate_site m, wa_remove = caddy_remove_site m\<rparr>"

definition fpm_materializer :: "fpm_manager \<Rightarrow> php_materializer" where
  "fpm_materializer m = \<lparr>mt_materialize = fpm_materialize m, mt_switch = fpm_switch m\<rparr>"

definition service_controller_of :: "service_host \<Rightarrow> service_controller" where
  "service_controller_of h = \<lparr>sc_start = service_start h, sc_restart = service_restart h, sc_status = service_status_of h\<rparr>"

section \<open>Helpers\<close>

fun first_non_empty_string :: "string list \<Rightarrow> string" where
  "first_non_empty_string [] = []"
| "first_non_empty_string (v # vs) = (if trim_space v \<noteq> [] then trim_space v else first_non_empty_string vs)"

definition php_socket_path :: "string \<Rightarrow> string" where
  "php_socket_path version =
     (if normalize_php_version version = [] then []
      else ''/run/php/lara-nux-php'' @ normalize_php_version version @ ''-fpm.sock'')"

definition site_public_dir :: "string \<Rightarrow> string" where
  "site_public_dir root = (if trim_space root = [] then [] else path_join [root, ''public''])"

definition runtime_to_host :: "php_runtime_record \<Rightarrow> php_runtime" where
  "runtime_to_host r =
     \<lparr>pr_version = rr_version r, pr_binary_path = rr_binary_path r, pr_fpm_binary_path = [],
      pr_service_name = rr_fpm_service r, pr_socket_path = php_socket_path (rr_version r)\<rparr>"

definition site_to_web :: "site_record \<Rightarrow> string \<Rightarrow> web_site" where
  "site_to_web s socket =
     \<lparr>ws_id = si_id s, ws_domain = si_domain s, ws_root_path = si_root_path s,
      ws_public_dir = site_public_dir (si_root_path s),
      ws_php_socket_path = first_non_empty_string [socket, php_socket_path (si_php_version s)]\<rparr>"

text \<open>A runtime of which only the version is known.\<close>

definition bare_runtime :: "string \<Rightarrow> php_runtime" where
  "bare_runtime version =
     \<lparr>pr_version = version, pr_binary_path = [], pr_fpm_binary_path = [],
      pr_service_name = php_fpm_service_name version, pr_socket_path = php_socket_path version\<rparr>"

definition resolve_runtime :: "runtime_resolver \<Rightarrow> string \<Rightarrow> world \<Rightarrow> (err + php_runtime_record) \<times> world" where
  "resolve_runtime rt version w = (if trim_space version = [] then rt_default rt w else rt_get rt version w)"

text \<open>The names in the order given, trimmed, without blanks and repetitions, each started; the first
  failure ends the loop.\<close>

fun start_services :: "service_controller \<Rightarrow> string list \<Rightarrow> string list \<Rightarrow> world \<Rightarrow> (err + service_status list) \<times> world" where
  "start_services sc seen [] w = (Inr [], w)"
| "start_services sc seen (n # ns) w =
     (if trim_space n = [] \<or> trim_space n \<in> set seen then start_services sc seen ns w
      else (case sc_start sc (trim_space n) w of
              ((st, Some e), w1) \<Rightarrow> (Inl e, w1)
            | ((st, None), w1) \<Rightarrow>
                (case start_services sc (trim_space n # seen) ns w1 of
                   (Inl e, w2) \<Rightarrow> (Inl e, w2)
                 | (Inr sts, w2) \<Rightarrow> (Inr (st # sts), w2))))"

section \<open>The daemon socket\<close>

record socket_availability =
  sk_path :: string
  sk_available :: bool
  sk_summary :: string

fun is_socket :: "node \<Rightarrow> bool" where
  "is_socket (Sock m) = True"
| "is_socket _ = False"

definition inspect_socket :: "string \<Rightarrow> world \<Rightarrow> socket_availability \<times> world" where
  "inspect_socket path0 w =
     (let path = trim_space path0
      in if path = [] then
           (\<lparr>sk_path = path, sk_available = False, sk_summary = ''Daemon socket path is not configured.''\<rparr>, w)
         else (case os_stat path w of
                 (Inl e, w1) \<Rightarrow>
                   (\<lparr>sk_path = path, sk_available = False,
                     sk_summary = ''Daemon socket is unavailable: '' @ err_text e\<rparr>, w1)
               | (Inr info, w1) \<Rightarrow>
                   (if \<not> is_socket info then
                      (\<lparr>sk_path = path, sk_available = False,
                        sk_summary = ''Configured socket path '' @ path @ '' is not a Unix socket.''\<rparr>, w1)
                    else (\<lparr>sk_path = path, sk_available = True,
                           sk_summary = ''Daemon socket is available at '' @ path @ ''.''\<rparr>, w1))))"

end
