(* ===== verification/Orchestration.thy ===== *)
theory Orchestration
  imports App_Interfaces
begin

text \<open>
  \<^verbatim>\<open>daemon/internal/app/orchestration.go\<close>: the activation of a site. The deferred function of
  \<^verbatim>\<open>Activate\<close>, which undoes what was committed when an error is returned, is \<open>act_compensate\<close>; every
  failing branch after the registration goes through it, with the flags the code has set by then (a
  flag of a part that is nil is not looked at).
\<close>

record activation_service =
  ac_sites :: site_store
  ac_runtimes :: runtime_resolver
  ac_resolver :: "resolver_provisioner option"
  ac_web :: "web_activator option"
  ac_php :: "php_materializer option"
  ac_services :: "service_controller option"
  ac_stub :: resolver_stub_spec

record activation_result =
  ar_site :: site_record
  ar_resolver :: resolver_status
  ar_runtime :: php_runtime_record
  ar_materialization :: php_materialization
  ar_web :: web_activation_result
  ar_services :: "service_status list"
  ar_activated_at :: gotime

definition default_stub_spec :: resolver_stub_spec where
  "default_stub_spec = \<lparr>sp_domain = ''test'', sp_address = ''127.0.0.1''\<rparr>"

definition new_activation_service ::
    "site_store \<Rightarrow> runtime_resolver \<Rightarrow> resolver_provisioner option \<Rightarrow> web_activator option \<Rightarrow>
     php_materializer option \<Rightarrow> service_controller option \<Rightarrow> activation_service" where
  "new_activation_service sites runtimes resolver web php services =
     \<lparr>ac_sites = sites, ac_runtimes = runtimes, ac_resolver = resolver, ac_web = web, ac_php = php,
      ac_services = services, ac_stub = default_stub_spec\<rparr>"

text \<open>The zero values of the parts that are skipped.\<close>

definition zero_resolver_status :: resolver_status where
  "zero_resolver_status = \<lparr>rs_managed = False, rs_stub_path = [], rs_domain = [], rs_address = [], rs_owner = [],
     rs_conflicts = [], rs_summary = [], rs_remediation = []\<rparr>"

definition zero_web_result :: web_activation_result where
  "zero_web_result = \<lparr>wr_config_path = [], wr_validated = False, wr_reloaded = False, wr_http_url = [], wr_https_url = []\<rparr>"

definition has_other_sites :: "activation_service \<Rightarrow> string \<Rightarrow> world \<Rightarrow> (err + bool) \<times> world" where
  "has_other_sites a exclude w =
     (case ss_list (ac_sites a) w of
        (Inl e, w1) \<Rightarrow> (Inl e, w1)
      | (Inr sites, w1) \<Rightarrow> (Inr (list_ex (\<lambda>s. si_id s \<noteq> exclude) sites), w1))"

definition act_undo_web :: "activation_service \<Rightarrow> string \<Rightarrow> bool \<Rightarrow> world \<Rightarrow> world" where
  "act_undo_web a i committed w =
     (case ac_web a of None \<Rightarrow> w | Some wa \<Rightarrow> (if committed then snd (wa_remove wa i w) else w))"

definition act_undo_resolver :: "activation_service \<Rightarrow> string \<Rightarrow> bool \<Rightarrow> world \<Rightarrow> world" where
  "act_undo_resolver a i committed w =
     (case ac_resolver a of
        None \<Rightarrow> w
      | Some rp \<Rightarrow>
          (if committed then
             (case has_other_sites a i w of
                (Inl e, w1) \<Rightarrow> w1
              | (Inr others, w1) \<Rightarrow> (if others then w1 else snd (rp_remove rp w1)))
           else w))"

definition act_compensate :: "activation_service \<Rightarrow> string \<Rightarrow> bool \<Rightarrow> bool \<Rightarrow> world \<Rightarrow> world" where
  "act_compensate a i resolver web w =
     snd (ss_delete (ac_sites a) i (act_undo_resolver a i resolver (act_undo_web a i web w)))"

definition act_resolver :: "activation_service \<Rightarrow> world \<Rightarrow> (err + resolver_status) \<times> world" where
  "act_resolver a w =
     (case ac_resolver a of
        None \<Rightarrow> (Inr zero_resolver_status, w)
      | Some rp \<Rightarrow>
          (case rp_ensure rp (ac_stub a) w of
             ((st, Some e), w1) \<Rightarrow> (Inl e, w1)
           | ((st, None), w1) \<Rightarrow> (Inr st, w1)))"

definition act_php :: "activation_service \<Rightarrow> php_runtime_record \<Rightarrow> world \<Rightarrow> (err + php_materialization) \<times> world" where
  "act_php a r w =
     (case ac_php a of None \<Rightarrow> (Inr zero_materialization, w) | Some mt \<Rightarrow> mt_materialize mt (runtime_to_host r) w)"

definition act_services :: "activation_service \<Rightarrow> php_runtime_record \<Rightarrow> world \<Rightarrow> (err + service_status list) \<times> world" where
  "act_services a r w =
     (case ac_services a of None \<Rightarrow> (Inr [], w) | Some sc \<Rightarrow> start_services sc [] [''caddy'', rr_fpm_service r] w)"

definition act_web :: "activation_service \<Rightarrow> site_record \<Rightarrow> string \<Rightarrow> world \<Rightarrow> (err + web_activation_result) \<times> world" where
  "act_web a s socket w =
     (case ac_web a of None \<Rightarrow> (Inr zero_web_result, w) | Some wa \<Rightarrow> wa_activate wa (site_to_web s socket) w)"

definition activated_site :: "site_record \<Rightarrow> php_runtime_record \<Rightarrow> gotime \<Rightarrow> site_record" where
  "activated_site s r now =
     s\<lparr>si_status := status_ready,
       si_status_message := ''Site activated at https://'' @ si_domain s @ '' with PHP '' @ rr_version r @ ''.'',
       si_last_checked_at := now\<rparr>"

definition site_activate :: "activation_service \<Rightarrow> site_registration_input \<Rightarrow> world \<Rightarrow> (err + activation_result) \<times> world" where
  "site_activate a inp w =
     (case resolve_runtime (ac_runtimes a) (sr_php_version inp) w of
        (Inl e, w1) \<Rightarrow> (Inl e, w1)
      | (Inr r, w1) \<Rightarrow>
      (case ss_register (ac_sites a) (inp\<lparr>sr_php_version := rr_version r\<rparr>) w1 of
         (Inl e, w2) \<Rightarrow> (Inl e, w2)
       | (Inr s, w2) \<Rightarrow>
       (case act_resolver a w2 of
          (Inl e, w3) \<Rightarrow> (Inl e, act_compensate a (si_id s) False False w3)
        | (Inr st, w3) \<Rightarrow>
        (case act_php a r w3 of
           (Inl e, w4) \<Rightarrow> (Inl e, act_compensate a (si_id s) True False w4)
         | (Inr mat, w4) \<Rightarrow>
         (case act_services a r w4 of
            (Inl e, w5) \<Rightarrow> (Inl e, act_compensate a (si_id s) True False w5)
          | (Inr services, w5) \<Rightarrow>
          (case act_web a s (pm_socket_path mat) w5 of
             (Inl e, w6) \<Rightarrow> (Inl e, act_compensate a (si_id s) True False w6)
           | (Inr web, w6) \<Rightarrow>
           (case clock_now w6 of
              (now, w7) \<Rightarrow>
              (case ss_update (ac_sites a) (activated_site s r now) w7 of
                 (Inl e, w8) \<Rightarrow> (Inl e, act_compensate a (si_id s) True True w8)
               | (Inr s', w8) \<Rightarrow>
                   (case clock_now w8 of
                      (t, w9) \<Rightarrow>
                        (Inr \<lparr>ar_site = s', ar_resolver = st, ar_runtime = r, ar_materialization = mat,
                              ar_web = web, ar_services = services, ar_activated_at = t\<rparr>, w9))))))))))"

end
