(* ===== verification/Site_Management.thy ===== *)
theory Site_Management
  imports Orchestration
begin

text \<open>
  \<^verbatim>\<open>daemon/internal/app/site_management.go\<close>: changing a site that exists. \<^verbatim>\<open>Update\<close> checks the new
  values against the other sites, switches the runtime, starts the services, activates the new
  configuration, and only then stores the site; a failure after the switch puts the runtime back,
  and a failure to store also the configuration.
\<close>

record management_service =
  ms_sites :: site_store
  ms_runtimes :: runtime_resolver
  ms_web :: "web_activator option"
  ms_php :: "php_materializer option"
  ms_services :: "service_controller option"

text \<open>A nil pointer of the input is \<open>None\<close>.\<close>

record site_update_input =
  su_site_id :: string
  su_root_path :: "string option"
  su_domain :: "string option"
  su_php_version :: "string option"

definition manage_list :: "management_service \<Rightarrow> world \<Rightarrow> (err + site_record list) \<times> world" where
  "manage_list m w = ss_list (ms_sites m) w"

definition manage_get :: "management_service \<Rightarrow> string \<Rightarrow> world \<Rightarrow> (err + site_record) \<times> world" where
  "manage_get m i w = ss_get (ms_sites m) (trim_space i) w"

section \<open>Preparing the new record\<close>

definition updated_root :: "site_record \<Rightarrow> site_update_input \<Rightarrow> world \<Rightarrow> (err + string) \<times> world" where
  "updated_root current inp w =
     (case su_root_path inp of
        None \<Rightarrow> (Inr (si_root_path current), w)
      | Some raw \<Rightarrow>
          (case normalize_root_path raw w of
             (Inl e, w1) \<Rightarrow> (Inl e, w1)
           | (Inr root, w1) \<Rightarrow>
               (case validate_laravel_path root w1 of
                  (Inl e, w2) \<Rightarrow> (Inl e, w2)
                | (Inr _, w2) \<Rightarrow> (Inr root, w2))))"

definition updated_name :: "site_record \<Rightarrow> site_update_input \<Rightarrow> string \<Rightarrow> string" where
  "updated_name current inp root =
     (case su_root_path inp of None \<Rightarrow> si_name current | Some _ \<Rightarrow> derive_site_name root)"

definition updated_domain :: "site_record \<Rightarrow> site_update_input \<Rightarrow> string \<Rightarrow> err + string" where
  "updated_domain current inp name =
     (case su_domain inp of None \<Rightarrow> Inr (si_domain current) | Some raw \<Rightarrow> normalize_domain raw name)"

definition wanted_version :: "site_record \<Rightarrow> site_update_input \<Rightarrow> string" where
  "wanted_version current inp =
     (case su_php_version inp of
        None \<Rightarrow> si_php_version current
      | Some v \<Rightarrow> (if trim_space v \<noteq> [] then v else si_php_version current))"

definition changed_site :: "site_record \<Rightarrow> string \<Rightarrow> string \<Rightarrow> string \<Rightarrow> string \<Rightarrow> site_record" where
  "changed_site current name root domain version =
     current\<lparr>si_name := name, si_root_path := root, si_domain := domain, si_php_version := version\<rparr>"

definition prepare_updated_site ::
    "management_service \<Rightarrow> site_record \<Rightarrow> site_update_input \<Rightarrow> world \<Rightarrow>
     (err + site_record \<times> php_runtime_record) \<times> world" where
  "prepare_updated_site m current inp w =
     (case updated_root current inp w of
        (Inl e, w1) \<Rightarrow> (Inl e, w1)
      | (Inr root, w1) \<Rightarrow>
      (case updated_domain current inp (updated_name current inp root) of
         Inl e \<Rightarrow> (Inl e, w1)
       | Inr domain \<Rightarrow>
       (case resolve_runtime (ms_runtimes m) (wanted_version current inp) w1 of
          (Inl e, w2) \<Rightarrow> (Inl e, w2)
        | (Inr target, w2) \<Rightarrow>
        (case ss_list (ms_sites m) w2 of
           (Inl e, w3) \<Rightarrow> (Inl e, w3)
         | (Inr sites, w3) \<Rightarrow>
         (case site_clash (updated_name current inp root) domain (filter (\<lambda>s. si_id s \<noteq> si_id current) sites) of
            Some e \<Rightarrow> (Inl e, w3)
          | None \<Rightarrow>
              (Inr (changed_site current (updated_name current inp root) root domain (rr_version target), target), w3))))))"

section \<open>Switching the runtime\<close>

definition runtime_switch_request :: "site_record \<Rightarrow> php_runtime_record \<Rightarrow> php_switch_request" where
  "runtime_switch_request previous target =
     \<lparr>sw_site_id = si_id previous, sw_previous = bare_runtime (normalize_php_version (si_php_version previous)),
      sw_target = runtime_to_host target\<rparr>"

definition status_outcome :: "status_result \<Rightarrow> err option \<times> world" where
  "status_outcome r = (case r of ((st, e), w) \<Rightarrow> (e, w))"

definition apply_runtime_change ::
    "management_service \<Rightarrow> site_record \<Rightarrow> php_runtime_record \<Rightarrow> world \<Rightarrow> (err + unit) \<times> world" where
  "apply_runtime_change m current target w =
     (if normalize_php_version (si_php_version current) = rr_version target then (Inr (), w)
      else (case ms_php m of
              Some mt \<Rightarrow>
                (case mt_switch mt (runtime_switch_request current target) w of
                   (Inl e, w1) \<Rightarrow>
                     (Inl (wrap_err (''switch php runtime '' @ rr_version target @ '' for site '' @ si_id current) e), w1)
                 | (Inr _, w1) \<Rightarrow> (Inr (), w1))
            | None \<Rightarrow>
                (case ms_services m of
                   None \<Rightarrow> (Inr (), w)
                 | Some sc \<Rightarrow>
                     (case status_outcome (sc_restart sc (rr_fpm_service target) w) of
                        (Some e, w1) \<Rightarrow>
                          (Inl (wrap_err (''activate php runtime '' @ rr_version target @ '' for site '' @ si_id current) e), w1)
                      | (None, w1) \<Rightarrow> (Inr (), w1)))))"

definition previous_runtime :: "management_service \<Rightarrow> string \<Rightarrow> world \<Rightarrow> php_runtime_record \<times> world" where
  "previous_runtime m version w =
     (case rt_get (ms_runtimes m) version w of
        (Inr r, w1) \<Rightarrow> (r, w1)
      | (Inl e, w1) \<Rightarrow>
          (\<lparr>rr_version = version, rr_binary_path = [], rr_fpm_service = php_fpm_service_name version,
            rr_source = [], rr_registered_at = zero_time\<rparr>, w1))"

text \<open>The errors of a rollback are dropped.\<close>

definition rollback_runtime :: "management_service \<Rightarrow> site_record \<Rightarrow> php_runtime_record \<Rightarrow> world \<Rightarrow> world" where
  "rollback_runtime m previous failed w =
     (let version = normalize_php_version (si_php_version previous)
      in if version = [] then w
         else (case previous_runtime m version w of
                 (r, w1) \<Rightarrow>
                   (case ms_php m of
                      Some mt \<Rightarrow>
                        snd (mt_switch mt
                          \<lparr>sw_site_id = si_id previous, sw_previous = runtime_to_host failed,
                           sw_target = runtime_to_host r\<rparr> w1)
                    | None \<Rightarrow>
                        (case ms_services m of
                           None \<Rightarrow> w1
                         | Some sc \<Rightarrow> snd (sc_restart sc (rr_fpm_service r) w1)))))"

section \<open>Updating\<close>

definition php_changed :: "site_record \<Rightarrow> php_runtime_record \<Rightarrow> bool" where
  "php_changed current target \<longleftrightarrow> normalize_php_version (si_php_version current) \<noteq> rr_version target"

definition undo_runtime :: "management_service \<Rightarrow> site_record \<Rightarrow> php_runtime_record \<Rightarrow> world \<Rightarrow> world" where
  "undo_runtime m current target w = (if php_changed current target then rollback_runtime m current target w else w)"

definition undo_web :: "management_service \<Rightarrow> site_record \<Rightarrow> world \<Rightarrow> world" where
  "undo_web m current w =
     (case ms_web m of
        None \<Rightarrow> w
      | Some wa \<Rightarrow> snd (wa_activate wa (site_to_web current (php_socket_path (si_php_version current))) w))"

definition manage_services :: "management_service \<Rightarrow> php_runtime_record \<Rightarrow> world \<Rightarrow> (err + unit) \<times> world" where
  "manage_services m target w =
     (case ms_services m of
        None \<Rightarrow> (Inr (), w)
      | Some sc \<Rightarrow>
          (case start_services sc [] [''caddy'', rr_fpm_service target] w of
             (Inl e, w1) \<Rightarrow> (Inl e, w1)
           | (Inr _, w1) \<Rightarrow> (Inr (), w1)))"

definition manage_web :: "management_service \<Rightarrow> site_record \<Rightarrow> php_runtime_record \<Rightarrow> world \<Rightarrow> (err + unit) \<times> world" where
  "manage_web m s target w =
     (case ms_web m of
        None \<Rightarrow> (Inr (), w)
      | Some wa \<Rightarrow>
          (case wa_activate wa (site_to_web s (php_socket_path (rr_version target))) w of
             (Inl e, w1) \<Rightarrow> (Inl e, w1)
           | (Inr _, w1) \<Rightarrow> (Inr (), w1)))"

definition checked_site :: "site_record \<Rightarrow> string \<Rightarrow> gotime \<Rightarrow> site_record" where
  "checked_site s message now =
     s\<lparr>si_status := status_ready, si_status_message := message, si_last_checked_at := now\<rparr>"

text \<open>What follows the check: the host is changed, then the record is stored.\<close>

definition apply_update ::
    "management_service \<Rightarrow> site_record \<Rightarrow> site_record \<Rightarrow> php_runtime_record \<Rightarrow> world \<Rightarrow> (err + site_record) \<times> world" where
  "apply_update m current s target w =
     (case apply_runtime_change m current target w of
        (Inl e, w1) \<Rightarrow> (Inl e, w1)
      | (Inr _, w1) \<Rightarrow>
      (case manage_services m target w1 of
         (Inl e, w2) \<Rightarrow> (Inl e, undo_runtime m current target w2)
       | (Inr _, w2) \<Rightarrow>
       (case manage_web m s target w2 of
          (Inl e, w3) \<Rightarrow> (Inl e, undo_runtime m current target w3)
        | (Inr _, w3) \<Rightarrow>
        (case clock_now w3 of
           (now, w4) \<Rightarrow>
           (case ss_update (ms_sites m)
              (checked_site s (''Site updated and ready at https://'' @ si_domain s @ '' with PHP ''
                 @ rr_version target @ ''.'') now) w4 of
              (Inl e, w5) \<Rightarrow>
                (Inl (wrap_err (''persist site update '' @ si_id current) e),
                 undo_runtime m current target (undo_web m current w5))
            | (Inr persisted, w5) \<Rightarrow> (Inr persisted, w5))))))"

definition manage_update :: "management_service \<Rightarrow> site_update_input \<Rightarrow> world \<Rightarrow> (err + site_record) \<times> world" where
  "manage_update m inp w =
     (case ss_get (ms_sites m) (trim_space (su_site_id inp)) w of
        (Inl e, w1) \<Rightarrow> (Inl e, w1)
      | (Inr current, w1) \<Rightarrow>
      (case prepare_updated_site m current inp w1 of
         (Inl e, w2) \<Rightarrow> (Inl e, w2)
       | (Inr (s, target), w2) \<Rightarrow>
           (if si_root_path current = si_root_path s \<and> si_domain current = si_domain s \<and> \<not> php_changed current target then
              (case clock_now w2 of
                 (now, w3) \<Rightarrow>
                   ss_update (ms_sites m)
                     (checked_site s (''Site metadata updated for '' @ si_domain s @ ''.'') now) w3)
            else apply_update m current s target w2)))"

end
