(* ===== verification/Php_Manager.thy ===== *)
theory Php_Manager
  imports Site_Management
begin

text \<open>
  \<^verbatim>\<open>daemon/internal/app/php_manager.go\<close>: the runtime of one site, and switching it. The field
  \<^verbatim>\<open>services\<close> is used without a nil check, so it is no option.
\<close>

record php_manager =
  pg_sites :: site_store
  pg_runtimes :: runtime_resolver
  pg_services :: service_controller
  pg_php :: "php_materializer option"
  pg_web :: "web_activator option"

definition active_runtime :: "php_manager \<Rightarrow> string \<Rightarrow> world \<Rightarrow> (err + php_runtime_record) \<times> world" where
  "active_runtime m i w =
     (case ss_get (pg_sites m) i w of
        (Inl e, w1) \<Rightarrow> (Inl e, w1)
      | (Inr s, w1) \<Rightarrow>
          (if si_php_version s = [] then rt_default (pg_runtimes m) w1
           else rt_get (pg_runtimes m) (si_php_version s) w1))"

text \<open>The socket the switched runtime listens on.\<close>

definition switch_host :: "php_manager \<Rightarrow> site_record \<Rightarrow> php_runtime_record \<Rightarrow> world \<Rightarrow> (err + string) \<times> world" where
  "switch_host m s target w =
     (case pg_php m of
        Some mt \<Rightarrow>
          (case mt_switch mt \<lparr>sw_site_id = si_id s, sw_previous = bare_runtime (si_php_version s),
                              sw_target = runtime_to_host target\<rparr> w of
             (Inl e, w1) \<Rightarrow>
               (Inl (wrap_err (''switch php runtime '' @ rr_version target @ '' for site '' @ si_id s) e), w1)
           | (Inr mat, w1) \<Rightarrow> (Inr (pm_socket_path mat), w1))
      | None \<Rightarrow>
          (case status_outcome (sc_restart (pg_services m) (rr_fpm_service target) w) of
             (Some e, w1) \<Rightarrow>
               (Inl (wrap_err (''activate php runtime '' @ rr_version target @ '' for site '' @ si_id s) e), w1)
           | (None, w1) \<Rightarrow> (Inr (php_socket_path (rr_version target)), w1)))"

definition switch_back :: "php_manager \<Rightarrow> site_record \<Rightarrow> php_runtime_record \<Rightarrow> world \<Rightarrow> world" where
  "switch_back m s target w =
     (if si_php_version s = [] then w
      else (case pg_php m of
              None \<Rightarrow> w
            | Some mt \<Rightarrow>
                snd (mt_switch mt \<lparr>sw_site_id = si_id s, sw_previous = runtime_to_host target,
                                   sw_target = bare_runtime (si_php_version s)\<rparr> w)))"

definition switch_web :: "php_manager \<Rightarrow> site_record \<Rightarrow> string \<Rightarrow> world \<Rightarrow> (err + unit) \<times> world" where
  "switch_web m s socket w =
     (case pg_web m of
        None \<Rightarrow> (Inr (), w)
      | Some wa \<Rightarrow>
          (case wa_activate wa (site_to_web s socket) w of
             (Inl e, w1) \<Rightarrow> (Inl (wrap_err (''update web activation for site '' @ si_id s @ '' after php switch'') e), w1)
           | (Inr _, w1) \<Rightarrow> (Inr (), w1)))"

definition switched_site :: "site_record \<Rightarrow> php_runtime_record \<Rightarrow> site_record" where
  "switched_site s target =
     s\<lparr>si_php_version := rr_version target, si_status := status_ready,
       si_status_message := ''Site switched to PHP '' @ rr_version target @ ''.''\<rparr>"

definition restart_previous :: "php_manager \<Rightarrow> string \<Rightarrow> world \<Rightarrow> world" where
  "restart_previous m version w =
     (if version = [] then w
      else (case rt_get (pg_runtimes m) version w of
              (Inr r, w1) \<Rightarrow> snd (sc_restart (pg_services m) (rr_fpm_service r) w1)
            | (Inl e, w1) \<Rightarrow> snd (sc_restart (pg_services m) (php_fpm_service_name version) w1)))"

definition undo_switch :: "php_manager \<Rightarrow> site_record \<Rightarrow> world \<Rightarrow> world" where
  "undo_switch m s w =
     restart_previous m (si_php_version s)
       (case pg_web m of
          None \<Rightarrow> w
        | Some wa \<Rightarrow> snd (wa_activate wa (site_to_web s (php_socket_path (si_php_version s))) w))"

definition switch_site_runtime :: "php_manager \<Rightarrow> string \<Rightarrow> string \<Rightarrow> world \<Rightarrow> (err + site_record) \<times> world" where
  "switch_site_runtime m i version w =
     (case ss_get (pg_sites m) i w of
        (Inl e, w1) \<Rightarrow> (Inl e, w1)
      | (Inr s, w1) \<Rightarrow>
      (case rt_get (pg_runtimes m) version w1 of
         (Inl e, w2) \<Rightarrow> (Inl e, w2)
       | (Inr target, w2) \<Rightarrow>
           (if si_php_version s = rr_version target then (Inr s, w2)
            else
              (case switch_host m s target w2 of
                 (Inl e, w3) \<Rightarrow> (Inl e, w3)
               | (Inr socket, w3) \<Rightarrow>
               (case switch_web m (switched_site s target)
                   (first_non_empty_string [socket, php_socket_path (rr_version target)]) w3 of
                  (Inl e, w4) \<Rightarrow> (Inl e, switch_back m s target w4)
                | (Inr _, w4) \<Rightarrow>
                (case ss_update (pg_sites m) (switched_site s target) w4 of
                   (Inl e, w5) \<Rightarrow>
                     (Inl (wrap_err (''persist php runtime switch for site '' @ si_id s) e), undo_switch m s w5)
                 | (Inr persisted, w5) \<Rightarrow> (Inr persisted, w5)))))))"

end
