(* ===== verification/Runtime_Services.thy ===== *)
theory Runtime_Services
  imports App_Interfaces
begin

text \<open>
  \<^verbatim>\<open>daemon/internal/app/runtime_onboarding.go\<close> and \<^verbatim>\<open>runtime_catalog.go\<close>: registering a runtime by hand
  or from the installed packages, and the catalog shown to the user.
\<close>

section \<open>Onboarding\<close>

record package_inventory =
  pk_supported :: "supported_package list"
  pk_refresh :: "world \<Rightarrow> (err + php_runtime list) \<times> world"

definition apt_inventory :: package_inventory where
  "apt_inventory = \<lparr>pk_supported = supported_packages,
     pk_refresh = (\<lambda>w. case refresh_inventory w of (rs, w1) \<Rightarrow> (Inr rs, w1))\<rparr>"

record onboarding_service =
  on_registry :: string                       \<comment> \<open>the registry's file\<close>
  on_packages :: "package_inventory option"
  on_material :: "php_materializer option"
  on_services :: "service_controller option"

record runtime_registration_request =
  rq_version :: string
  rq_binary_path :: string
  rq_fpm_service :: string
  rq_source :: string
  rq_package_key :: string

record runtime_registration_result =
  rx_runtime :: php_runtime_record
  rx_materialization :: "php_materialization option"
  rx_installed_from :: string
  rx_refreshed :: bool

definition package_runtime_key :: "string \<Rightarrow> string" where
  "package_runtime_key version =
     (if normalize_php_version version = [] then [] else ''php-'' @ normalize_php_version version)"

text \<open>Materializing is skipped when there is no materializer.\<close>

definition onboard_material ::
    "onboarding_service \<Rightarrow> php_runtime_record \<Rightarrow> world \<Rightarrow> (err + php_materialization option) \<times> world" where
  "onboard_material s r w =
     (case on_material s of
        None \<Rightarrow> (Inr None, w)
      | Some mt \<Rightarrow>
          (case mt_materialize mt (runtime_to_host r) w of
             (Inl e, w1) \<Rightarrow> (Inl e, w1)
           | (Inr mat, w1) \<Rightarrow> (Inr (Some mat), w1)))"

definition onboard_status :: "onboarding_service \<Rightarrow> php_runtime_record \<Rightarrow> world \<Rightarrow> (err + unit) \<times> world" where
  "onboard_status s r w =
     (case on_services s of
        None \<Rightarrow> (Inr (), w)
      | Some sc \<Rightarrow>
          (if on_material s = None \<or> trim_space (rr_fpm_service r) = [] then (Inr (), w)
           else (case sc_status sc (rr_fpm_service r) w of
                   ((st, Some e), w1) \<Rightarrow> (Inl e, w1)
                 | ((st, None), w1) \<Rightarrow> (Inr (), w1))))"

definition register_manually ::
    "onboarding_service \<Rightarrow> runtime_registration_request \<Rightarrow> world \<Rightarrow> (err + runtime_registration_result) \<times> world" where
  "register_manually s q w =
     (case php_register (on_registry s)
         \<lparr>ri_version = rq_version q, ri_binary_path = rq_binary_path q, ri_fpm_service = rq_fpm_service q,
          ri_source = first_non_empty_string [rq_source q, ''manual'']\<rparr> w of
        (Inl e, w1) \<Rightarrow> (Inl e, w1)
      | (Inr r, w1) \<Rightarrow>
      (case onboard_material s r w1 of
         (Inl e, w2) \<Rightarrow> (Inl e, w2)
       | (Inr mat, w2) \<Rightarrow>
       (case onboard_status s r w2 of
          (Inl e, w3) \<Rightarrow> (Inl e, w3)
        | (Inr _, w3) \<Rightarrow>
            (Inr \<lparr>rx_runtime = r, rx_materialization = mat, rx_installed_from = [], rx_refreshed = False\<rparr>, w3))))"

text \<open>The entry of the inventory that is taken: the first of the version asked for, or, if none was
  asked for, the first that belongs to the package.\<close>

definition inventory_match :: "string \<Rightarrow> string \<Rightarrow> php_runtime \<Rightarrow> bool" where
  "inventory_match version key rt \<longleftrightarrow>
     (if version \<noteq> [] then normalize_php_version (pr_version rt) = version
      else package_runtime_key (pr_version rt) = key)"

definition register_from_inventory ::
    "onboarding_service \<Rightarrow> runtime_registration_request \<Rightarrow> world \<Rightarrow> (err + runtime_registration_result) \<times> world" where
  "register_from_inventory s q w =
     (case on_packages s of
        None \<Rightarrow> (Inl (errorf ''runtime package onboarding is not configured''), w)
      | Some pk \<Rightarrow>
      (case pk_refresh pk w of
         (Inl e, w1) \<Rightarrow> (Inl e, w1)
       | (Inr inventory, w1) \<Rightarrow>
       (case List.find (inventory_match (normalize_php_version (rq_version q)) (to_lower (trim_space (rq_package_key q)))) inventory of
          None \<Rightarrow>
            (Inl (sentinel_err ErrRuntimeNotFound
               (if normalize_php_version (rq_version q) \<noteq> [] then
                  ''runtime '' @ normalize_php_version (rq_version q) @ '' is not available from package inventory ''
                    @ to_lower (trim_space (rq_package_key q))
                else ''package inventory '' @ to_lower (trim_space (rq_package_key q))
                       @ '' does not expose a supported runtime'')), w1)
        | Some rt \<Rightarrow>
        (case php_register (on_registry s)
            \<lparr>ri_version = pr_version rt, ri_binary_path = pr_binary_path rt, ri_fpm_service = pr_service_name rt,
             ri_source = first_non_empty_string [rq_source q, to_lower (trim_space (rq_package_key q))]\<rparr> w1 of
           (Inl e, w2) \<Rightarrow> (Inl e, w2)
         | (Inr r, w2) \<Rightarrow>
         (case onboard_material s r w2 of
            (Inl e, w3) \<Rightarrow> (Inl e, w3)
          | (Inr mat, w3) \<Rightarrow>
              (Inr \<lparr>rx_runtime = r, rx_materialization = mat,
                    rx_installed_from = to_lower (trim_space (rq_package_key q)), rx_refreshed = True\<rparr>, w3))))))"

definition onboard_register ::
    "onboarding_service \<Rightarrow> runtime_registration_request \<Rightarrow> world \<Rightarrow> (err + runtime_registration_result) \<times> world" where
  "onboard_register s q w =
     (if trim_space (rq_package_key q) \<noteq> [] then register_from_inventory s q w else register_manually s q w)"

section \<open>The catalog\<close>

record runtime_catalog =
  rg_registered :: "php_runtime_record list"
  rg_default :: "php_runtime_record option"
  rg_supported :: "supported_package list"
  rg_detected :: "php_runtime list"

definition catalog_list :: "string \<Rightarrow> world \<Rightarrow> (err + php_runtime_record list) \<times> world" where
  "catalog_list p w = php_list p w"

text \<open>No default is no error.\<close>

definition catalog_default :: "string \<Rightarrow> world \<Rightarrow> (err + php_runtime_record option) \<times> world" where
  "catalog_default p w =
     (case php_default_runtime p w of
        (Inr r, w1) \<Rightarrow> (Inr (Some r), w1)
      | (Inl e, w1) \<Rightarrow> (if errors_is e ErrRuntimeNotFound then (Inr None, w1) else (Inl e, w1)))"

definition catalog_set_default :: "string \<Rightarrow> string \<Rightarrow> world \<Rightarrow> (err + php_runtime_record) \<times> world" where
  "catalog_set_default p version w = php_set_default p version w"

definition catalog_inventory :: "string \<Rightarrow> package_inventory option \<Rightarrow> world \<Rightarrow> (err + runtime_catalog) \<times> world" where
  "catalog_inventory p packages w =
     (case php_list p w of
        (Inl e, w1) \<Rightarrow> (Inl e, w1)
      | (Inr registered, w1) \<Rightarrow>
      (case catalog_default p w1 of
         (Inl e, w2) \<Rightarrow> (Inl e, w2)
       | (Inr d, w2) \<Rightarrow>
           (case packages of
              None \<Rightarrow> (Inr \<lparr>rg_registered = registered, rg_default = d, rg_supported = [], rg_detected = []\<rparr>, w2)
            | Some pk \<Rightarrow>
                (case pk_refresh pk w2 of
                   (Inl e, w3) \<Rightarrow> (Inl e, w3)
                 | (Inr detected, w3) \<Rightarrow>
                     (Inr \<lparr>rg_registered = registered, rg_default = d, rg_supported = pk_supported pk,
                           rg_detected = detected\<rparr>, w3)))))"

end
