(* ===== verification/Health_Service.thy ===== *)
theory Health_Service
  imports App_Interfaces Orchestration
begin

text \<open>
  \<^verbatim>\<open>daemon/internal/app/health_service.go\<close>: the readiness of the daemon and of each site. The check
  whether a port can be listened on (\<^verbatim>\<open>net.Listen\<close>) and the effective user are parameters of the
  service, and so is the order in which Go enumerates the set of service names. An error of
  \<^verbatim>\<open>Report\<close> comes with a half-filled report that no caller reads; it is left out.
\<close>

record health_check =
  hc_name :: string
  hc_capability :: string
  hc_passed :: bool
  hc_summary :: string
  hc_remediation :: string

record site_readiness =
  sd_site :: site_record
  sd_ready :: bool
  sd_summary :: string
  sd_checks :: "health_check list"
  sd_php_service :: service_status
  sd_checked_at :: gotime

record health_report =
  hr_ready :: bool
  hr_generated_at :: gotime
  hr_socket :: socket_availability
  hr_resolver :: "resolver_status option"
  hr_checks :: "health_check list"
  hr_services :: "service_status list"
  hr_sites :: "site_readiness list"

record health_service =
  hs_sites :: site_store
  hs_runtimes :: runtime_resolver
  hs_services :: service_controller
  hs_resolver :: "resolver_provisioner option"
  hs_socket_path :: string
  hs_port :: "nat \<Rightarrow> world \<Rightarrow> err option \<times> world"
  hs_euid :: nat
  hs_order :: "string list \<Rightarrow> string list"

section \<open>Summaries\<close>

definition privilege_summary :: "nat \<Rightarrow> string" where
  "privilege_summary euid =
     (if euid = 0 then ''Daemon has the privileges required for managed services and ports.''
      else ''Daemon is missing root privileges required for orchestration.'')"

definition runtime_inventory_summary :: "nat \<Rightarrow> string" where
  "runtime_inventory_summary count =
     (if 0 < count then itoa count @ '' PHP runtime(s) registered for site assignment.''
      else ''No supported PHP runtimes have been registered yet.'')"

definition site_path_summary :: "err option \<Rightarrow> string \<Rightarrow> string" where
  "site_path_summary e root =
     (case e of None \<Rightarrow> ''Laravel project path is valid: '' @ root | Some e \<Rightarrow> err_text e)"

definition runtime_summary :: "err option \<Rightarrow> string \<Rightarrow> string" where
  "runtime_summary e version =
     (case e of None \<Rightarrow> ''PHP '' @ version @ '' is registered for site switching.'' | Some e \<Rightarrow> err_text e)"

definition service_health_summary :: "string \<Rightarrow> service_status \<Rightarrow> string" where
  "service_health_summary service st =
     (if trim_space service = [] then ''Service name is not configured.''
      else if st_service st = [] then ''Service '' @ service @ '' has not been observed yet.''
      else ''Service '' @ st_service st @ '' is '' @ service_state_text (st_state st) @ '' ('' @ st_summary st @ '').'')"

section \<open>One site\<close>

text \<open>\<open>lookup_status\<close> is the read of a Go map: a missing key gives the zero status.\<close>

definition lookup_status :: "(string \<times> service_status) list \<Rightarrow> string \<Rightarrow> service_status" where
  "lookup_status m name = (case map_of m name of None \<Rightarrow> zero_status | Some st \<Rightarrow> st)"

definition error_of :: "(err + 'a) \<Rightarrow> err option" where
  "error_of r = (case r of Inl e \<Rightarrow> Some e | Inr x \<Rightarrow> None)"

definition site_checks ::
    "site_record \<Rightarrow> err option \<Rightarrow> err option \<Rightarrow> service_status \<Rightarrow> service_status \<Rightarrow> health_check list" where
  "site_checks s path_err runtime_err caddy php =
     [\<lparr>hc_name = ''laravel-project'', hc_capability = ''local-site-serving'', hc_passed = (path_err = None),
       hc_summary = site_path_summary path_err (si_root_path s),
       hc_remediation = ''Point the site at a Laravel project root containing artisan, composer.json, and public/index.php.''\<rparr>,
      \<lparr>hc_name = ''php-runtime'', hc_capability = ''php-runtime-management'', hc_passed = (runtime_err = None),
       hc_summary = runtime_summary runtime_err (si_php_version s),
       hc_remediation = ''Register the requested PHP runtime and retry the site activation.''\<rparr>,
      \<lparr>hc_name = ''caddy-service'', hc_capability = ''service-orchestration'', hc_passed = (st_state caddy = SvcActive),
       hc_summary = service_health_summary ''caddy'' caddy,
       hc_remediation = ''Start or restart the caddy service through /rpc/services.action.''\<rparr>,
      \<lparr>hc_name = ''php-fpm-service'', hc_capability = ''service-orchestration'', hc_passed = (st_state php = SvcActive),
       hc_summary = service_health_summary (st_service php) php,
       hc_remediation = ''Start or restart the PHP-FPM service for the selected runtime.''\<rparr>]"

text \<open>The first check that failed decides the status and the message.\<close>

definition readiness_verdict :: "health_check list \<Rightarrow> bool \<times> site_status \<times> string" where
  "readiness_verdict checks =
     (case List.find (\<lambda>c. \<not> hc_passed c) checks of
        None \<Rightarrow> (True, status_ready, ''Site is ready to serve local traffic.'')
      | Some c \<Rightarrow>
          (False, (if hc_name c = ''laravel-project'' \<or> hc_name c = ''php-runtime'' then status_conflict
                   else status_degraded), hc_summary c))"

definition site_readiness_of ::
    "health_service \<Rightarrow> site_record \<Rightarrow> (string \<times> service_status) list \<Rightarrow> gotime \<Rightarrow> world \<Rightarrow> site_readiness \<times> world" where
  "site_readiness_of h s statuses at w =
     (case validate_laravel_path (si_root_path s) w of
        (path_result, w1) \<Rightarrow>
        (case rt_get (hs_runtimes h) (si_php_version s) w1 of
           (runtime_result, w2) \<Rightarrow>
             (let php = lookup_status statuses
                    (case runtime_result of Inr r \<Rightarrow> rr_fpm_service r | Inl e \<Rightarrow> php_fpm_service_name (si_php_version s));
                  checks = site_checks s (error_of path_result) (error_of runtime_result)
                    (lookup_status statuses ''caddy'') php
              in (case readiness_verdict checks of
                    (ready, status, summary) \<Rightarrow>
                      (\<lparr>sd_site = s\<lparr>si_status := status, si_status_message := summary, si_last_checked_at := at\<rparr>,
                        sd_ready = ready, sd_summary = summary, sd_checks = checks, sd_php_service = php,
                        sd_checked_at = at\<rparr>, w2)))))"

fun sites_readiness ::
    "health_service \<Rightarrow> site_record list \<Rightarrow> (string \<times> service_status) list \<Rightarrow> gotime \<Rightarrow> world \<Rightarrow> site_readiness list \<times> world" where
  "sites_readiness h [] statuses at w = ([], w)"
| "sites_readiness h (s # ss) statuses at w =
     (case site_readiness_of h s statuses at w of
        (rd, w1) \<Rightarrow> (case sites_readiness h ss statuses at w1 of (rds, w2) \<Rightarrow> (rd # rds, w2)))"

section \<open>The host\<close>

definition service_names :: "site_record list \<Rightarrow> string list" where
  "service_names sites = remdups (''caddy'' # map (\<lambda>s. php_fpm_service_name (si_php_version s)) sites)"

fun observe_services :: "service_controller \<Rightarrow> string list \<Rightarrow> world \<Rightarrow> (string \<times> service_status) list \<times> world" where
  "observe_services sc [] w = ([], w)"
| "observe_services sc (n # ns) w =
     (if trim_space n = [] \<or> n = ''php-fpm'' then observe_services sc ns w
      else (case sc_status sc n w of
              ((st, e), w1) \<Rightarrow>
                (let st' = (case e of None \<Rightarrow> st
                            | Some e \<Rightarrow> (if st_state st = SvcUnknown then st\<lparr>st_summary := err_text e\<rparr> else st))
                 in (case observe_services sc ns w1 of (sts, w2) \<Rightarrow> ((n, st') # sts, w2)))))"

definition resolver_check :: "resolver_status \<Rightarrow> err option \<Rightarrow> health_check" where
  "resolver_check st e =
     \<lparr>hc_name = ''resolver-test-routing'', hc_capability = ''local-dns-routing'',
      hc_passed = (e = None \<and> rs_conflicts st = [] \<and> (rs_managed st \<or> rs_owner st = ''available'')),
      hc_summary = rs_summary st,
      hc_remediation = first_non_empty_string [rs_remediation st,
        ''Resolve the conflicting systemd-resolved ownership before managing .test domains.'']\<rparr>"

definition inspect_resolver :: "health_service \<Rightarrow> world \<Rightarrow> (resolver_status option \<times> health_check list) \<times> world" where
  "inspect_resolver h w =
     (case hs_resolver h of
        None \<Rightarrow> ((None, []), w)
      | Some rp \<Rightarrow>
          (case rp_inspect rp default_stub_spec w of
             ((st0, e), w1) \<Rightarrow>
               (let st = (case e of None \<Rightarrow> st0 | Some e \<Rightarrow> st0\<lparr>rs_summary := err_text e\<rparr>)
                in ((Some st, [resolver_check st e]), w1))))"

definition port_health :: "health_service \<Rightarrow> nat \<Rightarrow> service_status \<Rightarrow> world \<Rightarrow> (bool \<times> string \<times> string) \<times> world" where
  "port_health h port caddy w =
     (if st_state caddy = SvcActive then
        ((True, ''Port '' @ itoa port @ '' is owned by the managed caddy service.'', []), w)
      else (case hs_port h port w of
              (Some e, w1) \<Rightarrow>
                (if errors_is e SysEACCES \<or> errors_is e SysEPERM then
                   ((False, ''Port '' @ itoa port @ '' requires elevated privileges before Lara Nux can claim it.'',
                     ''Run the daemon as root through the managed systemd unit before checking readiness.''), w1)
                 else
                   ((False, ''Port '' @ itoa port @ '' is unavailable: '' @ err_text e,
                     ''Stop the conflicting service or free the port before starting the local environment.''), w1))
            | (None, w1) \<Rightarrow> ((True, ''Port '' @ itoa port @ '' is available for Lara Nux to claim.'', []), w1)))"

fun port_checks :: "health_service \<Rightarrow> nat list \<Rightarrow> service_status \<Rightarrow> world \<Rightarrow> health_check list \<times> world" where
  "port_checks h [] caddy w = ([], w)"
| "port_checks h (p # ps) caddy w =
     (case port_health h p caddy w of
        ((passed, summary, remediation), w1) \<Rightarrow>
          (case port_checks h ps caddy w1 of
             (cs, w2) \<Rightarrow>
               (\<lparr>hc_name = ''port-'' @ itoa p, hc_capability = ''service-orchestration'', hc_passed = passed,
                 hc_summary = summary, hc_remediation = remediation\<rparr> # cs, w2)))"

definition daemon_checks :: "health_service \<Rightarrow> socket_availability \<Rightarrow> nat \<Rightarrow> health_check list" where
  "daemon_checks h socket runtimes =
     [\<lparr>hc_name = ''daemon-socket'', hc_capability = ''daemon'', hc_passed = sk_available socket,
       hc_summary = sk_summary socket,
       hc_remediation = ''Start the daemon systemd unit and restore the managed Unix socket path/permissions.''\<rparr>,
      \<lparr>hc_name = ''privileges'', hc_capability = ''daemon'', hc_passed = (hs_euid h = 0),
       hc_summary = privilege_summary (hs_euid h),
       hc_remediation = ''Run the daemon as a privileged system service so it can own the Unix socket, ports, and system units.''\<rparr>,
      \<lparr>hc_name = ''php-runtime-inventory'', hc_capability = ''php-runtime-management'', hc_passed = (0 < runtimes),
       hc_summary = runtime_inventory_summary runtimes,
       hc_remediation = ''Register at least one supported PHP runtime before activating sites.''\<rparr>]"

section \<open>The report\<close>

definition health_report_of :: "health_service \<Rightarrow> world \<Rightarrow> (err + health_report) \<times> world" where
  "health_report_of h w =
     (case clock_now w of (now, w1) \<Rightarrow>
      (case inspect_socket (hs_socket_path h) w1 of (socket, w2) \<Rightarrow>
      (case ss_list (hs_sites h) w2 of
         (Inl e, w3) \<Rightarrow> (Inl e, w3)
       | (Inr sites, w3) \<Rightarrow>
       (case rt_list (hs_runtimes h) w3 of
          (Inl e, w4) \<Rightarrow> (Inl e, w4)
        | (Inr runtimes, w4) \<Rightarrow>
        (case inspect_resolver h w4 of ((resolver, rchecks), w5) \<Rightarrow>
        (case observe_services (hs_services h) (hs_order h (service_names sites)) w5 of (statuses, w6) \<Rightarrow>
        (case port_checks h [80, 443] (lookup_status statuses ''caddy'') w6 of (pchecks, w7) \<Rightarrow>
        (case sites_readiness h sites statuses now w7 of (rds, w8) \<Rightarrow>
           (let checks = rchecks @ daemon_checks h socket (length runtimes) @ pchecks
            in (Inr \<lparr>hr_ready = (list_all sd_ready rds \<and> list_all hc_passed checks), hr_generated_at = now,
                     hr_socket = socket, hr_resolver = resolver, hr_checks = checks,
                     hr_services = map snd statuses, hr_sites = rds\<rparr>, w8))))))))))"

end
