(* ===== verification/Health_Correct.thy ===== *)
theory Health_Correct
  imports Health_Service
begin

text \<open>
  The verdicts of the health report: what \<^verbatim>\<open>ready\<close> means for the host and for a site, and where the status of a
  site comes from.
\<close>

lemma sites_readiness_parts:
  "sites_readiness h xs sts t w = (rds, w') \<Longrightarrow>
     length rds = length xs \<and>
     (\<forall>i < length xs. \<exists>v v'. site_readiness_of h (xs ! i) sts t v = (rds ! i, v'))"
proof (induction xs arbitrary: rds w)
  case (Cons x xs)
  obtain rd w1 rds' where 1: "site_readiness_of h x sts t w = (rd, w1)" "sites_readiness h xs sts t w1 = (rds', w')" "rds = rd # rds'"
    using Cons.prems by (auto split: prod.splits)
  from Cons.IH [OF 1(2)] 1 show ?case by (auto simp: less_Suc_eq_0_disj)
qed simp

lemma sites_readiness_each:
  assumes "sites_readiness h xs sts t w = (rds, w')" "rd \<in> set rds"
  obtains x v v' where "x \<in> set xs" "site_readiness_of h x sts t v = (rd, v')"
  using sites_readiness_parts [OF assms(1)] assms(2) by (metis in_set_conv_nth)

text \<open>A site is ready when its four checks pass; the first one that fails gives the status.\<close>

definition site_verdict :: "site_readiness \<Rightarrow> site_status" where
  "site_verdict d =
     (if list_all hc_passed (sd_checks d) then status_ready
      else if list_all hc_passed (take 2 (sd_checks d)) then status_degraded
      else status_conflict)"

lemma readiness_verdict_checks:
  assumes "checks = site_checks s pe re caddy php" "readiness_verdict checks = (ready, status, summary)"
  shows "ready = list_all hc_passed checks"
    "status = (if list_all hc_passed checks then status_ready
       else if list_all hc_passed (take 2 checks) then status_degraded else status_conflict)"
proof -
  obtain a b c d where abcd: "checks = [a, b, c, d]" "hc_name a = ''laravel-project''" "hc_name b = ''php-runtime''"
      "hc_name c = ''caddy-service''" "hc_name d = ''php-fpm-service''"
    using assms(1) by (simp add: site_checks_def)
  then have n: "hc_name c \<noteq> ''laravel-project'' \<and> hc_name c \<noteq> ''php-runtime''"
    "hc_name d \<noteq> ''laravel-project'' \<and> hc_name d \<noteq> ''php-runtime''" by simp_all
  show "ready = list_all hc_passed checks"
    "status = (if list_all hc_passed checks then status_ready
       else if list_all hc_passed (take 2 checks) then status_degraded else status_conflict)"
    using assms(2) n abcd(2,3) unfolding abcd(1) readiness_verdict_def
    by (cases "hc_passed a"; cases "hc_passed b"; cases "hc_passed c"; cases "hc_passed d"; simp)+
qed

lemma site_readiness_verdict:
  assumes "site_readiness_of h s sts t w = (d, w')"
  shows "sd_ready d = list_all hc_passed (sd_checks d)" "si_status (sd_site d) = site_verdict d"
    "si_status_message (sd_site d) = sd_summary d" "si_id (sd_site d) = si_id s" "si_domain (sd_site d) = si_domain s"
proof -
  obtain p w1 where 1: "validate_laravel_path (si_root_path s) w = (p, w1)" by force
  obtain q w2 where 2: "rt_get (hs_runtimes h) (si_php_version s) w1 = (q, w2)" by force
  define checks where "checks = site_checks s (error_of p) (error_of q) (lookup_status sts ''caddy'')
    (lookup_status sts (case q of Inr r \<Rightarrow> rr_fpm_service r | Inl e \<Rightarrow> php_fpm_service_name (si_php_version s)))"
  obtain ready status summary where v: "readiness_verdict checks = (ready, status, summary)" by (metis surj_pair)
  have d: "sd_ready d = ready" "sd_checks d = checks" "sd_summary d = summary"
      "sd_site d = s\<lparr>si_status := status, si_status_message := summary, si_last_checked_at := t\<rparr>"
    using assms unfolding site_readiness_of_def Let_def 1 2 prod.case checks_def [symmetric] v by auto
  note V = readiness_verdict_checks [OF checks_def v]
  show "sd_ready d = list_all hc_passed (sd_checks d)" "si_status (sd_site d) = site_verdict d"
    "si_status_message (sd_site d) = sd_summary d" "si_id (sd_site d) = si_id s" "si_domain (sd_site d) = si_domain s"
    using V unfolding site_verdict_def d by simp_all
qed

text \<open>C14: the report is ready exactly when every check of the host and every check of every site passed; each
  site of the registry appears once, in order, ready exactly when its own checks passed; and its
  status says what is wrong - a conflict when the project or the runtime is missing, degraded when
  only a service is down. A ready report means a root daemon, its socket in place and no
  conflict over the domain.\<close>

theorem health_report_verdicts:
  assumes "health_report_of h w = (Inr rep, w')"
  shows "(hr_ready rep \<longleftrightarrow> list_all hc_passed (hr_checks rep) \<and> list_all (\<lambda>d. list_all hc_passed (sd_checks d)) (hr_sites rep))
    \<and> (\<exists>sites v v'. ss_list (hs_sites h) v = (Inr sites, v') \<and> map (\<lambda>d. si_id (sd_site d)) (hr_sites rep) = map si_id sites)
    \<and> (\<forall>d \<in> set (hr_sites rep). sd_ready d = list_all hc_passed (sd_checks d) \<and> si_status (sd_site d) = site_verdict d)
    \<and> (hr_ready rep \<longrightarrow> hs_euid h = 0 \<and> sk_available (hr_socket rep)
        \<and> (case hr_resolver rep of None \<Rightarrow> True | Some st \<Rightarrow> rs_conflicts st = []))"
proof -
  obtain t w1 where 1: "clock_now w = (t, w1)" by force
  obtain sk w2 where 2: "inspect_socket (hs_socket_path h) w1 = (sk, w2)" by force
  obtain q3 w3 where 3: "ss_list (hs_sites h) w2 = (q3, w3)" by force
  note run = assms [unfolded health_report_of_def 1 2 3 prod.case]
  obtain sites where s: "q3 = Inr sites" using run by (cases q3) simp_all
  note run = run [unfolded s sum.case]
  obtain q4 w4 where 4: "rt_list (hs_runtimes h) w3 = (q4, w4)" by force
  obtain rts where r: "q4 = Inr rts" using run 4 by (cases q4) simp_all
  obtain rs rcs w5 where 5: "inspect_resolver h w4 = ((rs, rcs), w5)" by (metis surj_pair)
  obtain st w6 where 6: "observe_services (hs_services h) (hs_order h (service_names sites)) w5 = (st, w6)" by force
  obtain pcs w7 where 7: "port_checks h [80, 443] (lookup_status st ''caddy'') w6 = (pcs, w7)" by (metis surj_pair)
  obtain rds w8 where 8: "sites_readiness h sites st t w7 = (rds, w8)" by force
  define checks where "checks = rcs @ daemon_checks h sk (length rts) @ pcs"
  have rep: "hr_ready rep = (list_all sd_ready rds \<and> list_all hc_passed checks)" "hr_checks rep = checks"
      "hr_sites rep = rds" "hr_socket rep = sk" "hr_resolver rep = rs"
    using run unfolding 4 r 5 6 7 8 prod.case sum.case Let_def checks_def [symmetric] by auto
  note P = sites_readiness_parts [OF 8]
  have each: "sd_ready d = list_all hc_passed (sd_checks d) \<and> si_status (sd_site d) = site_verdict d" if "d \<in> set rds" for d
    using sites_readiness_each [OF 8 that] site_readiness_verdict(1,2) by metis
  have ids: "map (\<lambda>d. si_id (sd_site d)) rds = map si_id sites"
  proof (rule nth_equalityI)
    fix i assume "i < length (map (\<lambda>d. si_id (sd_site d)) rds)"
    with P obtain v v' where "site_readiness_of h (sites ! i) st t v = (rds ! i, v')" "i < length rds" "i < length sites" by auto
    from site_readiness_verdict(4) [OF this(1)] this(2,3)
    show "map (\<lambda>d. si_id (sd_site d)) rds ! i = map si_id sites ! i" by simp
  qed (use P in simp)
  have res: "case rs of None \<Rightarrow> True | Some x \<Rightarrow> rs_conflicts x = []" if "list_all hc_passed rcs"
    using 5 that unfolding inspect_resolver_def Let_def by (auto simp: resolver_check_def split: option.splits prod.splits)
  show ?thesis
    unfolding rep using each ids res 3 s
    by (auto simp: list_all_iff checks_def daemon_checks_def)
qed

lemma health_report_works:
  assumes "clock_now w = (t, w1)" "inspect_socket (hs_socket_path h) w1 = (sk, w2)"
    "ss_list (hs_sites h) w2 = (Inr sites, w3)" "rt_list (hs_runtimes h) w3 = (Inr rts, w4)"
  shows "\<exists>rep w'. health_report_of h w = (Inr rep, w')"
  using assms unfolding health_report_of_def by (simp add: split_beta Let_def)

definition blog_health :: health_service where
  "blog_health = \<lparr>hs_sites = file_sites sites_file, hs_runtimes = file_runtimes runtimes_file,
     hs_services = \<lparr>sc_start = (\<lambda>n w. ((zero_status, None), w)), sc_restart = (\<lambda>n w. ((zero_status, None), w)),
       sc_status = (\<lambda>n w. ((zero_status, None), w))\<rparr>,
     hs_resolver = None, hs_socket_path = [], hs_port = (\<lambda>n w. (None, w)), hs_euid = 0,
     hs_order = (\<lambda>ns. ns)\<rparr>"

text \<open>Without a socket path the daemon is not ready, and says so in its report.\<close>

theorem health_report_verdicts_witness:
  "\<exists>rep w'. health_report_of blog_health (project_host all_succeed []) = (Inr rep, w') \<and> \<not> hr_ready rep"
proof -
  let ?w = "project_host all_succeed []"
  define sk where "sk = \<lparr>sk_path = [], sk_available = False, sk_summary = ''Daemon socket path is not configured.''\<rparr>"
  have t: "trim_space [] = []" by code_simp
  obtain now where 1: "clock_now ?w = (now, next_tick ?w)" by (simp add: clock_now_def)
  have 2: "inspect_socket (hs_socket_path blog_health) (next_tick ?w) = (sk, next_tick ?w)"
    by (simp add: inspect_socket_def blog_health_def t sk_def)
  have "fst (site_list sites_file (next_tick ?w)) = Inr []" by code_simp
  then have 3: "ss_list (hs_sites blog_health) (next_tick ?w) = (Inr [], snd (site_list sites_file (next_tick ?w)))"
    by (simp add: blog_health_def file_sites_def prod_eq_iff)
  have "fst (php_list runtimes_file (snd (site_list sites_file (next_tick ?w)))) = Inr []" by code_simp
  then have 4: "rt_list (hs_runtimes blog_health) (snd (site_list sites_file (next_tick ?w)))
      = (Inr [], snd (php_list runtimes_file (snd (site_list sites_file (next_tick ?w)))))"
    by (simp add: blog_health_def file_runtimes_def prod_eq_iff)
  obtain rep w' where h: "health_report_of blog_health ?w = (Inr rep, w')" using health_report_works [OF 1 2 3 4] by blast
  then have "hr_socket rep = sk"
    unfolding health_report_of_def 1 2 3 4 prod.case sum.case Let_def by (auto split: prod.splits)
  with health_report_verdicts [OF h] h show ?thesis by (auto simp: sk_def)
qed

section \<open>A service with a name of its own\<close>

text \<open>Only \<^verbatim>\<open>caddy\<close> and the services named after a version are asked; a runtime registered with another service
  name is looked up under that name and never found.\<close>

lemma observed_names: "observe_services sc ns w = (sts, w') \<Longrightarrow> fst ` set sts \<subseteq> set ns"
proof (induction ns arbitrary: w w' sts)
  case (Cons n ns)
  show ?case
  proof (cases "trim_space n = [] \<or> n = ''php-fpm''")
    case True
    then have "observe_services sc ns w = (sts, w')" using Cons.prems by simp
    from Cons.IH [OF this] show ?thesis by (simp add: subset_insertI2)
  next
    case False
    obtain st e w1 where 1: "sc_status sc n w = ((st, e), w1)" by (metis surj_pair)
    obtain sts' w2 where 2: "observe_services sc ns w1 = (sts', w2)" by force
    have "fst ` set sts = insert n (fst ` set sts')" using Cons.prems False 1 2 by (auto simp: Let_def)
    with Cons.IH [OF 2] show ?thesis by auto
  qed
qed simp

lemma custom_fpm_service_never_ready:
  assumes "observe_services sc ns v = (sts, v')" and "rr_fpm_service r \<notin> set ns"
    and "rt_get (hs_runtimes h) (si_php_version s) (snd (validate_laravel_path (si_root_path s) w)) = (Inr r, w2)"
    and "site_readiness_of h s sts t w = (d, w')"
  shows "\<not> sd_ready d"
proof -
  have "map_of sts (rr_fpm_service r) = None"
    using observed_names [OF assms(1)] assms(2) by (auto simp: map_of_eq_None_iff)
  then have l: "lookup_status sts (rr_fpm_service r) = zero_status" by (simp add: lookup_status_def)
  obtain pe re where "sd_checks d = site_checks s pe re (lookup_status sts ''caddy'') zero_status"
    using assms(3,4) unfolding site_readiness_of_def Let_def split_beta by (auto simp: l)
  then have "\<not> hc_passed (last (sd_checks d))" "sd_checks d \<noteq> []" by (simp_all add: site_checks_def zero_status_def)
  then show ?thesis using site_readiness_verdict(1) [OF assms(4)] last_in_set by (metis list_all_iff)
qed

end
