(* ===== verification/Managed_Assets.thy ===== *)
theory Managed_Assets
  imports State_Store Php_Registry
begin

text \<open>
  \<^verbatim>\<open>daemon/internal/app/managed_assets.go\<close>: the manifest of what the daemon owns on the host, which an
  uninstall or a failed installation works from. \<^verbatim>\<open>ManagedAssetKind\<close> and \<^verbatim>\<open>RollbackAction\<close> are string
  types.
\<close>

record app_paths =
  ap_config_dir :: string
  ap_state_dir :: string
  ap_runtime_dir :: string
  ap_socket_path :: string
  ap_managed_assets_path :: string

abbreviation rollback_remove :: string where "rollback_remove \<equiv> ''remove''"
abbreviation rollback_restore :: string where "rollback_restore \<equiv> ''restore-previous''"
abbreviation rollback_leave :: string where "rollback_leave \<equiv> ''leave''"

record managed_asset =
  ma_id :: string
  ma_kind :: string
  ma_path :: string
  ma_owner :: string
  ma_group :: string
  ma_mode :: string
  ma_rollback :: string
  ma_notes :: string

record asset_manifest =
  am_format :: string
  am_target_os :: string
  am_generated_at :: gotime
  am_assets :: "managed_asset list"

definition asset :: "string \<Rightarrow> string \<Rightarrow> string \<Rightarrow> string \<Rightarrow> string \<Rightarrow> string \<Rightarrow> string \<Rightarrow> managed_asset" where
  "asset i kind path grp mode rollback notes =
     \<lparr>ma_id = i, ma_kind = kind, ma_path = path, ma_owner = ''root'', ma_group = grp, ma_mode = mode,
      ma_rollback = rollback, ma_notes = notes\<rparr>"

definition default_assets :: "app_paths \<Rightarrow> managed_asset list" where
  "default_assets paths =
     [asset ''runtime-dir'' ''directory'' (ap_runtime_dir paths) ''lara-nux'' ''0750'' rollback_remove
        ''Transient runtime directory for the daemon socket and runtime files.'',
      asset ''daemon-socket'' ''socket'' (ap_socket_path paths) ''lara-nux'' ''0660'' rollback_remove
        ''Unix socket boundary consumed by the Wails/Nuxt desktop client.'',
      asset ''state-dir'' ''directory'' (ap_state_dir paths) ''lara-nux'' ''0750'' rollback_remove
        ''Daemon state storage used for install metadata and rollback bookkeeping.'',
      asset ''managed-assets-manifest'' ''state-file'' (ap_managed_assets_path paths) ''lara-nux'' ''0640'' rollback_remove
        ''Manifest consumed during uninstall or failed-install rollback.'',
      asset ''resolved-test-stub'' ''resolver'' ''/etc/systemd/resolved.conf.d/lara-nux-test.conf'' ''root'' ''0644''
        rollback_restore ''Managed resolver stub for .test routing without overwriting unrelated DNS assets.'',
      asset ''caddy-sites-dir'' ''web-config'' ''/etc/caddy/sites.d/lara-nux'' ''root'' ''0755''
        rollback_restore ''Namespace reserved for per-site Caddy definitions managed by the daemon.'',
      asset ''daemon-service'' ''service-unit'' ''/lib/systemd/system/lara-nuxd.service'' ''root'' ''0644'' rollback_remove
        ''Packaged systemd unit for the privileged daemon; local overrides belong under /etc/systemd/system.'']"

definition default_manifest :: "app_paths \<Rightarrow> world \<Rightarrow> asset_manifest \<times> world" where
  "default_manifest paths w =
     (case clock_now w of
        (now, w1) \<Rightarrow>
          (\<lparr>am_format = ''lara-nux.managed-assets/v1'', am_target_os = ''ubuntu'', am_generated_at = now,
            am_assets = default_assets paths\<rparr>, w1))"

section \<open>Changing the manifest\<close>

definition has_asset_id :: "string \<Rightarrow> managed_asset \<Rightarrow> bool" where
  "has_asset_id i a \<longleftrightarrow> ma_id a = i"

definition manifest_track :: "managed_asset \<Rightarrow> asset_manifest \<Rightarrow> asset_manifest" where
  "manifest_track a m =
     m\<lparr>am_assets := (if list_ex (has_asset_id (ma_id a)) (am_assets m)
                     then replace_first (has_asset_id (ma_id a)) a (am_assets m) else am_assets m @ [a])\<rparr>"

definition manifest_remove :: "string \<Rightarrow> asset_manifest \<Rightarrow> asset_manifest" where
  "manifest_remove i m = m\<lparr>am_assets := filter (\<lambda>a. ma_id a \<noteq> i) (am_assets m)\<rparr>"

definition rollback_targets :: "asset_manifest \<Rightarrow> managed_asset list" where
  "rollback_targets m =
     filter (\<lambda>a. ma_rollback a = rollback_remove \<or> ma_rollback a = rollback_restore) (am_assets m)"

section \<open>The manifest's file\<close>

definition asset_json :: "managed_asset \<Rightarrow> json" where
  "asset_json a =
     JObj ([(''id'', JStr (ma_id a)), (''kind'', JStr (ma_kind a)), (''path'', JStr (ma_path a)),
            (''owner'', JStr (ma_owner a)), (''group'', JStr (ma_group a))]
           @ omit_empty ''mode'' (ma_mode a) @ [(''rollbackAction'', JStr (ma_rollback a))]
           @ omit_empty ''notes'' (ma_notes a))"

definition asset_of_json :: "json \<Rightarrow> err + managed_asset" where
  "asset_of_json j =
     (case json_members j of
        Inl e \<Rightarrow> Inl e
      | Inr kvs \<Rightarrow>
          (case (str_field [] ''id'' kvs, str_field [] ''kind'' kvs, str_field [] ''path'' kvs,
                 str_field [] ''owner'' kvs) of
             (Inr i, Inr k, Inr p, Inr ow) \<Rightarrow>
               (case (str_field [] ''group'' kvs, str_field [] ''mode'' kvs, str_field [] ''rollbackAction'' kvs,
                      str_field [] ''notes'' kvs) of
                  (Inr g, Inr m, Inr r, Inr n) \<Rightarrow>
                    Inr \<lparr>ma_id = i, ma_kind = k, ma_path = p, ma_owner = ow, ma_group = g, ma_mode = m,
                         ma_rollback = r, ma_notes = n\<rparr>
                | _ \<Rightarrow> Inl wrong_kind)
           | _ \<Rightarrow> Inl wrong_kind))"

definition manifest_json :: "asset_manifest \<Rightarrow> json" where
  "manifest_json m =
     JObj [(''format'', JStr (am_format m)), (''targetOs'', JStr (am_target_os m)),
           (''generatedAt'', JStr (am_generated_at m)), (''assets'', JArr (map asset_json (am_assets m)))]"

definition manifest_of_json :: "json \<Rightarrow> err + asset_manifest" where
  "manifest_of_json j =
     (case json_members j of
        Inl e \<Rightarrow> Inl e
      | Inr kvs \<Rightarrow>
          (case (str_field [] ''format'' kvs, str_field [] ''targetOs'' kvs, time_field ''generatedAt'' kvs,
                 list_field asset_of_json ''assets'' kvs) of
             (Inr f, Inr t, Inr g, Inr xs) \<Rightarrow>
               Inr \<lparr>am_format = f, am_target_os = t, am_generated_at = g, am_assets = xs\<rparr>
           | _ \<Rightarrow> Inl wrong_kind))"

definition manifest_save :: "string \<Rightarrow> asset_manifest \<Rightarrow> world \<Rightarrow> (err + unit) \<times> world" where
  "manifest_save p m w =
     (case os_mkdir_all (path_dir p) mode_0750 w of
        (Inl e, w1) \<Rightarrow> (Inl (wrap_err ''create manifest directory'' e), w1)
      | (Inr _, w1) \<Rightarrow>
      (case os_write_file (tmp_path p) (marshal_indent (manifest_json m)) mode_0640 w1 of
         (Inl e, w2) \<Rightarrow> (Inl (wrap_err ''write managed asset manifest'' e), w2)
       | (Inr _, w2) \<Rightarrow>
       (case os_rename (tmp_path p) p w2 of
          (Inl e, w3) \<Rightarrow> (Inl (wrap_err ''commit managed asset manifest'' e), w3)
        | (Inr _, w3) \<Rightarrow> (Inr (), w3))))"

definition manifest_load :: "string \<Rightarrow> world \<Rightarrow> (err + asset_manifest) \<times> world" where
  "manifest_load p w =
     (case os_read_file p w of
        (Inl e, w1) \<Rightarrow> (Inl (wrap_err ''read managed asset manifest'' e), w1)
      | (Inr payload, w1) \<Rightarrow>
          (case json_parse payload of
             None \<Rightarrow> (Inl (errorf ''decode managed asset manifest: invalid JSON''), w1)
           | Some j \<Rightarrow>
               (case manifest_of_json j of
                  Inl e \<Rightarrow> (Inl (wrap_err ''decode managed asset manifest'' e), w1)
                | Inr m \<Rightarrow> (Inr m, w1))))"

end
