(* ===== verification/Managed_Assets_Correct.thy ===== *)
theory Managed_Assets_Correct
  imports Managed_Assets Quiet_Files Php_Registry_Correct Json_Utf8
begin

text \<open>
  The manifest of managed assets: what is saved is read back, tracking an asset twice keeps one entry, and
  what the default manifest promises to roll back.
\<close>

section \<open>The file\<close>

definition manifest_keys :: "string list" where
  "manifest_keys = [''id'', ''kind'', ''path'', ''owner'', ''group'', ''mode'', ''rollbackAction'', ''notes'',
     ''format'', ''targetOs'', ''generatedAt'', ''assets'']"

lemma manifest_keys_distinct: "distinct (map to_lower manifest_keys)"
  by code_simp

lemmas manifest_fold = fold_names [OF manifest_keys_distinct]

lemma asset_json_roundtrip: "asset_of_json (asset_json a) = Inr a"
  by (simp add: asset_of_json_def asset_json_def json_members_def str_field_def Let_def manifest_fold manifest_keys_def)

lemma manifest_json_roundtrip: "time_ok (am_generated_at m) \<Longrightarrow> manifest_of_json (manifest_json m) = Inr m"
  by (simp add: manifest_of_json_def manifest_json_def json_members_def str_field_def time_field_def list_field_def Let_def
      manifest_fold manifest_keys_def decode_all_map asset_json_roundtrip)

lemma manifest_json_ok: "json_ok (manifest_json m)"
  by (auto simp: manifest_json_def asset_json_def omit_empty_def)

text \<open>C40: the manifest that a start of the daemon has saved is the one an uninstall or a rollback loads: every
  asset with its path, its owner and the action that takes it back, in order. The host's own calls do
  not fail, and the strings of the manifest, paths included, are valid UTF-8: then what is on disk is
  the text Go writes, in which invalid bytes would be replaced.\<close>

theorem manifest_round_trip:
  assumes "manifest_save p m w = (Inr (), w')" and "quiet w" and "time_ok (am_generated_at m)"
    and "json_utf8 (manifest_json m)"
  shows "fst (manifest_load p w') = Inr m
    \<and> file_at w' p = Some (marshal_indent (json_to_utf8 (manifest_json m)))"
proof -
  from assms(1) obtain w1 w2 where 1: "os_mkdir_all (path_dir p) mode_0750 w = (Inr (), w1)"
      and 2: "os_write_file (tmp_path p) (marshal_indent (manifest_json m)) mode_0640 w1 = (Inr (), w2)"
      and 3: "os_rename (tmp_path p) p w2 = (Inr (), w')"
    unfolding manifest_save_def result_iff by auto
  obtain m' where n: "node_at w2 (tmp_path p) = Some (File m' (marshal_indent (manifest_json m)))"
    using os_write_file_settles(2) [of "tmp_path p" "marshal_indent (manifest_json m)" mode_0640 w1] 2 by auto
  have n': "node_at w' p = Some (File m' (marshal_indent (manifest_json m)))"
    using 3 n by (auto simp: os_rename_def Let_def split: option.splits node.splits if_splits)
  have "orc w' = orc w"
    using os_mkdir_all_frame(1) [of "path_dir p" mode_0750 w] os_rename_frame(1) [of "tmp_path p" p w2] 1 3
      os_write_file_frame(1) [of "tmp_path p" "marshal_indent (manifest_json m)" mode_0640 w1] 2 by simp
  then have "os_read_file p w' = (Inr (marshal_indent (manifest_json m)), next_tick w')"
    using n' quiet_fault [OF quiet_orc [OF assms(2)]] by (simp add: os_read_file_def)
  then show ?thesis
    using n' by (simp add: manifest_load_def json_parse_marshal(2) [OF manifest_json_ok] manifest_json_roundtrip [OF assms(3)]
      file_at_def json_to_utf8_id [OF assms(4)])
qed

definition sample_manifest :: asset_manifest where
  "sample_manifest = \<lparr>am_format = ''lara-nux.managed-assets/v1'', am_target_os = ''ubuntu'',
     am_generated_at = ''2024-05-01T10:00:00Z'', am_assets = [asset ''runtime-dir'' ''directory'' ''/run/lara-nux'' ''lara-nux''
       ''0750'' rollback_remove ''Transient runtime directory.'']\<rparr>"

definition manifest_host :: world where
  "manifest_host = sample_world all_succeed [(''/var'', Dir mode_0755), (''/var/lib'', Dir mode_0755), (''/var/lib/lara-nux'', Dir mode_0750)]"

theorem manifest_round_trip_witness:
  "\<exists>w'. manifest_save ''/var/lib/lara-nux/managed-assets.json'' sample_manifest manifest_host = (Inr (), w')
    \<and> fst (manifest_load ''/var/lib/lara-nux/managed-assets.json'' w') = Inr sample_manifest"
proof -
  have "fst (manifest_save ''/var/lib/lara-nux/managed-assets.json'' sample_manifest manifest_host) = Inr ()" by code_simp
  then obtain w' where s: "manifest_save ''/var/lib/lara-nux/managed-assets.json'' sample_manifest manifest_host = (Inr (), w')"
    by (metis prod.collapse)
  have "quiet manifest_host" by (simp add: quiet_def manifest_host_def)
  moreover have "json_utf8 (manifest_json sample_manifest)" by code_simp
  moreover have "time_ok (am_generated_at sample_manifest)" by (simp add: sample_manifest_def sample_clock_ok)
  ultimately show ?thesis using manifest_round_trip [OF s] s by blast
qed

section \<open>Tracking\<close>

lemma manifest_track_once:
  assumes "distinct (map ma_id (am_assets m))"
  shows "distinct (map ma_id (am_assets (manifest_track a m)))"
    "find_by ma_id (ma_id a) (am_assets (manifest_track a m)) = Some a"
proof -
  have h: "has_asset_id (ma_id a) = (\<lambda>x. ma_id x = ma_id a)" by (simp add: has_asset_id_def fun_eq_iff)
  have r: "map ma_id (replace_first (\<lambda>x. ma_id x = ma_id a) a xs) = map ma_id xs" for xs
    by (rule map_replace_first) simp
  show "distinct (map ma_id (am_assets (manifest_track a m)))"
    using assms by (auto simp: manifest_track_def h r list_ex_iff)
  have f: "list_ex (\<lambda>x. ma_id x = ma_id a) xs \<Longrightarrow> find_by ma_id (ma_id a) (replace_first (\<lambda>x. ma_id x = ma_id a) a xs) = Some a" for xs
    by (induction xs) (auto simp: find_by_def)
  have g: "\<not> list_ex (\<lambda>x. ma_id x = ma_id a) xs \<Longrightarrow> find_by ma_id (ma_id a) (xs @ [a]) = Some a" for xs
    by (induction xs) (auto simp: find_by_def)
  show "find_by ma_id (ma_id a) (am_assets (manifest_track a m)) = Some a"
    using f g by (simp add: manifest_track_def h)
qed

lemma manifest_remove_track:
  "\<not> list_ex (has_asset_id (ma_id a)) (am_assets m) \<Longrightarrow> manifest_remove (ma_id a) (manifest_track a m) = m"
  by (auto simp: manifest_remove_def manifest_track_def has_asset_id_def list_ex_iff filter_id_conv)

end
