(* ===== verification/Bootstrap.thy ===== *)
theory Bootstrap
  imports Managed_Assets
begin

text \<open>
  \<^verbatim>\<open>daemon/internal/app/bootstrap_service.go\<close>: the checks before the daemon starts and the directories
  it needs. The environment variables, \<^verbatim>\<open>exec.LookPath\<close>, the effective user and the group database are
  parameters of the service, as they are fields of the Go struct.
\<close>

definition env_or_default :: "(string \<Rightarrow> string) \<Rightarrow> string \<Rightarrow> string \<Rightarrow> string" where
  "env_or_default env key fallback = (if trim_space (env key) \<noteq> [] then trim_space (env key) else fallback)"

definition load_paths :: "(string \<Rightarrow> string) \<Rightarrow> app_paths" where
  "load_paths env =
     (let config = env_or_default env ''LARA_NUXT_CONFIG_DIR'' ''/etc/lara-nux'';
          state = env_or_default env ''LARA_NUXT_STATE_DIR'' ''/var/lib/lara-nux'';
          runtime = env_or_default env ''LARA_NUXT_RUNTIME_DIR'' ''/run/lara-nux''
      in \<lparr>ap_config_dir = config, ap_state_dir = state, ap_runtime_dir = runtime,
          ap_socket_path = env_or_default env ''LARA_NUXT_SOCKET_PATH'' (path_join [runtime, ''lara-nux.sock'']),
          ap_managed_assets_path = env_or_default env ''LARA_NUXT_MANAGED_ASSETS_PATH''
            (path_join [state, ''managed-assets.json''])\<rparr>)"

record bootstrap_service =
  bs_paths :: app_paths
  bs_os_release :: string
  bs_look_path :: "string \<Rightarrow> bool"
  bs_euid :: nat
  bs_group_exists :: "string \<Rightarrow> bool"

record ubuntu_release =
  ur_id :: string
  ur_version_id :: string
  ur_codename :: string
  ur_pretty_name :: string

record preflight_check =
  pc_name :: string
  pc_passed :: bool
  pc_summary :: string
  pc_remediation :: string

record bootstrap_report =
  br_host :: ubuntu_release
  br_paths :: app_paths
  br_checks :: "preflight_check list"
  br_manifest :: asset_manifest

definition zero_release :: ubuntu_release where
  "zero_release = \<lparr>ur_id = [], ur_version_id = [], ur_codename = [], ur_pretty_name = []\<rparr>"

section \<open>The report\<close>

definition add_check :: "string \<Rightarrow> bool \<Rightarrow> string \<Rightarrow> string \<Rightarrow> bootstrap_report \<Rightarrow> bootstrap_report" where
  "add_check name passed success remediation r =
     r\<lparr>br_checks := br_checks r @ [\<lparr>pc_name = name, pc_passed = passed,
         pc_summary = (if passed then success else remediation), pc_remediation = remediation\<rparr>]\<rparr>"

definition has_failures :: "bootstrap_report \<Rightarrow> bool" where
  "has_failures r \<longleftrightarrow> list_ex (\<lambda>c. \<not> pc_passed c) (br_checks r)"

definition report_error :: "bootstrap_report \<Rightarrow> err option" where
  "report_error r =
     (let failures = map (\<lambda>c. pc_name c @ '': '' @ pc_summary c) (filter (\<lambda>c. \<not> pc_passed c) (br_checks r))
      in if failures = [] then None else Some (errorf (join_with ''; '' failures)))"

definition report_error_or :: "err \<Rightarrow> bootstrap_report \<Rightarrow> err" where
  "report_error_or fallback r = (case report_error r of Some e \<Rightarrow> e | None \<Rightarrow> fallback)"

section \<open>The release\<close>

definition supported_ubuntu_release :: "string \<Rightarrow> bool" where
  "supported_ubuntu_release v \<longleftrightarrow> v = ''22.04'' \<or> v = ''24.04''"

text \<open>The assignments of the file, in order; in a Go map the last one of a key stays.\<close>

fun os_assignments :: "string list \<Rightarrow> (string \<times> string) list" where
  "os_assignments [] = []"
| "os_assignments (raw # ls) =
     (let line = trim_space raw
      in if line = [] \<or> has_prefix line ''#'' then os_assignments ls
         else (case cut_at CHR ''='' line of
                 (key, v, found) \<Rightarrow>
                   (if found then (key, trim_char CHR 0x22 v) # os_assignments ls else os_assignments ls)))"

definition os_value :: "(string \<times> string) list \<Rightarrow> string \<Rightarrow> string" where
  "os_value kvs key = (case map_of (rev kvs) key of None \<Rightarrow> [] | Some v \<Rightarrow> v)"

definition parse_os_release :: "string \<Rightarrow> ubuntu_release" where
  "parse_os_release content =
     (let kvs = os_assignments (split_on CHR 0x0A content)
      in \<lparr>ur_id = os_value kvs ''ID'', ur_version_id = os_value kvs ''VERSION_ID'',
          ur_codename = os_value kvs ''VERSION_CODENAME'', ur_pretty_name = os_value kvs ''PRETTY_NAME''\<rparr>)"

definition read_os_release :: "string \<Rightarrow> world \<Rightarrow> (err + ubuntu_release) \<times> world" where
  "read_os_release p w =
     (case os_read_file p w of
        (Inl e, w1) \<Rightarrow> (Inl e, w1)
      | (Inr content, w1) \<Rightarrow> (Inr (parse_os_release content), w1))"

section \<open>Preflight\<close>

definition add_dependency :: "bootstrap_service \<Rightarrow> string \<Rightarrow> bootstrap_report \<Rightarrow> bootstrap_report" where
  "add_dependency s dependency r =
     add_check (''dependency-'' @ dependency) (bs_look_path s dependency)
       (''Required host dependency '' @ dependency @ '' is available.'')
       (''Install or restore the Ubuntu system package that provides '' @ dependency @ '' before bootstrapping Lara Nux.'') r"

definition preflight_checks :: "bootstrap_service \<Rightarrow> ubuntu_release \<Rightarrow> bootstrap_report \<Rightarrow> bootstrap_report" where
  "preflight_checks s release r0 =
     (let r1 = r0\<lparr>br_host := release\<rparr>;
          r2 = add_check ''ubuntu-host'' (ur_id release = ''ubuntu'')
                 (''Detected host '' @ ur_id release @ '' '' @ ur_version_id release @ ''.'')
                 ''Run Lara Nux only on supported Ubuntu LTS releases.'' r1;
          r3 = add_check ''ubuntu-release'' (supported_ubuntu_release (ur_version_id release))
                 (''Ubuntu release '' @ ur_version_id release @ '' is within the supported matrix.'')
                 ''Use Ubuntu 22.04 or 24.04 for v1 support.'' r2;
          r4 = add_check ''privileges'' (bs_euid s = 0)
                 ''Daemon has the privileges required for system bootstrap.''
                 ''Install and run the daemon through a privileged systemd unit or elevated installer helper.'' r3;
          r5 = add_check ''daemon-group'' (bs_group_exists s ''lara-nux'')
                 ''The lara-nux operator group exists for socket access control.''
                 ''Create the lara-nux system group before starting the daemon so client access can be mediated through Unix socket permissions.'' r4;
          r6 = add_dependency s ''resolvectl'' (add_dependency s ''systemctl'' r5)
      in add_check ''rollback-manifest'' (rollback_targets (br_manifest r6) \<noteq> [])
           ''Managed rollback assets are declared for daemon-owned host changes.''
           ''Keep the managed-asset manifest populated before shipping installer mutations.'' r6)"

definition preflight :: "bootstrap_service \<Rightarrow> world \<Rightarrow> (bootstrap_report \<times> err option) \<times> world" where
  "preflight s w =
     (case default_manifest (bs_paths s) w of
        (manifest, w1) \<Rightarrow>
        (let r0 = \<lparr>br_host = zero_release, br_paths = bs_paths s, br_checks = [], br_manifest = manifest\<rparr>
         in (case ctx_err w1 of
               (Some e, w2) \<Rightarrow> ((r0, Some e), w2)
             | (None, w2) \<Rightarrow>
                 (case read_os_release (bs_os_release s) w2 of
                    (Inl e, w3) \<Rightarrow>
                      (let r = add_check ''os-release'' False ''Unable to read Ubuntu release metadata.''
                                 ''Ensure /etc/os-release exists and the daemon runs on a supported Ubuntu host.'' r0
                       in ((r, Some (wrap_err ''bootstrap preflight failed'' (report_error_or e r))), w3))
                  | (Inr release, w3) \<Rightarrow>
                      (let r = preflight_checks s release r0
                       in if has_failures r
                          then ((r, Some (wrap_err ''bootstrap preflight failed''
                                  (case report_error r of Some e \<Rightarrow> e | None \<Rightarrow> errorf ''%!w(<nil>)''))), w3)
                          else ((r, None), w3))))))"

fun make_all_dirs :: "string list \<Rightarrow> world \<Rightarrow> (err + unit) \<times> world" where
  "make_all_dirs [] w = (Inr (), w)"
| "make_all_dirs (d # ds) w =
     (case os_mkdir_all d mode_0750 w of
        (Inl e, w1) \<Rightarrow> (Inl (wrap_err (''create bootstrap directory '' @ d) e), w1)
      | (Inr _, w1) \<Rightarrow> make_all_dirs ds w1)"

definition prepare_filesystem :: "bootstrap_service \<Rightarrow> world \<Rightarrow> (err + unit) \<times> world" where
  "prepare_filesystem s w =
     make_all_dirs [ap_config_dir (bs_paths s), ap_state_dir (bs_paths s), ap_runtime_dir (bs_paths s)] w"

end
