(* ===== verification/Json_Stream.thy ===== *)
theory Json_Stream
  imports Json
begin

text \<open>
  \<^verbatim>\<open>json.Decoder.Decode\<close>: the first value of a stream; what follows it is not looked at. The tokens
  up to the first malformed byte are enough for that.
\<close>

function json_lex_prefix :: "string \<Rightarrow> tok list" where
  "json_lex_prefix [] = []"
| "json_lex_prefix (c # s) =
     (if json_space c then json_lex_prefix s
      else case punctuation c of
        Some t \<Rightarrow> t # json_lex_prefix s
      | None \<Rightarrow>
          (if c = quote_mark then
             (case scan_string s of None \<Rightarrow> [] | Some (x, r) \<Rightarrow> TStr x # json_lex_prefix r)
           else (case word_tok (c # s) of None \<Rightarrow> [] | Some (t, r) \<Rightarrow> t # json_lex_prefix r)))"
  by pat_completeness auto
termination
  by (relation "measure length") (auto dest: scan_string_length word_tok_length)

definition json_first :: "string \<Rightarrow> json option" where
  "json_first s =
     (let ts = json_lex_prefix s in map_option fst (parse_value (Suc (length ts)) ts))"

lemma json_lex_prefix_lex: "json_lex s = Some ts \<Longrightarrow> json_lex_prefix s = ts"
proof (induction s arbitrary: ts rule: json_lex_prefix.induct)
  case (2 c s)
  show ?case
    using "2.prems" "2.IH" by (auto split: if_splits option.splits)
qed simp

lemma json_lex_print: "json_ok j \<Longrightarrow> json_lex (marshal j @ nl) = Some (tokens j)" "json_ok j \<Longrightarrow> json_lex (marshal j) = Some (tokens j)"
proof -
  assume j: "json_ok j"
  have "value_end nl" "json_lex nl = Some []" by (simp_all add: value_end_def nl_def num_char_def is_digit_def json_space_def)
  then show "json_lex (marshal j @ nl) = Some (tokens j)" using lex_json_text [OF j, of None] by (simp add: marshal_def)
  have "value_end []" by (simp add: value_end_def)
  then have "json_lex (marshal j @ []) = map_option (append (tokens j)) (json_lex [])"
    using lex_json_text [OF j, of None] unfolding marshal_def by blast
  then show "json_lex (marshal j) = Some (tokens j)" by simp
qed

lemma json_first_marshal: "json_ok j \<Longrightarrow> json_first (marshal j) = Some j"
  using parse_tokens [of j "Suc (length (tokens j))" "[]"]
  by (simp add: json_first_def Let_def json_lex_prefix_lex [OF json_lex_print(2)])

text \<open>\<^verbatim>\<open>Encoder.Encode\<close> ends the value with a line break, which \<^verbatim>\<open>Unmarshal\<close> skips.\<close>

lemma json_parse_line: "json_ok j \<Longrightarrow> json_parse (marshal j @ nl) = Some j"
  using parse_tokens [of j "Suc (length (tokens j))" "[]"]
  by (simp add: json_parse_def json_lex_print)

end
