(* ===== verification/Rpc_Json.thy ===== *)
theory Rpc_Json
  imports Runtime_Services Health_Service Php_Manager
begin

text \<open>
  The JSON the daemon and the desktop client exchange: how the daemon prints its structs
  (\<^verbatim>\<open>daemon/internal/host/manager.go\<close> and the structs of \<^verbatim>\<open>daemon/internal/app\<close>, by their tags) and how
  the client reads them into those of \<^verbatim>\<open>client/wails/bridge/contracts.go\<close>. The two sides declare their
  structs separately; each pair is one record here, printed with the daemon's tags and read with the
  client's. A key that occurs twice is read as the last occurrence.
\<close>

section \<open>Reading fields\<close>

definition ap :: "(err + ('a \<Rightarrow> 'b)) \<Rightarrow> (err + 'a) \<Rightarrow> (err + 'b)" where
  "ap f x = (case f of Inl e \<Rightarrow> Inl e | Inr g \<Rightarrow> (case x of Inl e \<Rightarrow> Inl e | Inr v \<Rightarrow> Inr (g v)))"

lemma ap_Inr [simp]: "ap (Inr g) (Inr v) = Inr (g v)"
  by (simp add: ap_def)

fun is_bool :: "json \<Rightarrow> bool" where
  "is_bool (JBool b) = True"
| "is_bool _ = False"

fun bool_of :: "json \<Rightarrow> bool" where
  "bool_of (JBool b) = b"
| "bool_of _ = False"

definition bool_field :: "string \<Rightarrow> (string \<times> json) list \<Rightarrow> err + bool" where
  "bool_field name kvs =
     (let vs = field_values name kvs
      in if list_all is_bool vs then Inr (if vs = [] then False else bool_of (last vs)) else Inl wrong_kind)"

definition obj_field :: "(json \<Rightarrow> err + 'a) \<Rightarrow> 'a \<Rightarrow> string \<Rightarrow> (string \<times> json) list \<Rightarrow> err + 'a" where
  "obj_field dec zero name kvs =
     (let vs = field_values name kvs in if vs = [] then Inr zero else dec (last vs))"

definition ptr_field :: "(json \<Rightarrow> err + 'a) \<Rightarrow> string \<Rightarrow> (string \<times> json) list \<Rightarrow> err + 'a option" where
  "ptr_field dec name kvs =
     (let vs = field_values name kvs in if vs = [] then Inr None else ap (Inr Some) (dec (last vs)))"

definition str_value :: "json \<Rightarrow> err + string" where
  "str_value j = (case j of JStr s \<Rightarrow> Inr s | JNull \<Rightarrow> Inr [] | _ \<Rightarrow> Inl wrong_kind)"

abbreviation members_then :: "json \<Rightarrow> ((string \<times> json) list \<Rightarrow> err + 'a) \<Rightarrow> err + 'a" where
  "members_then j f \<equiv> (case json_members j of Inl e \<Rightarrow> Inl e | Inr kvs \<Rightarrow> f kvs)"

lemmas field_defs = json_members_def str_field_def time_field_def bool_field_def obj_field_def ptr_field_def
  list_field_def Let_def str_value_def

section \<open>The resolver\<close>

definition conflict_json :: "conflict \<Rightarrow> json" where
  "conflict_json c =
     JObj ([(''resource'', JStr (cf_resource c))] @ omit_empty ''owner'' (cf_owner c)
           @ [(''summary'', JStr (cf_summary c))] @ omit_empty ''remediation'' (cf_remediation c))"

definition conflict_of_json :: "json \<Rightarrow> err + conflict" where
  "conflict_of_json j = members_then j (\<lambda>kvs.
     ap (ap (ap (ap (Inr conflict.make) (str_field [] ''resource'' kvs)) (str_field [] ''owner'' kvs))
       (str_field [] ''summary'' kvs)) (str_field [] ''remediation'' kvs))"

definition resolver_json :: "resolver_status \<Rightarrow> json" where
  "resolver_json r =
     JObj ([(''managed'', JBool (rs_managed r)), (''stubPath'', JStr (rs_stub_path r)),
            (''domain'', JStr (rs_domain r)), (''address'', JStr (rs_address r)), (''owner'', JStr (rs_owner r))]
           @ (if rs_conflicts r = [] then [] else [(''conflicts'', JArr (map conflict_json (rs_conflicts r)))])
           @ [(''summary'', JStr (rs_summary r))] @ omit_empty ''remediation'' (rs_remediation r))"

definition resolver_of_json :: "json \<Rightarrow> err + resolver_status" where
  "resolver_of_json j = members_then j (\<lambda>kvs.
     ap (ap (ap (ap (ap (ap (ap (ap (Inr resolver_status.make) (bool_field ''managed'' kvs)) (str_field [] ''stubPath'' kvs))
       (str_field [] ''domain'' kvs)) (str_field [] ''address'' kvs)) (str_field [] ''owner'' kvs))
       (list_field conflict_of_json ''conflicts'' kvs)) (str_field [] ''summary'' kvs)) (str_field [] ''remediation'' kvs))"

section \<open>Services, packages and runtimes\<close>

text \<open>The client keeps the state as a string.\<close>

record wire_status =
  wv_service :: string
  wv_state :: string
  wv_summary :: string
  wv_updated_at :: gotime

definition wire_status_of :: "service_status \<Rightarrow> wire_status" where
  "wire_status_of s =
     \<lparr>wv_service = st_service s, wv_state = service_state_text (st_state s), wv_summary = st_summary s,
      wv_updated_at = st_updated_at s\<rparr>"

definition service_status_json :: "service_status \<Rightarrow> json" where
  "service_status_json s =
     JObj [(''service'', JStr (st_service s)), (''state'', JStr (service_state_text (st_state s))),
           (''summary'', JStr (st_summary s)), (''updatedAt'', JStr (st_updated_at s))]"

definition wire_status_of_json :: "json \<Rightarrow> err + wire_status" where
  "wire_status_of_json j = members_then j (\<lambda>kvs.
     ap (ap (ap (ap (Inr wire_status.make) (str_field [] ''service'' kvs)) (str_field [] ''state'' kvs))
       (str_field [] ''summary'' kvs)) (time_field ''updatedAt'' kvs))"

definition package_json :: "supported_package \<Rightarrow> json" where
  "package_json p =
     JObj ([(''key'', JStr (sk_key p)), (''description'', JStr (sk_description p))]
           @ omit_empty ''runtimeVersion'' (sk_runtime_version p) @ [(''packages'', JArr (map JStr (sk_packages p)))])"

definition package_of_json :: "json \<Rightarrow> err + supported_package" where
  "package_of_json j = members_then j (\<lambda>kvs.
     ap (ap (ap (ap (Inr supported_package.make) (str_field [] ''key'' kvs)) (str_field [] ''description'' kvs))
       (str_field [] ''runtimeVersion'' kvs)) (list_field str_value ''packages'' kvs))"

definition detected_json :: "php_runtime \<Rightarrow> json" where
  "detected_json r =
     JObj ([(''version'', JStr (pr_version r))] @ omit_empty ''binaryPath'' (pr_binary_path r)
           @ omit_empty ''fpmBinaryPath'' (pr_fpm_binary_path r) @ omit_empty ''serviceName'' (pr_service_name r)
           @ omit_empty ''socketPath'' (pr_socket_path r))"

definition detected_of_json :: "json \<Rightarrow> err + php_runtime" where
  "detected_of_json j = members_then j (\<lambda>kvs.
     ap (ap (ap (ap (ap (Inr php_runtime.make) (str_field [] ''version'' kvs)) (str_field [] ''binaryPath'' kvs))
       (str_field [] ''fpmBinaryPath'' kvs)) (str_field [] ''serviceName'' kvs)) (str_field [] ''socketPath'' kvs))"

definition materialization_json :: "php_materialization \<Rightarrow> json" where
  "materialization_json m =
     JObj [(''version'', JStr (pm_version m)), (''serviceName'', JStr (pm_service_name m)),
           (''socketPath'', JStr (pm_socket_path m)), (''poolConfigPath'', JStr (pm_pool_config_path m)),
           (''overridePath'', JStr (pm_override_path m)), (''active'', JBool (pm_active m))]"

definition materialization_of_json :: "json \<Rightarrow> err + php_materialization" where
  "materialization_of_json j = members_then j (\<lambda>kvs.
     ap (ap (ap (ap (ap (ap (Inr php_materialization.make) (str_field [] ''version'' kvs)) (str_field [] ''serviceName'' kvs))
       (str_field [] ''socketPath'' kvs)) (str_field [] ''poolConfigPath'' kvs)) (str_field [] ''overridePath'' kvs))
       (bool_field ''active'' kvs))"

definition web_json :: "web_activation_result \<Rightarrow> json" where
  "web_json r =
     JObj [(''configPath'', JStr (wr_config_path r)), (''validated'', JBool (wr_validated r)),
           (''reloaded'', JBool (wr_reloaded r)), (''httpUrl'', JStr (wr_http_url r)), (''httpsUrl'', JStr (wr_https_url r))]"

definition web_of_json :: "json \<Rightarrow> err + web_activation_result" where
  "web_of_json j = members_then j (\<lambda>kvs.
     ap (ap (ap (ap (ap (Inr web_activation_result.make) (str_field [] ''configPath'' kvs)) (bool_field ''validated'' kvs))
       (bool_field ''reloaded'' kvs)) (str_field [] ''httpUrl'' kvs)) (str_field [] ''httpsUrl'' kvs))"

section \<open>Answers\<close>

definition activation_json :: "activation_result \<Rightarrow> json" where
  "activation_json r =
     JObj [(''site'', site_json (ar_site r)), (''resolver'', resolver_json (ar_resolver r)),
           (''runtime'', runtime_json (ar_runtime r)), (''materialization'', materialization_json (ar_materialization r)),
           (''web'', web_json (ar_web r)), (''services'', JArr (map service_status_json (ar_services r))),
           (''activatedAt'', JStr (ar_activated_at r))]"

record wire_activation =
  wc_site :: site_record
  wc_resolver :: resolver_status
  wc_runtime :: php_runtime_record
  wc_materialization :: php_materialization
  wc_web :: web_activation_result
  wc_services :: "wire_status list"
  wc_activated_at :: gotime

definition wire_activation_of :: "activation_result \<Rightarrow> wire_activation" where
  "wire_activation_of r =
     \<lparr>wc_site = ar_site r, wc_resolver = ar_resolver r, wc_runtime = ar_runtime r,
      wc_materialization = ar_materialization r, wc_web = ar_web r,
      wc_services = map wire_status_of (ar_services r), wc_activated_at = ar_activated_at r\<rparr>"

definition zero_site :: site_record where
  "zero_site = \<lparr>si_id = [], si_name = [], si_root_path = [], si_domain = [], si_php_version = [], si_tls = [],
     si_status = [], si_status_message = [], si_created_at = zero_time, si_updated_at = zero_time,
     si_last_checked_at = zero_time\<rparr>"

definition zero_runtime :: php_runtime_record where
  "zero_runtime = \<lparr>rr_version = [], rr_binary_path = [], rr_fpm_service = [], rr_source = [], rr_registered_at = zero_time\<rparr>"

definition wire_activation_of_json :: "json \<Rightarrow> err + wire_activation" where
  "wire_activation_of_json j = members_then j (\<lambda>kvs.
     ap (ap (ap (ap (ap (ap (ap (Inr wire_activation.make) (obj_field site_of_json zero_site ''site'' kvs))
       (obj_field resolver_of_json zero_resolver_status ''resolver'' kvs))
       (obj_field runtime_of_json zero_runtime ''runtime'' kvs))
       (obj_field materialization_of_json zero_materialization ''materialization'' kvs))
       (obj_field web_of_json zero_web_result ''web'' kvs)) (list_field wire_status_of_json ''services'' kvs))
       (time_field ''activatedAt'' kvs))"

definition onboarding_json :: "runtime_registration_result \<Rightarrow> json" where
  "onboarding_json r =
     JObj ([(''runtime'', runtime_json (rx_runtime r))]
           @ (case rx_materialization r of None \<Rightarrow> [] | Some m \<Rightarrow> [(''materialization'', materialization_json m)])
           @ omit_empty ''installedFrom'' (rx_installed_from r) @ [(''refreshed'', JBool (rx_refreshed r))])"

text \<open>A nil slice is printed as null: the registered runtimes are copied onto one, so none is null.\<close>

definition slice_json :: "json list \<Rightarrow> json" where
  "slice_json js = (if js = [] then JNull else JArr js)"

definition catalog_json :: "runtime_catalog \<Rightarrow> json" where
  "catalog_json c =
     JObj ([(''registered'', slice_json (map runtime_json (rg_registered c)))]
           @ (case rg_default c of None \<Rightarrow> [] | Some r \<Rightarrow> [(''defaultRuntime'', runtime_json r)])
           @ [(''supportedPackages'', JArr (map package_json (rg_supported c))),
              (''detectedRuntimes'', JArr (map detected_json (rg_detected c)))])"

definition catalog_of_json :: "json \<Rightarrow> err + runtime_catalog" where
  "catalog_of_json j = members_then j (\<lambda>kvs.
     ap (ap (ap (ap (Inr runtime_catalog.make) (list_field runtime_of_json ''registered'' kvs))
       (ptr_field runtime_of_json ''defaultRuntime'' kvs)) (list_field package_of_json ''supportedPackages'' kvs))
       (list_field detected_of_json ''detectedRuntimes'' kvs))"

definition default_runtime_json :: "php_runtime_record option \<Rightarrow> json" where
  "default_runtime_json r = JObj [(''runtime'', case r of None \<Rightarrow> JNull | Some x \<Rightarrow> runtime_json x)]"

definition default_runtime_of_json :: "json \<Rightarrow> err + php_runtime_record option" where
  "default_runtime_of_json j = members_then j (\<lambda>kvs. ptr_field runtime_of_json ''runtime'' kvs)"

section \<open>Health\<close>

definition socket_json :: "socket_availability \<Rightarrow> json" where
  "socket_json s = JObj [(''path'', JStr (sk_path s)), (''available'', JBool (sk_available s)), (''summary'', JStr (sk_summary s))]"

definition socket_of_json :: "json \<Rightarrow> err + socket_availability" where
  "socket_of_json j = members_then j (\<lambda>kvs.
     ap (ap (ap (Inr socket_availability.make) (str_field [] ''path'' kvs)) (bool_field ''available'' kvs))
       (str_field [] ''summary'' kvs))"

definition check_json :: "health_check \<Rightarrow> json" where
  "check_json c =
     JObj ([(''name'', JStr (hc_name c)), (''capability'', JStr (hc_capability c)), (''passed'', JBool (hc_passed c)),
            (''summary'', JStr (hc_summary c))] @ omit_empty ''remediation'' (hc_remediation c))"

definition check_of_json :: "json \<Rightarrow> err + health_check" where
  "check_of_json j = members_then j (\<lambda>kvs.
     ap (ap (ap (ap (ap (Inr health_check.make) (str_field [] ''name'' kvs)) (str_field [] ''capability'' kvs))
       (bool_field ''passed'' kvs)) (str_field [] ''summary'' kvs)) (str_field [] ''remediation'' kvs))"

record wire_readiness =
  wq_site :: site_record
  wq_ready :: bool
  wq_summary :: string
  wq_checks :: "health_check list"
  wq_php_service :: wire_status
  wq_checked_at :: gotime

definition wire_readiness_of :: "site_readiness \<Rightarrow> wire_readiness" where
  "wire_readiness_of r =
     \<lparr>wq_site = sd_site r, wq_ready = sd_ready r, wq_summary = sd_summary r, wq_checks = sd_checks r,
      wq_php_service = wire_status_of (sd_php_service r), wq_checked_at = sd_checked_at r\<rparr>"

definition readiness_json :: "site_readiness \<Rightarrow> json" where
  "readiness_json r =
     JObj [(''site'', site_json (sd_site r)), (''ready'', JBool (sd_ready r)), (''summary'', JStr (sd_summary r)),
           (''checks'', JArr (map check_json (sd_checks r))), (''phpService'', service_status_json (sd_php_service r)),
           (''checkedAt'', JStr (sd_checked_at r))]"

definition wire_readiness_of_json :: "json \<Rightarrow> err + wire_readiness" where
  "wire_readiness_of_json j = members_then j (\<lambda>kvs.
     ap (ap (ap (ap (ap (ap (Inr wire_readiness.make) (obj_field site_of_json zero_site ''site'' kvs)) (bool_field ''ready'' kvs))
       (str_field [] ''summary'' kvs)) (list_field check_of_json ''checks'' kvs))
       (obj_field wire_status_of_json (wire_status_of zero_status) ''phpService'' kvs)) (time_field ''checkedAt'' kvs))"

record wire_health =
  wh_ready :: bool
  wh_generated_at :: gotime
  wh_socket :: socket_availability
  wh_resolver :: "resolver_status option"
  wh_checks :: "health_check list"
  wh_services :: "wire_status list"
  wh_sites :: "wire_readiness list"

definition wire_health_of :: "health_report \<Rightarrow> wire_health" where
  "wire_health_of r =
     \<lparr>wh_ready = hr_ready r, wh_generated_at = hr_generated_at r, wh_socket = hr_socket r, wh_resolver = hr_resolver r,
      wh_checks = hr_checks r, wh_services = map wire_status_of (hr_services r),
      wh_sites = map wire_readiness_of (hr_sites r)\<rparr>"

definition health_json :: "health_report \<Rightarrow> json" where
  "health_json r =
     JObj ([(''ready'', JBool (hr_ready r)), (''generatedAt'', JStr (hr_generated_at r)), (''socket'', socket_json (hr_socket r))]
           @ (case hr_resolver r of None \<Rightarrow> [] | Some st \<Rightarrow> [(''resolver'', resolver_json st)])
           @ [(''checks'', JArr (map check_json (hr_checks r))),
              (''services'', slice_json (map service_status_json (hr_services r))),
              (''sites'', JArr (map readiness_json (hr_sites r)))])"

definition zero_socket :: socket_availability where
  "zero_socket = \<lparr>sk_path = [], sk_available = False, sk_summary = []\<rparr>"

definition wire_health_of_json :: "json \<Rightarrow> err + wire_health" where
  "wire_health_of_json j = members_then j (\<lambda>kvs.
     ap (ap (ap (ap (ap (ap (ap (Inr wire_health.make) (bool_field ''ready'' kvs)) (time_field ''generatedAt'' kvs))
       (obj_field socket_of_json zero_socket ''socket'' kvs)) (ptr_field resolver_of_json ''resolver'' kvs))
       (list_field check_of_json ''checks'' kvs)) (list_field wire_status_of_json ''services'' kvs))
       (list_field wire_readiness_of_json ''sites'' kvs))"

end
