(* ===== verification/Rpc_Wire.thy ===== *)
theory Rpc_Wire
  imports Rpc_Json
begin

text \<open>
  What the daemon prints the client reads back: for every struct the printer of one side and the
  reader of the other agree, field by field. Times are in the form the daemon's clock gives them.
\<close>

section \<open>Field names\<close>

text \<open>The names of each struct differ even without regard to case.\<close>

definition conflict_keys :: "string list" where
  "conflict_keys = [''resource'', ''owner'', ''summary'', ''remediation'']"

definition resolver_keys :: "string list" where
  "resolver_keys = [''managed'', ''stubPath'', ''domain'', ''address'', ''owner'', ''conflicts'', ''summary'', ''remediation'']"

definition status_keys :: "string list" where
  "status_keys = [''service'', ''state'', ''summary'', ''updatedAt'']"

definition package_keys :: "string list" where
  "package_keys = [''key'', ''description'', ''runtimeVersion'', ''packages'']"

definition runtime_names :: "string list" where
  "runtime_names = [''version'', ''binaryPath'', ''fpmBinaryPath'', ''serviceName'', ''socketPath'', ''poolConfigPath'',
     ''overridePath'', ''active'']"

definition web_keys :: "string list" where
  "web_keys = [''configPath'', ''validated'', ''reloaded'', ''httpUrl'', ''httpsUrl'']"

definition answer_keys :: "string list" where
  "answer_keys = [''site'', ''resolver'', ''runtime'', ''materialization'', ''web'', ''services'', ''activatedAt'']"

definition catalog_keys :: "string list" where
  "catalog_keys = [''registered'', ''defaultRuntime'', ''supportedPackages'', ''detectedRuntimes'']"

definition check_keys :: "string list" where
  "check_keys = [''path'', ''available'', ''name'', ''capability'', ''passed'', ''summary'', ''remediation'']"

definition health_keys :: "string list" where
  "health_keys = [''site'', ''ready'', ''summary'', ''checks'', ''phpService'', ''checkedAt'', ''generatedAt'', ''socket'',
     ''resolver'', ''services'', ''sites'']"

lemma keys_distinct:
  "distinct (map to_lower conflict_keys)" "distinct (map to_lower resolver_keys)" "distinct (map to_lower status_keys)"
  "distinct (map to_lower package_keys)" "distinct (map to_lower runtime_names)" "distinct (map to_lower web_keys)"
  "distinct (map to_lower answer_keys)" "distinct (map to_lower catalog_keys)" "distinct (map to_lower check_keys)"
  "distinct (map to_lower health_keys)"
  by code_simp+

lemmas key_folds = keys_distinct [THEN fold_names]

section \<open>The structs\<close>

lemma decode_all_to: "(\<And>x. x \<in> set xs \<Longrightarrow> dec (enc x) = Inr (f x)) \<Longrightarrow> decode_all dec (map enc xs) = Inr (map f xs)"
  by (induction xs) simp_all

lemma strings_wire: "decode_all str_value (map JStr xs) = Inr xs"
  by (rule decode_all_map) (simp add: str_value_def)

lemma conflict_wire: "conflict_of_json (conflict_json c) = Inr c"
  by (simp add: conflict_of_json_def conflict_json_def field_defs key_folds(1) conflict_keys_def conflict.make_def)

lemma resolver_wire: "resolver_of_json (resolver_json r) = Inr r"
  by (simp add: resolver_of_json_def resolver_json_def field_defs key_folds(2) resolver_keys_def resolver_status.make_def
      decode_all_map conflict_wire)

lemma status_wire: "time_ok (st_updated_at s) \<Longrightarrow> wire_status_of_json (service_status_json s) = Inr (wire_status_of s)"
  by (simp add: wire_status_of_json_def service_status_json_def field_defs key_folds(3) status_keys_def
      wire_status.make_def wire_status_of_def)

lemma package_wire: "package_of_json (package_json p) = Inr p"
  by (simp add: package_of_json_def package_json_def field_defs(1-7) key_folds(4) package_keys_def supported_package.make_def
      strings_wire)

lemma detected_wire: "detected_of_json (detected_json r) = Inr r"
  by (simp add: detected_of_json_def detected_json_def field_defs key_folds(5) runtime_names_def php_runtime.make_def)

lemma materialization_wire: "materialization_of_json (materialization_json m) = Inr m"
  by (simp add: materialization_of_json_def materialization_json_def field_defs key_folds(5) runtime_names_def
      php_materialization.make_def)

lemma web_wire: "web_of_json (web_json r) = Inr r"
  by (simp add: web_of_json_def web_json_def field_defs key_folds(6) web_keys_def web_activation_result.make_def)

lemma socket_wire: "socket_of_json (socket_json s) = Inr s"
  by (simp add: socket_of_json_def socket_json_def field_defs key_folds(9) check_keys_def socket_availability.make_def)

lemma check_wire: "check_of_json (check_json c) = Inr c"
  by (simp add: check_of_json_def check_json_def field_defs key_folds(9) check_keys_def health_check.make_def)

section \<open>The answers\<close>

definition activation_times_ok :: "activation_result \<Rightarrow> bool" where
  "activation_times_ok r \<longleftrightarrow> site_times_ok (ar_site r) \<and> time_ok (rr_registered_at (ar_runtime r))
     \<and> (\<forall>s \<in> set (ar_services r). time_ok (st_updated_at s)) \<and> time_ok (ar_activated_at r)"

lemma json_not_null [simp]:
  "site_json s \<noteq> JNull" "runtime_json r \<noteq> JNull" "resolver_json v \<noteq> JNull" "materialization_json m \<noteq> JNull"
  "web_json x \<noteq> JNull" "service_status_json t \<noteq> JNull" "socket_json k \<noteq> JNull"
  by (simp_all add: site_json_def runtime_json_def resolver_json_def materialization_json_def web_json_def
      service_status_json_def socket_json_def)

lemma activation_wire:
  "activation_times_ok r \<Longrightarrow> wire_activation_of_json (activation_json r) = Inr (wire_activation_of r)"
  by (simp add: wire_activation_of_json_def activation_json_def field_defs key_folds(7) answer_keys_def
      wire_activation.make_def wire_activation_of_def activation_times_ok_def site_json_roundtrip runtime_json_roundtrip
      resolver_wire materialization_wire web_wire decode_all_to [where f = wire_status_of] status_wire)

lemma slice_field:
  "field_values n (((k, slice_json js) # kvs)) =
     (if equal_fold k n \<and> js \<noteq> [] then JArr js # field_values n kvs else field_values n kvs)"
  by (simp add: slice_json_def)

definition catalog_times_ok :: "runtime_catalog \<Rightarrow> bool" where
  "catalog_times_ok c \<longleftrightarrow> (\<forall>r \<in> set (rg_registered c). time_ok (rr_registered_at r))
     \<and> (case rg_default c of None \<Rightarrow> True | Some r \<Rightarrow> time_ok (rr_registered_at r))"

lemma catalog_wire: "catalog_times_ok c \<Longrightarrow> catalog_of_json (catalog_json c) = Inr c"
  by (simp add: catalog_of_json_def catalog_json_def field_defs(1-7) key_folds(8) catalog_keys_def runtime_catalog.make_def
      slice_json_def catalog_times_ok_def runtime_json_roundtrip package_wire detected_wire decode_all_map
      split: option.splits)

lemma default_runtime_wire:
  "(case r of None \<Rightarrow> True | Some x \<Rightarrow> time_ok (rr_registered_at x)) \<Longrightarrow>
     default_runtime_of_json (default_runtime_json r) = Inr r"
  by (simp add: default_runtime_of_json_def default_runtime_json_def field_defs(1-7) runtime_json_roundtrip
      split: option.splits)

definition readiness_times_ok :: "site_readiness \<Rightarrow> bool" where
  "readiness_times_ok r \<longleftrightarrow> site_times_ok (sd_site r) \<and> time_ok (st_updated_at (sd_php_service r)) \<and> time_ok (sd_checked_at r)"

lemma readiness_wire:
  "readiness_times_ok r \<Longrightarrow> wire_readiness_of_json (readiness_json r) = Inr (wire_readiness_of r)"
  by (simp add: wire_readiness_of_json_def readiness_json_def field_defs(1-7) key_folds(10) health_keys_def
      wire_readiness.make_def wire_readiness_of_def readiness_times_ok_def site_json_roundtrip status_wire
      decode_all_map check_wire)

definition health_times_ok :: "health_report \<Rightarrow> bool" where
  "health_times_ok r \<longleftrightarrow> time_ok (hr_generated_at r) \<and> (\<forall>s \<in> set (hr_services r). time_ok (st_updated_at s))
     \<and> (\<forall>x \<in> set (hr_sites r). readiness_times_ok x)"

lemma health_wire: "health_times_ok r \<Longrightarrow> wire_health_of_json (health_json r) = Inr (wire_health_of r)"
  by (simp add: wire_health_of_json_def health_json_def field_defs(1-7) key_folds(10) health_keys_def
      wire_health.make_def wire_health_of_def health_times_ok_def slice_json_def socket_wire resolver_wire
      decode_all_map decode_all_to [where f = wire_status_of] decode_all_to [where f = wire_readiness_of]
      check_wire status_wire readiness_wire split: option.splits)

end
