(* ===== verification/Rpc_Server.thy ===== *)
theory Rpc_Server
  imports Rpc_Json Json_Stream
begin

text \<open>
  \<^verbatim>\<open>daemon/internal/api\<close>: the routes of the daemon. A request is its method, its path, its decoded query
  and its body; the handlers read it, call one operation of the application, and answer with the
  envelope. \<^verbatim>\<open>http.ServeMux\<close> is modelled for paths that begin with a slash and hold no percent escapes: one
  that is not clean (\<^verbatim>\<open>//rpc/health\<close>, \<^verbatim>\<open>/rpc/../x\<close>) is redirected to the clean one, and the others are
  matched exactly. The little HTML page that comes with a redirect, the query in its location and the
  messages of JSON errors are not modelled. The dependencies are not nil, as \<^verbatim>\<open>NewRouter\<close> demands.
\<close>

record rpc_request =
  hq_method :: string
  hq_path :: string
  hq_query :: "(string \<times> string) list"
  hq_body :: string

record rpc_response =
  hp_status :: nat
  hp_body :: string
  hp_location :: "string option"

record router_deps =
  rd_health :: health_service
  rd_php :: php_manager
  rd_services :: service_host
  rd_activation :: activation_service
  rd_management :: management_service
  rd_onboarding :: onboarding_service
  rd_registry :: string
  rd_packages :: "package_inventory option"

section \<open>Answers\<close>

definition ok_envelope :: "json \<Rightarrow> json" where
  "ok_envelope data = JObj [(''ok'', JBool True), (''data'', data)]"

definition error_envelope :: "string \<Rightarrow> string \<Rightarrow> json" where
  "error_envelope code message =
     JObj [(''ok'', JBool False), (''error'', JObj [(''code'', JStr code), (''message'', JStr message)])]"

definition write_json :: "nat \<Rightarrow> json \<Rightarrow> rpc_response" where
  "write_json status data = \<lparr>hp_status = status, hp_body = marshal (ok_envelope data) @ nl, hp_location = None\<rparr>"

definition write_error :: "nat \<Rightarrow> string \<Rightarrow> string \<Rightarrow> rpc_response" where
  "write_error status code message =
     \<lparr>hp_status = status, hp_body = marshal (error_envelope code message) @ nl, hp_location = None\<rparr>"

text \<open>The status and the code an error of the application is answered with.\<close>

definition error_class :: "err \<Rightarrow> nat \<times> string" where
  "error_class e =
     (if list_ex (errors_is e) [ErrInvalidLaravelPath, ErrInvalidDomain, ErrUnsupportedRuntime, ErrUnverifiablePHP, ErrInvalidServiceAction]
      then (400, ''invalid_request'')
      else if list_ex (errors_is e) [ErrDuplicateDomain, ErrDuplicateSiteName] then (409, ''conflict'')
      else if list_ex (errors_is e) [ErrResolverConflict, ErrActivationValidation, ErrPackageVerification]
      then (409, ''host_conflict'')
      else if errors_is e ErrUnsupportedPackage then (400, ''unsupported_package'')
      else if list_ex (errors_is e) [ErrSiteNotFound, ErrRuntimeNotFound] then (404, ''not_found'')
      else (500, ''internal_error''))"

definition handle_app_error :: "err \<Rightarrow> rpc_response" where
  "handle_app_error e = (case error_class e of (status, code) \<Rightarrow> write_error status code (err_text e))"

definition answer :: "nat \<Rightarrow> ('a \<Rightarrow> json) \<Rightarrow> (err + 'a) \<times> world \<Rightarrow> rpc_response \<times> world" where
  "answer status enc r =
     (case r of
        (Inl e, w) \<Rightarrow> (handle_app_error e, w)
      | (Inr x, w) \<Rightarrow> (write_json status (enc x), w))"

definition method_not_allowed :: "string \<Rightarrow> rpc_response" where
  "method_not_allowed message = write_error 405 ''method_not_allowed'' message"

section \<open>Reading a request\<close>

text \<open>Unknown fields are refused.\<close>

definition decode_json :: "string list \<Rightarrow> ((string \<times> json) list \<Rightarrow> err + 'a) \<Rightarrow> string \<Rightarrow> err + 'a" where
  "decode_json known dec body =
     (case json_first body of
        None \<Rightarrow> Inl (errorf ''invalid JSON'')
      | Some j \<Rightarrow>
          (case json_members j of
             Inl e \<Rightarrow> Inl e
           | Inr kvs \<Rightarrow>
               (if list_all (\<lambda>(k, v). list_ex (equal_fold k) known) kvs then dec kvs
                else Inl (errorf ''json: unknown field''))))"

definition invalid_json :: "err \<Rightarrow> rpc_response" where
  "invalid_json e = write_error 400 ''invalid_json'' (err_text e)"

definition opt_str_field :: "string \<Rightarrow> (string \<times> json) list \<Rightarrow> err + string option" where
  "opt_str_field name kvs = ptr_field str_value name kvs"

definition decode_register_site :: "string \<Rightarrow> err + site_registration_input" where
  "decode_register_site = decode_json [''rootPath'', ''domain'', ''phpVersion''] (\<lambda>kvs.
     ap (ap (ap (Inr site_registration_input.make) (str_field [] ''rootPath'' kvs)) (str_field [] ''domain'' kvs))
       (str_field [] ''phpVersion'' kvs))"

definition decode_update_site :: "string \<Rightarrow> err + site_update_input" where
  "decode_update_site = decode_json [''siteId'', ''rootPath'', ''domain'', ''phpVersion''] (\<lambda>kvs.
     ap (ap (ap (ap (Inr site_update_input.make) (str_field [] ''siteId'' kvs)) (opt_str_field ''rootPath'' kvs))
       (opt_str_field ''domain'' kvs)) (opt_str_field ''phpVersion'' kvs))"

definition decode_register_php :: "string \<Rightarrow> err + runtime_registration_request" where
  "decode_register_php = decode_json [''version'', ''binaryPath'', ''fpmService'', ''source'', ''packageKey''] (\<lambda>kvs.
     ap (ap (ap (ap (ap (Inr runtime_registration_request.make) (str_field [] ''version'' kvs))
       (str_field [] ''binaryPath'' kvs)) (str_field [] ''fpmService'' kvs)) (str_field [] ''source'' kvs))
       (str_field [] ''packageKey'' kvs))"

definition decode_set_default :: "string \<Rightarrow> err + string" where
  "decode_set_default = decode_json [''version''] (str_field [] ''version'')"

definition decode_switch_php :: "string \<Rightarrow> err + string \<times> string" where
  "decode_switch_php = decode_json [''siteId'', ''phpVersion''] (\<lambda>kvs.
     ap (ap (Inr Pair) (str_field [] ''siteId'' kvs)) (str_field [] ''phpVersion'' kvs))"

definition decode_service_action :: "string \<Rightarrow> err + string \<times> string" where
  "decode_service_action = decode_json [''service'', ''action''] (\<lambda>kvs.
     ap (ap (Inr Pair) (str_field [] ''service'' kvs)) (str_field [] ''action'' kvs))"

definition query_get :: "string \<Rightarrow> rpc_request \<Rightarrow> string" where
  "query_get key rq = (case map_of (hq_query rq) key of None \<Rightarrow> [] | Some v \<Rightarrow> v)"

section \<open>The handlers\<close>

definition with_body :: "(string \<Rightarrow> err + 'a) \<Rightarrow> rpc_request \<Rightarrow> ('a \<Rightarrow> world \<Rightarrow> rpc_response \<times> world) \<Rightarrow> world \<Rightarrow> rpc_response \<times> world" where
  "with_body dec rq f w =
     (case dec (hq_body rq) of Inl e \<Rightarrow> (invalid_json e, w) | Inr x \<Rightarrow> f x w)"

definition on_health :: "router_deps \<Rightarrow> rpc_request \<Rightarrow> world \<Rightarrow> rpc_response \<times> world" where
  "on_health d rq w =
     (if hq_method rq \<noteq> ''GET'' then (method_not_allowed ''Use GET /rpc/health'', w)
      else answer 200 health_json (health_report_of (rd_health d) w))"

definition on_sites_list :: "router_deps \<Rightarrow> rpc_request \<Rightarrow> world \<Rightarrow> rpc_response \<times> world" where
  "on_sites_list d rq w =
     (if hq_method rq \<noteq> ''GET'' then (method_not_allowed ''Use GET /rpc/sites.list'', w)
      else answer 200 (\<lambda>sites. slice_json (map site_json sites)) (manage_list (rd_management d) w))"

definition on_sites_get :: "router_deps \<Rightarrow> rpc_request \<Rightarrow> world \<Rightarrow> rpc_response \<times> world" where
  "on_sites_get d rq w =
     (if hq_method rq \<noteq> ''GET'' then (method_not_allowed ''Use GET /rpc/sites.get?siteId=<id>'', w)
      else answer 200 site_json (manage_get (rd_management d) (query_get ''siteId'' rq) w))"

definition on_sites_register :: "router_deps \<Rightarrow> rpc_request \<Rightarrow> world \<Rightarrow> rpc_response \<times> world" where
  "on_sites_register d rq w =
     (if hq_method rq \<noteq> ''POST'' then (method_not_allowed ''Use POST /rpc/sites.register'', w)
      else with_body decode_register_site rq
        (\<lambda>inp w. answer 201 activation_json (site_activate (rd_activation d) inp w)) w)"

definition on_sites_update :: "router_deps \<Rightarrow> rpc_request \<Rightarrow> world \<Rightarrow> rpc_response \<times> world" where
  "on_sites_update d rq w =
     (if hq_method rq \<noteq> ''POST'' then (method_not_allowed ''Use POST /rpc/sites.update'', w)
      else with_body decode_update_site rq
        (\<lambda>inp w. answer 200 site_json (manage_update (rd_management d) inp w)) w)"

definition on_php_list :: "router_deps \<Rightarrow> rpc_request \<Rightarrow> world \<Rightarrow> rpc_response \<times> world" where
  "on_php_list d rq w =
     (if hq_method rq \<noteq> ''GET'' then (method_not_allowed ''Use GET /rpc/php.list'', w)
      else answer 200 (\<lambda>rs. slice_json (map runtime_json rs)) (catalog_list (rd_registry d) w))"

definition on_php_default :: "router_deps \<Rightarrow> rpc_request \<Rightarrow> world \<Rightarrow> rpc_response \<times> world" where
  "on_php_default d rq w =
     (if hq_method rq = ''GET'' then answer 200 default_runtime_json (catalog_default (rd_registry d) w)
      else if hq_method rq = ''POST'' then
        with_body decode_set_default rq
          (\<lambda>version w. answer 200 (\<lambda>r. default_runtime_json (Some r)) (catalog_set_default (rd_registry d) version w)) w
      else (method_not_allowed ''Use GET or POST /rpc/php.default'', w))"

definition on_php_inventory :: "router_deps \<Rightarrow> rpc_request \<Rightarrow> world \<Rightarrow> rpc_response \<times> world" where
  "on_php_inventory d rq w =
     (if hq_method rq \<noteq> ''GET'' then (method_not_allowed ''Use GET /rpc/php.inventory'', w)
      else answer 200 catalog_json (catalog_inventory (rd_registry d) (rd_packages d) w))"

definition on_php_register :: "router_deps \<Rightarrow> rpc_request \<Rightarrow> world \<Rightarrow> rpc_response \<times> world" where
  "on_php_register d rq w =
     (if hq_method rq \<noteq> ''POST'' then (method_not_allowed ''Use POST /rpc/php.register'', w)
      else with_body decode_register_php rq
        (\<lambda>q w. answer 201 onboarding_json (onboard_register (rd_onboarding d) q w)) w)"

definition on_php_switch :: "router_deps \<Rightarrow> rpc_request \<Rightarrow> world \<Rightarrow> rpc_response \<times> world" where
  "on_php_switch d rq w =
     (if hq_method rq \<noteq> ''POST'' then (method_not_allowed ''Use POST /rpc/php.switch'', w)
      else with_body decode_switch_php rq
        (\<lambda>(i, version) w. answer 200 site_json (switch_site_runtime (rd_php d) i version w)) w)"

definition result_of_status :: "status_result \<Rightarrow> (err + service_status) \<times> world" where
  "result_of_status r = (case r of ((st, Some e), w) \<Rightarrow> (Inl e, w) | ((st, None), w) \<Rightarrow> (Inr st, w))"

definition on_services_action :: "router_deps \<Rightarrow> rpc_request \<Rightarrow> world \<Rightarrow> rpc_response \<times> world" where
  "on_services_action d rq w =
     (if hq_method rq \<noteq> ''POST'' then (method_not_allowed ''Use POST /rpc/services.action'', w)
      else with_body decode_service_action rq
        (\<lambda>(service, action) w. answer 200 service_status_json
           (result_of_status (service_action_run (rd_services d) service (service_action_of action) w))) w)"

definition routes :: "(string \<times> (router_deps \<Rightarrow> rpc_request \<Rightarrow> world \<Rightarrow> rpc_response \<times> world)) list" where
  "routes =
     [(''/rpc/health'', on_health), (''/rpc/sites.list'', on_sites_list), (''/rpc/sites.get'', on_sites_get),
      (''/rpc/sites.register'', on_sites_register), (''/rpc/sites.update'', on_sites_update),
      (''/rpc/php.list'', on_php_list), (''/rpc/php.default'', on_php_default), (''/rpc/php.inventory'', on_php_inventory),
      (''/rpc/php.register'', on_php_register), (''/rpc/php.switch'', on_php_switch),
      (''/rpc/services.action'', on_services_action)]"

text \<open>
  \<^verbatim>\<open>ServeMux\<close> cleans the path of every request but \<^verbatim>\<open>CONNECT\<close> (\<^verbatim>\<open>cleanPath\<close> of \<^verbatim>\<open>net/http\<close>, which puts a slash at
  the end back), and redirects to the clean path when it is another one.
\<close>

definition mux_path :: "string \<Rightarrow> string" where
  "mux_path p =
     (if p = [] then [slash]
      else let q = (if hd p = slash then p else slash # p); c = path_clean q
           in if last q = slash \<and> c \<noteq> [slash] then c @ [slash] else c)"

definition redirected :: "rpc_request \<Rightarrow> bool" where
  "redirected rq \<longleftrightarrow> hq_method rq \<noteq> ''CONNECT'' \<and> mux_path (hq_path rq) \<noteq> hq_path rq"

definition handle_request :: "router_deps \<Rightarrow> rpc_request \<Rightarrow> world \<Rightarrow> rpc_response \<times> world" where
  "handle_request d rq w =
     (if redirected rq then (\<lparr>hp_status = 301, hp_body = [], hp_location = Some (mux_path (hq_path rq))\<rparr>, w)
      else case map_of routes (hq_path rq) of
        Some h \<Rightarrow> h d rq w
      | None \<Rightarrow> (write_error 404 ''not_found'' ''RPC endpoint not found'', w))"

end
