(* ===== verification/Bridge_Client.thy ===== *)
theory Bridge_Client
  imports Rpc_Server Rpc_Wire
begin

text \<open>
  \<^verbatim>\<open>client/wails/bridge/daemon_client.go\<close>: the desktop client's calls. Sending a request and reading the
  answer (\<^verbatim>\<open>net/http\<close> over the Unix socket) is a parameter, a function from requests to answers or
  errors; \<open>direct\<close> is the one that hands the request to the daemon's router. Query values are passed
  decoded, so \<^verbatim>\<open>url.QueryEscape\<close> and its inverse do not appear.
\<close>

type_synonym transport = "rpc_request \<Rightarrow> world \<Rightarrow> (err + rpc_response) \<times> world"

definition direct :: "router_deps \<Rightarrow> transport" where
  "direct d rq w = (case handle_request d rq w of (rp, w1) \<Rightarrow> (Inr rp, w1))"

text \<open>An error of a call: what the daemon answered, or one of the client's own.\<close>

datatype client_error = Remote (re_status: nat) (re_code: string) (re_message: string) | Local err

fun client_error_text :: "client_error \<Rightarrow> string" where
  "client_error_text (Remote status code message) =
     (if trim_space code = [] then message else code @ '': '' @ message)"
| "client_error_text (Local e) = err_text e"

section \<open>The envelope\<close>

record wire_error =
  we_code :: string
  we_message :: string

definition wire_error_of_json :: "json \<Rightarrow> err + wire_error" where
  "wire_error_of_json j = members_then j (\<lambda>kvs.
     ap (ap (Inr wire_error.make) (str_field [] ''code'' kvs)) (str_field [] ''message'' kvs))"

definition envelope_of_json :: "(json \<Rightarrow> err + 'a) \<Rightarrow> 'a \<Rightarrow> json \<Rightarrow> err + bool \<times> 'a \<times> wire_error option" where
  "envelope_of_json dec zero j = members_then j (\<lambda>kvs.
     ap (ap (ap (Inr (\<lambda>ok data e. (ok, data, e))) (bool_field ''ok'' kvs)) (obj_field dec zero ''data'' kvs))
       (ptr_field wire_error_of_json ''error'' kvs))"

definition read_answer :: "(json \<Rightarrow> err + 'a) \<Rightarrow> 'a \<Rightarrow> rpc_response \<Rightarrow> client_error + 'a" where
  "read_answer dec zero rp =
     (case json_parse (hp_body rp) of
        None \<Rightarrow> Inl (Local (errorf ''decode daemon response: invalid JSON''))
      | Some j \<Rightarrow>
          (case envelope_of_json dec zero j of
             Inl e \<Rightarrow> Inl (Local (wrap_err ''decode daemon response'' e))
           | Inr (ok, data, e) \<Rightarrow>
               (if ok then Inr data
                else (case e of
                        None \<Rightarrow> Inl (Remote (hp_status rp) [] [])
                      | Some e \<Rightarrow> Inl (Remote (hp_status rp) (we_code e) (we_message e))))))"

definition client_do :: "(json \<Rightarrow> err + 'a) \<Rightarrow> 'a \<Rightarrow> transport \<Rightarrow> rpc_request \<Rightarrow> world \<Rightarrow> (client_error + 'a) \<times> world" where
  "client_do dec zero send rq w =
     (case send rq w of
        (Inl e, w1) \<Rightarrow> (Inl (Local e), w1)
      | (Inr rp, w1) \<Rightarrow> (read_answer dec zero rp, w1))"

definition client_get :: "(json \<Rightarrow> err + 'a) \<Rightarrow> 'a \<Rightarrow> transport \<Rightarrow> string \<Rightarrow> (string \<times> string) list \<Rightarrow> world \<Rightarrow> (client_error + 'a) \<times> world" where
  "client_get dec zero send path query w =
     client_do dec zero send \<lparr>hq_method = ''GET'', hq_path = path, hq_query = query, hq_body = []\<rparr> w"

definition client_post :: "(json \<Rightarrow> err + 'a) \<Rightarrow> 'a \<Rightarrow> transport \<Rightarrow> string \<Rightarrow> json \<Rightarrow> world \<Rightarrow> (client_error + 'a) \<times> world" where
  "client_post dec zero send path payload w =
     client_do dec zero send \<lparr>hq_method = ''POST'', hq_path = path, hq_query = [], hq_body = marshal payload\<rparr> w"

section \<open>Requests\<close>

definition omit_nil :: "string \<Rightarrow> string option \<Rightarrow> (string \<times> json) list" where
  "omit_nil name v = (case v of None \<Rightarrow> [] | Some s \<Rightarrow> [(name, JStr s)])"

definition register_site_json :: "site_registration_input \<Rightarrow> json" where
  "register_site_json q =
     JObj ([(''rootPath'', JStr (sr_root_path q))] @ omit_empty ''domain'' (sr_domain q)
           @ omit_empty ''phpVersion'' (sr_php_version q))"

definition update_site_json :: "site_update_input \<Rightarrow> json" where
  "update_site_json q =
     JObj ([(''siteId'', JStr (su_site_id q))] @ omit_nil ''rootPath'' (su_root_path q)
           @ omit_nil ''domain'' (su_domain q) @ omit_nil ''phpVersion'' (su_php_version q))"

definition set_default_json :: "string \<Rightarrow> json" where
  "set_default_json version = JObj [(''version'', JStr version)]"

definition switch_php_json :: "string \<Rightarrow> string \<Rightarrow> json" where
  "switch_php_json i version = JObj [(''siteId'', JStr i), (''phpVersion'', JStr version)]"

definition service_action_json :: "string \<Rightarrow> string \<Rightarrow> json" where
  "service_action_json service action = JObj [(''service'', JStr service), (''action'', JStr action)]"

section \<open>The calls\<close>

definition sites_of_json :: "json \<Rightarrow> err + site_record list" where
  "sites_of_json j =
     (case j of JArr js \<Rightarrow> decode_all site_of_json js | JNull \<Rightarrow> Inr [] | _ \<Rightarrow> Inl wrong_kind)"

definition zero_health :: wire_health where
  "zero_health = \<lparr>wh_ready = False, wh_generated_at = zero_time, wh_socket = zero_socket, wh_resolver = None,
     wh_checks = [], wh_services = [], wh_sites = []\<rparr>"

definition zero_catalog :: runtime_catalog where
  "zero_catalog = \<lparr>rg_registered = [], rg_default = None, rg_supported = [], rg_detected = []\<rparr>"

definition zero_activation :: wire_activation where
  "zero_activation = \<lparr>wc_site = zero_site, wc_resolver = zero_resolver_status, wc_runtime = zero_runtime,
     wc_materialization = zero_materialization, wc_web = zero_web_result, wc_services = [], wc_activated_at = zero_time\<rparr>"

definition client_health :: "transport \<Rightarrow> world \<Rightarrow> (client_error + wire_health) \<times> world" where
  "client_health send = client_get wire_health_of_json zero_health send ''/rpc/health'' []"

definition client_list_sites :: "transport \<Rightarrow> world \<Rightarrow> (client_error + site_record list) \<times> world" where
  "client_list_sites send = client_get sites_of_json [] send ''/rpc/sites.list'' []"

definition client_get_site :: "transport \<Rightarrow> string \<Rightarrow> world \<Rightarrow> (client_error + site_record) \<times> world" where
  "client_get_site send i = client_get site_of_json zero_site send ''/rpc/sites.get'' [(''siteId'', trim_space i)]"

definition client_register_site :: "transport \<Rightarrow> site_registration_input \<Rightarrow> world \<Rightarrow> (client_error + wire_activation) \<times> world" where
  "client_register_site send q =
     client_post wire_activation_of_json zero_activation send ''/rpc/sites.register'' (register_site_json q)"

definition client_update_site :: "transport \<Rightarrow> site_update_input \<Rightarrow> world \<Rightarrow> (client_error + site_record) \<times> world" where
  "client_update_site send q = client_post site_of_json zero_site send ''/rpc/sites.update'' (update_site_json q)"

definition client_runtime_catalog :: "transport \<Rightarrow> world \<Rightarrow> (client_error + runtime_catalog) \<times> world" where
  "client_runtime_catalog send = client_get catalog_of_json zero_catalog send ''/rpc/php.inventory'' []"

definition client_set_default :: "transport \<Rightarrow> string \<Rightarrow> world \<Rightarrow> (client_error + php_runtime_record option) \<times> world" where
  "client_set_default send version =
     client_post default_runtime_of_json None send ''/rpc/php.default'' (set_default_json version)"

definition client_switch_runtime :: "transport \<Rightarrow> string \<Rightarrow> string \<Rightarrow> world \<Rightarrow> (client_error + site_record) \<times> world" where
  "client_switch_runtime send i version =
     client_post site_of_json zero_site send ''/rpc/php.switch'' (switch_php_json i version)"

definition client_service_action :: "transport \<Rightarrow> string \<Rightarrow> string \<Rightarrow> world \<Rightarrow> (client_error + wire_status) \<times> world" where
  "client_service_action send service action =
     client_post wire_status_of_json (wire_status_of zero_status) send ''/rpc/services.action'' (service_action_json service action)"

end
