(* ===== verification/Rpc_Correct.thy ===== *)
theory Rpc_Correct
  imports Bridge_Client Health_Correct
begin

text \<open>
  The two ends of the socket together. What a struct needs for the trip is the locale \<open>wire\<close>; with it a call
  of the desktop client is the operation of the daemon it stands for, with the daemon's errors told
  by status, code and message. Every answer of the router is an envelope.
\<close>

section \<open>The envelope\<close>

definition envelope_keys :: "string list" where
  "envelope_keys = [''ok'', ''data'', ''error'', ''code'', ''message'']"

lemma envelope_keys_distinct: "distinct (map to_lower envelope_keys)"
  by code_simp

lemmas envelope_fold = fold_names [OF envelope_keys_distinct]

lemma ok_envelope_read:
  assumes "x \<noteq> JNull \<Longrightarrow> dec x = Inr y" "x = JNull \<Longrightarrow> y = zero"
  shows "envelope_of_json dec zero (ok_envelope x) = Inr (True, y, None)"
  using assms
  by (cases "x = JNull")
     (simp_all add: envelope_of_json_def ok_envelope_def field_defs(1-7) envelope_fold envelope_keys_def)

lemma error_envelope_read:
  "envelope_of_json dec zero (error_envelope c m) = Inr (False, zero, Some \<lparr>we_code = c, we_message = m\<rparr>)"
  by (simp add: envelope_of_json_def error_envelope_def wire_error_of_json_def wire_error.make_def field_defs(1-7)
      envelope_fold envelope_keys_def)

lemma envelopes_ok: "json_ok (ok_envelope x) \<longleftrightarrow> json_ok x" "json_ok (error_envelope c m)"
  by (simp_all add: ok_envelope_def error_envelope_def)

lemma read_error: "read_answer dec zero (write_error status c m) = Inl (Remote status c m)"
  by (simp add: read_answer_def write_error_def json_parse_line envelopes_ok error_envelope_read)

text \<open>What an operation's result is for the caller at the other end.\<close>

definition relay :: "('a \<Rightarrow> 'b) \<Rightarrow> (err + 'a) \<times> world \<Rightarrow> (client_error + 'b) \<times> world" where
  "relay img r =
     (case r of
        (Inl e, w) \<Rightarrow> (Inl (Remote (fst (error_class e)) (snd (error_class e)) (err_text e)), w)
      | (Inr x, w) \<Rightarrow> (Inr (img x), w))"

definition returns :: "('a \<Rightarrow> bool) \<Rightarrow> (err + 'a) \<times> world \<Rightarrow> bool" where
  "returns good r \<longleftrightarrow> (case fst r of Inl e \<Rightarrow> True | Inr x \<Rightarrow> good x)"

section \<open>A struct on the wire\<close>

locale wire =
  fixes enc :: "'a \<Rightarrow> json" and dec :: "json \<Rightarrow> err + 'b" and img :: "'a \<Rightarrow> 'b" and zero :: 'b and good :: "'a \<Rightarrow> bool"
  assumes printable: "json_ok (enc x)"
    and read: "good x \<Longrightarrow> enc x \<noteq> JNull \<Longrightarrow> dec (enc x) = Inr (img x)"
    and null: "enc x = JNull \<Longrightarrow> img x = zero"
begin

lemma read_ok: "good x \<Longrightarrow> read_answer dec zero (write_json status (enc x)) = Inr (img x)"
  using ok_envelope_read [of "enc x" dec "img x" zero] read [of x] null [of x]
  by (simp add: read_answer_def write_json_def json_parse_line envelopes_ok printable)

lemma call_relays:
  assumes "handle_request d rq w = answer status enc r" "returns good r"
  shows "client_do dec zero (direct d) rq w = relay img r"
proof (cases r)
  case (Pair q w1)
  show ?thesis
  proof (cases q)
    case (Inl e)
    with Pair assms show ?thesis
      by (simp add: client_do_def direct_def answer_def handle_app_error_def relay_def read_error split_beta)
  next
    case (Inr x)
    with Pair assms show ?thesis
      by (simp add: client_do_def direct_def answer_def relay_def read_ok returns_def)
  qed
qed

end

section \<open>The structs of the answers\<close>

named_theorems prints "the value is printed without error"

lemma prints_omit [prints]: "(k, v) \<in> set (omit_empty n s) \<Longrightarrow> json_ok v"
  by (auto simp: omit_empty_def split: if_splits)

lemma slice_ok [prints]: "json_ok (slice_json js) \<longleftrightarrow> (\<forall>j \<in> set js. json_ok j)"
  by (simp add: slice_json_def)

lemma structs_ok [prints]:
  "json_ok (site_json s)" "json_ok (runtime_json r)" "json_ok (resolver_json v)" "json_ok (materialization_json m)"
  "json_ok (web_json x)" "json_ok (service_status_json t)" "json_ok (socket_json k)" "json_ok (package_json p)"
  "json_ok (detected_json y)" "json_ok (check_json c)"
  by (auto simp: site_json_def runtime_json_def resolver_json_def conflict_json_def materialization_json_def web_json_def
      service_status_json_def socket_json_def package_json_def detected_json_def check_json_def prints split: if_splits)

lemma answers_ok [prints]:
  "json_ok (activation_json a)" "json_ok (catalog_json c)" "json_ok (default_runtime_json d)" "json_ok (health_json h)"
  "json_ok (onboarding_json n)"
  by (auto simp: activation_json_def catalog_json_def default_runtime_json_def health_json_def readiness_json_def
      onboarding_json_def prints split: option.splits)

interpretation site_wire: wire site_json site_of_json "\<lambda>s. s" zero_site site_times_ok
  by unfold_locales (simp_all add: prints site_json_roundtrip)

interpretation sites_wire: wire "\<lambda>sites. slice_json (map site_json sites)" sites_of_json "\<lambda>s. s" "[]" "list_all site_times_ok"
proof unfold_locales
  fix sites :: "site_record list" assume "list_all site_times_ok sites"
  then have "decode_all site_of_json (map site_json sites) = Inr sites"
    by (intro decode_all_map) (auto simp: list_all_iff site_json_roundtrip)
  then show "slice_json (map site_json sites) \<noteq> JNull \<Longrightarrow> sites_of_json (slice_json (map site_json sites)) = Inr sites"
    by (simp add: slice_json_def sites_of_json_def split: if_splits)
qed (auto simp: prints slice_json_def split: if_splits)

interpretation activation_wire: wire activation_json wire_activation_of_json wire_activation_of zero_activation activation_times_ok
  by unfold_locales (simp_all add: prints activation_wire, simp add: activation_json_def)

interpretation catalog_wire: wire catalog_json catalog_of_json "\<lambda>c. c" zero_catalog catalog_times_ok
  by unfold_locales (simp_all add: prints catalog_wire, simp add: catalog_json_def)

definition default_times_ok :: "php_runtime_record option \<Rightarrow> bool" where
  "default_times_ok r \<longleftrightarrow> (case r of None \<Rightarrow> True | Some x \<Rightarrow> time_ok (rr_registered_at x))"

interpretation default_wire: wire default_runtime_json default_runtime_of_json "\<lambda>r. r" None default_times_ok
  by unfold_locales (simp_all add: prints default_runtime_wire default_times_ok_def, simp add: default_runtime_json_def)

interpretation default_set_wire: wire "\<lambda>r. default_runtime_json (Some r)" default_runtime_of_json Some None
  "\<lambda>r. time_ok (rr_registered_at r)"
  by unfold_locales (simp_all add: prints default_runtime_wire, simp add: default_runtime_json_def)

interpretation health_wire: wire health_json wire_health_of_json wire_health_of zero_health health_times_ok
  by unfold_locales (simp_all add: prints health_wire, simp add: health_json_def)

interpretation status_wire: wire service_status_json wire_status_of_json wire_status_of "wire_status_of zero_status"
  "\<lambda>s. time_ok (st_updated_at s)"
  by unfold_locales (simp_all add: prints status_wire)

section \<open>The bodies of the requests\<close>

definition request_keys :: "string list" where
  "request_keys = [''siteId'', ''rootPath'', ''domain'', ''phpVersion'', ''version'', ''service'', ''action'']"

lemma request_keys_distinct: "distinct (map to_lower request_keys)"
  by code_simp

lemmas request_fold = fold_names [OF request_keys_distinct]

lemma decode_json_marshal:
  assumes "json_ok (JObj kvs)" "\<forall>kv \<in> set kvs. list_ex (equal_fold (fst kv)) known"
  shows "decode_json known dec (marshal (JObj kvs)) = dec kvs"
  using assms by (auto simp: decode_json_def json_first_marshal json_members_def list_all_iff)

lemma field_values_omit_nil [simp]:
  "field_values n (omit_nil k v) = (case v of None \<Rightarrow> [] | Some s \<Rightarrow> if equal_fold k n then [JStr s] else [])"
  by (simp add: omit_nil_def split: option.split)

lemma bodies_read:
  "decode_register_site (marshal (register_site_json q)) = Inr q"
  "decode_update_site (marshal (update_site_json u)) = Inr u"
  "decode_set_default (marshal (set_default_json v)) = Inr v"
  "decode_switch_php (marshal (switch_php_json i v)) = Inr (i, v)"
  "decode_service_action (marshal (service_action_json s a)) = Inr (s, a)"
proof -
  show "decode_register_site (marshal (register_site_json q)) = Inr q"
    unfolding decode_register_site_def register_site_json_def
    by (subst decode_json_marshal)
       (auto simp: omit_empty_def str_field_def Let_def request_fold request_keys_def site_registration_input.make_def)
  show "decode_update_site (marshal (update_site_json u)) = Inr u"
    unfolding decode_update_site_def update_site_json_def
    by (subst decode_json_marshal)
       (auto simp: omit_nil_def opt_str_field_def ptr_field_def str_value_def str_field_def Let_def request_fold request_keys_def
          site_update_input.make_def split: option.splits)
  show "decode_set_default (marshal (set_default_json v)) = Inr v"
    unfolding decode_set_default_def set_default_json_def
    by (subst decode_json_marshal) (auto simp: str_field_def Let_def)
  show "decode_switch_php (marshal (switch_php_json i v)) = Inr (i, v)"
    unfolding decode_switch_php_def switch_php_json_def
    by (subst decode_json_marshal) (auto simp: str_field_def Let_def request_fold request_keys_def)
  show "decode_service_action (marshal (service_action_json s a)) = Inr (s, a)"
    unfolding decode_service_action_def service_action_json_def
    by (subst decode_json_marshal) (auto simp: str_field_def Let_def request_fold request_keys_def)
qed

section \<open>The calls\<close>

lemma routed:
  "map_of routes ''/rpc/health'' = Some on_health" "map_of routes ''/rpc/sites.list'' = Some on_sites_list"
  "map_of routes ''/rpc/sites.get'' = Some on_sites_get" "map_of routes ''/rpc/sites.register'' = Some on_sites_register"
  "map_of routes ''/rpc/sites.update'' = Some on_sites_update" "map_of routes ''/rpc/php.inventory'' = Some on_php_inventory"
  "map_of routes ''/rpc/php.default'' = Some on_php_default" "map_of routes ''/rpc/php.switch'' = Some on_php_switch"
  "map_of routes ''/rpc/services.action'' = Some on_services_action"
  by (simp_all add: routes_def)

text \<open>The routes are clean, so none of them is redirected.\<close>

lemma routes_clean: "map_of routes p = Some h \<Longrightarrow> mux_path p = p"
proof -
  have "list_all (\<lambda>k. mux_path k = k) (map fst routes)" unfolding routes_def list.map fst_conv by code_simp
  then show "map_of routes p = Some h \<Longrightarrow> mux_path p = p" by (force simp: list_all_iff dest: map_of_SomeD)
qed

lemma handled: "map_of routes (hq_path rq) = Some h \<Longrightarrow> handle_request d rq w = h d rq w"
  by (simp add: handle_request_def redirected_def routes_clean)

lemmas call_defs = client_health_def client_list_sites_def client_get_site_def client_register_site_def client_update_site_def
  client_runtime_catalog_def client_set_default_def client_switch_runtime_def client_service_action_def client_get_def client_post_def

lemma relay_health:
  "returns health_times_ok (health_report_of (rd_health d) w) \<Longrightarrow>
     client_health (direct d) w = relay wire_health_of (health_report_of (rd_health d) w)"
  unfolding call_defs
  by (rule health_wire.call_relays, subst handled [of _ on_health]) (simp_all add: routed on_health_def)

lemma relay_list_sites:
  "returns (list_all site_times_ok) (manage_list (rd_management d) w) \<Longrightarrow>
     client_list_sites (direct d) w = relay (\<lambda>s. s) (manage_list (rd_management d) w)"
  unfolding call_defs
  by (rule sites_wire.call_relays, subst handled [of _ on_sites_list]) (simp_all add: routed on_sites_list_def)

lemma relay_get_site:
  "returns site_times_ok (manage_get (rd_management d) (trim_space i) w) \<Longrightarrow>
     client_get_site (direct d) i w = relay (\<lambda>s. s) (manage_get (rd_management d) (trim_space i) w)"
  unfolding call_defs
  by (rule site_wire.call_relays, subst handled [of _ on_sites_get]) (simp_all add: routed on_sites_get_def query_get_def)

lemma relay_register_site:
  "returns activation_times_ok (site_activate (rd_activation d) q w) \<Longrightarrow>
     client_register_site (direct d) q w = relay wire_activation_of (site_activate (rd_activation d) q w)"
  unfolding call_defs
  by (rule activation_wire.call_relays, subst handled [of _ on_sites_register])
     (simp_all add: routed on_sites_register_def with_body_def bodies_read)

lemma relay_update_site:
  "returns site_times_ok (manage_update (rd_management d) u w) \<Longrightarrow>
     client_update_site (direct d) u w = relay (\<lambda>s. s) (manage_update (rd_management d) u w)"
  unfolding call_defs
  by (rule site_wire.call_relays, subst handled [of _ on_sites_update])
     (simp_all add: routed on_sites_update_def with_body_def bodies_read)

lemma relay_catalog:
  "returns catalog_times_ok (catalog_inventory (rd_registry d) (rd_packages d) w) \<Longrightarrow>
     client_runtime_catalog (direct d) w = relay (\<lambda>c. c) (catalog_inventory (rd_registry d) (rd_packages d) w)"
  unfolding call_defs
  by (rule catalog_wire.call_relays, subst handled [of _ on_php_inventory]) (simp_all add: routed on_php_inventory_def)

lemma relay_set_default:
  "returns (\<lambda>r. time_ok (rr_registered_at r)) (catalog_set_default (rd_registry d) v w) \<Longrightarrow>
     client_set_default (direct d) v w = relay Some (catalog_set_default (rd_registry d) v w)"
  unfolding call_defs
  by (rule default_set_wire.call_relays, subst handled [of _ on_php_default])
     (simp_all add: routed on_php_default_def with_body_def bodies_read)

lemma relay_switch_runtime:
  "returns site_times_ok (switch_site_runtime (rd_php d) i v w) \<Longrightarrow>
     client_switch_runtime (direct d) i v w = relay (\<lambda>s. s) (switch_site_runtime (rd_php d) i v w)"
  unfolding call_defs
  by (rule site_wire.call_relays, subst handled [of _ on_php_switch])
     (simp_all add: routed on_php_switch_def with_body_def bodies_read)

lemma relay_service_action:
  "returns (\<lambda>s. time_ok (st_updated_at s)) (result_of_status (service_action_run (rd_services d) n (service_action_of a) w)) \<Longrightarrow>
     client_service_action (direct d) n a w
       = relay wire_status_of (result_of_status (service_action_run (rd_services d) n (service_action_of a) w))"
  unfolding call_defs
  by (rule status_wire.call_relays, subst handled [of _ on_services_action])
     (simp_all add: routed on_services_action_def with_body_def bodies_read)

text \<open>C8: a call of the desktop client that reaches the daemon is the daemon's operation: the request arrives as
  it was made, a result comes back field by field as the daemon had it, and an error comes back with
  the daemon's message and the status and code of its kind. This holds for each of the nine calls,
  through both JSON codecs, the router and the envelope; times must be RFC 3339, as the clock's are.\<close>

theorem remote_calls_are_operations:
  "(returns health_times_ok (health_report_of (rd_health d) w) \<longrightarrow>
      client_health (direct d) w = relay wire_health_of (health_report_of (rd_health d) w))
   \<and> (returns (list_all site_times_ok) (manage_list (rd_management d) w) \<longrightarrow>
      client_list_sites (direct d) w = relay (\<lambda>s. s) (manage_list (rd_management d) w))
   \<and> (returns site_times_ok (manage_get (rd_management d) (trim_space i) w) \<longrightarrow>
      client_get_site (direct d) i w = relay (\<lambda>s. s) (manage_get (rd_management d) (trim_space i) w))
   \<and> (returns activation_times_ok (site_activate (rd_activation d) q w) \<longrightarrow>
      client_register_site (direct d) q w = relay wire_activation_of (site_activate (rd_activation d) q w))
   \<and> (returns site_times_ok (manage_update (rd_management d) u w) \<longrightarrow>
      client_update_site (direct d) u w = relay (\<lambda>s. s) (manage_update (rd_management d) u w))
   \<and> (returns catalog_times_ok (catalog_inventory (rd_registry d) (rd_packages d) w) \<longrightarrow>
      client_runtime_catalog (direct d) w = relay (\<lambda>c. c) (catalog_inventory (rd_registry d) (rd_packages d) w))
   \<and> (returns (\<lambda>r. time_ok (rr_registered_at r)) (catalog_set_default (rd_registry d) v w) \<longrightarrow>
      client_set_default (direct d) v w = relay Some (catalog_set_default (rd_registry d) v w))
   \<and> (returns site_times_ok (switch_site_runtime (rd_php d) i v w) \<longrightarrow>
      client_switch_runtime (direct d) i v w = relay (\<lambda>s. s) (switch_site_runtime (rd_php d) i v w))
   \<and> (returns (\<lambda>s. time_ok (st_updated_at s)) (result_of_status (service_action_run (rd_services d) n (service_action_of a) w)) \<longrightarrow>
      client_service_action (direct d) n a w
        = relay wire_status_of (result_of_status (service_action_run (rd_services d) n (service_action_of a) w)))"
  by (intro conjI impI relay_health relay_list_sites relay_get_site relay_register_site relay_update_site relay_catalog
      relay_set_default relay_switch_runtime relay_service_action)

definition blog_router :: router_deps where
  "blog_router =
     (let sites = file_sites sites_file; runtimes = file_runtimes runtimes_file; services = hs_services blog_health
      in \<lparr>rd_health = blog_health,
          rd_php = \<lparr>pg_sites = sites, pg_runtimes = runtimes, pg_services = services, pg_php = None, pg_web = None\<rparr>,
          rd_services = systemd_host, rd_activation = new_activation_service sites runtimes None None None (Some services),
          rd_management = \<lparr>ms_sites = sites, ms_runtimes = runtimes, ms_web = None, ms_php = None, ms_services = Some services\<rparr>,
          rd_onboarding = \<lparr>on_registry = runtimes_file, on_packages = Some apt_inventory, on_material = None, on_services = Some services\<rparr>,
          rd_registry = runtimes_file, rd_packages = Some apt_inventory\<rparr>)"

lemma site_list_works:
  assumes "quiet w" "\<forall>n. o_ctx (orc w) n = None" "site_stored p w = Some sites"
  shows "fst (site_list p w) = Inr (sort_key si_domain sites)"
proof -
  have "fst (load_state site_state_of_json [] p (next_tick w)) = Inr sites"
    by (rule load_state_quiet)
       (use assms(1,3) site_stored_cong [of "next_tick w" p w] in \<open>simp_all add: quiet_def fault_def site_stored_def\<close>)
  with assms(2) show ?thesis by (simp add: site_list_def split_beta site_load_def ctx_err_def)
qed

lemma blog_sites_listed:
  "fst (manage_list (rd_management blog_router) (blog_host all_succeed)) = Inr [stored_blog]"
  "returns (list_all site_times_ok) (manage_list (rd_management blog_router) (blog_host all_succeed))"
proof -
  have m: "manage_list (rd_management blog_router) = site_list sites_file"
    by (simp add: fun_eq_iff manage_list_def blog_router_def file_sites_def Let_def)
  show l: "fst (manage_list (rd_management blog_router) (blog_host all_succeed)) = Inr [stored_blog]"
    using site_list_works [OF project_host_calm blog_host_stored [unfolded blog_host_def]] by (simp add: blog_host_def m)
  show "returns (list_all site_times_ok) (manage_list (rd_management blog_router) (blog_host all_succeed))"
    by (simp add: returns_def l stored_blog_times)
qed

theorem remote_calls_are_operations_witness:
  "fst (client_list_sites (direct blog_router) (blog_host all_succeed)) = Inr [stored_blog]"
proof -
  have "client_list_sites (direct blog_router) (blog_host all_succeed)
      = relay (\<lambda>s. s) (manage_list (rd_management blog_router) (blog_host all_succeed))"
    using remote_calls_are_operations [of blog_router "blog_host all_succeed"] blog_sites_listed(2) by blast
  then show ?thesis using blog_sites_listed(1) by (simp add: relay_def split_beta split: sum.split)
qed

section \<open>Every answer is an envelope\<close>

text \<open>An answer and its status agree.\<close>

definition answer_wf :: "rpc_response \<Rightarrow> bool" where
  "answer_wf rp \<longleftrightarrow> hp_location rp = None \<and>
     ((\<exists>x. json_ok x \<and> hp_status rp \<in> {200, 201} \<and> json_parse (hp_body rp) = Some (ok_envelope x))
     \<or> (\<exists>c m. hp_status rp \<in> {400, 404, 405, 409, 500} \<and> c \<noteq> [] \<and> json_parse (hp_body rp) = Some (error_envelope c m)))"

lemma write_json_wf: "json_ok x \<Longrightarrow> status \<in> {200, 201} \<Longrightarrow> answer_wf (write_json status x)"
  by (auto simp: answer_wf_def write_json_def json_parse_line envelopes_ok)

lemma write_error_wf: "c \<noteq> [] \<Longrightarrow> status \<in> {400, 404, 405, 409, 500} \<Longrightarrow> answer_wf (write_error status c m)"
  by (auto simp: answer_wf_def write_error_def json_parse_line envelopes_ok)

lemma app_error_wf: "answer_wf (handle_app_error e)"
  unfolding handle_app_error_def by (simp add: error_class_def write_error_wf)

lemma answer_is_wf: "(\<And>x. json_ok (enc x)) \<Longrightarrow> status \<in> {200, 201} \<Longrightarrow> answer_wf (fst (answer status enc r))"
  by (simp add: answer_def app_error_wf write_json_wf split: prod.split sum.split)

lemma with_body_wf: "(\<And>x w. answer_wf (fst (f x w))) \<Longrightarrow> answer_wf (fst (with_body dec rq f w))"
  by (simp add: with_body_def invalid_json_def write_error_wf split: sum.split)

section \<open>Paths that are not clean\<close>

lemma clean_parts_rooted:
  "\<forall>p \<in> set out. segment p \<Longrightarrow> \<forall>p \<in> set ps. slash \<notin> set p \<Longrightarrow> \<forall>p \<in> set (clean_parts True out ps). segment p"
proof (induction ps arbitrary: out)
  case (Cons p ps)
  have step: "\<forall>q \<in> set (clean_parts True out' ps). segment q" if "\<forall>q \<in> set out'. segment q" for out'
    by (rule Cons.IH [OF that]) (use Cons.prems(2) in simp)
  consider "p = [] \<or> p = ''.''" | "p = ''..''" | "segment p" using Cons.prems(2) by (auto simp: segment_def)
  then show ?case
  proof cases
    case 1
    then have "clean_parts True out (p # ps) = clean_parts True out ps" by simp
    with step [OF Cons.prems(1)] show ?thesis by simp
  next
    case 2
    show ?thesis
    proof (cases out)
      case Nil
      with 2 have "clean_parts True out (p # ps) = clean_parts True [] ps" by simp
      with step [of "[]"] show ?thesis by simp
    next
      case (Cons d ds)
      then have "d \<noteq> ''..''" "\<forall>q \<in> set ds. segment q" using Cons.prems(1) by (auto simp: segment_def)
      moreover from this have "clean_parts True out (p # ps) = clean_parts True ds ps" using 2 Cons by simp
      ultimately show ?thesis using step [of ds] by simp
    qed
  next
    case 3
    then have "p \<noteq> []" "p \<noteq> ''.''" "p \<noteq> ''..''" unfolding segment_def by blast+
    then have eq: "clean_parts True out (p # ps) = clean_parts True (p # out) ps" by (simp only: clean_parts.simps if_False simp_thms)
    have "\<forall>q \<in> set (p # out). segment q" using 3 Cons.prems(1) by simp
    from step [OF this] show ?thesis unfolding eq .
  qed
qed simp

lemma clean_is_abs: "\<exists>qs. path_clean (slash # t) = abs_path qs \<and> (\<forall>q \<in> set qs. segment q)"
proof -
  let ?qs = "clean_parts True [] (split_on slash (slash # t))"
  have "\<forall>q \<in> set (split_on slash (slash # t)). slash \<notin> set q" using split_on_parts by blast
  then have "\<forall>q \<in> set ?qs. segment q" by (intro clean_parts_rooted) simp_all
  moreover have "path_clean (slash # t) = abs_path ?qs"
    by (simp add: path_clean_def Let_def abs_path_def del: split_on.simps clean_parts.simps)
  ultimately show ?thesis by blast
qed

lemma last_abs_path: "\<forall>q \<in> set qs. segment q \<Longrightarrow> last (abs_path qs) = slash \<longleftrightarrow> qs = []"
proof (induction qs rule: rev_induct)
  case (snoc n qs)
  then have n: "n \<noteq> []" "slash \<notin> set n" by (simp_all add: segmentD)
  then have "last n \<noteq> slash" using last_in_set [of n] by metis
  then have "last (abs_path (qs @ [n])) = last n" using n(1) by (cases "qs = []") (simp_all add: abs_path_def join_append)
  with \<open>last n \<noteq> slash\<close> show ?case by simp
qed (simp add: abs_path_def)

lemma clean_trailing:
  assumes "\<forall>q \<in> set qs. segment q" "qs \<noteq> []"
  shows "path_clean (abs_path qs @ [slash]) = abs_path qs"
proof -
  have "split_on slash (abs_path qs @ [slash]) = ([] # qs) @ [[]]"
    using split_on_append [of slash "abs_path qs" "[]"] split_abs_path [OF assms(1)] assms(2) by simp
  then show ?thesis using assms(1) by (simp add: path_clean_def Let_def abs_path_def clean_parts_append)
qed

text \<open>A redirect leads to a path that is not redirected again.\<close>

lemma mux_path_settles:
  assumes "has_prefix p ''/''"
  shows "mux_path (mux_path p) = mux_path p"
proof -
  obtain t where t: "p = slash # t" using assms by (auto simp: has_prefix_iff)
  obtain qs where c: "path_clean p = abs_path qs" and q: "\<forall>q \<in> set qs. segment q" using clean_is_abs [of t] t by blast
  have a: "abs_path qs \<noteq> []" "hd (abs_path qs) = slash" "abs_path qs = [slash] \<longleftrightarrow> qs = []"
    using last_abs_path [OF q] by (auto simp: abs_path_def)
  have m: "mux_path u = (if last u = slash \<and> path_clean u \<noteq> [slash] then path_clean u @ [slash] else path_clean u)"
    if "u \<noteq> []" "hd u = slash" for u using that by (simp add: mux_path_def Let_def)
  have "mux_path (abs_path qs) = abs_path qs" using a q last_abs_path [OF q] by (simp add: m)
  moreover have "mux_path (abs_path qs @ [slash]) = abs_path qs @ [slash]" if "qs \<noteq> []"
    using a q that clean_trailing [OF q that] by (simp add: m)
  moreover have "mux_path p = abs_path qs \<or> mux_path p = abs_path qs @ [slash] \<and> qs \<noteq> []"
    using c a m [of p] t by (cases "qs = []") simp_all
  ultimately show ?thesis by auto
qed

text \<open>C16: whatever is sent to the daemon - any method, any bytes as a body, any path that begins with a slash and
  holds no percent escape - is answered. A path that is not clean is redirected to its clean form, which
  is not redirected again, and nothing changes; every other answer is well typed for the client: one JSON
  envelope, with data and status 200 or 201, or with an error, its non-empty code and one of the statuses
  400, 404, 405, 409 and 500.\<close>

theorem every_answer_is_an_envelope:
  assumes "has_prefix (hq_path rq) ''/''" and "CHR ''%'' \<notin> set (hq_path rq)"
  shows "if redirected rq
    then handle_request d rq w = (\<lparr>hp_status = 301, hp_body = [], hp_location = Some (mux_path (hq_path rq))\<rparr>, w)
      \<and> \<not> redirected (rq\<lparr>hq_path := mux_path (hq_path rq)\<rparr>)
    else answer_wf (fst (handle_request d rq w))"
proof -
  have h: "answer_wf (fst (on_health d rq w))" "answer_wf (fst (on_sites_list d rq w))" "answer_wf (fst (on_sites_get d rq w))"
    "answer_wf (fst (on_sites_register d rq w))" "answer_wf (fst (on_sites_update d rq w))" "answer_wf (fst (on_php_list d rq w))"
    "answer_wf (fst (on_php_default d rq w))" "answer_wf (fst (on_php_inventory d rq w))" "answer_wf (fst (on_php_register d rq w))"
    "answer_wf (fst (on_php_switch d rq w))" "answer_wf (fst (on_services_action d rq w))"
    unfolding on_health_def on_sites_list_def on_sites_get_def on_sites_register_def on_sites_update_def on_php_list_def
      on_php_default_def on_php_inventory_def on_php_register_def on_php_switch_def on_services_action_def method_not_allowed_def
    by (auto simp: prints write_error_wf split_beta intro!: answer_is_wf with_body_wf)
  have "answer_wf (fst (f d rq w))" if "(k, f) \<in> set routes" for k f
    using that h unfolding routes_def by auto
  then have "answer_wf (fst (handle_request d rq w))" if "\<not> redirected rq"
    using that by (auto simp: handle_request_def write_error_wf dest: map_of_SomeD split: option.split)
  moreover have "\<not> redirected (rq\<lparr>hq_path := mux_path (hq_path rq)\<rparr>)"
    using mux_path_settles [OF assms(1)] by (simp add: redirected_def)
  moreover have "handle_request d rq w = (\<lparr>hp_status = 301, hp_body = [], hp_location = Some (mux_path (hq_path rq))\<rparr>, w)"
    if "redirected rq" using that by (simp add: handle_request_def)
  ultimately show ?thesis by simp
qed

definition get_request :: "string \<Rightarrow> rpc_request" where
  "get_request p = \<lparr>hq_method = ''GET'', hq_path = p, hq_query = [], hq_body = []\<rparr>"

theorem every_answer_is_an_envelope_witness:
  "handle_request blog_router (get_request ''//rpc/./health'') (blog_host all_succeed)
     = (\<lparr>hp_status = 301, hp_body = [], hp_location = Some ''/rpc/health''\<rparr>, blog_host all_succeed)
   \<and> answer_wf (fst (handle_request blog_router (get_request ''/rpc/sites.list'') (blog_host all_succeed)))"
proof -
  have r: "redirected (get_request ''//rpc/./health'')" "\<not> redirected (get_request ''/rpc/sites.list'')"
    "mux_path ''//rpc/./health'' = ''/rpc/health''" by code_simp+
  have "has_prefix (hq_path (get_request p)) ''/'' \<and> CHR ''%'' \<notin> set (hq_path (get_request p))"
    if "p = ''//rpc/./health'' \<or> p = ''/rpc/sites.list''" for p
    using that by (auto simp: get_request_def has_prefix_def)
  then show ?thesis
    using every_answer_is_an_envelope [of "get_request ''//rpc/./health''" blog_router "blog_host all_succeed"]
      every_answer_is_an_envelope [of "get_request ''/rpc/sites.list''" blog_router "blog_host all_succeed"] r
    by (simp add: get_request_def)
qed

end
