(* ===== verification/Shell_App.thy ===== *)
theory Shell_App
  imports Rpc_Correct
begin

text \<open>
  \<^verbatim>\<open>client/wails/app.go\<close>, \<^verbatim>\<open>menu.go\<close> and the tray: the object behind the desktop window. The calls into
  Wails, systray and \<^verbatim>\<open>os.Exit\<close> are a list of effects, in order; \<^verbatim>\<open>go a.emitSnapshot()\<close> adds to the
  refreshes that are still to run, each of which runs as one step. Dialling the socket is a parameter
  (\<open>bc_send\<close> of the client).
\<close>

section \<open>The client\<close>

record bridge_client =
  bc_socket_path :: string
  bc_base_url :: string
  bc_send :: transport

definition daemon_base_url :: string where "daemon_base_url = ''http://lara-nuxd''"

definition new_client :: "(string \<Rightarrow> transport) \<Rightarrow> string \<Rightarrow> bridge_client" where
  "new_client dial p = \<lparr>bc_socket_path = p, bc_base_url = daemon_base_url, bc_send = dial p\<rparr>"

definition new_client_for_tests :: "string \<Rightarrow> transport \<Rightarrow> bridge_client" where
  "new_client_for_tests base send = \<lparr>bc_socket_path = [], bc_base_url = base, bc_send = send\<rparr>"

definition default_socket_path :: "(string \<Rightarrow> string) \<Rightarrow> string" where
  "default_socket_path getenv =
     (if getenv ''LARA_NUXT_SOCKET_PATH'' \<noteq> [] then getenv ''LARA_NUXT_SOCKET_PATH''
      else ''/run/lara-nux/lara-nux.sock'')"

section \<open>State\<close>

record shell_state =
  sh_socket_path :: string
  sh_connected :: bool
  sh_last_error :: string
  sh_last_synced_at :: gotime

record shell_status =
  hl_socket_path :: string
  hl_connected :: bool
  hl_last_synced_at :: gotime
  hl_last_error :: string

record dashboard_snapshot =
  ds_health :: wire_health
  ds_sites :: "site_record list"
  ds_runtimes :: runtime_catalog
  ds_shell :: shell_status

datatype shell_effect =
    Tray_start | Tray_stop | Window_unminimise | Window_show | App_show | Window_hide | App_quit | Os_exit nat
  | Emit_navigate string | Emit_snapshot dashboard_snapshot | Emit_daemon_error string

record shell_app =
  sa_ctx :: bool                       \<comment> \<open>whether \<^verbatim>\<open>startup\<close> has set the context\<close>
  sa_client :: bridge_client
  sa_shell :: shell_state
  sa_pending :: nat                    \<comment> \<open>refreshes started with \<^verbatim>\<open>go\<close> that have not run\<close>
  sa_effects :: "shell_effect list"    \<comment> \<open>oldest first\<close>

definition new_app :: "bridge_client \<Rightarrow> shell_app" where
  "new_app c =
     \<lparr>sa_ctx = False, sa_client = c,
      sa_shell = \<lparr>sh_socket_path = bc_socket_path c, sh_connected = False, sh_last_error = [], sh_last_synced_at = zero_time\<rparr>,
      sa_pending = 0, sa_effects = []\<rparr>"

definition effects :: "shell_effect list \<Rightarrow> shell_app \<Rightarrow> shell_app" where
  "effects es a = a\<lparr>sa_effects := sa_effects a @ es\<rparr>"

definition go_refresh :: "shell_app \<Rightarrow> shell_app" where
  "go_refresh a = a\<lparr>sa_pending := Suc (sa_pending a)\<rparr>"

definition get_shell_state :: "shell_app \<Rightarrow> shell_state" where
  "get_shell_state a = sa_shell a"

section \<open>The window\<close>

definition show_window :: "shell_app \<Rightarrow> shell_app" where
  "show_window a = (if \<not> sa_ctx a then a else effects [Window_unminimise, Window_show, App_show] a)"

definition hide_window :: "shell_app \<Rightarrow> shell_app" where
  "hide_window a = (if \<not> sa_ctx a then a else effects [Window_hide] a)"

text \<open>\<^verbatim>\<open>os.Exit\<close> does not return.\<close>

definition quit_application :: "shell_app \<Rightarrow> shell_app" where
  "quit_application a = effects (Tray_stop # (if \<not> sa_ctx a then [Os_exit 0] else [App_quit])) a"

definition focus_route :: "string \<Rightarrow> shell_app \<Rightarrow> shell_app" where
  "focus_route route a =
     (let a1 = show_window a in if \<not> sa_ctx a1 then a1 else effects [Emit_navigate route] a1)"

definition app_startup :: "shell_app \<Rightarrow> shell_app" where
  "app_startup a = effects [Tray_start] (a\<lparr>sa_ctx := True\<rparr>)"

definition app_dom_ready :: "shell_app \<Rightarrow> shell_app" where
  "app_dom_ready a = go_refresh a"

definition app_shutdown :: "shell_app \<Rightarrow> shell_app" where
  "app_shutdown a = effects [Tray_stop] a"

definition on_second_instance :: "shell_app \<Rightarrow> shell_app" where
  "on_second_instance a = focus_route ''/sites'' a"

section \<open>The menu and the tray\<close>

datatype shell_action = Focus_route string | Refresh_snapshot | Quit_application

fun run_action :: "shell_action \<Rightarrow> shell_app \<Rightarrow> shell_app" where
  "run_action (Focus_route r) a = focus_route r a"
| "run_action Refresh_snapshot a = go_refresh a"
| "run_action Quit_application a = quit_application a"

datatype menu_entry = Menu_text (me_label: string) (me_key: string) (me_action: shell_action) | Menu_separator
datatype menu_part = App_menu | Edit_menu | Submenu string "menu_entry list"

definition app_menu :: "string \<Rightarrow> menu_part list" where
  "app_menu goos =
     (if goos = ''darwin'' then [App_menu] else [])
     @ [Submenu ''Lara Nux''
          [Menu_text ''Show window'' ''shift+s'' (Focus_route ''/sites''), Menu_text ''Refresh health'' ''r'' Refresh_snapshot,
           Menu_separator, Menu_text ''Quit'' ''q'' Quit_application]]
     @ (if goos = ''darwin'' then [Edit_menu] else [])"

record tray_callbacks =
  tc_open_sites :: "shell_action option"
  tc_open_runtimes :: "shell_action option"
  tc_refresh :: "shell_action option"
  tc_quit :: "shell_action option"

definition startup_callbacks :: tray_callbacks where
  "startup_callbacks =
     \<lparr>tc_open_sites = Some (Focus_route ''/sites''), tc_open_runtimes = Some (Focus_route ''/runtimes''),
      tc_refresh = Some Refresh_snapshot, tc_quit = Some Quit_application\<rparr>"

datatype tray_click = Click_sites | Click_runtimes | Click_refresh | Click_quit

definition run_callback :: "shell_action option \<Rightarrow> shell_app \<Rightarrow> shell_app" where
  "run_callback c a = (case c of None \<Rightarrow> a | Some x \<Rightarrow> run_action x a)"

text \<open>The goroutine of the tray: it handles clicks until the first one on Quit.\<close>

fun tray_loop :: "tray_callbacks \<Rightarrow> tray_click list \<Rightarrow> shell_app \<Rightarrow> shell_app" where
  "tray_loop cb [] a = a"
| "tray_loop cb (Click_sites # cs) a = tray_loop cb cs (run_callback (tc_open_sites cb) a)"
| "tray_loop cb (Click_runtimes # cs) a = tray_loop cb cs (run_callback (tc_open_runtimes cb) a)"
| "tray_loop cb (Click_refresh # cs) a = tray_loop cb cs (run_callback (tc_refresh cb) a)"
| "tray_loop cb (Click_quit # cs) a = run_callback (tc_quit cb) a"

text \<open>\<^verbatim>\<open>sync.Once\<close> of \<^verbatim>\<open>linuxTrayManager\<close>: what the tray shows - the items with their tooltips, the separator
  without - and whether \<^verbatim>\<open>systray.Quit\<close> was called.\<close>

record linux_tray =
  lt_started :: bool
  lt_stopped :: bool
  lt_title :: string
  lt_tooltip :: string
  lt_items :: "(string \<times> string) option list"

definition tray_start :: "linux_tray \<Rightarrow> linux_tray" where
  "tray_start t =
     (if lt_started t then t
      else t\<lparr>lt_started := True, lt_title := ''Lara Nux'', lt_tooltip := ''Lara Nux local Laravel environment'',
             lt_items := [Some (''Open Sites'', ''Show the Lara Nux sites workspace''),
                          Some (''Open Runtimes'', ''Show runtimes and health''),
                          Some (''Refresh Health'', ''Refresh daemon health and site state''), None,
                          Some (''Quit'', ''Quit Lara Nux'')]\<rparr>)"

definition tray_stop :: "linux_tray \<Rightarrow> linux_tray" where
  "tray_stop t = (if lt_stopped t then t else t\<lparr>lt_stopped := True\<rparr>)"

section \<open>Marking a request\<close>

definition mark_connected :: "shell_app \<Rightarrow> world \<Rightarrow> shell_app \<times> world" where
  "mark_connected a w =
     (case clock_now w of
        (now, w1) \<Rightarrow>
          (a\<lparr>sa_shell := (sa_shell a)\<lparr>sh_connected := True, sh_last_error := [], sh_last_synced_at := now\<rparr>\<rparr>, w1))"

definition mark_disconnected :: "client_error \<Rightarrow> shell_app \<Rightarrow> world \<Rightarrow> shell_app \<times> world" where
  "mark_disconnected e a w =
     (case clock_now w of
        (now, w1) \<Rightarrow>
          (a\<lparr>sa_shell := (sa_shell a)\<lparr>sh_connected := False, sh_last_error := client_error_text e,
             sh_last_synced_at := now\<rparr>\<rparr>, w1))"

definition mark_request :: "client_error option \<Rightarrow> shell_app \<Rightarrow> world \<Rightarrow> shell_app \<times> world" where
  "mark_request e a w = (case e of Some e \<Rightarrow> mark_disconnected e a w | None \<Rightarrow> mark_connected a w)"

section \<open>The dashboard\<close>

definition load_dashboard :: "shell_app \<Rightarrow> world \<Rightarrow> ((client_error + dashboard_snapshot) \<times> shell_app) \<times> world" where
  "load_dashboard a w =
     (let send = bc_send (sa_client a);
          fails = (\<lambda>e w. case mark_disconnected e a w of (a1, w1) \<Rightarrow> ((Inl e, a1), w1))
      in (case client_health send w of
            (Inl e, w1) \<Rightarrow> fails e w1
          | (Inr health, w1) \<Rightarrow>
          (case client_list_sites send w1 of
             (Inl e, w2) \<Rightarrow> fails e w2
           | (Inr sites, w2) \<Rightarrow>
           (case client_runtime_catalog send w2 of
              (Inl e, w3) \<Rightarrow> fails e w3
            | (Inr runtimes, w3) \<Rightarrow>
                (case mark_connected a w3 of
                   (a1, w4) \<Rightarrow>
                     ((Inr \<lparr>ds_health = health, ds_sites = sites, ds_runtimes = runtimes,
                            ds_shell = \<lparr>hl_socket_path = sh_socket_path (sa_shell a1), hl_connected = True,
                              hl_last_synced_at = sh_last_synced_at (sa_shell a1), hl_last_error = []\<rparr>\<rparr>, a1), w4))))))"

definition emit_snapshot :: "shell_app \<Rightarrow> world \<Rightarrow> shell_app \<times> world" where
  "emit_snapshot a w =
     (case load_dashboard a w of
        ((Inl e, a1), w1) \<Rightarrow> (if sa_ctx a1 then effects [Emit_daemon_error (client_error_text e)] a1 else a1, w1)
      | ((Inr snapshot, a1), w1) \<Rightarrow> (if sa_ctx a1 then effects [Emit_snapshot snapshot] a1 else a1, w1))"

section \<open>The calls of the window\<close>

text \<open>Every call marks its request; those that change something start a refresh when they succeed.\<close>

definition app_call ::
    "bool \<Rightarrow> (transport \<Rightarrow> world \<Rightarrow> (client_error + 'a) \<times> world) \<Rightarrow> shell_app \<Rightarrow> world
       \<Rightarrow> ((client_error + 'a) \<times> shell_app) \<times> world" where
  "app_call refreshes call a w =
     (case call (bc_send (sa_client a)) w of
        (Inl e, w1) \<Rightarrow> (case mark_request (Some e) a w1 of (a1, w2) \<Rightarrow> ((Inl e, a1), w2))
      | (Inr x, w1) \<Rightarrow>
          (case mark_request None a w1 of
             (a1, w2) \<Rightarrow> ((Inr x, if refreshes then go_refresh a1 else a1), w2)))"

definition app_list_sites :: "shell_app \<Rightarrow> world \<Rightarrow> ((client_error + site_record list) \<times> shell_app) \<times> world" where
  "app_list_sites = app_call False client_list_sites"

definition app_get_site :: "string \<Rightarrow> shell_app \<Rightarrow> world \<Rightarrow> ((client_error + site_record) \<times> shell_app) \<times> world" where
  "app_get_site i = app_call False (\<lambda>send. client_get_site send i)"

definition app_register_site ::
    "site_registration_input \<Rightarrow> shell_app \<Rightarrow> world \<Rightarrow> ((client_error + wire_activation) \<times> shell_app) \<times> world" where
  "app_register_site q = app_call True (\<lambda>send. client_register_site send q)"

definition app_update_site :: "site_update_input \<Rightarrow> shell_app \<Rightarrow> world \<Rightarrow> ((client_error + site_record) \<times> shell_app) \<times> world" where
  "app_update_site u = app_call True (\<lambda>send. client_update_site send u)"

definition app_get_health :: "shell_app \<Rightarrow> world \<Rightarrow> ((client_error + wire_health) \<times> shell_app) \<times> world" where
  "app_get_health = app_call False client_health"

definition app_get_runtime_catalog :: "shell_app \<Rightarrow> world \<Rightarrow> ((client_error + runtime_catalog) \<times> shell_app) \<times> world" where
  "app_get_runtime_catalog = app_call False client_runtime_catalog"

definition app_set_default_runtime ::
    "string \<Rightarrow> shell_app \<Rightarrow> world \<Rightarrow> ((client_error + php_runtime_record option) \<times> shell_app) \<times> world" where
  "app_set_default_runtime v = app_call True (\<lambda>send. client_set_default send v)"

definition app_switch_site_runtime ::
    "string \<Rightarrow> string \<Rightarrow> shell_app \<Rightarrow> world \<Rightarrow> ((client_error + site_record) \<times> shell_app) \<times> world" where
  "app_switch_site_runtime i v = app_call True (\<lambda>send. client_switch_runtime send i v)"

definition app_service_action ::
    "string \<Rightarrow> string \<Rightarrow> shell_app \<Rightarrow> world \<Rightarrow> ((client_error + wire_status) \<times> shell_app) \<times> world" where
  "app_service_action n act = app_call True (\<lambda>send. client_service_action send n act)"

end
