(* ===== verification/Shell_Correct.thy ===== *)
theory Shell_Correct
  imports Shell_App
begin

text \<open>
  The desktop shell as a state machine: what its state says about the daemon in every state it reaches,
  and what it ever shows.
\<close>

section \<open>Steps\<close>

text \<open>Requests of the window, events of the toolkit, refreshes that were started, and a world that changes.\<close>

inductive shell_step :: "shell_app \<times> world \<Rightarrow> shell_app \<times> world \<Rightarrow> bool" where
  toolkit: "a' \<in> {app_startup a, app_dom_ready a, app_shutdown a, on_second_instance a, show_window a, hide_window a, run_action x a}
    \<Longrightarrow> shell_step (a, w) (a', w)"
| tray: "shell_step (a, w) (tray_loop startup_callbacks cs a, w)"
| refresh: "sa_pending a = Suc n \<Longrightarrow> emit_snapshot (a\<lparr>sa_pending := n\<rparr>) w = (a', w') \<Longrightarrow> shell_step (a, w) (a', w')"
| dashboard: "load_dashboard a w = ((r, a'), w') \<Longrightarrow> shell_step (a, w) (a', w')"
| sites: "app_list_sites a w = ((r1, a'), w') \<Longrightarrow> shell_step (a, w) (a', w')"
| site: "app_get_site i a w = ((r2, a'), w') \<Longrightarrow> shell_step (a, w) (a', w')"
| register: "app_register_site q a w = ((r3, a'), w') \<Longrightarrow> shell_step (a, w) (a', w')"
| update: "app_update_site u a w = ((r2, a'), w') \<Longrightarrow> shell_step (a, w) (a', w')"
| health: "app_get_health a w = ((r4, a'), w') \<Longrightarrow> shell_step (a, w) (a', w')"
| catalog: "app_get_runtime_catalog a w = ((r5, a'), w') \<Longrightarrow> shell_step (a, w) (a', w')"
| set_default: "app_set_default_runtime v a w = ((r6, a'), w') \<Longrightarrow> shell_step (a, w) (a', w')"
| switch: "app_switch_site_runtime i v a w = ((r2, a'), w') \<Longrightarrow> shell_step (a, w) (a', w')"
| service: "app_service_action n act a w = ((r7, a'), w') \<Longrightarrow> shell_step (a, w) (a', w')"
| elsewhere: "shell_step (a, w) (a, w')"

inductive_cases shell_stepE: "shell_step (a, w) (a', w')"

section \<open>The invariant\<close>

fun without_window :: "shell_effect \<Rightarrow> bool" where
  "without_window Tray_start = True"
| "without_window Tray_stop = True"
| "without_window (Os_exit n) = True"
| "without_window e = False"

text \<open>
  A snapshot is complete when the daemon answered all three calls behind it, one after the other, and it
  shows these answers. An error event tells of a call that failed.
\<close>

definition complete_snapshot :: "bridge_client \<Rightarrow> dashboard_snapshot \<Rightarrow> bool" where
  "complete_snapshot c s \<longleftrightarrow>
     (\<exists>v v1 v2 v3. client_health (bc_send c) v = (Inr (ds_health s), v1)
        \<and> client_list_sites (bc_send c) v1 = (Inr (ds_sites s), v2)
        \<and> client_runtime_catalog (bc_send c) v2 = (Inr (ds_runtimes s), v3))"

definition failed_call :: "bridge_client \<Rightarrow> client_error \<Rightarrow> bool" where
  "failed_call c e \<longleftrightarrow>
     (\<exists>v v'. client_health (bc_send c) v = (Inl e, v') \<or> client_list_sites (bc_send c) v = (Inl e, v')
        \<or> client_runtime_catalog (bc_send c) v = (Inl e, v'))"

fun effect_ok :: "bridge_client \<Rightarrow> shell_effect \<Rightarrow> bool" where
  "effect_ok c (Emit_snapshot s) = (complete_snapshot c s
     \<and> ds_shell s = \<lparr>hl_socket_path = bc_socket_path c, hl_connected = True,
         hl_last_synced_at = hl_last_synced_at (ds_shell s), hl_last_error = []\<rparr>)"
| "effect_ok c (Emit_daemon_error t) = (\<exists>e. failed_call c e \<and> t = client_error_text e)"
| "effect_ok c e = True"

definition shell_ok :: "bridge_client \<Rightarrow> shell_app \<Rightarrow> bool" where
  "shell_ok c a \<longleftrightarrow> sa_client a = c \<and> sh_socket_path (sa_shell a) = bc_socket_path c
     \<and> (sh_connected (sa_shell a) \<longrightarrow> sh_last_error (sa_shell a) = [])
     \<and> list_all (effect_ok c) (sa_effects a)
     \<and> (sa_ctx a \<or> list_all without_window (sa_effects a))"

named_theorems shell_keeps "the operation keeps the shell's invariant"

lemma new_app_ok: "shell_ok c (new_app c)"
  by (simp add: shell_ok_def new_app_def)

lemma effects_ok [shell_keeps]:
  "shell_ok c a \<Longrightarrow> list_all (effect_ok c) es \<Longrightarrow> sa_ctx a \<or> list_all without_window es \<Longrightarrow> shell_ok c (effects es a)"
  by (auto simp: shell_ok_def effects_def)

lemma window_ok [shell_keeps]:
  assumes "shell_ok c a"
  shows "shell_ok c (show_window a)" "shell_ok c (hide_window a)" "shell_ok c (focus_route r a)" "shell_ok c (go_refresh a)"
    "shell_ok c (quit_application a)" "shell_ok c (app_startup a)" "shell_ok c (app_shutdown a)" "shell_ok c (app_dom_ready a)"
    "shell_ok c (on_second_instance a)"
proof -
  show s: "shell_ok c (show_window a)" using assms by (simp add: show_window_def effects_ok)
  show "shell_ok c (hide_window a)" using assms by (simp add: hide_window_def effects_ok)
  show f: "shell_ok c (focus_route r a)" for r using s by (simp add: focus_route_def Let_def effects_ok)
  show g: "shell_ok c (go_refresh a)" using assms by (simp add: shell_ok_def go_refresh_def)
  show "shell_ok c (quit_application a)" using assms unfolding quit_application_def by (rule effects_ok) simp_all
  have "shell_ok c (a\<lparr>sa_ctx := True\<rparr>)" using assms by (simp add: shell_ok_def)
  then show "shell_ok c (app_startup a)" unfolding app_startup_def by (rule effects_ok) simp_all
  show "shell_ok c (app_shutdown a)" using assms unfolding app_shutdown_def by (rule effects_ok) simp_all
  show "shell_ok c (app_dom_ready a)" using g by (simp add: app_dom_ready_def)
  show "shell_ok c (on_second_instance a)" using f by (simp add: on_second_instance_def)
qed

lemma action_ok [shell_keeps]: "shell_ok c a \<Longrightarrow> shell_ok c (run_action x a)"
  by (cases x) (simp_all add: window_ok)

lemma tray_ok [shell_keeps]: "shell_ok c a \<Longrightarrow> shell_ok c (tray_loop startup_callbacks cs a)"
  by (induction startup_callbacks cs a rule: tray_loop.induct)
     (auto simp: run_callback_def action_ok split: option.split)

lemma mark_ok:
  assumes "shell_ok c a"
  shows "mark_connected a w = (a1, w1) \<Longrightarrow> shell_ok c a1 \<and> sa_ctx a1 = sa_ctx a \<and> sh_connected (sa_shell a1)"
    "mark_disconnected e a w = (a1, w1) \<Longrightarrow> shell_ok c a1 \<and> sa_ctx a1 = sa_ctx a
       \<and> \<not> sh_connected (sa_shell a1) \<and> sh_last_error (sa_shell a1) = client_error_text e"
  using assms by (auto simp: mark_connected_def mark_disconnected_def shell_ok_def split: prod.splits)

text \<open>A load of the dashboard: one of its calls failed, or all three were answered.\<close>

lemma load_dashboard_cases:
  assumes "load_dashboard a w = ((r, a1), w1)"
  obtains e v where "r = Inl e" "failed_call (sa_client a) e" "mark_disconnected e a v = (a1, w1)"
  | s v where "r = Inr s" "complete_snapshot (sa_client a) s" "mark_connected a v = (a1, w1)"
      "ds_shell s = \<lparr>hl_socket_path = sh_socket_path (sa_shell a1), hl_connected = True,
        hl_last_synced_at = sh_last_synced_at (sa_shell a1), hl_last_error = []\<rparr>"
proof -
  let ?send = "bc_send (sa_client a)"
  obtain q1 v1 where 1: "client_health ?send w = (q1, v1)" by force
  obtain q2 v2 where 2: "client_list_sites ?send v1 = (q2, v2)" by force
  obtain q3 v3 where 3: "client_runtime_catalog ?send v2 = (q3, v3)" by force
  note run = assms [unfolded load_dashboard_def Let_def 1 prod.case]
  show thesis
  proof (cases q1)
    case (Inl e)
    with run 1 show thesis by (intro that(1) [of e v1]) (auto simp: failed_call_def split: prod.splits)
  next
    case i1: (Inr x1)
    show thesis
    proof (cases q2)
      case (Inl e)
      with run i1 2 show thesis by (intro that(1) [of e v2]) (auto simp: failed_call_def split: prod.splits)
    next
      case i2: (Inr x2)
      show thesis
      proof (cases q3)
        case (Inl e)
        with run i1 i2 2 3 show thesis by (intro that(1) [of e v3]) (auto simp: failed_call_def split: prod.splits)
      next
        case (Inr x3)
        obtain a2 v4 where m: "mark_connected a v3 = (a2, v4)" by force
        show thesis
        proof (rule that(2))
          show "complete_snapshot (sa_client a) \<lparr>ds_health = x1, ds_sites = x2, ds_runtimes = x3,
              ds_shell = \<lparr>hl_socket_path = sh_socket_path (sa_shell a2), hl_connected = True,
                hl_last_synced_at = sh_last_synced_at (sa_shell a2), hl_last_error = []\<rparr>\<rparr>"
            using 1 2 3 i1 i2 Inr by (auto simp: complete_snapshot_def)
        qed (use run i1 i2 2 3 m Inr in auto)
      qed
    qed
  qed
qed

lemma dashboard_ok:
  assumes ok: "shell_ok c a" and res: "load_dashboard a w = ((r, a1), w1)"
  shows "shell_ok c a1"
    "case r of Inl e \<Rightarrow> effect_ok c (Emit_daemon_error (client_error_text e)) | Inr s \<Rightarrow> effect_ok c (Emit_snapshot s)"
proof -
  have c: "sa_client a = c" using ok by (simp add: shell_ok_def)
  from res have "shell_ok c a1 \<and> (case r of Inl e \<Rightarrow> effect_ok c (Emit_daemon_error (client_error_text e))
      | Inr s \<Rightarrow> effect_ok c (Emit_snapshot s))"
  proof (cases rule: load_dashboard_cases)
    case (1 e v)
    with mark_ok(2) [OF ok] c show ?thesis by auto
  next
    case (2 s v)
    with mark_ok(1) [OF ok 2(3)] c show ?thesis by (auto simp: shell_ok_def)
  qed
  then show "shell_ok c a1"
    "case r of Inl e \<Rightarrow> effect_ok c (Emit_daemon_error (client_error_text e)) | Inr s \<Rightarrow> effect_ok c (Emit_snapshot s)"
    by simp_all
qed

lemma emit_ok:
  assumes ok: "shell_ok c a" and res: "emit_snapshot a w = (a1, w1)"
  shows "shell_ok c a1"
proof -
  obtain r a2 w2 where l: "load_dashboard a w = ((r, a2), w2)" by (metis surj_pair)
  from dashboard_ok [OF ok l] res l show ?thesis
    by (auto simp: emit_snapshot_def split: sum.splits if_splits intro!: effects_ok)
qed

lemma call_ok: "shell_ok c a \<Longrightarrow> app_call b f a w = ((r, a1), w1) \<Longrightarrow> shell_ok c a1"
  by (auto simp: app_call_def mark_request_def split: prod.splits sum.splits if_splits dest: mark_ok intro: window_ok(4))

lemmas app_calls = app_list_sites_def app_get_site_def app_register_site_def app_update_site_def app_get_health_def
  app_get_runtime_catalog_def app_set_default_runtime_def app_switch_site_runtime_def app_service_action_def

lemma shell_step_ok: "shell_step (a, w) (a', w') \<Longrightarrow> shell_ok c a \<Longrightarrow> shell_ok c a'"
proof (erule shell_stepE)
  fix n assume "shell_ok c a" "emit_snapshot (a\<lparr>sa_pending := n\<rparr>) w = (a', w')"
  then show "shell_ok c a'" using emit_ok [of c "a\<lparr>sa_pending := n\<rparr>"] by (simp add: shell_ok_def)
qed (auto simp: app_calls intro: shell_keeps dashboard_ok(1) call_ok)

text \<open>C15: in every state the desktop shell reaches, whatever the user clicks, whatever the daemon answers and in
  whatever order the background refreshes run: a shell that says it is connected shows no error; the
  socket it names is the one its client dials; every snapshot it ever showed consists of what the daemon
  answered to three calls in a row - the health, the sites, the runtimes - none of which failed, and
  says so; every error it announced is one that such a call ended with; and nothing was done to the
  window before the toolkit had handed it over.\<close>

theorem shell_stays_consistent:
  assumes "shell_step\<^sup>*\<^sup>* (new_app c, w0) (a, w)"
  shows "(sh_connected (sa_shell a) \<longrightarrow> sh_last_error (sa_shell a) = [])
    \<and> sh_socket_path (sa_shell a) = bc_socket_path c
    \<and> (\<forall>s. Emit_snapshot s \<in> set (sa_effects a) \<longrightarrow> complete_snapshot c s
         \<and> hl_connected (ds_shell s) \<and> hl_last_error (ds_shell s) = [] \<and> hl_socket_path (ds_shell s) = bc_socket_path c)
    \<and> (\<forall>t. Emit_daemon_error t \<in> set (sa_effects a) \<longrightarrow> (\<exists>e. failed_call c e \<and> t = client_error_text e))
    \<and> (\<not> sa_ctx a \<longrightarrow> list_all without_window (sa_effects a))"
proof -
  have "shell_ok c (fst x)" if "shell_step\<^sup>*\<^sup>* (new_app c, w0) x" for x
    using that
  proof (induction rule: rtranclp_induct)
    case base
    then show ?case by (simp add: new_app_ok)
  next
    case (step y z)
    then show ?case using shell_step_ok [of "fst y" "snd y" "fst z" "snd z" c] by simp
  qed
  from this [OF assms] have ok: "shell_ok c a" by simp
  moreover have "complete_snapshot c s \<and> hl_connected (ds_shell s) \<and> hl_last_error (ds_shell s) = []
      \<and> hl_socket_path (ds_shell s) = bc_socket_path c" if "effect_ok c (Emit_snapshot s)" for s
    using that by (metis effect_ok.simps(1) shell_status.select_convs)
  moreover have "\<forall>e \<in> set (sa_effects a). effect_ok c e" using ok by (simp add: shell_ok_def list_all_iff)
  ultimately show ?thesis
    by (intro conjI allI impI) (auto simp: shell_ok_def dest: bspec [where P = "effect_ok c"])
qed

theorem shell_stays_consistent_witness:
  "\<exists>a w. shell_step\<^sup>*\<^sup>* (new_app (new_client (\<lambda>p. direct blog_router) ''/run/lara-nux/lara-nux.sock''), blog_host all_succeed) (a, w)
    \<and> sh_connected (sa_shell a) \<and> sh_last_error (sa_shell a) = []"
proof -
  let ?c = "new_client (\<lambda>p. direct blog_router) ''/run/lara-nux/lara-nux.sock''" and ?w = "blog_host all_succeed"
  obtain w1 where l: "client_list_sites (bc_send ?c) ?w = (Inr [stored_blog], w1)"
    using relay_list_sites [OF blog_sites_listed(2)] blog_sites_listed(1)
    by (auto simp: new_client_def relay_def split_beta split: sum.split)
  obtain r a w where r: "app_list_sites (new_app ?c) ?w = ((r, a), w)" by (metis surj_pair)
  then have "sh_connected (sa_shell a)"
    using l by (auto simp: app_list_sites_def app_call_def mark_request_def mark_connected_def new_app_def split: prod.splits)
  moreover have s: "shell_step\<^sup>*\<^sup>* (new_app ?c, ?w) (a, w)" using shell_step.sites [OF r] by blast
  ultimately show ?thesis using shell_stays_consistent [OF s] by blast
qed

text \<open>An error the daemon itself answered with counts as a lost connection.\<close>

lemma app_error_disconnects:
  "call (bc_send (sa_client a)) w = (Inl (Remote status code message), w1) \<Longrightarrow>
     \<not> sh_connected (sa_shell (snd (fst (app_call b call a w))))"
  by (simp add: app_call_def mark_request_def mark_disconnected_def split_beta)

end
