(* ===== verification/Unix_Socket.thy ===== *)
theory Unix_Socket
  imports App_Interfaces
begin

text \<open>
  The daemon's socket: \<^verbatim>\<open>bindUnixSocket\<close> of \<^verbatim>\<open>daemon/cmd/lara-nuxd/main.go\<close> and the system calls it needs
  beside those of the files. The owner and the group of a node are not part of the file system of the
  model; \<^verbatim>\<open>user.LookupGroup\<close> is a parameter, the text of the group's ID or an error.
\<close>

section \<open>System calls\<close>

text \<open>No path of the model is a symbolic link, so \<^verbatim>\<open>Lstat\<close> is \<^verbatim>\<open>Stat\<close> under another name.\<close>

definition os_lstat :: "string \<Rightarrow> world \<Rightarrow> (err + node) \<times> world" where
  "os_lstat p w =
     (case fault w of
        Some e \<Rightarrow> (Inl (path_error ''lstat'' p e), next_tick w)
      | None \<Rightarrow> (case node_at w p of
                  None \<Rightarrow> (Inl (path_error ''lstat'' p ENOENT), next_tick w)
                | Some n \<Rightarrow> (Inr n, next_tick w)))"

text \<open>\<^verbatim>\<open>net.Listen("unix", p)\<close> makes the socket's node; closing the listener removes it again.\<close>

definition net_listen_unix :: "string \<Rightarrow> world \<Rightarrow> (err + unit) \<times> world" where
  "net_listen_unix p w =
     (let failed = (\<lambda>kinds text. (Inl (Err kinds (''listen unix '' @ p @ '': bind: '' @ text)), next_tick w))
      in (case fault w of
            Some e \<Rightarrow> failed (errno_kinds e) (errno_text e)
          | None \<Rightarrow>
              (if node_at w p \<noteq> None then failed [] ''address already in use''
               else if \<not> dir_ok w (path_dir p) then failed (errno_kinds ENOENT) (errno_text ENOENT)
               else (Inr (), next_tick (put_node p (Sock (masked w 0x1FF)) w)))))"

definition listener_close :: "string \<Rightarrow> world \<Rightarrow> world" where
  "listener_close p w =
     (case fault w of
        Some e \<Rightarrow> next_tick w
      | None \<Rightarrow> (case node_at w p of Some (Sock m) \<Rightarrow> next_tick (del_node p w) | _ \<Rightarrow> next_tick w))"

definition os_chown :: "string \<Rightarrow> nat \<Rightarrow> int \<Rightarrow> world \<Rightarrow> (err + unit) \<times> world" where
  "os_chown p uid gid w =
     (case fault w of
        Some e \<Rightarrow> (Inl (path_error ''chown'' p e), next_tick w)
      | None \<Rightarrow>
          (if node_at w p = None then (Inl (path_error ''chown'' p ENOENT), next_tick w) else (Inr (), next_tick w)))"

section \<open>Numbers\<close>

text \<open>\<^verbatim>\<open>strconv.Atoi\<close> on a machine with 64-bit integers.\<close>

definition digits_value :: "string \<Rightarrow> nat" where
  "digits_value s = foldl (\<lambda>n c. 10 * n + (of_char c - 48)) 0 s"

definition atoi_error :: "string \<Rightarrow> string \<Rightarrow> err" where
  "atoi_error s problem = errorf (''strconv.Atoi: parsing '' @ go_quote s @ '': '' @ problem)"

definition go_atoi :: "string \<Rightarrow> err + int" where
  "go_atoi s =
     (let negative = has_prefix s ''-'';
          digits = (if negative \<or> has_prefix s ''+'' then drop 1 s else s);
          n = digits_value digits
      in if digits = [] \<or> \<not> list_all is_digit digits then Inl (atoi_error s ''invalid syntax'')
         else if (if negative then 2 ^ 63 < n else 2 ^ 63 \<le> n) then Inl (atoi_error s ''value out of range'')
         else Inr (if negative then - int n else int n))"

section \<open>Binding\<close>

definition mode_0660 :: file_mode where "mode_0660 = 0x1B0"

text \<open>What stands at the path is removed when it is a socket, and refused when it is anything else.\<close>

definition clear_stale_socket :: "string \<Rightarrow> world \<Rightarrow> (err + unit) \<times> world" where
  "clear_stale_socket p w =
     (case os_lstat p w of
        (Inr info, w1) \<Rightarrow>
          (if \<not> is_socket info then (Inl (errorf (''existing path is not a unix socket: '' @ p)), w1)
           else (case os_remove p w1 of
                   (Inl e, w2) \<Rightarrow> (Inl (wrap_err ''remove stale unix socket'' e), w2)
                 | (Inr _, w2) \<Rightarrow> (Inr (), w2)))
      | (Inl e, w1) \<Rightarrow>
          (if \<not> errors_is e OsNotExist then (Inl (wrap_err ''inspect socket path'' e), w1) else (Inr (), w1)))"

text \<open>The rights of the socket: every failure closes the listener.\<close>

definition grant_socket :: "(string \<Rightarrow> err + string) \<Rightarrow> nat \<Rightarrow> string \<Rightarrow> world \<Rightarrow> (err + unit) \<times> world" where
  "grant_socket lookup_group euid p w =
     (case os_chmod p mode_0660 w of
        (Inl e, w1) \<Rightarrow> (Inl (wrap_err ''set socket permissions'' e), listener_close p w1)
      | (Inr _, w1) \<Rightarrow>
      (case lookup_group ''lara-nux'' of
         Inl e \<Rightarrow> (Inl (wrap_err ''lookup socket group'' e), listener_close p w1)
       | Inr text \<Rightarrow>
       (case go_atoi text of
          Inl e \<Rightarrow> (Inl (wrap_err ''parse socket group id'' e), listener_close p w1)
        | Inr gid \<Rightarrow>
        (case os_chown p euid gid w1 of
           (Inl e, w2) \<Rightarrow> (Inl (wrap_err ''set socket ownership'' e), listener_close p w2)
         | (Inr _, w2) \<Rightarrow> (Inr (), w2)))))"

definition bind_unix_socket :: "(string \<Rightarrow> err + string) \<Rightarrow> nat \<Rightarrow> string \<Rightarrow> world \<Rightarrow> (err + unit) \<times> world" where
  "bind_unix_socket lookup_group euid p w =
     (case os_mkdir_all (path_dir p) mode_0750 w of
        (Inl e, w1) \<Rightarrow> (Inl (wrap_err ''create runtime directory'' e), w1)
      | (Inr _, w1) \<Rightarrow>
      (case clear_stale_socket p w1 of
         (Inl e, w2) \<Rightarrow> (Inl e, w2)
       | (Inr _, w2) \<Rightarrow>
       (case net_listen_unix p w2 of
          (Inl e, w3) \<Rightarrow> (Inl (wrap_err ''listen on unix socket'' e), w3)
        | (Inr _, w3) \<Rightarrow> grant_socket lookup_group euid p w3)))"

section \<open>Frames\<close>

lemma reads_os_lstat [reads]: "os_lstat p w = (r, w1) \<Longrightarrow> same_host w w1"
  by (auto simp: os_lstat_def split: option.splits)

lemma reads_os_chown [reads]: "os_chown p u g w = (r, w1) \<Longrightarrow> same_host w w1"
  by (auto simp: os_chown_def split: option.splits if_splits)

lemma os_lstat_world [simp]: "snd (os_lstat p w) = next_tick w"
  by (simp add: os_lstat_def split: option.split)

lemma os_chown_world [simp]: "snd (os_chown p u g w) = next_tick w"
  by (simp add: os_chown_def split: option.split)

text \<open>No file is made, changed or removed by any of it.\<close>

lemma net_listen_frame [frame_simps]:
  "orc (snd (net_listen_unix p w)) = orc w" "file_at (snd (net_listen_unix p w)) q = file_at w q"
  "q \<noteq> p \<Longrightarrow> node_at (snd (net_listen_unix p w)) q = node_at w q"
  by (auto simp: net_listen_unix_def Let_def file_at_None split: option.split)

lemma listener_close_frame [frame_simps]:
  "orc (listener_close p w) = orc w" "file_at (listener_close p w) q = file_at w q"
  "q \<noteq> p \<Longrightarrow> node_at (listener_close p w) q = node_at w q"
  by (auto simp: listener_close_def file_at_def split: option.split node.split)

lemma clear_stale_frame [frame_simps]:
  "orc (snd (clear_stale_socket p w)) = orc w" "file_at (snd (clear_stale_socket p w)) q = file_at w q"
  "q \<noteq> p \<Longrightarrow> node_at (snd (clear_stale_socket p w)) q = node_at w q"
proof -
  show "orc (snd (clear_stale_socket p w)) = orc w"
    "q \<noteq> p \<Longrightarrow> node_at (snd (clear_stale_socket p w)) q = node_at w q"
    by (simp_all add: clear_stale_socket_def split_beta frame_simps split: sum.split)
  show "file_at (snd (clear_stale_socket p w)) q = file_at w q"
    by (auto simp: clear_stale_socket_def split_beta os_lstat_def os_remove_def file_at_def
        split: sum.split option.splits node.splits if_splits)
qed

lemma grant_socket_frame [frame_simps]:
  "orc (snd (grant_socket g u p w)) = orc w" "file_at (snd (grant_socket g u p w)) q = file_at w q"
  "q \<noteq> p \<Longrightarrow> node_at (snd (grant_socket g u p w)) q = node_at w q"
  by (simp_all add: grant_socket_def split_beta frame_simps split: sum.split)

lemma bind_unix_socket_frame [frame_simps]:
  "orc (snd (bind_unix_socket g u p w)) = orc w" "file_at (snd (bind_unix_socket g u p w)) q = file_at w q"
  by (simp_all add: bind_unix_socket_def split_beta frame_simps split: sum.split)

section \<open>What binding does\<close>

text \<open>A bound socket is a socket that the operator group may use; what stood there before was one too, or nothing.\<close>

lemma bind_unix_socket_Inr:
  assumes "bind_unix_socket g u p w = (Inr (), w')"
  shows "node_at w' p = Some (Sock mode_0660)" "\<exists>text gid. g ''lara-nux'' = Inr text \<and> go_atoi text = Inr gid"
    "file_at w p = None"
proof -
  from assms obtain w1 w2 w3 where 1: "os_mkdir_all (path_dir p) mode_0750 w = (Inr (), w1)"
      and 2: "clear_stale_socket p w1 = (Inr (), w2)" and 3: "net_listen_unix p w2 = (Inr (), w3)"
      and 4: "grant_socket g u p w3 = (Inr (), w')"
    unfolding bind_unix_socket_def result_iff by auto
  from 4 obtain w4 gt gid where c: "os_chmod p mode_0660 w3 = (Inr (), w4)" and g: "g ''lara-nux'' = Inr gt"
      "go_atoi gt = Inr gid" and w': "same_host w4 w'"
    unfolding grant_socket_def result_iff by (auto dest: reads_os_chown)
  from 3 have n3: "node_at w3 p = Some (Sock (masked w2 0x1FF))" and n2: "node_at w2 p = None"
    by (auto simp: net_listen_unix_def Let_def split: option.splits if_splits)
  from c n3 have "node_at w4 p = Some (Sock mode_0660)"
    by (auto simp: os_chmod_def split: option.splits)
  then show "node_at w' p = Some (Sock mode_0660)" using same_hostD(2) [OF w'] by simp
  show "\<exists>text gid. g ''lara-nux'' = Inr text \<and> go_atoi text = Inr gid" using g by blast
  have "file_at w2 p = None" using n2 by (simp add: file_at_None)
  moreover have "file_at w2 p = file_at w1 p" using clear_stale_frame(2) [of p w1 p] 2 by simp
  moreover have "file_at w1 p = file_at w p" using os_mkdir_all_file_at [of "path_dir p" mode_0750 w p] 1 by simp
  ultimately show "file_at w p = None" by simp
qed

text \<open>Anything but a socket at the path stops the daemon and stays.\<close>

lemma clear_stale_foreign:
  assumes "node_at w p = Some n" "\<not> is_socket n"
  shows "snd (clear_stale_socket p w) = next_tick w"
  using assms by (auto simp: clear_stale_socket_def split_beta os_lstat_def split: option.split)

lemma net_listen_occupied:
  "node_at w p \<noteq> None \<Longrightarrow> is_Inl (fst (net_listen_unix p w)) \<and> snd (net_listen_unix p w) = next_tick w"
  by (auto simp: net_listen_unix_def Let_def split: option.split)

lemma bind_foreign_path:
  assumes n: "node_at w p = Some n" and s: "\<not> is_socket n"
  shows "is_Inl (fst (bind_unix_socket g u p w))" "node_at (snd (bind_unix_socket g u p w)) p = Some n"
proof -
  define w1 where "w1 = snd (os_mkdir_all (path_dir p) mode_0750 w)"
  have n1: "node_at w1 p = Some n" using os_mkdir_all_frame(3) [of w p "path_dir p" mode_0750] n by (simp add: w1_def)
  note 2 = clear_stale_foreign [OF n1 s]
  have 3: "is_Inl (fst (net_listen_unix p (next_tick w1)))"
      "snd (net_listen_unix p (next_tick w1)) = next_tick (next_tick w1)"
    using net_listen_occupied [of "next_tick w1" p] n1 by simp_all
  then obtain e where e: "net_listen_unix p (next_tick w1) = (Inl e, next_tick (next_tick w1))"
    by (metis is_InlD prod.collapse)
  show "is_Inl (fst (bind_unix_socket g u p w))" "node_at (snd (bind_unix_socket g u p w)) p = Some n"
    using n1 2 e by (simp_all add: bind_unix_socket_def split_beta w1_def [symmetric] split: sum.split)
qed

text \<open>The daemon comes up again over the socket a crash has left, when the host's calls do not fail.\<close>

lemma make_dirs_there:
  "\<forall>d \<in> set ds. \<exists>m. node_at w d = Some (Dir m) \<Longrightarrow> make_dirs mo ds w = (Inr (), w)"
  by (induction ds) auto

lemma bind_unix_socket_works:
  assumes q: "quiet w" and dir: "dir_ok w (path_dir p)"
    and dirs: "\<forall>d \<in> set (dir_chain (path_dir p)). \<exists>m. node_at w d = Some (Dir m)"
    and at: "case node_at w p of None \<Rightarrow> True | Some n \<Rightarrow> is_socket n"
    and g: "g ''lara-nux'' = Inr gt" "go_atoi gt = Inr gid"
  shows "fst (bind_unix_socket g u p w) = Inr ()"
proof -
  have f: "fault v = None" if "orc v = orc w" for v using quiet_fault [OF quiet_orc [OF q that]] .
  have 1: "os_mkdir_all (path_dir p) mode_0750 w = (Inr (), w)"
    using dirs by (simp add: os_mkdir_all_def make_dirs_there)
  define w2 where "w2 = snd (clear_stale_socket p w)"
  have 2: "clear_stale_socket p w = (Inr (), w2)" and n2: "node_at w2 p = None"
    using at f [of w] f [of "next_tick w"]
    by (auto simp: w2_def clear_stale_socket_def os_lstat_def os_remove_def split: option.splits node.splits)
  have o2: "orc w2 = orc w" by (simp add: w2_def frame_simps)
  have "node_at w2 (path_dir p) = node_at w (path_dir p)" if "node_at w (path_dir p) = Some (Dir m)" for m
    using at that unfolding w2_def by (intro clear_stale_frame(3)) auto
  then have d2: "dir_ok w2 (path_dir p)" using dir by (auto simp: dir_ok_def split: option.splits node.splits)
  define w3 where "w3 = next_tick (put_node p (Sock (masked w2 0x1FF)) w2)"
  have 3: "net_listen_unix p w2 = (Inr (), w3)"
    using n2 d2 f [OF o2] by (simp add: net_listen_unix_def Let_def w3_def)
  define w4 where "w4 = next_tick (put_node p (Sock mode_0660) w3)"
  have 4: "os_chmod p mode_0660 w3 = (Inr (), w4)"
    using f [of w3] o2 by (simp add: os_chmod_def w3_def w4_def)
  have 5: "fst (os_chown p u gid w4) = Inr ()"
    using f [of w4] o2 by (simp add: os_chown_def w4_def w3_def)
  show ?thesis using 1 2 3 4 5 g by (simp add: bind_unix_socket_def grant_socket_def split_beta)
qed

end
