(* ===== verification/Host_Frames.thy ===== *)
theory Host_Frames
  imports App_Interfaces Runtime_Services Caddy_Properties
begin

text \<open>
  What the adapters and the reading operations leave alone: the environment and every file whose name
  ends in \<^verbatim>\<open>.json\<close>, the ending of the daemon's own state files. With this the clients of the adapters
  can be followed through their failures without looking at what the adapters write.
\<close>

definition state_path :: "string \<Rightarrow> bool" where
  "state_path p \<longleftrightarrow> has_suffix p ''.json''"

definition keeps_state :: "world \<Rightarrow> world \<Rightarrow> bool" where
  "keeps_state w w' \<longleftrightarrow> orc w' = orc w \<and> (\<forall>p. state_path p \<longrightarrow> file_at w' p = file_at w p)"

named_theorems keeps "the call leaves the state files as they are"

lemma keeps_refl [simp]: "keeps_state w w"
  by (simp add: keeps_state_def)

lemma keeps_trans [trans]: "keeps_state w w1 \<Longrightarrow> keeps_state w1 w2 \<Longrightarrow> keeps_state w w2"
  by (simp add: keeps_state_def)

lemma same_host_keeps: "same_host w w' \<Longrightarrow> keeps_state w w'"
  by (simp add: keeps_state_def same_hostD)

lemma keeps_next [simp]: "keeps_state w (next_tick w)"
  by (simp add: same_host_keeps)

lemma keeps_fs: "fs w' = fs w \<Longrightarrow> orc w' = orc w \<Longrightarrow> keeps_state w w'"
  by (simp add: keeps_state_def file_at_def node_at_def)

lemma keepsI: "orc w' = orc w \<Longrightarrow> (\<And>p. state_path p \<Longrightarrow> file_at w' p = file_at w p) \<Longrightarrow> keeps_state w w'"
  by (simp add: keeps_state_def)

text \<open>The last character tells a state file from everything the adapters write.\<close>

lemma state_path_last: "state_path p \<Longrightarrow> last p = CHR ''n''"
  by (auto simp: state_path_def has_suffix_iff)

lemma not_state_path:
  "last q \<noteq> CHR ''n'' \<Longrightarrow> state_path p \<Longrightarrow> p \<noteq> q" "state_path p \<Longrightarrow> p \<noteq> tmp_path q"
  by (auto simp: tmp_path_def dest!: state_path_last)

text \<open>Joining ends with its last element, when that is a segment.\<close>

lemma clean_parts_last:
  "segment n \<Longrightarrow> \<exists>ds. clean_parts r out (ps @ [n]) = ds @ [n]"
  by (induction r out ps rule: clean_parts.induct) (auto simp: segment_def split: list.split)

lemma path_clean_last:
  assumes "segment n"
  shows "last (path_clean (d @ slash # n)) = last n"
proof -
  let ?s = "d @ slash # n"
  have "split_on slash ?s = split_on slash d @ [n]"
    using split_on_append [of slash d n] assms by (simp add: segmentD split_on_no_sep)
  then obtain ds where ds: "clean_parts (hd ?s = slash) [] (split_on slash ?s) = ds @ [n]"
    using clean_parts_last [OF assms] by metis
  have "last (join_with [slash] (ds @ [n])) = last n"
    using segmentD(1) [OF assms] by (cases "ds = []") (simp_all add: join_append)
  moreover have "join_with [slash] (ds @ [n]) \<noteq> []"
    using segmentD(1) [OF assms] by (cases "ds = []") (simp_all add: join_append)
  moreover have "?s \<noteq> []" by simp
  ultimately show ?thesis unfolding path_clean_def Let_def ds by simp
qed

lemma path_join_last:
  assumes "segment n" and "\<exists>e \<in> set es. e \<noteq> []"
  shows "last (path_join (es @ [n])) = last n"
proof -
  let ?ds = "dropWhile (\<lambda>e. e = []) es"
  have ne: "?ds \<noteq> []" using assms(2) by (auto simp: dropWhile_Nil_iff)
  have "dropWhile (\<lambda>e. e = []) (es @ [n]) = ?ds @ [n]" using assms(2) by auto
  then have "path_join (es @ [n]) = path_clean (join_with [slash] (?ds @ [n]))"
    using ne by (auto simp: path_join_def split: list.split)
  also have "join_with [slash] (?ds @ [n]) = join_with [slash] ?ds @ slash # n"
    using ne by (simp add: join_append)
  finally show ?thesis using path_clean_last [OF assms(1)] by simp
qed

section \<open>Commands and reads\<close>

lemma keeps_reads [keeps]:
  "os_read_file p w = (r1, w1) \<Longrightarrow> keeps_state w w1" "clock_now w = (r2, w1) \<Longrightarrow> keeps_state w w1"
  "ctx_err w = (r3, w1) \<Longrightarrow> keeps_state w w1"
  by (auto dest: reads_basic intro: same_host_keeps)

lemma reads_php [reads]:
  "php_load p w = (r1, w1) \<Longrightarrow> same_host w w1" "php_get p v w = (r2, w1) \<Longrightarrow> same_host w w1"
  "php_default_runtime p w = (r3, w1) \<Longrightarrow> same_host w w1" "php_list p w = (r4, w1) \<Longrightarrow> same_host w w1"
proof -
  show load: "php_load p w = (r1, w1) \<Longrightarrow> same_host w w1" for w w1 r1
    using php_load_world [of p w] by (auto simp del: php_load_world)
  show "php_get p v w = (r2, w1) \<Longrightarrow> same_host w w1" "php_default_runtime p w = (r3, w1) \<Longrightarrow> same_host w w1"
    "php_list p w = (r4, w1) \<Longrightarrow> same_host w w1"
    unfolding php_get_def php_default_runtime_def php_list_def
    by (auto split: option.splits prod.splits sum.splits if_splits dest!: reads load elim: same_host_trans)
qed

lemma keeps_service_start [keeps]:
  "service_start systemd_host s w = (r1, w1) \<Longrightarrow> keeps_state w w1"
  "service_restart systemd_host s w = (r2, w1) \<Longrightarrow> keeps_state w w1"
  "service_status_of systemd_host s w = (r3, w1) \<Longrightarrow> keeps_state w w1"
  "service_action_run systemd_host s a w = (r4, w1) \<Longrightarrow> keeps_state w w1"
  using systemd.run_files [of s ActStart w] systemd.run_files [of s ActRestart w] systemd.run_files [of s ActStatus w]
    systemd.run_files [of s a w]
  by (auto simp: service_start_def service_restart_def systemd.run_status intro!: keeps_fs)

lemma package_orc [frame_simps]:
  "orc (snd (package_verify k w)) = orc w" "orc (snd (runtime_present b w)) = orc w"
  "orc (snd (scan_inventory bs w)) = orc w" "fs (snd (scan_inventory bs w)) = fs w"
proof -
  have "orc (snd (verify_all ps w)) = orc w" for ps w
    by (induction ps arbitrary: w) (simp_all add: split_beta inspect_package_def Let_def split: option.split)
  then show 1: "orc (snd (package_verify k w)) = orc w" for k w
    by (simp add: package_verify_def split_beta Let_def split: sum.split)
  have f: "orc (snd (file_exists p w)) = orc w" for p w
    by (simp add: file_exists_def split_beta split: sum.split)
  show 2: "orc (snd (runtime_present b w)) = orc w" for b w
    by (simp add: runtime_present_def split_beta 1 f split: bool.split)
  show "orc (snd (scan_inventory bs w)) = orc w" "fs (snd (scan_inventory bs w)) = fs w"
    by (induction bs arbitrary: w) (simp_all add: split_beta 2 frame_simps)
qed

lemma keeps_refresh [keeps]: "refresh_inventory w = (r, w1) \<Longrightarrow> keeps_state w w1"
  using package_orc(3,4) [of supported_catalog w] by (auto simp: refresh_inventory_def split: prod.splits intro: keeps_fs)

section \<open>The adapters\<close>

lemma default_caddy_paths:
  "last (cm_root_config default_caddy) \<noteq> CHR ''n''" "last (caddy_target default_caddy site) \<noteq> CHR ''n''"
  "last (path_join [cm_sites_dir default_caddy, sanitize_token i @ ''.caddy'']) \<noteq> CHR ''n''"
proof -
  show "last (cm_root_config default_caddy) \<noteq> CHR ''n''" by code_simp
  have t: "last (path_join [cm_sites_dir default_caddy, sanitize_token i @ ''.caddy'']) = CHR ''y''" for i
    unfolding default_target default_target_prefix by simp
  from t show "last (path_join [cm_sites_dir default_caddy, sanitize_token i @ ''.caddy'']) \<noteq> CHR ''n''" by simp
  show "last (caddy_target default_caddy site) \<noteq> CHR ''n''"
    using caddy_target_token [of default_caddy site] t by auto
qed

lemma keeps_caddy_activate [keeps]: "caddy_activate_site default_caddy site w = (r, w1) \<Longrightarrow> keeps_state w w1"
proof -
  have "keeps_state w (snd (caddy_activate_site default_caddy site w))"
    by (rule keepsI, simp add: frame_simps, rule caddy_activate_frame)
       (auto simp: caddy_paths_def dest: not_state_path(1) [OF default_caddy_paths(1)]
          not_state_path(1) [OF default_caddy_paths(2)] not_state_path(2))
  then show "caddy_activate_site default_caddy site w = (r, w1) \<Longrightarrow> keeps_state w w1" by simp
qed

lemma os_remove_file_frame [frame_simps]: "q \<noteq> p \<Longrightarrow> file_at (snd (os_remove p w)) q = file_at w q"
  by (simp add: file_at_def frame_simps)

lemma caddy_put_back_frame [frame_simps]:
  "orc (caddy_put_back p c w) = orc w"
  "q \<noteq> p \<Longrightarrow> q \<noteq> tmp_path p \<Longrightarrow> file_at (caddy_put_back p c w) q = file_at w q"
  by (simp_all add: caddy_put_back_def frame_simps)

lemma caddy_release_root_file [frame_simps]:
  "q \<noteq> cm_root_config m \<Longrightarrow> q \<noteq> tmp_path (cm_root_config m) \<Longrightarrow>
     file_at (snd (caddy_release_root m p b rem w)) q = file_at w q"
  by (simp add: file_at_def frame_simps)

lemma caddy_remove_file_frame [frame_simps]:
  "orc (snd (caddy_remove_file m i cfg prev rp re w)) = orc w"
  "q \<notin> caddy_paths m cfg \<Longrightarrow> file_at (snd (caddy_remove_file m i cfg prev rp re w)) q = file_at w q"
  by (simp_all add: caddy_remove_file_def split_beta caddy_paths_def frame_simps split: sum.split)

lemma caddy_remove_frame [frame_simps]:
  "orc (snd (caddy_remove_site m i w)) = orc w"
  "q \<notin> caddy_paths m (path_join [cm_sites_dir m, sanitize_token (trim_space i) @ ''.caddy'']) \<Longrightarrow>
     file_at (snd (caddy_remove_site m i w)) q = file_at w q"
proof -
  show "orc (snd (caddy_remove_site m i w)) = orc w"
    by (simp add: caddy_remove_site_def split_beta Let_def frame_simps split: sum.split)
  assume q: "q \<notin> caddy_paths m (path_join [cm_sites_dir m, sanitize_token (trim_space i) @ ''.caddy''])"
  then have "q \<noteq> path_join [cm_sites_dir m, sanitize_token (trim_space i) @ ''.caddy'']" by (simp add: caddy_paths_def)
  with q show "file_at (snd (caddy_remove_site m i w)) q = file_at w q"
    by (simp add: caddy_remove_site_def split_beta Let_def frame_simps split: sum.split)
qed

lemma keeps_caddy_remove [keeps]: "caddy_remove_site default_caddy i w = (r, w1) \<Longrightarrow> keeps_state w w1"
proof -
  have "keeps_state w (snd (caddy_remove_site default_caddy i w))"
    by (rule keepsI, simp add: frame_simps, rule caddy_remove_frame)
       (auto simp: caddy_paths_def dest: not_state_path(1) [OF default_caddy_paths(1)]
          not_state_path(1) [OF default_caddy_paths(3)] not_state_path(2))
  then show "caddy_remove_site default_caddy i w = (r, w1) \<Longrightarrow> keeps_state w w1" by simp
qed

lemma fpm_paths:
  assumes "fpm_normalize m runtime = Inr (rt, mat)" "fm_php_root m \<noteq> []" "fm_systemd_dir m \<noteq> []"
  shows "last (pm_pool_config_path mat) \<noteq> CHR ''n''" "last (pm_override_path mat) \<noteq> CHR ''n''"
proof -
  have seg: "segment ''lara-nux.conf''" by code_simp
  from assms(1) obtain v s where p: "pm_pool_config_path mat = path_join ([fm_php_root m, v, ''fpm'', ''pool.d''] @ [''lara-nux.conf''])"
      "pm_override_path mat = path_join ([fm_systemd_dir m, s @ ''.d''] @ [''lara-nux.conf''])"
    by (auto simp: fpm_normalize_def Let_def split: if_splits)
  show "last (pm_pool_config_path mat) \<noteq> CHR ''n''" "last (pm_override_path mat) \<noteq> CHR ''n''"
    unfolding p
    using path_join_last [OF seg, of "[fm_php_root m, v, ''fpm'', ''pool.d'']"]
      path_join_last [OF seg, of "[fm_systemd_dir m, s @ ''.d'']"] by simp_all
qed

lemma fpm_materialize_orc [frame_simps]: "orc (snd (fpm_materialize m runtime w)) = orc w"
proof -
  have 1: "orc (fpm_rollback rt mat pool ov w) = orc w" for rt mat pool ov w
    by (simp add: fpm_rollback_def Let_def frame_simps)
  have 2: "orc (snd (fpm_activate rt mat pool ov w)) = orc w" for rt mat pool ov w
    by (simp add: fpm_activate_def split_beta 1 frame_simps split: sum.split)
  have 3: "orc (snd (fpm_write_assets rt mat pool w)) = orc w" for rt mat pool w
    by (simp add: fpm_write_assets_def split_beta frame_simps split: sum.split)
  show ?thesis by (simp add: fpm_materialize_def split_beta 2 3 frame_simps split: sum.split)
qed

lemma keeps_fpm_materialize:
  assumes "fm_php_root m \<noteq> []" "fm_systemd_dir m \<noteq> []"
  shows "keeps_state w (snd (fpm_materialize m runtime w))"
proof (cases "fpm_normalize m runtime")
  case (Inr x)
  obtain rt mat where x: "fpm_normalize m runtime = Inr (rt, mat)" using Inr by (cases x) simp
  note last = fpm_paths [OF x assms]
  show ?thesis
    by (rule keepsI, simp add: frame_simps, rule fpm_materialize_frame [OF x])
       (auto dest: not_state_path(1) [OF last(1)] not_state_path(1) [OF last(2)] not_state_path(2))
qed (simp add: fpm_materialize_def)

definition default_fpm :: fpm_manager where
  "default_fpm = new_fpm_manager [] [] []"

lemma default_fpm_dirs: "fm_php_root default_fpm \<noteq> []" "fm_systemd_dir default_fpm \<noteq> []"
  by code_simp+

lemma keeps_fpm [keeps]:
  "fpm_materialize default_fpm runtime w = (r1, w1) \<Longrightarrow> keeps_state w w1"
  "fpm_switch default_fpm req w = (r2, w1) \<Longrightarrow> keeps_state w w1"
proof -
  note K = keeps_fpm_materialize [OF default_fpm_dirs]
  show "fpm_materialize default_fpm runtime w = (r1, w1) \<Longrightarrow> keeps_state w w1" using K [of w runtime] by simp
  have "keeps_state v (snd (run_cmd c a v))" for c a v by (simp add: keeps_fs)
  then have "keeps_state w (snd (fpm_switch default_fpm req w))"
    using K [of w "sw_target req"] by (auto simp: fpm_switch_def split_beta split: sum.split intro: keeps_trans)
  then show "fpm_switch default_fpm req w = (r2, w1) \<Longrightarrow> keeps_state w w1" by simp
qed

lemma default_stub_path: "last (rm_stub_path default_resolved) \<noteq> CHR ''n''"
  by code_simp

lemma keeps_resolved [keeps]:
  "resolved_inspect m spec w = (r1, w1) \<Longrightarrow> keeps_state w w1"
  "resolved_ensure default_resolved spec w = (r2, w1) \<Longrightarrow> keeps_state w w1"
  "resolved_remove default_resolved w = (r3, w1) \<Longrightarrow> keeps_state w w1"
proof -
  have i: "keeps_state v (snd (resolved_inspect m' spec' v))" for m' spec' v
    by (rule keepsI) (simp_all add: frame_simps)
  then show "resolved_inspect m spec w = (r1, w1) \<Longrightarrow> keeps_state w w1" by (metis snd_conv)
  have n: "p \<noteq> rm_stub_path default_resolved" "p \<noteq> tmp_path (rm_stub_path default_resolved)" if "state_path p" for p
    using not_state_path(1) [OF default_stub_path that] not_state_path(2) [OF that] by auto
  have inst: "keeps_state v (snd (resolved_install default_resolved spec' v))" for spec' v
    by (rule keepsI) (simp_all add: frame_simps n)
  have "keeps_state w (snd (resolved_ensure default_resolved spec w))"
    unfolding resolved_ensure_def Let_def split_beta
    by (auto split: option.split sum.split) (blast intro: keeps_trans i inst)+
  then show "resolved_ensure default_resolved spec w = (r2, w1) \<Longrightarrow> keeps_state w w1" by simp
  have rl: "keeps_state u v \<Longrightarrow> keeps_state u (snd (resolved_remove_reload default_resolved c v))" for c u v
    by (erule keeps_trans, rule keepsI) (simp_all add: resolved_remove_reload_def split_beta frame_simps n split: sum.split)
  have rm: "keeps_state v (snd (os_remove (rm_stub_path default_resolved) (next_tick v)))" for v
    by (rule keepsI) (simp_all add: frame_simps n)
  have "keeps_state w (snd (resolved_remove default_resolved w))"
    unfolding resolved_remove_def split_beta
    by (auto split: sum.split intro: rl rm)
  then show "resolved_remove default_resolved w = (r3, w1) \<Longrightarrow> keeps_state w w1" by simp
qed

end
