(* ===== verification/Daemon_Main.thy ===== *)
theory Daemon_Main
  imports Unix_Socket Bootstrap Rpc_Server Host_Frames
begin

text \<open>
  \<^verbatim>\<open>daemon/cmd/lara-nuxd/main.go\<close>: the start of the daemon, the wiring of its services, serving, and
  the end. What the process reads of its surroundings - the environment variables, the search path,
  its user, the group database, the TCP ports, the order in which Go enumerates a map - is a record.
  The lines given to \<^verbatim>\<open>log.Print\<close> are part of the result. Requests are served one after the other.
\<close>

section \<open>The journal\<close>

definition sanitize_journal_key :: "string \<Rightarrow> string" where
  "sanitize_journal_key v =
     replace_chars [(CHR ''-'', CHR ''_''), (CHR ''.'', CHR ''_''), (CHR ''/'', CHR ''_''), (CHR '' '', CHR ''_'')] (to_upper v)"

record journald_logger =
  jl_identifier :: string

text \<open>The fields are a Go map, here a list with distinct keys.\<close>

definition journal_event :: "journald_logger \<Rightarrow> string \<Rightarrow> string \<Rightarrow> (string \<times> string) list \<Rightarrow> string" where
  "journal_event l message_id message kvs =
     join_with '' ''
       ([''SYSLOG_IDENTIFIER='' @ go_quote (jl_identifier l), ''MESSAGE_ID='' @ go_quote message_id,
         ''MESSAGE='' @ go_quote message]
        @ map (\<lambda>k. sanitize_journal_key k @ ''='' @ go_quote (case map_of kvs k of None \<Rightarrow> [] | Some v \<Rightarrow> v))
            (sort (map fst kvs)))"

definition daemon_log :: "string \<Rightarrow> string \<Rightarrow> (string \<times> string) list \<Rightarrow> string" where
  "daemon_log = journal_event \<lparr>jl_identifier = ''lara-nuxd''\<rparr>"

definition bootstrap_failed :: "string \<Rightarrow> (string \<times> string) list \<Rightarrow> string" where
  "bootstrap_failed = daemon_log ''LARANUXT_BOOTSTRAP_FAILED''"

section \<open>The wiring\<close>

record daemon_env =
  de_vars :: "string \<Rightarrow> string"
  de_look_path :: "string \<Rightarrow> bool"
  de_euid :: nat
  de_group :: "string \<Rightarrow> err + string"
  de_port :: "nat \<Rightarrow> world \<Rightarrow> err option \<times> world"
  de_order :: "string list \<Rightarrow> string list"

definition new_bootstrap_service :: "daemon_env \<Rightarrow> app_paths \<Rightarrow> bootstrap_service" where
  "new_bootstrap_service env paths =
     \<lparr>bs_paths = paths, bs_os_release = ''/etc/os-release'', bs_look_path = de_look_path env, bs_euid = de_euid env,
      bs_group_exists = (\<lambda>g. case de_group env g of Inl e \<Rightarrow> False | Inr gid \<Rightarrow> True)\<rparr>"

text \<open>The registries are the files they keep.\<close>

definition sites_path :: "app_paths \<Rightarrow> string" where
  "sites_path paths = path_join [ap_state_dir paths, ''sites.json'']"

definition runtimes_path :: "app_paths \<Rightarrow> string" where
  "runtimes_path paths = path_join [ap_state_dir paths, ''php-runtimes.json'']"

definition new_php_manager ::
    "site_store \<Rightarrow> runtime_resolver \<Rightarrow> service_controller \<Rightarrow> php_materializer option \<Rightarrow> web_activator option \<Rightarrow> php_manager" where
  "new_php_manager sites runtimes services php web =
     \<lparr>pg_sites = sites, pg_runtimes = runtimes, pg_services = services, pg_php = php, pg_web = web\<rparr>"

definition new_management_service ::
    "site_store \<Rightarrow> runtime_resolver \<Rightarrow> web_activator option \<Rightarrow> php_materializer option \<Rightarrow> service_controller option
       \<Rightarrow> management_service" where
  "new_management_service sites runtimes web php services =
     \<lparr>ms_sites = sites, ms_runtimes = runtimes, ms_web = web, ms_php = php, ms_services = services\<rparr>"

definition new_onboarding_service ::
    "string \<Rightarrow> package_inventory option \<Rightarrow> php_materializer option \<Rightarrow> service_controller option \<Rightarrow> onboarding_service" where
  "new_onboarding_service runtimes packages material services =
     \<lparr>on_registry = runtimes, on_packages = packages, on_material = material, on_services = services\<rparr>"

definition new_health_service ::
    "daemon_env \<Rightarrow> site_store \<Rightarrow> runtime_resolver \<Rightarrow> service_controller \<Rightarrow> resolver_provisioner option \<Rightarrow> string \<Rightarrow> health_service" where
  "new_health_service env sites runtimes services resolver socket_path =
     \<lparr>hs_sites = sites, hs_runtimes = runtimes, hs_services = services, hs_resolver = resolver,
      hs_socket_path = trim_space socket_path, hs_port = de_port env, hs_euid = de_euid env, hs_order = de_order env\<rparr>"

text \<open>Lines 99 to 123: the registries, the adapters with their defaults, and the services on them.\<close>

definition daemon_router :: "daemon_env \<Rightarrow> app_paths \<Rightarrow> router_deps" where
  "daemon_router env paths =
     (let sites = file_sites (sites_path paths);
          runtimes = file_runtimes (runtimes_path paths);
          services = service_controller_of systemd_host;
          resolver = resolved_provisioner default_resolved;
          web = caddy_activator default_caddy;
          php = fpm_materializer default_fpm
      in \<lparr>rd_health = new_health_service env sites runtimes services (Some resolver) (ap_socket_path paths),
          rd_php = new_php_manager sites runtimes services (Some php) (Some web),
          rd_services = systemd_host,
          rd_activation = new_activation_service sites runtimes (Some resolver) (Some web) (Some php) (Some services),
          rd_management = new_management_service sites runtimes (Some web) (Some php) (Some services),
          rd_onboarding = new_onboarding_service (runtimes_path paths) (Some apt_inventory) (Some php) (Some services),
          rd_registry = runtimes_path paths,
          rd_packages = Some apt_inventory\<rparr>)"

section \<open>Starting\<close>

text \<open>The log, the router unless the process has left with status 1, and the world.\<close>

definition daemon_boot :: "daemon_env \<Rightarrow> world \<Rightarrow> (string list \<times> router_deps option) \<times> world" where
  "daemon_boot env w =
     (let paths = load_paths (de_vars env);
          service = new_bootstrap_service env paths;
          starting = daemon_log ''LARANUXT_BOOTSTRAP_STARTING'' ''Starting privileged bootstrap.''
            [(''config_dir'', ap_config_dir paths), (''state_dir'', ap_state_dir paths),
             (''runtime_dir'', ap_runtime_dir paths), (''socket_path'', ap_socket_path paths),
             (''managed_assets_path'', ap_managed_assets_path paths)];
          leave = (\<lambda>lines w. ((lines, None), w))
      in (case preflight service w of
            ((report, Some e), w1) \<Rightarrow>
              leave [starting, bootstrap_failed ''Bootstrap preflight failed.''
                [(''error'', err_text e), (''host_id'', ur_id (br_host report)),
                 (''host_version'', ur_version_id (br_host report))]] w1
          | ((report, None), w1) \<Rightarrow>
          (case prepare_filesystem service w1 of
             (Inl e, w2) \<Rightarrow>
               leave [starting, bootstrap_failed ''Bootstrap filesystem preparation failed.'' [(''error'', err_text e)]] w2
           | (Inr _, w2) \<Rightarrow>
           (case manifest_save (ap_managed_assets_path paths) (br_manifest report) w2 of
              (Inl e, w3) \<Rightarrow>
                leave [starting, bootstrap_failed ''Managed asset manifest persistence failed.'' [(''error'', err_text e)]] w3
            | (Inr _, w3) \<Rightarrow>
                (let passed = daemon_log ''LARANUXT_BOOTSTRAP_PREFLIGHT_PASSED'' ''Bootstrap preflight passed.''
                       [(''supported_release'', ur_version_id (br_host report)),
                        (''managed_assets'', itoa (length (am_assets (br_manifest report))))]
                 in (case bind_unix_socket (de_group env) (de_euid env) (ap_socket_path paths) w3 of
                       (Inl e, w4) \<Rightarrow>
                         leave [starting, passed, bootstrap_failed ''Unix socket binding failed.''
                           [(''socket_path'', ap_socket_path paths), (''error'', err_text e)]] w4
                     | (Inr _, w4) \<Rightarrow>
                         (([starting, passed,
                            daemon_log ''LARANUXT_SOCKET_READY'' ''Daemon socket bound and ready for RPC traffic.''
                              [(''socket_path'', ap_socket_path paths), (''ready'', ''1'')]],
                           Some (daemon_router env paths)), w4)))))))"

section \<open>Serving and ending\<close>

fun serve_requests :: "router_deps \<Rightarrow> rpc_request list \<Rightarrow> world \<Rightarrow> rpc_response list \<times> world" where
  "serve_requests d [] w = ([], w)"
| "serve_requests d (rq # rqs) w =
     (case handle_request d rq w of
        (rp, w1) \<Rightarrow> (case serve_requests d rqs w1 of (rps, w2) \<Rightarrow> (rp # rps, w2)))"

text \<open>The end: a signal, or an error of the listener. \<^verbatim>\<open>os.Exit\<close> does not run deferred functions, so in the
  second case the socket stays behind.\<close>

datatype serving_end = Signalled | Serving_failed err

text \<open>\<^verbatim>\<open>Shutdown\<close> closes the listener, whose second \<^verbatim>\<open>Close\<close> does nothing.\<close>

definition daemon_end :: "string \<Rightarrow> serving_end \<Rightarrow> world \<Rightarrow> (string \<times> nat) \<times> world" where
  "daemon_end p ending w =
     (case ending of
        Signalled \<Rightarrow>
          ((daemon_log ''LARANUXT_DAEMON_SHUTDOWN'' ''Shutdown signal received.'' [(''signal'', ''context canceled'')], 0),
           snd (os_remove p (listener_close p w)))
      | Serving_failed e \<Rightarrow>
          ((bootstrap_failed ''RPC server failed while serving the daemon socket.'' [(''error'', err_text e)], 1), w))"

record daemon_result =
  dr_log :: "string list"
  dr_answers :: "rpc_response list"
  dr_exit :: nat

definition daemon_main :: "daemon_env \<Rightarrow> rpc_request list \<Rightarrow> serving_end \<Rightarrow> world \<Rightarrow> daemon_result \<times> world" where
  "daemon_main env rqs ending w =
     (case daemon_boot env w of
        ((lines, None), w1) \<Rightarrow> (\<lparr>dr_log = lines, dr_answers = [], dr_exit = 1\<rparr>, w1)
      | ((lines, Some d), w1) \<Rightarrow>
          (case serve_requests d rqs w1 of
             (rps, w2) \<Rightarrow>
               (case daemon_end (ap_socket_path (load_paths (de_vars env))) ending w2 of
                  ((line, status), w3) \<Rightarrow> (\<lparr>dr_log = lines @ [line], dr_answers = rps, dr_exit = status\<rparr>, w3))))"

end
