(* ===== verification/Daemon_Start.thy ===== *)
theory Daemon_Start
  imports Daemon_Main
begin

text \<open>
  What has to hold for the daemon to start, what a start leaves behind, and that it starts again after
  a crash.
\<close>

section \<open>Frames\<close>

lemma manifest_save_frame [frame_simps]:
  "orc (snd (manifest_save p m w)) = orc w"
  "q \<noteq> p \<Longrightarrow> q \<noteq> tmp_path p \<Longrightarrow> file_at (snd (manifest_save p m w)) q = file_at w q"
  using file_at_cong [OF os_write_file_frame(3)] file_at_cong [OF os_rename_frame(3)]
  by (simp_all add: manifest_save_def split_beta frame_simps split: sum.split)

lemma make_all_dirs_frame [frame_simps]:
  "orc (snd (make_all_dirs ds w)) = orc w" "file_at (snd (make_all_dirs ds w)) q = file_at w q"
  by (induction ds arbitrary: w) (simp_all add: split_beta frame_simps split: sum.split)

lemma prepare_filesystem_frame [frame_simps]:
  "orc (snd (prepare_filesystem s w)) = orc w" "file_at (snd (prepare_filesystem s w)) q = file_at w q"
  by (simp_all add: prepare_filesystem_def frame_simps del: make_all_dirs.simps)

lemma reads_preflight [reads]: "preflight s w = (r, w1) \<Longrightarrow> same_host w w1"
  unfolding preflight_def read_os_release_def default_manifest_def Let_def
  by (auto split: prod.splits option.splits sum.splits if_splits dest!: reads_basic elim: same_host_trans)

section \<open>A start, step by step\<close>

lemma daemon_boot_Some:
  assumes "daemon_boot env w = ((lines, Some d), w')"
  obtains report w1 w2 w3 where
    "preflight (new_bootstrap_service env (load_paths (de_vars env))) w = ((report, None), w1)"
    "prepare_filesystem (new_bootstrap_service env (load_paths (de_vars env))) w1 = (Inr (), w2)"
    "manifest_save (ap_managed_assets_path (load_paths (de_vars env))) (br_manifest report) w2 = (Inr (), w3)"
    "bind_unix_socket (de_group env) (de_euid env) (ap_socket_path (load_paths (de_vars env))) w3 = (Inr (), w')"
    "d = daemon_router env (load_paths (de_vars env))"
proof -
  let ?p = "load_paths (de_vars env)"
  let ?s = "new_bootstrap_service env ?p"
  note run = assms [unfolded daemon_boot_def Let_def]
  obtain report e w1 where 1: "preflight ?s w = ((report, e), w1)" by (metis surj_pair)
  have e: "e = None" using run 1 by (cases e) simp_all
  obtain r2 w2 where 2: "prepare_filesystem ?s w1 = (r2, w2)" by force
  have r2: "r2 = Inr ()" using run 1 2 e by (cases r2) simp_all
  obtain r3 w3 where 3: "manifest_save (ap_managed_assets_path ?p) (br_manifest report) w2 = (r3, w3)" by force
  have r3: "r3 = Inr ()" using run 1 2 3 e r2 by (cases r3) simp_all
  obtain r4 w4 where 4: "bind_unix_socket (de_group env) (de_euid env) (ap_socket_path ?p) w3 = (r4, w4)" by force
  have "r4 = Inr () \<and> w4 = w' \<and> d = daemon_router env ?p" using run 1 2 3 4 e r2 r3 by (cases r4) simp_all
  with 1 2 3 4 e r2 r3 show ?thesis by (intro that) simp_all
qed

text \<open>Whether it succeeds or not, a start changes no file but the manifest of managed assets.\<close>

lemma boot_keeps_files:
  assumes "q \<noteq> ap_managed_assets_path (load_paths (de_vars env))"
    "q \<noteq> tmp_path (ap_managed_assets_path (load_paths (de_vars env)))"
  shows "orc (snd (daemon_boot env w)) = orc w" "file_at (snd (daemon_boot env w)) q = file_at w q"
proof -
  let ?s = "new_bootstrap_service env (load_paths (de_vars env))"
  have p: "orc (snd (preflight ?s v)) = orc v" "file_at (snd (preflight ?s v)) x = file_at v x" for v x
    using reads_preflight [OF prod.collapse [symmetric], of v ?s] by (simp_all add: same_hostD)
  show "orc (snd (daemon_boot env w)) = orc w" "file_at (snd (daemon_boot env w)) q = file_at w q"
    unfolding daemon_boot_def Let_def split_beta
    using assms by (simp_all add: frame_simps p split: option.split sum.split)
qed

section \<open>The preflight\<close>

text \<open>What the checks ask of the host.\<close>

definition host_fit :: "daemon_env \<Rightarrow> string \<Rightarrow> bool" where
  "host_fit env os_release \<longleftrightarrow> ur_id (parse_os_release os_release) = ''ubuntu''
     \<and> supported_ubuntu_release (ur_version_id (parse_os_release os_release))
     \<and> de_euid env = 0 \<and> \<not> is_Inl (de_group env ''lara-nux'')
     \<and> de_look_path env ''systemctl'' \<and> de_look_path env ''resolvectl''"

lemma add_check_simps:
  "br_checks (add_check n b s m r) = br_checks r @ [\<lparr>pc_name = n, pc_passed = b, pc_summary = (if b then s else m), pc_remediation = m\<rparr>]"
  "br_manifest (add_check n b s m r) = br_manifest r" "br_host (add_check n b s m r) = br_host r"
  by (simp_all add: add_check_def)

lemma default_targets:
  "rollback_targets \<lparr>am_format = f, am_target_os = t, am_generated_at = g, am_assets = default_assets paths\<rparr> \<noteq> []"
  by (simp add: rollback_targets_def default_assets_def asset_def)

lemma preflight_checks_fit:
  assumes "br_checks r = []" "rollback_targets (br_manifest r) \<noteq> []"
  shows "has_failures (preflight_checks (new_bootstrap_service env paths) (parse_os_release c) r) \<longleftrightarrow> \<not> host_fit env c"
  unfolding preflight_checks_def Let_def add_dependency_def has_failures_def add_check_simps
  using assms by (auto simp: host_fit_def new_bootstrap_service_def split: sum.split)

text \<open>The preflight passes exactly on a host that is fit.\<close>

lemma preflight_reads:
  assumes "ctx_err (next_tick w) = (None, w2)" "read_os_release ''/etc/os-release'' w2 = (Inr (parse_os_release c), w3)"
  shows "(\<exists>report. preflight (new_bootstrap_service env paths) w = ((report, None), w3)) \<longleftrightarrow> host_fit env c"
proof -
  obtain m where m: "default_manifest paths w = (m, next_tick w)" "rollback_targets m \<noteq> []"
    using default_targets by (simp add: default_manifest_def clock_now_def)
  let ?r = "\<lparr>br_host = zero_release, br_paths = paths, br_checks = [], br_manifest = m\<rparr>"
  have s: "bs_paths (new_bootstrap_service env paths) = paths" "bs_os_release (new_bootstrap_service env paths) = ''/etc/os-release''"
    by (simp_all add: new_bootstrap_service_def)
  have "preflight (new_bootstrap_service env paths) w =
      (let r = preflight_checks (new_bootstrap_service env paths) (parse_os_release c) ?r
       in if has_failures r
          then ((r, Some (wrap_err ''bootstrap preflight failed''
                  (case report_error r of Some e \<Rightarrow> e | None \<Rightarrow> errorf ''%!w(<nil>)''))), w3)
          else ((r, None), w3))"
    unfolding preflight_def s m(1) prod.case Let_def assms option.case sum.case ..
  then show ?thesis using preflight_checks_fit [of ?r env paths c] m(2) by (simp add: Let_def)
qed

lemma preflight_None:
  assumes "preflight (new_bootstrap_service env paths) w = ((report, None), w')"
  shows "\<exists>c. file_at w ''/etc/os-release'' = Some c \<and> host_fit env c"
proof -
  obtain e w2 where c: "ctx_err (next_tick w) = (e, w2)" by force
  obtain q w3 where o: "os_read_file ''/etc/os-release'' w2 = (q, w3)" by force
  have s: "bs_os_release (new_bootstrap_service env paths) = ''/etc/os-release''" by (simp add: new_bootstrap_service_def)
  note run = assms [unfolded preflight_def default_manifest_def clock_now_def prod.case Let_def c s]
  have e: "e = None" using run by (cases e) simp_all
  obtain x where q: "q = Inr x" using run e o by (cases q) (simp_all add: read_os_release_def)
  have "file_at w2 ''/etc/os-release'' = Some x"
    using o q by (auto simp: os_read_file_def file_at_def split: option.splits node.splits)
  moreover have "w2 = next_tick (next_tick w)" using c by (simp add: ctx_err_def)
  moreover have "w' = w3" using run e o q by (auto simp: read_os_release_def split: if_splits)
  moreover have "read_os_release ''/etc/os-release'' w2 = (Inr (parse_os_release x), w3)"
    using o q by (simp add: read_os_release_def)
  ultimately show ?thesis using preflight_reads [OF c [unfolded e]] assms by auto
qed

lemma preflight_works:
  assumes q: "quiet w" "\<forall>n. o_ctx (orc w) n = None" and c: "file_at w ''/etc/os-release'' = Some c" and f: "host_fit env c"
  shows "\<exists>report. preflight (new_bootstrap_service env paths) w = ((report, None), next_tick (next_tick (next_tick w)))"
proof -
  have 1: "ctx_err (next_tick w) = (None, next_tick (next_tick w))" using q(2) by (simp add: ctx_err_def)
  obtain m where n: "node_at w ''/etc/os-release'' = Some (File m c)" using file_at_SomeD [OF c] by blast
  have "read_os_release ''/etc/os-release'' (next_tick (next_tick w)) = (Inr (parse_os_release c), next_tick (next_tick (next_tick w)))"
    using n quiet_fault [OF quiet_orc [OF q(1)], of "next_tick (next_tick w)"]
    by (simp add: read_os_release_def os_read_file_def)
  from preflight_reads [OF 1 this, of env paths] f show ?thesis by simp
qed

text \<open>C12: the daemon comes up only on a host that passes its preflight - a supported Ubuntu, root, the operator
  group, \<^verbatim>\<open>systemctl\<close> and \<^verbatim>\<open>resolvectl\<close> present - and then its socket is there with mode 0660 and a numeric
  group. Whether it comes up or not, the start changes no file of the host but its own manifest of
  managed assets and the temporary file beside it; a file that stands at the socket's path stays.\<close>

theorem daemon_start_guarded:
  assumes "daemon_boot env w = ((lines, started), w')" and "paths = load_paths (de_vars env)"
  shows "(started \<noteq> None \<longrightarrow>
      (\<exists>c gid_text gid. file_at w ''/etc/os-release'' = Some c \<and> host_fit env c
        \<and> de_group env ''lara-nux'' = Inr gid_text \<and> go_atoi gid_text = Inr gid)
      \<and> node_at w' (ap_socket_path paths) = Some (Sock mode_0660))
    \<and> (\<forall>q. q \<noteq> ap_managed_assets_path paths \<longrightarrow> q \<noteq> tmp_path (ap_managed_assets_path paths) \<longrightarrow> file_at w' q = file_at w q)"
proof (intro conjI impI allI)
  assume "started \<noteq> None"
  then obtain d where "daemon_boot env w = ((lines, Some d), w')" using assms(1) by auto
  from daemon_boot_Some [OF this] obtain report w1 w2 w3 where
      1: "preflight (new_bootstrap_service env paths) w = ((report, None), w1)" and
      4: "bind_unix_socket (de_group env) (de_euid env) (ap_socket_path paths) w3 = (Inr (), w')"
    unfolding assms(2) [symmetric] by metis
  show "\<exists>c gid_text gid. file_at w ''/etc/os-release'' = Some c \<and> host_fit env c
        \<and> de_group env ''lara-nux'' = Inr gid_text \<and> go_atoi gid_text = Inr gid"
    using preflight_None [OF 1] bind_unix_socket_Inr(2) [OF 4] by blast
  show "node_at w' (ap_socket_path paths) = Some (Sock mode_0660)" by (rule bind_unix_socket_Inr(1) [OF 4])
next
  fix q assume "q \<noteq> ap_managed_assets_path paths" "q \<noteq> tmp_path (ap_managed_assets_path paths)"
  then show "file_at w' q = file_at w q" using boot_keeps_files(2) [of q env w] assms by simp
qed

section \<open>Starting again\<close>

text \<open>A directory stays a directory through every call the start makes.\<close>

definition dirs_stay :: "world \<Rightarrow> world \<Rightarrow> bool" where
  "dirs_stay w w' \<longleftrightarrow> (\<forall>d m. node_at w d = Some (Dir m) \<longrightarrow> (\<exists>m'. node_at w' d = Some (Dir m')))"

lemma dirs_stay_refl: "dirs_stay w w"
  by (simp add: dirs_stay_def)

lemma dirs_stay_trans [trans]: "dirs_stay w v \<Longrightarrow> dirs_stay v w' \<Longrightarrow> dirs_stay w w'"
  unfolding dirs_stay_def by metis

lemma dirs_stay_ok: "dirs_stay w w' \<Longrightarrow> dir_ok w d \<Longrightarrow> dir_ok w' d"
  unfolding dirs_stay_def dir_ok_def by (fastforce split: option.splits node.splits)

lemma dirs_stay_calls:
  "dirs_stay w (snd (os_write_file p c m w))" "dirs_stay w (snd (os_rename a b w))"
  "dirs_stay w (snd (os_mkdir_all p m w))" "dirs_stay w (snd (clear_stale_socket p w))"
  "dirs_stay w (snd (net_listen_unix p w))" "dirs_stay w (snd (grant_socket g u p w))" "dirs_stay w (next_tick w)"
proof -
  show "dirs_stay w (snd (os_write_file p c m w))"
    by (auto simp: dirs_stay_def os_write_file_def Let_def split: option.split node.split)
  show "dirs_stay w (snd (os_rename a b w))"
    by (auto simp: dirs_stay_def os_rename_def Let_def split: option.split node.split)
  show "dirs_stay w (snd (os_mkdir_all p m w))" by (auto simp: dirs_stay_def frame_simps)
  show "dirs_stay w (snd (clear_stale_socket p w))"
    by (auto simp: dirs_stay_def clear_stale_socket_def split_beta os_lstat_def os_remove_def
        split: option.split node.split sum.split)
  show "dirs_stay w (snd (net_listen_unix p w))"
    by (auto simp: dirs_stay_def net_listen_unix_def Let_def split: option.split)
  have c: "dirs_stay v (snd (os_chmod p mo v))" for v mo
    by (auto simp: dirs_stay_def os_chmod_def split: option.split node.split)
  have l: "dirs_stay v (listener_close p v)" for v
    by (auto simp: dirs_stay_def listener_close_def split: option.split node.split)
  have n: "dirs_stay v (next_tick v)" for v by (simp add: dirs_stay_def)
  show "dirs_stay w (next_tick w)" by (rule n)
  show "dirs_stay w (snd (grant_socket g u p w))"
    unfolding grant_socket_def split_beta
    by (auto split: sum.split intro: dirs_stay_trans [OF c l] dirs_stay_trans [OF dirs_stay_trans [OF c n] l] c
        dirs_stay_trans [OF c n])
qed

text \<open>The directories a start has made are there.\<close>

lemma make_dirs_made:
  "make_dirs mo ds w = (Inr (), w') \<Longrightarrow> dirs_stay w w' \<and> (\<forall>d \<in> set ds. \<exists>m. node_at w' d = Some (Dir m))"
proof (induction ds arbitrary: w)
  case (Cons d ds)
  then consider m where "node_at w d = Some (Dir m)" "make_dirs mo ds w = (Inr (), w')"
    | "node_at w d = None" "make_dirs mo ds (next_tick (put_node d (Dir (masked w mo)) w)) = (Inr (), w')"
    by (auto split: option.splits node.splits)
  then show ?case
  proof cases
    case 1
    then show ?thesis using Cons.IH [OF 1(2)] by (auto simp: dirs_stay_def)
  next
    case 2
    have "dirs_stay w (next_tick (put_node d (Dir (masked w mo)) w))" by (simp add: dirs_stay_def)
    then show ?thesis using Cons.IH [OF 2(2)] dirs_stay_trans by (auto simp: dirs_stay_def)
  qed
qed (simp add: dirs_stay_refl)

definition chain_there :: "world \<Rightarrow> string \<Rightarrow> bool" where
  "chain_there w p \<longleftrightarrow> (\<forall>d \<in> set (dir_chain p). \<exists>m. node_at w d = Some (Dir m))"

lemma mkdir_made: "os_mkdir_all p m w = (Inr (), w') \<Longrightarrow> dirs_stay w w' \<and> chain_there w' p"
  unfolding os_mkdir_all_def chain_there_def by (rule make_dirs_made)

lemma mkdir_there: "chain_there w p \<Longrightarrow> os_mkdir_all p m w = (Inr (), w)"
  unfolding os_mkdir_all_def chain_there_def by (rule make_dirs_there)

lemma chain_stays: "chain_there w p \<Longrightarrow> dirs_stay w w' \<Longrightarrow> chain_there w' p"
  unfolding chain_there_def dirs_stay_def by metis

lemma all_dirs_made:
  "make_all_dirs ds w = (Inr (), w') \<Longrightarrow> dirs_stay w w' \<and> (\<forall>d \<in> set ds. chain_there w' d)"
proof (induction ds arbitrary: w)
  case (Cons d ds)
  obtain w1 where 1: "os_mkdir_all d mode_0750 w = (Inr (), w1)" "make_all_dirs ds w1 = (Inr (), w')"
    using Cons.prems by (auto split: sum.splits prod.splits)
  with mkdir_made [OF 1(1)] Cons.IH [OF 1(2)] show ?case by (auto intro: chain_stays dirs_stay_trans)
qed (simp add: dirs_stay_refl)

lemma all_dirs_there: "\<forall>d \<in> set ds. chain_there w d \<Longrightarrow> make_all_dirs ds w = (Inr (), w)"
  by (induction ds) (simp_all add: mkdir_there)

lemma manifest_saved:
  assumes "manifest_save p m w = (Inr (), w')"
  shows "dirs_stay w w'" "chain_there w' (path_dir p)" "dir_ok w' (path_dir p)"
    "node_at w' (tmp_path p) = None" "\<exists>mo c. node_at w' p = Some (File mo c)"
proof -
  from assms obtain w1 w2 where 1: "os_mkdir_all (path_dir p) mode_0750 w = (Inr (), w1)"
      and 2: "os_write_file (tmp_path p) (marshal_indent (manifest_json m)) mode_0640 w1 = (Inr (), w2)"
      and 3: "os_rename (tmp_path p) p w2 = (Inr (), w')"
    unfolding manifest_save_def result_iff by auto
  have s: "dirs_stay w1 w2" "dirs_stay w2 w'"
    using dirs_stay_calls(1) [of w1 "tmp_path p"] dirs_stay_calls(2) [of w2 "tmp_path p" p] 2 3 by (metis snd_conv)+
  have s': "dirs_stay w1 w'" by (rule dirs_stay_trans [OF s])
  show "dirs_stay w w'" using mkdir_made [OF 1] s' by (blast intro: dirs_stay_trans)
  show "chain_there w' (path_dir p)" using mkdir_made [OF 1] s' by (blast intro: chain_stays)
  show "dir_ok w' (path_dir p)"
    by (rule dirs_stay_ok [OF s(2)]) (use os_write_file_settles(1) [of "tmp_path p" "marshal_indent (manifest_json m)" mode_0640 w1] 2 in simp)
  obtain m' where n: "node_at w2 (tmp_path p) = Some (File m' (marshal_indent (manifest_json m)))"
    using os_write_file_settles(2) [of "tmp_path p" "marshal_indent (manifest_json m)" mode_0640 w1] 2 by auto
  have "tmp_path p \<noteq> p" by (simp add: tmp_path_def)
  with 3 n show "node_at w' (tmp_path p) = None" "\<exists>mo c. node_at w' p = Some (File mo c)"
    by (auto simp: os_rename_def Let_def split: option.splits node.splits if_splits)
qed

lemma manifest_save_works:
  assumes q: "quiet w" and c: "chain_there w (path_dir p)" and d: "dir_ok w (path_dir p)"
    and t: "node_at w (tmp_path p) = None" and n: "node_at w p = Some (File mo x)"
  shows "fst (manifest_save p m w) = Inr ()"
proof -
  let ?b = "marshal_indent (manifest_json m)"
  have f: "fault v = None" if "orc v = orc w" for v using quiet_fault [OF quiet_orc [OF q that]] .
  define w2 where "w2 = next_tick (put_node (tmp_path p) (File (masked w mode_0640) ?b) (next_tick w))"
  have 2: "os_write_file (tmp_path p) ?b mode_0640 w = (Inr (), w2)"
    using t d f [of w] f [of "next_tick w"] by (simp add: os_write_file_def Let_def w2_def)
  have ne: "p \<noteq> tmp_path p" by (simp add: tmp_path_def)
  have "dir_ok w2 (path_dir p)"
    using d t by (auto simp: dir_ok_def w2_def split: option.splits node.splits)
  then have "fst (os_rename (tmp_path p) p w2) = Inr ()"
    using n ne f [of w2] by (simp add: os_rename_def Let_def w2_def)
  with 2 mkdir_there [OF c] show ?thesis by (simp add: manifest_save_def split_beta split: sum.split)
qed

lemma bound_socket:
  assumes "bind_unix_socket g u p w = (Inr (), w')"
  shows "dirs_stay w w'" "chain_there w' (path_dir p)" "dir_ok w' (path_dir p)" "node_at w' p = Some (Sock mode_0660)"
proof -
  from assms obtain w1 w2 w3 where 1: "os_mkdir_all (path_dir p) mode_0750 w = (Inr (), w1)"
      and 2: "clear_stale_socket p w1 = (Inr (), w2)" and 3: "net_listen_unix p w2 = (Inr (), w3)"
      and 4: "grant_socket g u p w3 = (Inr (), w')"
    unfolding bind_unix_socket_def result_iff by auto
  have s: "dirs_stay w1 w2" "dirs_stay w2 w3" "dirs_stay w3 w'"
    using dirs_stay_calls(4) [of w1 p] dirs_stay_calls(5) [of w2 p] dirs_stay_calls(6) [of w3 g u p] 2 3 4 by simp_all
  have s': "dirs_stay w1 w'" using s by (blast intro: dirs_stay_trans)
  show "dirs_stay w w'" using mkdir_made [OF 1] s' by (blast intro: dirs_stay_trans)
  show "chain_there w' (path_dir p)" using mkdir_made [OF 1] s' by (blast intro: chain_stays)
  have "dir_ok w2 (path_dir p)" using 3 by (auto simp: net_listen_unix_def Let_def split: option.splits if_splits)
  then show "dir_ok w' (path_dir p)" using s by (blast intro: dirs_stay_ok)
  show "node_at w' p = Some (Sock mode_0660)" by (rule bind_unix_socket_Inr(1) [OF assms])
qed

lemma manifest_save_node:
  assumes "chain_there w (path_dir p)" "q \<noteq> p" "q \<noteq> tmp_path p"
  shows "node_at (snd (manifest_save p m w)) q = node_at w q"
  using assms by (simp add: manifest_save_def split_beta mkdir_there frame_simps split: sum.split)

lemma bind_socket_node:
  assumes "q \<noteq> p" "node_at w q \<noteq> None \<or> q \<notin> set (dir_chain (path_dir p))"
  shows "node_at (snd (bind_unix_socket g u p w)) q = node_at w q"
proof -
  have "node_at (snd (os_mkdir_all (path_dir p) m w)) q = node_at w q" for m
    using assms(2) os_mkdir_all_frame(3,4) by blast
  with assms(1) show ?thesis by (simp add: bind_unix_socket_def split_beta frame_simps split: sum.split)
qed

text \<open>A host on which a start succeeds: nothing of it has to be made but the socket.\<close>

definition boot_ready :: "daemon_env \<Rightarrow> world \<Rightarrow> bool" where
  "boot_ready env w \<longleftrightarrow>
     (let paths = load_paths (de_vars env); p = ap_socket_path paths; m = ap_managed_assets_path paths
      in (\<exists>c. file_at w ''/etc/os-release'' = Some c \<and> host_fit env c)
         \<and> (\<forall>d \<in> {ap_config_dir paths, ap_state_dir paths, ap_runtime_dir paths, path_dir m, path_dir p}. chain_there w d)
         \<and> dir_ok w (path_dir m) \<and> dir_ok w (path_dir p)
         \<and> node_at w (tmp_path m) = None \<and> (\<exists>mo x. node_at w m = Some (File mo x)) \<and> p \<noteq> m \<and> p \<noteq> tmp_path m
         \<and> (case node_at w p of None \<Rightarrow> True | Some n \<Rightarrow> is_socket n)
         \<and> (\<exists>t gid. de_group env ''lara-nux'' = Inr t \<and> go_atoi t = Inr gid))"

lemma boot_works:
  assumes q: "quiet w" "\<forall>n. o_ctx (orc w) n = None" and b: "boot_ready env w"
  shows "\<exists>lines w'. daemon_boot env w = ((lines, Some (daemon_router env (load_paths (de_vars env)))), w')"
proof -
  define paths where "paths = load_paths (de_vars env)"
  let ?p = "ap_socket_path paths" and ?m = "ap_managed_assets_path paths" and ?s = "new_bootstrap_service env paths"
  note B = b [unfolded boot_ready_def Let_def, folded paths_def]
  define x1 where "x1 = next_tick (next_tick (next_tick w))"
  have n1: "node_at x1 d = node_at w d" "orc x1 = orc w" "dirs_stay w x1" for d by (simp_all add: x1_def dirs_stay_def)
  have q1: "quiet x1" by (rule quiet_orc [OF q(1) n1(2)])
  obtain report where R: "preflight ?s w = ((report, None), x1)"
    using preflight_works [OF q, of _ env paths] B by (auto simp: x1_def)
  have F: "prepare_filesystem ?s x1 = (Inr (), x1)"
    unfolding prepare_filesystem_def
    by (rule all_dirs_there) (use B chain_stays [OF _ n1(3)] in \<open>auto simp: new_bootstrap_service_def\<close>)
  have cm: "chain_there x1 (path_dir ?m)" using B chain_stays [OF _ n1(3)] by blast
  obtain mo x where mx: "node_at x1 ?m = Some (File mo x)" using B n1(1) by auto
  define x3 where "x3 = snd (manifest_save ?m (br_manifest report) x1)"
  have dm: "dir_ok x1 (path_dir ?m)" using B dirs_stay_ok [OF n1(3)] by blast
  have S: "manifest_save ?m (br_manifest report) x1 = (Inr (), x3)"
    using manifest_save_works [OF q1 cm dm _ mx, of "br_manifest report"] B n1(1) by (simp add: x3_def prod_eq_iff)
  have d13: "dirs_stay w x3" by (rule dirs_stay_trans [OF n1(3) manifest_saved(1) [OF S]])
  have "node_at x3 ?p = node_at w ?p"
    unfolding x3_def using manifest_save_node [OF cm, of ?p] B n1(1) by metis
  then have at: "case node_at x3 ?p of None \<Rightarrow> True | Some n \<Rightarrow> is_socket n" using B by simp
  have q3: "quiet x3" by (rule quiet_orc [OF q1]) (simp add: x3_def frame_simps)
  obtain gt gid where g: "de_group env ''lara-nux'' = Inr gt" "go_atoi gt = Inr gid" using B by blast
  have ch: "\<forall>d \<in> set (dir_chain (path_dir ?p)). \<exists>m. node_at x3 d = Some (Dir m)"
    using B chain_stays [OF _ d13] unfolding chain_there_def by blast
  have dp: "dir_ok x3 (path_dir ?p)" using B dirs_stay_ok [OF d13] by blast
  have "fst (bind_unix_socket (de_group env) (de_euid env) ?p x3) = Inr ()"
    by (rule bind_unix_socket_works [where g = "de_group env", OF q3 dp ch at g])
  then obtain x4 where "bind_unix_socket (de_group env) (de_euid env) ?p x3 = (Inr (), x4)" by (metis prod.collapse)
  then show ?thesis
    using R F S unfolding daemon_boot_def Let_def paths_def [symmetric] by simp
qed

text \<open>What has to be left alone while the daemon runs, for it to start again.\<close>

definition daemon_nodes :: "app_paths \<Rightarrow> string set" where
  "daemon_nodes paths = {ap_socket_path paths, ap_managed_assets_path paths, tmp_path (ap_managed_assets_path paths),
     ''/etc/os-release''}"

definition own_paths_apart :: "app_paths \<Rightarrow> bool" where
  "own_paths_apart paths \<longleftrightarrow> tmp_path (ap_managed_assets_path paths) \<notin> set (ap_socket_path paths # dir_chain (path_dir (ap_socket_path paths)))
     \<and> ''/etc/os-release'' \<noteq> ap_managed_assets_path paths"

definition left_alone :: "app_paths \<Rightarrow> world \<Rightarrow> world \<Rightarrow> bool" where
  "left_alone paths w w' \<longleftrightarrow> orc w' = orc w \<and> dirs_stay w w' \<and> (\<forall>q \<in> daemon_nodes paths. node_at w' q = node_at w q)"

lemma daemon_end_leaves:
  assumes q: "quiet w" and s: "node_at w p = Some (Sock m)"
  shows "orc (snd (daemon_end p ending w)) = orc w" "dirs_stay w (snd (daemon_end p ending w))"
    "x \<noteq> p \<Longrightarrow> node_at (snd (daemon_end p ending w)) x = node_at w x"
    "case node_at (snd (daemon_end p ending w)) p of None \<Rightarrow> True | Some n \<Rightarrow> is_socket n"
proof -
  have f: "fault v = None" if "orc v = orc w" for v using quiet_fault [OF quiet_orc [OF q that]] .
  have c: "listener_close p w = next_tick (del_node p w)" using s f [of w] by (simp add: listener_close_def)
  have r: "snd (os_remove p (next_tick (del_node p w))) = next_tick (next_tick (del_node p w))"
    using f [of "next_tick (del_node p w)"] by (simp add: os_remove_def)
  show "orc (snd (daemon_end p ending w)) = orc w" "dirs_stay w (snd (daemon_end p ending w))"
    "x \<noteq> p \<Longrightarrow> node_at (snd (daemon_end p ending w)) x = node_at w x"
    "case node_at (snd (daemon_end p ending w)) p of None \<Rightarrow> True | Some n \<Rightarrow> is_socket n"
    using s by (auto simp: daemon_end_def c r dirs_stay_def split: serving_end.split)
qed

text \<open>A daemon that came up leaves the host such that the next one can come up.\<close>

lemma boot_leaves_ready:
  assumes b: "daemon_boot env w = ((lines, Some d), w1)" and apart: "own_paths_apart (load_paths (de_vars env))"
  shows "boot_ready env w1" "node_at w1 (ap_socket_path (load_paths (de_vars env))) = Some (Sock mode_0660)" "orc w1 = orc w"
proof -
  define paths where "paths = load_paths (de_vars env)"
  let ?p = "ap_socket_path paths" and ?m = "ap_managed_assets_path paths" and ?s = "new_bootstrap_service env paths"
  from daemon_boot_Some [OF b] obtain report v1 v2 v3 where
      1: "preflight ?s w = ((report, None), v1)" and 2: "prepare_filesystem ?s v1 = (Inr (), v2)" and
      3: "manifest_save ?m (br_manifest report) v2 = (Inr (), v3)" and
      4: "bind_unix_socket (de_group env) (de_euid env) ?p v3 = (Inr (), w1)"
    unfolding paths_def by metis
  note M = manifest_saved [OF 3] and B = bound_socket [OF 4] and A = apart [folded paths_def, unfolded own_paths_apart_def]
  have os: "''/etc/os-release'' \<noteq> tmp_path ?m" by (rule notI, drule arg_cong [of _ _ last]) (simp add: tmp_path_def)
  show o1: "orc w1 = orc w" and "node_at w1 (ap_socket_path (load_paths (de_vars env))) = Some (Sock mode_0660)"
    using boot_keeps_files [of "''/etc/os-release''" env w] os b apart B(4) by (simp_all add: paths_def own_paths_apart_def)
  obtain c where c: "file_at w ''/etc/os-release'' = Some c" "host_fit env c" using preflight_None [OF 1] by blast
  have c1: "file_at w1 ''/etc/os-release'' = Some c"
    using boot_keeps_files [of "''/etc/os-release''" env w] os b apart c(1) by (simp add: paths_def own_paths_apart_def)
  have "node_at v3 ?p \<noteq> Some (File mo x)" for mo x using bind_unix_socket_Inr(3) [OF 4] by (auto simp: file_at_def)
  then have mp: "?m \<noteq> ?p" using M(5) by auto
  have own: "node_at w1 ?m = node_at v3 ?m" "node_at w1 (tmp_path ?m) = None"
    using bind_socket_node [of ?m ?p v3 "de_group env" "de_euid env"] mp A 4 M(4,5)
      bind_socket_node [of "tmp_path ?m" ?p v3 "de_group env" "de_euid env"] by auto
  have "chain_there w1 d" if "d \<in> {ap_config_dir paths, ap_state_dir paths, ap_runtime_dir paths}" for d
    using that all_dirs_made [OF 2 [unfolded prepare_filesystem_def]] dirs_stay_trans [OF M(1) B(1)] chain_stays
    by (auto simp: new_bootstrap_service_def)
  then show "boot_ready env w1"
    unfolding boot_ready_def Let_def paths_def [symmetric]
    using c1 c(2) own M(5) mp A B(4) bind_unix_socket_Inr(2) [OF 4] chain_stays [OF M(2) B(1)] B(2)
      dirs_stay_ok [OF B(1) M(3)] B(3) by auto
qed

text \<open>That holds on as long as the directories and the daemon's own files are left alone.\<close>

lemma ready_stays:
  assumes r: "boot_ready env w" and p: "paths = load_paths (de_vars env)" and d: "dirs_stay w w'"
    and same: "\<And>q. q \<in> daemon_nodes paths - {ap_socket_path paths} \<Longrightarrow> node_at w' q = node_at w q"
    and sock: "case node_at w' (ap_socket_path paths) of None \<Rightarrow> True | Some n \<Rightarrow> is_socket n"
    and os: "''/etc/os-release'' \<noteq> ap_socket_path paths"
  shows "boot_ready env w'"
  using r [unfolded boot_ready_def Let_def, folded p] chain_stays [OF _ d] dirs_stay_ok [OF d] sock os
    same [of "ap_managed_assets_path paths"] same [of "tmp_path (ap_managed_assets_path paths)"] same [of "''/etc/os-release''"]
  unfolding boot_ready_def Let_def p [symmetric] by (auto simp: daemon_nodes_def file_at_def)

text \<open>C13: a daemon that came up once on a quiet host comes up again, whichever way it ended - stopped by a
  signal, or dead of an error of its listener, when its socket stays behind - and whatever requests did
  in between, as long as they left the directories and the daemon's own files in place.\<close>

theorem daemon_restarts:
  assumes "daemon_boot env w = ((lines, Some d), w1)" and "quiet w" and "\<forall>n. o_ctx (orc w) n = None"
    and "left_alone (load_paths (de_vars env)) w1 w2"
    and "own_paths_apart (load_paths (de_vars env))"
  shows "\<exists>lines' w3. daemon_boot env (snd (daemon_end (ap_socket_path (load_paths (de_vars env))) ending w2))
    = ((lines', Some (daemon_router env (load_paths (de_vars env)))), w3)"
proof -
  define paths where "paths = load_paths (de_vars env)"
  let ?p = "ap_socket_path paths"
  define w' where "w' = snd (daemon_end ?p ending w2)"
  note R = boot_leaves_ready [OF assms(1,5), folded paths_def]
  have L: "orc w2 = orc w1" "dirs_stay w1 w2" "\<And>q. q \<in> daemon_nodes paths \<Longrightarrow> node_at w2 q = node_at w1 q"
    using assms(4) by (simp_all add: left_alone_def paths_def)
  have q2: "quiet w2" by (rule quiet_orc [OF assms(2)]) (simp add: L(1) R(3))
  have s2: "node_at w2 ?p = Some (Sock mode_0660)" using R(2) L(3) [of ?p] by (simp add: daemon_nodes_def)
  note E = daemon_end_leaves [OF q2 s2, where ending = ending, folded w'_def]
  have "''/etc/os-release'' \<noteq> ?p"
    using R(1,2) by (auto simp: boot_ready_def Let_def paths_def file_at_def)
  then have "boot_ready env w'"
    using ready_stays [OF R(1) paths_def dirs_stay_trans [OF L(2) E(2)]] E(3,4) L(3) by auto
  moreover have "\<forall>n. o_ctx (orc w') n = None" "quiet w'"
    using assms(3) E(1) L(1) R(3) quiet_orc [OF q2 E(1)] by simp_all
  ultimately show ?thesis
    using boot_works [of w' env, folded paths_def] unfolding paths_def [symmetric] w'_def [symmetric] by blast
qed

section \<open>A host\<close>

definition ubuntu_env :: daemon_env where
  "ubuntu_env = \<lparr>de_vars = (\<lambda>n. []), de_look_path = (\<lambda>n. True), de_euid = 0, de_group = (\<lambda>g. Inr ''998''),
     de_port = (\<lambda>n w. (None, w)), de_order = (\<lambda>ns. ns)\<rparr>"

text \<open>A host on which the daemon ran before.\<close>

definition ubuntu_host :: "(string \<times> node) list \<Rightarrow> world" where
  "ubuntu_host rest = sample_world all_succeed
     ([(''/etc'', Dir mode_0755), (''/run'', Dir mode_0755), (''/var'', Dir mode_0755), (''/var/lib'', Dir mode_0755),
       (''/etc/lara-nux'', Dir mode_0750), (''/run/lara-nux'', Dir mode_0750), (''/var/lib/lara-nux'', Dir mode_0750),
       (''/var/lib/lara-nux/managed-assets.json'', File mode_0640 []), (''/run/lara-nux/lara-nux.sock'', Sock mode_0660),
       (''/etc/os-release'', File mode_0644 (''ID=ubuntu'' @ nl @ ''VERSION_ID=24.04''))] @ rest)"

lemma ubuntu_host_quiet [simp]: "quiet (ubuntu_host rest)" "o_ctx (orc (ubuntu_host rest)) n = None"
  by (simp_all add: ubuntu_host_def quiet_def sample_world_def sample_env_def)

definition ubuntu_app_paths :: app_paths where
  "ubuntu_app_paths = \<lparr>ap_config_dir = ''/etc/lara-nux'', ap_state_dir = ''/var/lib/lara-nux'', ap_runtime_dir = ''/run/lara-nux'',
     ap_socket_path = ''/run/lara-nux/lara-nux.sock'', ap_managed_assets_path = ''/var/lib/lara-nux/managed-assets.json''\<rparr>"

lemma ubuntu_app_paths: "load_paths (de_vars ubuntu_env) = ubuntu_app_paths"
  by code_simp

lemma chain_there_iff:
  "chain_there w p \<longleftrightarrow> list_all (\<lambda>d. case node_at w d of Some (Dir m) \<Rightarrow> True | _ \<Rightarrow> False) (dir_chain p)"
proof -
  have "(\<exists>m. x = Some (Dir m)) \<longleftrightarrow> (case x of Some (Dir m) \<Rightarrow> True | _ \<Rightarrow> False)" for x
    by (auto split: option.split node.split)
  then show ?thesis by (simp add: chain_there_def list_all_iff)
qed

lemma ubuntu_ready: "boot_ready ubuntu_env (ubuntu_host [])"
proof -
  have f: "file_at (ubuntu_host []) ''/etc/os-release'' = Some (''ID=ubuntu'' @ nl @ ''VERSION_ID=24.04'')"
    "host_fit ubuntu_env (''ID=ubuntu'' @ nl @ ''VERSION_ID=24.04'')" by code_simp+
  have p: "path_dir ''/var/lib/lara-nux/managed-assets.json'' = ''/var/lib/lara-nux''"
    "path_dir ''/run/lara-nux/lara-nux.sock'' = ''/run/lara-nux''"
    "tmp_path ''/var/lib/lara-nux/managed-assets.json'' = ''/var/lib/lara-nux/managed-assets.json.tmp''" by code_simp+
  have n: "node_at (ubuntu_host []) ''/var/lib/lara-nux/managed-assets.json.tmp'' = None"
    "node_at (ubuntu_host []) ''/var/lib/lara-nux/managed-assets.json'' = Some (File mode_0640 [])"
    "node_at (ubuntu_host []) ''/run/lara-nux/lara-nux.sock'' = Some (Sock mode_0660)"
    "dir_ok (ubuntu_host []) ''/var/lib/lara-nux''" "dir_ok (ubuntu_host []) ''/run/lara-nux''" by code_simp+
  have g: "de_group ubuntu_env ''lara-nux'' = Inr ''998''" "go_atoi ''998'' = Inr 998"
    by (simp_all add: ubuntu_env_def go_atoi_def digits_value_def is_digit_def has_prefix_def of_char_of)
  have c: "chain_there (ubuntu_host []) ''/etc/lara-nux''" "chain_there (ubuntu_host []) ''/var/lib/lara-nux''"
      "chain_there (ubuntu_host []) ''/run/lara-nux''"
    unfolding chain_there_iff by code_simp+
  have ne: "''/run/lara-nux/lara-nux.sock'' \<noteq> ''/var/lib/lara-nux/managed-assets.json''"
    "''/run/lara-nux/lara-nux.sock'' \<noteq> ''/var/lib/lara-nux/managed-assets.json.tmp''" by code_simp+
  have s: "case node_at (ubuntu_host []) ''/run/lara-nux/lara-nux.sock'' of None \<Rightarrow> True | Some n \<Rightarrow> is_socket n"
    unfolding n(3) by simp
  show ?thesis
    unfolding boot_ready_def Let_def ubuntu_app_paths ubuntu_app_paths_def app_paths.select_convs p
    by (intro conjI s ne n(1,4,5)) (use f n(2) g c in blast)+
qed

lemma ubuntu_boots: "\<exists>lines d w. daemon_boot ubuntu_env (ubuntu_host []) = ((lines, Some d), w)"
  using boot_works [OF ubuntu_host_quiet(1) _ ubuntu_ready] ubuntu_host_quiet(2) by blast

lemma ubuntu_paths: "own_paths_apart (load_paths (de_vars ubuntu_env))"
  unfolding ubuntu_app_paths by code_simp

theorem daemon_start_guarded_witness:
  "\<exists>w'. snd (daemon_boot ubuntu_env (ubuntu_host [])) = w' \<and> node_at w' ''/run/lara-nux/lara-nux.sock'' = Some (Sock mode_0660)"
proof -
  obtain lines d w where b: "daemon_boot ubuntu_env (ubuntu_host []) = ((lines, Some d), w)" using ubuntu_boots by blast
  have "ap_socket_path (load_paths (de_vars ubuntu_env)) = ''/run/lara-nux/lara-nux.sock''"
    by (simp add: ubuntu_app_paths ubuntu_app_paths_def)
  with daemon_start_guarded [OF b refl] b show ?thesis by simp
qed

theorem daemon_restarts_witness:
  "\<exists>d. snd (fst (daemon_boot ubuntu_env (snd (daemon_boot ubuntu_env (ubuntu_host []))))) = Some d"
proof -
  obtain lines d w where b: "daemon_boot ubuntu_env (ubuntu_host []) = ((lines, Some d), w)" using ubuntu_boots by blast
  have "left_alone (load_paths (de_vars ubuntu_env)) w w" by (simp add: left_alone_def dirs_stay_refl)
  from daemon_restarts [OF b _ _ this ubuntu_paths, of "Serving_failed e" for e] b
  show ?thesis by (auto simp: daemon_end_def)
qed

end
