(* ===== verification/Site_Contract.thy ===== *)
theory Site_Contract
  imports Host_Frames Site_Management Php_Manager
begin

text \<open>
  The contracts the services that change sites work under, and what follows from them. A store keeps a
  list of sites that it alone changes (\<open>site_store_contract\<close>); the adapters change everything but the
  daemon's state files (\<open>host_contract\<close>). In \<open>site_services\<close> both hold, and each service is followed
  through all of its outcomes. The daemon's store and adapters satisfy the contracts
  (theory \<open>Daemon_Invariant\<close>).
\<close>

text \<open>No call reports a file as missing that is there, and the clock prints RFC 3339.\<close>

definition calm :: "world \<Rightarrow> bool" where
  "calm w \<longleftrightarrow> truthful w \<and> clock_ok w"

lemma calm_orc: "calm w \<Longrightarrow> orc w' = orc w \<Longrightarrow> calm w'"
  by (simp add: calm_def truthful_def clock_ok_def)

lemma calm_keeps: "calm w \<Longrightarrow> keeps_state w w' \<Longrightarrow> calm w'"
  by (rule calm_orc) (simp_all add: keeps_state_def)

lemma calm_clock: "calm w \<Longrightarrow> clock_now w = (t, w') \<Longrightarrow> time_ok t"
  by (auto simp: calm_def clock_ok_def clock_now_def)

definition registry_ok :: "site_record list \<Rightarrow> bool" where
  "registry_ok xs \<longleftrightarrow> sites_ok xs \<and> distinct (map si_id xs)"

section \<open>Replacing one site\<close>

lemma distinct_replace_first:
  assumes "distinct (map key xs)" "distinct (map f xs)" "\<forall>x \<in> set xs. key x \<noteq> key y \<longrightarrow> f x \<noteq> f y"
  shows "distinct (map f (replace_first (\<lambda>x. key x = key y) y xs))"
  using assms
proof (induction xs)
  case (Cons x xs)
  show ?case
  proof (cases "key x = key y")
    case True
    then have k: "\<forall>z \<in> set xs. key z \<noteq> key y" using Cons.prems(1) by (auto simp: image_iff)
    have "f y \<noteq> f z" if "z \<in> set xs" for z using k Cons.prems(3) that by (metis list.set_intros(2))
    then have "f y \<notin> f ` set xs" by blast
    with True Cons.prems show ?thesis by simp
  next
    case False
    then have "f x \<notin> f ` set (replace_first (\<lambda>x. key x = key y) y xs)"
      using Cons.prems set_replace_first_subset [of "\<lambda>x. key x = key y" y xs] by (auto simp: image_iff)
    with False Cons show ?thesis by simp
  qed
qed simp

definition others_apart :: "site_record \<Rightarrow> site_record list \<Rightarrow> bool" where
  "others_apart s xs \<longleftrightarrow> site_clash (si_name s) (si_domain s) (filter (\<lambda>x. si_id x \<noteq> si_id s) xs) = None"

lemma others_apart_set: "set ys = set xs \<Longrightarrow> others_apart s ys = others_apart s xs"
  by (simp add: others_apart_def site_clash_None_iff)

lemma registry_ok_replace:
  assumes "registry_ok xs" "others_apart s xs" "valid_domain (si_domain s)" "site_times_ok s"
  shows "registry_ok (replace_first (has_id (si_id s)) s xs)"
proof -
  have h: "has_id (si_id s) = (\<lambda>x. si_id x = si_id s)" by (simp add: has_id_def fun_eq_iff)
  have a: "\<forall>x \<in> set xs. si_id x \<noteq> si_id s \<longrightarrow> to_lower (si_name x) \<noteq> to_lower (si_name s)
      \<and> to_lower (si_domain x) \<noteq> to_lower (si_domain s)"
    using assms(2) by (auto simp: others_apart_def site_clash_None_iff equal_fold_def)
  have id: "distinct (map si_id xs)" and ok: "sites_ok xs" using assms(1) by (simp_all add: registry_ok_def)
  have "distinct (map si_id (replace_first (\<lambda>x. si_id x = si_id s) s xs))"
    using distinct_replace_first [OF id id] by simp
  moreover have "distinct (map (\<lambda>s. to_lower (si_name s)) (replace_first (\<lambda>x. si_id x = si_id s) s xs))"
    by (rule distinct_replace_first [OF id]) (use ok a in \<open>auto simp: sites_ok_def\<close>)
  moreover have "distinct (map (\<lambda>s. to_lower (si_domain s)) (replace_first (\<lambda>x. si_id x = si_id s) s xs))"
    by (rule distinct_replace_first [OF id]) (use ok a in \<open>auto simp: sites_ok_def\<close>)
  moreover have "\<forall>x \<in> set (replace_first (\<lambda>x. si_id x = si_id s) s xs). valid_domain (si_domain x) \<and> site_times_ok x"
    using set_replace_first_subset [of "\<lambda>x. si_id x = si_id s" s xs] ok assms(3,4) by (auto simp: sites_ok_def)
  ultimately show ?thesis by (simp add: registry_ok_def sites_ok_def h)
qed

text \<open>A site of the registry is apart from the others.\<close>

lemma stored_apart:
  assumes "registry_ok xs" "s \<in> set xs"
  shows "others_apart s xs"
proof -
  have "inj_on (\<lambda>x. to_lower (si_name x)) (set xs)" "inj_on (\<lambda>x. to_lower (si_domain x)) (set xs)"
    using assms(1) by (auto simp: registry_ok_def sites_ok_def distinct_map)
  with assms(2) show ?thesis
    by (auto simp: others_apart_def site_clash_None_iff equal_fold_def dest: inj_onD)
qed

lemma find_site_in: "find_site i xs = Some s \<Longrightarrow> s \<in> set xs \<and> si_id s = i"
  unfolding find_site_def by (rule find_by_SomeD)

lemma replace_first_append_new:
  "\<forall>x \<in> set xs. \<not> P x \<Longrightarrow> P y \<Longrightarrow> replace_first P z (xs @ [y]) = xs @ [z]"
  by (induction xs) auto

lemma find_site_append_new: "\<forall>x \<in> set xs. si_id x \<noteq> si_id s \<Longrightarrow> find_site (si_id s) (xs @ [s]) = Some s"
  unfolding find_site_def find_by_def by (induction xs) auto

section \<open>The contracts\<close>

text \<open>\<open>held\<close> is the list of sites, \<open>rest\<close> whatever else the daemon stores.\<close>

locale site_store_contract =
  fixes ss :: site_store and held :: "world \<Rightarrow> site_record list option" and rest :: "world \<Rightarrow> 'r"
  assumes kept: "keeps_state w w' \<Longrightarrow> held w' = held w \<and> rest w' = rest w"
    and register: "ss_register ss inp w = (r, w') \<Longrightarrow> calm w \<Longrightarrow> calm w' \<and> rest w' = rest w \<and>
      (case r of Inl e \<Rightarrow> held w' = held w
       | Inr s \<Rightarrow> \<exists>xs. held w = Some xs \<and> (sites_ok xs \<longrightarrow> held w' = Some (xs @ [s]) \<and> sites_ok (xs @ [s])))"
    and get: "ss_get ss i w = (r, w') \<Longrightarrow> calm w \<Longrightarrow> keeps_state w w' \<and>
      (\<forall>s. r = Inr s \<longrightarrow> (\<exists>xs. held w = Some xs \<and> find_site i xs = Some s))"
    and list: "ss_list ss w = (q, w') \<Longrightarrow> calm w \<Longrightarrow> keeps_state w w' \<and>
      (\<forall>ys. q = Inr ys \<longrightarrow> (\<exists>xs. held w = Some xs \<and> set ys = set xs))"
    and update: "ss_update ss s w = (r, w') \<Longrightarrow> calm w \<Longrightarrow> calm w' \<and> rest w' = rest w \<and>
      (case r of Inl e \<Rightarrow> held w' = held w
       | Inr s' \<Rightarrow> \<exists>xs old now. held w = Some xs \<and> find_site (si_id s) xs = Some old \<and> time_ok now \<and>
           s' = updated_site s old now \<and>
           (sites_ok xs \<longrightarrow> time_ok (si_last_checked_at s) \<longrightarrow> held w' = Some (replace_first (has_id (si_id s)) s' xs)))"
    and delete: "ss_delete ss i w = (u, w') \<Longrightarrow> calm w \<Longrightarrow> calm w' \<and> rest w' = rest w \<and>
      (case u of Inl e \<Rightarrow> held w' = held w
       | Inr _ \<Rightarrow> \<exists>xs. held w = Some xs \<and> (sites_ok xs \<longrightarrow> held w' = Some (remove_first (has_id i) xs)))"

locale host_contract =
  fixes rt :: runtime_resolver and rp :: "resolver_provisioner option" and wa :: "web_activator option"
    and mt :: "php_materializer option" and sc :: "service_controller option"
  assumes runtimes_keep: "rt_get rt v w = (r1, w') \<Longrightarrow> keeps_state w w'" "rt_default rt w = (r1, w') \<Longrightarrow> keeps_state w w'"
    and resolver_keeps: "rp = Some x \<Longrightarrow> rp_ensure x spec w = (r2, w') \<Longrightarrow> keeps_state w w'"
      "rp = Some x \<Longrightarrow> rp_remove x w = (r3, w') \<Longrightarrow> keeps_state w w'"
    and web_keeps: "wa = Some y \<Longrightarrow> wa_activate y site w = (r4, w') \<Longrightarrow> keeps_state w w'"
      "wa = Some y \<Longrightarrow> wa_remove y i w = (r3, w') \<Longrightarrow> keeps_state w w'"
    and php_keeps: "mt = Some z \<Longrightarrow> mt_materialize z runtime w = (r5, w') \<Longrightarrow> keeps_state w w'"
      "mt = Some z \<Longrightarrow> mt_switch z req w = (r5, w') \<Longrightarrow> keeps_state w w'"
    and services_keep: "sc = Some c \<Longrightarrow> sc_start c n w = (r6, w') \<Longrightarrow> keeps_state w w'"
      "sc = Some c \<Longrightarrow> sc_restart c n w = (r6, w') \<Longrightarrow> keeps_state w w'"
begin

lemma start_services_keep: "sc = Some c \<Longrightarrow> start_services c seen ns w = (r, w') \<Longrightarrow> keeps_state w w'"
proof (induction c seen ns w arbitrary: r w' rule: start_services.induct)
  case (2 c seen n ns w)
  show ?case
  proof (cases "trim_space n = [] \<or> trim_space n \<in> set seen")
    case True
    with 2 show ?thesis by simp
  next
    case False
    obtain st e w1 where s: "sc_start c (trim_space n) w = ((st, e), w1)" by (metis surj_pair)
    have k: "keeps_state w w1" by (rule services_keep(1) [OF "2.prems"(1) s])
    show ?thesis
    proof (cases e)
      case None
      obtain q w2 where q: "start_services c (trim_space n # seen) ns w1 = (q, w2)" by force
      have "keeps_state w1 w2" using "2.IH"(2) [OF False s [symmetric] refl None "2.prems"(1) q] .
      then have "keeps_state w w2" by (rule keeps_trans [OF k])
      moreover have "w' = w2" using "2.prems"(2) False s None q by (auto split: sum.splits)
      ultimately show ?thesis by simp
    next
      case (Some e')
      with "2.prems"(2) False s k show ?thesis by auto
    qed
  qed
qed simp

lemma resolve_keeps: "resolve_runtime rt v w = (r, w') \<Longrightarrow> keeps_state w w'"
  by (auto simp: resolve_runtime_def dest: runtimes_keep split: if_splits)

end

section \<open>Following the services\<close>

text \<open>
  The ID a registration draws is not in use: what eight random bytes are for. It is stated of the
  registration that the activation really makes.
\<close>

definition new_id_unused :: "activation_service \<Rightarrow> site_registration_input \<Rightarrow> world \<Rightarrow> site_record list \<Rightarrow> bool" where
  "new_id_unused a inp w xs \<longleftrightarrow>
     (case resolve_runtime (ac_runtimes a) (sr_php_version inp) w of
        (Inl e, w1) \<Rightarrow> True
      | (Inr r, w1) \<Rightarrow>
          (case ss_register (ac_sites a) (inp\<lparr>sr_php_version := rr_version r\<rparr>) w1 of
             (Inl e, w2) \<Rightarrow> True
           | (Inr s, w2) \<Rightarrow> list_all (\<lambda>x. si_id x \<noteq> si_id s) xs))"

lemma new_activation_parts [simp]:
  "ac_sites (new_activation_service ss rt rp wa mt sc) = ss" "ac_runtimes (new_activation_service ss rt rp wa mt sc) = rt"
  "ac_resolver (new_activation_service ss rt rp wa mt sc) = rp" "ac_web (new_activation_service ss rt rp wa mt sc) = wa"
  "ac_php (new_activation_service ss rt rp wa mt sc) = mt" "ac_services (new_activation_service ss rt rp wa mt sc) = sc"
  by (simp_all add: new_activation_service_def)

locale site_services = site_store_contract ss held rest + host_contract rt rp wa mt sc
  for ss held and rest :: "world \<Rightarrow> 'r" and rt rp wa mt sc
begin

abbreviation activation :: activation_service where
  "activation \<equiv> new_activation_service ss rt rp wa mt sc"

subsection \<open>Activation\<close>

lemma act_keeps:
  "act_resolver activation w = (r1, w') \<Longrightarrow> keeps_state w w'"
  "act_php activation x w = (r2, w') \<Longrightarrow> keeps_state w w'"
  "act_services activation x w = (r3, w') \<Longrightarrow> keeps_state w w'"
  "act_web activation s socket w = (r4, w') \<Longrightarrow> keeps_state w w'"
proof -
  show "act_resolver activation w = (r1, w') \<Longrightarrow> keeps_state w w'"
    by (auto simp: act_resolver_def dest: resolver_keeps split: option.splits prod.splits)
  show "act_php activation x w = (r2, w') \<Longrightarrow> keeps_state w w'"
    by (auto simp: act_php_def dest: php_keeps split: option.splits)
  show "act_services activation x w = (r3, w') \<Longrightarrow> keeps_state w w'"
    by (auto simp: act_services_def simp del: start_services.simps dest: start_services_keep split: option.splits)
  show "act_web activation s socket w = (r4, w') \<Longrightarrow> keeps_state w w'"
    by (auto simp: act_web_def dest: web_keeps split: option.splits)
qed

lemma host_steps:
  assumes "act_resolver activation w2 = (a, w3)" "act_php activation x w3 = (b, w4)"
    "act_services activation x w4 = (d, w5)" "act_web activation s socket w5 = (f, w6)"
  shows "keeps_state w2 w6"
  using act_keeps(1) [OF assms(1)] act_keeps(2) [OF assms(2)] act_keeps(3) [OF assms(3)] act_keeps(4) [OF assms(4)]
  by (blast intro: keeps_trans)

lemma undo_keeps:
  assumes "calm w"
  shows "keeps_state w (act_undo_web activation i c w)" "keeps_state w (act_undo_resolver activation i c w)"
proof -
  show "keeps_state w (act_undo_web activation i c w)"
    using web_keeps(2) [of _ i w] by (auto simp: act_undo_web_def split: option.split) (metis prod.collapse)
  show "keeps_state w (act_undo_resolver activation i c w)"
  proof (cases rp)
    case (Some x)
    obtain q w1 where l: "ss_list ss w = (q, w1)" by force
    have k: "keeps_state w w1" using list [OF l assms] by blast
    have "keeps_state w1 (snd (rp_remove x w1))" using resolver_keeps(2) [OF Some] by (metis prod.collapse)
    from keeps_trans [OF k this] k show ?thesis
      using Some l by (simp add: act_undo_resolver_def has_other_sites_def split: option.split sum.split)
  qed (simp add: act_undo_resolver_def)
qed

text \<open>The compensation ends with the deletion of the site, from the state the failure left.\<close>

lemma compensate_deletes:
  assumes "calm w"
  obtains v u where "keeps_state w v" "ss_delete ss i v = (u, act_compensate activation i c d w)"
proof -
  let ?v1 = "act_undo_web activation i d w"
  let ?v = "act_undo_resolver activation i c ?v1"
  have k1: "keeps_state w ?v1" by (rule undo_keeps(1) [OF assms])
  have "keeps_state w ?v" by (rule keeps_trans [OF k1 undo_keeps(2) [OF calm_keeps [OF assms k1]]])
  moreover have "ss_delete ss i ?v = (fst (ss_delete ss i ?v), act_compensate activation i c d w)"
    by (simp add: act_compensate_def)
  ultimately show ?thesis by (rule that)
qed

lemma compensated:
  assumes c: "calm w" and h: "held w = Some (xs @ [s])" and ok: "sites_ok (xs @ [s])"
    and new: "\<forall>x \<in> set xs. si_id x \<noteq> si_id s"
  shows "calm (act_compensate activation (si_id s) f g w) \<and> rest (act_compensate activation (si_id s) f g w) = rest w
    \<and> (held (act_compensate activation (si_id s) f g w) = Some xs
       \<or> held (act_compensate activation (si_id s) f g w) = Some (xs @ [s])
         \<and> (\<exists>v e. ss_delete ss (si_id s) v = (Inl e, act_compensate activation (si_id s) f g w)))"
proof -
  obtain v u where k: "keeps_state w v" and d: "ss_delete ss (si_id s) v = (u, act_compensate activation (si_id s) f g w)"
    using compensate_deletes [OF c] by blast
  have v: "held v = Some (xs @ [s])" "rest v = rest w" using kept [OF k] h by simp_all
  have "remove_first (has_id (si_id s)) (xs @ [s]) = xs"
    by (rule remove_first_append_new) (use new in \<open>auto simp: has_id_def\<close>)
  with delete [OF d calm_keeps [OF c k]] v ok d show ?thesis by (cases u) auto
qed

text \<open>A failed activation: the list is as it was, or the last thing that happened is that the deletion of the
  new site failed as well.\<close>

lemma activate_Inl:
  assumes res: "site_activate activation inp w = (Inl e, w')" and c: "calm w" and h: "held w = Some xs"
    and ok: "sites_ok xs" and new: "new_id_unused activation inp w xs"
  shows "calm w' \<and> rest w' = rest w \<and>
    (held w' = Some xs
     \<or> (\<exists>s v e'. held w' = Some (xs @ [s]) \<and> sites_ok (xs @ [s]) \<and> (\<forall>x \<in> set xs. si_id x \<noteq> si_id s)
          \<and> ss_delete ss (si_id s) v = (Inl e', w')))"
proof -
  have early: "calm v \<and> rest v = rest w \<and> held v = Some xs" if "keeps_state w v" for v
    using calm_keeps [OF c that] kept [OF that] h by simp
  have reg: "calm v \<and> rest v = rest w \<and> held v = Some (xs @ [s]) \<and> sites_ok (xs @ [s]) \<and> (\<forall>x \<in> set xs. si_id x \<noteq> si_id s)"
    if "resolve_runtime rt (sr_php_version inp) w = (Inr x, w1)"
      "ss_register ss (inp\<lparr>sr_php_version := rr_version x\<rparr>) w1 = (Inr s, w2)" "keeps_state w2 v" for x w1 s w2 v
  proof -
    have k1: "keeps_state w w1" by (rule resolve_keeps [OF that(1)])
    have "calm w2 \<and> rest w2 = rest w \<and> held w2 = Some (xs @ [s]) \<and> sites_ok (xs @ [s])"
      using register [OF that(2) calm_keeps [OF c k1]] kept [OF k1] h ok by auto
    moreover have "\<forall>x \<in> set xs. si_id x \<noteq> si_id s" using new that(1,2) by (simp add: new_id_unused_def list_all_iff)
    ultimately show ?thesis using calm_keeps [OF _ that(3)] kept [OF that(3)] by simp
  qed
  have undone: ?thesis if "w' = act_compensate activation (si_id s) f g v" "calm v" "rest v = rest w"
      "held v = Some (xs @ [s])" "sites_ok (xs @ [s])" "\<forall>x \<in> set xs. si_id x \<noteq> si_id s" for s f g v
    using compensated [OF that(2,4,5,6), of f g] that by auto
  note after = resolve_keeps act_keeps keeps_reads(2)
  from res show ?thesis
    unfolding site_activate_def failure_iff new_activation_parts
  proof (elim disjE exE conjE)
    fix e1 w1 assume "resolve_runtime rt (sr_php_version inp) w = (Inl e1, w1)" "w' = w1"
    with early [OF resolve_keeps] show ?thesis by blast
  next
    fix x w1 e2 w2 assume 1: "resolve_runtime rt (sr_php_version inp) w = (Inr x, w1)"
      and 2: "ss_register ss (inp\<lparr>sr_php_version := rr_version x\<rparr>) w1 = (Inl e2, w2)" "w' = w2"
    have k1: "keeps_state w w1" by (rule resolve_keeps [OF 1])
    show ?thesis using register [OF 2(1) calm_keeps [OF c k1]] kept [OF k1] h 2(2) by simp
  next
    fix x w1 s w2 e3 w3 assume 1: "resolve_runtime rt (sr_php_version inp) w = (Inr x, w1)"
        "ss_register ss (inp\<lparr>sr_php_version := rr_version x\<rparr>) w1 = (Inr s, w2)"
      and 2: "act_resolver activation w2 = (Inl e3, w3)" "w' = act_compensate activation (si_id s) False False w3"
    show ?thesis using reg [OF 1 act_keeps(1) [OF 2(1)]] by (intro undone [OF 2(2)]) auto
  next
    fix x w1 s w2 st w3 e4 w4 assume 1: "resolve_runtime rt (sr_php_version inp) w = (Inr x, w1)"
        "ss_register ss (inp\<lparr>sr_php_version := rr_version x\<rparr>) w1 = (Inr s, w2)"
      and 2: "act_resolver activation w2 = (Inr st, w3)" "act_php activation x w3 = (Inl e4, w4)"
        "w' = act_compensate activation (si_id s) True False w4"
    have k: "keeps_state w2 w4" by (rule keeps_trans [OF act_keeps(1) [OF 2(1)] act_keeps(2) [OF 2(2)]])
    show ?thesis using reg [OF 1 k] by (intro undone [OF 2(3)]) auto
  next
    fix x w1 s w2 st w3 mat w4 e5 w5 assume 1: "resolve_runtime rt (sr_php_version inp) w = (Inr x, w1)"
        "ss_register ss (inp\<lparr>sr_php_version := rr_version x\<rparr>) w1 = (Inr s, w2)"
      and 2: "act_resolver activation w2 = (Inr st, w3)" "act_php activation x w3 = (Inr mat, w4)"
        "act_services activation x w4 = (Inl e5, w5)" "w' = act_compensate activation (si_id s) True False w5"
    have k: "keeps_state w2 w5"
      by (rule keeps_trans [OF keeps_trans [OF act_keeps(1) [OF 2(1)] act_keeps(2) [OF 2(2)]] act_keeps(3) [OF 2(3)]])
    show ?thesis using reg [OF 1 k] by (intro undone [OF 2(4)]) auto
  next
    fix x w1 s w2 st w3 mat w4 sv w5 e6 w6 assume 1: "resolve_runtime rt (sr_php_version inp) w = (Inr x, w1)"
        "ss_register ss (inp\<lparr>sr_php_version := rr_version x\<rparr>) w1 = (Inr s, w2)"
      and 2: "act_resolver activation w2 = (Inr st, w3)" "act_php activation x w3 = (Inr mat, w4)"
        "act_services activation x w4 = (Inr sv, w5)" "act_web activation s (pm_socket_path mat) w5 = (Inl e6, w6)"
        "w' = act_compensate activation (si_id s) True False w6"
    note host = host_steps [OF 2(1-4)]
    show ?thesis using reg [OF 1 host] by (intro undone [OF 2(5)]) auto
  next
    fix x w1 s w2 st w3 mat w4 sv w5 web w6 now w7 e8 w8
    assume 1: "resolve_runtime rt (sr_php_version inp) w = (Inr x, w1)"
        "ss_register ss (inp\<lparr>sr_php_version := rr_version x\<rparr>) w1 = (Inr s, w2)"
      and 2: "act_resolver activation w2 = (Inr st, w3)" "act_php activation x w3 = (Inr mat, w4)"
        "act_services activation x w4 = (Inr sv, w5)" "act_web activation s (pm_socket_path mat) w5 = (Inr web, w6)"
      and 3: "clock_now w6 = (now, w7)" "ss_update ss (activated_site s x now) w7 = (Inl e8, w8)"
        "w' = act_compensate activation (si_id s) True True w8"
    have R: "calm w7 \<and> rest w7 = rest w \<and> held w7 = Some (xs @ [s]) \<and> sites_ok (xs @ [s]) \<and> (\<forall>x \<in> set xs. si_id x \<noteq> si_id s)"
      by (rule reg [OF 1 keeps_trans [OF host_steps [OF 2(1-4)] keeps_reads(2) [OF 3(1)]]])
    then have "calm w8 \<and> rest w8 = rest w7 \<and> held w8 = held w7" using update [OF 3(2)] by simp
    with R show ?thesis by (intro undone [OF 3(3)]) auto
  qed auto
qed


lemma activate_Inr:
  assumes res: "site_activate activation inp w = (Inr a, w')" and c: "calm w" and h: "held w = Some xs"
    and ok: "sites_ok xs" and new: "new_id_unused activation inp w xs"
  shows "calm w' \<and> rest w' = rest w \<and> held w' = Some (xs @ [ar_site a]) \<and> sites_ok (xs @ [ar_site a])
    \<and> (\<forall>x \<in> set xs. si_id x \<noteq> si_id (ar_site a))"
proof -
  from res obtain x w1 s w2 st w3 mat w4 sv w5 web w6 now w7 s' w8 t where
      1: "resolve_runtime rt (sr_php_version inp) w = (Inr x, w1)"
        "ss_register ss (inp\<lparr>sr_php_version := rr_version x\<rparr>) w1 = (Inr s, w2)"
      and 2: "act_resolver activation w2 = (Inr st, w3)" "act_php activation x w3 = (Inr mat, w4)"
        "act_services activation x w4 = (Inr sv, w5)" "act_web activation s (pm_socket_path mat) w5 = (Inr web, w6)"
      and 3: "clock_now w6 = (now, w7)" "ss_update ss (activated_site s x now) w7 = (Inr s', w8)"
      and 4: "clock_now w8 = (t, w')" "s' = ar_site a"
    unfolding site_activate_def result_iff new_activation_parts by fastforce
  have k1: "keeps_state w w1" by (rule resolve_keeps [OF 1(1)])
  have k2: "keeps_state w2 w7" by (rule keeps_trans [OF host_steps [OF 2] keeps_reads(2) [OF 3(1)]])
  have R: "calm w2" "rest w2 = rest w" "held w2 = Some (xs @ [s])" "sites_ok (xs @ [s])"
    using register [OF 1(2) calm_keeps [OF c k1]] kept [OF k1] h ok by auto
  have nw: "\<forall>x \<in> set xs. si_id x \<noteq> si_id s" using new 1 by (simp add: new_id_unused_def list_all_iff)
  have c7: "calm w7" by (rule calm_keeps [OF R(1) k2])
  have tn: "time_ok now" using calm_clock [OF calm_keeps [OF R(1) host_steps [OF 2]] 3(1)] .
  have same: "si_id (activated_site s x now) = si_id s" "si_last_checked_at (activated_site s x now) = now"
    by (simp_all add: activated_site_def)
  have fs: "find_site (si_id s) (xs @ [s]) = Some s" by (rule find_site_append_new [OF nw])
  obtain n where n: "time_ok n" "s' = updated_site (activated_site s x now) s n" "calm w8" "rest w8 = rest w"
      "held w8 = Some (replace_first (has_id (si_id s)) s' (xs @ [s]))"
    using update [OF 3(2) c7] kept [OF k2] R tn fs unfolding same by auto
  have "replace_first (has_id (si_id s)) s' (xs @ [s]) = xs @ [s']"
    by (rule replace_first_append_new) (use nw in \<open>auto simp: has_id_def\<close>)
  then have h8: "held w8 = Some (xs @ [s'])" using n(5) by simp
  have s': "si_id s' = si_id s" "si_name s' = si_name s" "si_domain s' = si_domain s"
    by (simp_all add: n(2) updated_site_def activated_site_def)
  have "site_times_ok s'" using R(4) n(1) tn by (auto simp: n(2) updated_site_def activated_site_def site_times_ok_def sites_ok_def)
  then have "sites_ok (xs @ [s'])" using R(4) s' by (auto simp: sites_ok_def)
  moreover have "calm w' \<and> rest w' = rest w8 \<and> held w' = held w8"
    using calm_keeps [OF n(3) keeps_reads(2) [OF 4(1)]] kept [OF keeps_reads(2) [OF 4(1)]] by simp
  ultimately show ?thesis using h8 n(4) nw s'(1) 4(2) by simp
qed

text \<open>The list can be read and is a valid registry.\<close>

definition sound :: "world \<Rightarrow> bool" where
  "sound w \<longleftrightarrow> calm w \<and> (\<exists>xs. held w = Some xs \<and> registry_ok xs)"

lemma sound_keeps: "sound w \<Longrightarrow> keeps_state w w' \<Longrightarrow> sound w'"
  using kept [of w w'] calm_keeps [of w w'] by (simp add: sound_def)

lemma activate_sound:
  assumes res: "site_activate activation inp w = (r, w')" and s: "sound w"
    and new: "\<forall>xs. held w = Some xs \<longrightarrow> new_id_unused activation inp w xs"
  shows "sound w' \<and> rest w' = rest w"
proof -
  obtain xs where h: "held w = Some xs" "registry_ok xs" and c: "calm w" using s by (auto simp: sound_def)
  then have x: "sites_ok xs" "distinct (map si_id xs)" "new_id_unused activation inp w xs"
    using new by (simp_all add: registry_ok_def)
  have add: "registry_ok (xs @ [y])" if "sites_ok (xs @ [y])" "\<forall>z \<in> set xs. si_id z \<noteq> si_id y" for y
    using that x(2) by (auto simp: registry_ok_def image_iff)
  show ?thesis
  proof (cases r)
    case (Inl e)
    from activate_Inl [OF res [unfolded Inl] c h(1) x(1,3)] h add show ?thesis by (auto simp: sound_def)
  next
    case (Inr a)
    from activate_Inr [OF res [unfolded Inr] c h(1) x(1,3)] add show ?thesis by (auto simp: sound_def)
  qed
qed

end

end
