(* ===== verification/Update_Contract.thy ===== *)
theory Update_Contract
  imports Site_Contract
begin

text \<open>
  Under the contracts of \<open>site_services\<close>: changing a site and switching its runtime. A change is checked
  against the other sites, the host is changed, and only then is the record stored, so a failure - also
  one whose rollback fails - stores nothing.
\<close>

text \<open>Storing a record that fits into the list.\<close>

lemma registry_ok_update:
  assumes "registry_ok xs" "others_apart s xs" "valid_domain (si_domain s)" "site_times_ok s" "time_ok now"
    and "find_site (si_id s) xs = Some old"
  shows "registry_ok (replace_first (has_id (si_id s)) (updated_site s old now) xs)"
proof -
  let ?s = "updated_site s old now"
  have same: "si_id ?s = si_id s" "si_name ?s = si_name s" "si_domain ?s = si_domain s"
    by (simp_all add: updated_site_def)
  have "old \<in> set xs" using find_site_in [OF assms(6)] by simp
  then have "site_times_ok ?s" using assms(1,4,5) by (auto simp: updated_site_def site_times_ok_def registry_ok_def sites_ok_def)
  moreover have "others_apart ?s xs" using assms(2) by (simp add: others_apart_def same)
  moreover have "valid_domain (si_domain ?s)" using assms(3) by (simp add: same)
  ultimately have "registry_ok (replace_first (has_id (si_id ?s)) ?s xs)"
    by (intro registry_ok_replace [OF assms(1)])
  then show ?thesis by (simp only: same)
qed

context site_services
begin

abbreviation management :: management_service where
  "management \<equiv> \<lparr>ms_sites = ss, ms_runtimes = rt, ms_web = wa, ms_php = mt, ms_services = sc\<rparr>"

subsection \<open>What an update checks\<close>

lemma updated_root_keeps: "updated_root current inp w = (r, w') \<Longrightarrow> keeps_state w w'"
  unfolding updated_root_def
  by (auto split: option.splits prod.splits sum.splits
      dest!: reads_normalize_root reads_validate_path intro: same_host_keeps same_host_trans)

lemma prepare_keeps:
  assumes c: "calm w" and res: "prepare_updated_site management current inp w = (r, w')"
  shows "keeps_state w w'"
proof -
  obtain q1 w1 where 1: "updated_root current inp w = (q1, w1)" by force
  have k1: "keeps_state w w1" by (rule updated_root_keeps [OF 1])
  have "keeps_state w1 w'" if "q1 = Inr root" "updated_domain current inp (updated_name current inp root) = Inr d" for root d
  proof -
    obtain q2 w2 where 2: "resolve_runtime rt (wanted_version current inp) w1 = (q2, w2)" by force
    have k2: "keeps_state w1 w2" by (rule resolve_keeps [OF 2])
    obtain q3 w3 where 3: "ss_list ss w2 = (q3, w3)" by force
    have "keeps_state w2 w3" using list [OF 3 calm_keeps [OF calm_keeps [OF c k1] k2]] by simp
    with k2 have k3: "keeps_state w1 w3" by (rule keeps_trans)
    show ?thesis using res 1 2 3 that k2 k3 by (auto simp: prepare_updated_site_def split: sum.splits option.splits)
  qed
  then show ?thesis using res 1 k1 keeps_trans [OF k1]
    by (auto simp: prepare_updated_site_def split: sum.splits option.splits)
qed

text \<open>The record prepared is the old one with a free name and a free, valid domain.\<close>

lemma prepare_Inr:
  assumes c: "calm w" and h: "held w = Some xs" and ok: "registry_ok xs" and cur: "current \<in> set xs"
    and res: "prepare_updated_site management current inp w = (Inr (s, target), w')"
  shows "others_apart s xs" "valid_domain (si_domain s)" "si_id s = si_id current"
    "si_created_at s = si_created_at current" "site_times_ok s" "si_php_version s = rr_version target"
proof -
  from res obtain root w1 d w2 ys w3 where 1: "updated_root current inp w = (Inr root, w1)"
      and d: "updated_domain current inp (updated_name current inp root) = Inr d"
      and 2: "resolve_runtime rt (wanted_version current inp) w1 = (Inr target, w2)"
      and 3: "ss_list ss w2 = (Inr ys, w3)"
      and f: "site_clash (updated_name current inp root) d (filter (\<lambda>s. si_id s \<noteq> si_id current) ys) = None"
      and s: "s = changed_site current (updated_name current inp root) root d (rr_version target)"
    unfolding prepare_updated_site_def by (auto split: prod.splits sum.splits option.splits)
  have k: "keeps_state w w2" by (rule keeps_trans [OF updated_root_keeps [OF 1] resolve_keeps [OF 2]])
  have "\<exists>zs. held w2 = Some zs \<and> set ys = set zs" using list [OF 3 calm_keeps [OF c k]] by simp
  then have ys: "set ys = set xs" using kept [OF k] h by simp
  have i: "si_id s = si_id current" by (simp add: s changed_site_def)
  have "others_apart s ys" using f unfolding others_apart_def i by (simp add: s changed_site_def)
  then show "others_apart s xs" using others_apart_set [OF ys] by simp
  have "valid_domain d"
    using d cur ok by (auto simp: updated_domain_def normalize_domain_Inr registry_ok_def sites_ok_def split: option.splits)
  then show "valid_domain (si_domain s)" by (simp add: s changed_site_def)
  show "si_id s = si_id current" "si_created_at s = si_created_at current" "si_php_version s = rr_version target"
    by (simp_all add: s changed_site_def)
  show "site_times_ok s" using cur ok by (auto simp: s changed_site_def site_times_ok_def registry_ok_def sites_ok_def)
qed

subsection \<open>What an update does to the host\<close>

lemma restart_keeps: "sc = Some c \<Longrightarrow> status_outcome (sc_restart c n w) = (e, w') \<Longrightarrow> keeps_state w w'"
  by (auto simp: status_outcome_def split: prod.splits dest: services_keep(2))

lemma runtime_change_keeps: "apply_runtime_change management current target w = (r, w') \<Longrightarrow> keeps_state w w'"
  unfolding apply_runtime_change_def
  by (auto split: if_splits option.splits prod.splits sum.splits dest: php_keeps(2) restart_keeps)

lemma manage_services_keep: "manage_services management target w = (r, w') \<Longrightarrow> keeps_state w w'"
  unfolding manage_services_def
  by (auto simp del: start_services.simps split: option.splits prod.splits sum.splits dest: start_services_keep)

lemma manage_web_keeps: "manage_web management s target w = (r, w') \<Longrightarrow> keeps_state w w'"
  unfolding manage_web_def by (auto split: option.splits prod.splits sum.splits dest: web_keeps(1))

lemma undo_web_keeps: "keeps_state w (undo_web management current w)"
proof (cases wa)
  case (Some y)
  then show ?thesis using web_keeps(1) [OF Some prod.collapse [symmetric]] by (simp add: undo_web_def)
qed (simp add: undo_web_def)

lemma rollback_keeps: "keeps_state w (rollback_runtime management previous failed w)"
proof -
  obtain r w1 where p: "previous_runtime management (normalize_php_version (si_php_version previous)) w = (r, w1)" by force
  then have k1: "keeps_state w w1"
    by (auto simp: previous_runtime_def split: prod.splits sum.splits dest: runtimes_keep(1))
  show ?thesis
  proof (cases mt)
    case (Some z)
    have "keeps_state w1 (snd (mt_switch z q w1))" for q by (rule php_keeps(2) [OF Some prod.collapse [symmetric]])
    then show ?thesis using Some p by (simp add: rollback_runtime_def Let_def keeps_trans [OF k1])
  next
    case None
    show ?thesis
    proof (cases sc)
      case (Some c)
      have "keeps_state w1 (snd (sc_restart c n w1))" for n by (rule services_keep(2) [OF Some prod.collapse [symmetric]])
      then show ?thesis using Some None p by (simp add: rollback_runtime_def Let_def keeps_trans [OF k1])
    qed (use None p k1 in \<open>simp add: rollback_runtime_def Let_def\<close>)
  qed
qed

lemma undo_runtime_keeps: "keeps_state w (undo_runtime management current target w)"
  using rollback_keeps by (simp add: undo_runtime_def)

subsection \<open>The outcomes of an update\<close>

text \<open>Nothing is stored unless the update succeeds.\<close>

lemma update_Inl:
  assumes "ss_update ss s w = (Inl e, w')" "calm w"
  shows "calm w' \<and> rest w' = rest w \<and> held w' = held w"
  using update [OF assms] by simp

lemma apply_update_Inl:
  assumes res: "apply_update management current s target w = (Inl e, w')" and c: "calm w"
  shows "calm w' \<and> rest w' = rest w \<and> held w' = held w"
proof -
  have k: ?thesis if "keeps_state w v" "w' = v" for v
    using calm_keeps [OF c that(1)] kept [OF that(1)] that(2) by simp
  have undo: "keeps_state w (undo_runtime management current target v)" if "keeps_state w v" for v
    by (rule keeps_trans [OF that undo_runtime_keeps])
  from res show ?thesis
    unfolding apply_update_def failure_iff
  proof (elim disjE exE conjE)
    fix e1 w1 assume "apply_runtime_change management current target w = (Inl e1, w1)" "w' = w1"
    then show ?thesis by (intro k) (rule runtime_change_keeps)
  next
    fix u w1 e2 w2 assume 1: "apply_runtime_change management current target w = (Inr u, w1)"
      and 2: "manage_services management target w1 = (Inl e2, w2)" and w': "w' = undo_runtime management current target w2"
    show ?thesis
      by (rule k [OF undo w']) (rule keeps_trans [OF runtime_change_keeps [OF 1] manage_services_keep [OF 2]])
  next
    fix u w1 u2 w2 e3 w3 assume 1: "apply_runtime_change management current target w = (Inr u, w1)"
      and 2: "manage_services management target w1 = (Inr u2, w2)"
      and 3: "manage_web management s target w2 = (Inl e3, w3)" and w': "w' = undo_runtime management current target w3"
    have "keeps_state w w3"
      using runtime_change_keeps [OF 1] manage_services_keep [OF 2] manage_web_keeps [OF 3] by (blast intro: keeps_trans)
    then show ?thesis by (intro k [OF undo w'])
  next
    fix u w1 u2 w2 u3 w3 now w4 e5 w5 s'
    assume 1: "apply_runtime_change management current target w = (Inr u, w1)"
      and 2: "manage_services management target w1 = (Inr u2, w2)"
      and 3: "manage_web management s target w2 = (Inr u3, w3)" and 4: "clock_now w3 = (now, w4)"
      and 5: "ss_update (ms_sites management) (checked_site s (''Site updated and ready at https://'' @ si_domain s @ '' with PHP ''
                 @ rr_version target @ ''.'') now) w4 = (Inl e5, w5)"
      and w': "w' = undo_runtime management current target (undo_web management current w5)"
    have k4: "keeps_state w w4"
      using runtime_change_keeps [OF 1] manage_services_keep [OF 2] manage_web_keeps [OF 3] keeps_reads(2) [OF 4]
      by (blast intro: keeps_trans)
    have U: "calm w5 \<and> rest w5 = rest w \<and> held w5 = held w"
      using update_Inl [OF 5 [simplified] calm_keeps [OF c k4]] kept [OF k4] by simp
    have "keeps_state w5 w'" unfolding w' by (rule keeps_trans [OF undo_web_keeps undo_runtime_keeps])
    with U calm_keeps [of w5 w'] kept [of w5 w'] show ?thesis by simp
  qed auto
qed

lemma apply_update_Inr:
  assumes res: "apply_update management current s target w = (Inr s', w')"
  obtains v message now where "keeps_state w v" "time_ok now \<or> \<not> calm w" "ss_update ss (checked_site s message now) v = (Inr s', w')"
proof -
  from res obtain u w1 u2 w2 u3 w3 now w4 where 1: "apply_runtime_change management current target w = (Inr u, w1)"
      and 2: "manage_services management target w1 = (Inr u2, w2)"
      and 3: "manage_web management s target w2 = (Inr u3, w3)" and 4: "clock_now w3 = (now, w4)"
      and 5: "ss_update (ms_sites management) (checked_site s (''Site updated and ready at https://'' @ si_domain s @ '' with PHP ''
                 @ rr_version target @ ''.'') now) w4 = (Inr s', w')"
    unfolding apply_update_def result_iff by auto
  have k3: "keeps_state w w3"
    using runtime_change_keeps [OF 1] manage_services_keep [OF 2] manage_web_keeps [OF 3] by (blast intro: keeps_trans)
  have "keeps_state w w4" by (rule keeps_trans [OF k3 keeps_reads(2) [OF 4]])
  moreover have "time_ok now \<or> \<not> calm w" using calm_clock [OF calm_keeps [OF _ k3] 4] by blast
  ultimately show ?thesis using 5 by (intro that) simp_all
qed

lemma manage_update_Inl:
  assumes res: "manage_update management inp w = (Inl e, w')" and c: "calm w"
  shows "calm w' \<and> rest w' = rest w \<and> held w' = held w"
proof -
  have k: "calm v \<and> rest v = rest w \<and> held v = held w" if "keeps_state w v" for v
    using calm_keeps [OF c that] kept [OF that] by simp
  obtain q1 w1 where 1: "ss_get ss (trim_space (su_site_id inp)) w = (q1, w1)" by force
  have k1: "keeps_state w w1" using get [OF 1 c] by simp
  show ?thesis
  proof (cases q1)
    case (Inl e1)
    then show ?thesis using res 1 k [OF k1] by (simp add: manage_update_def)
  next
    case cur: (Inr current)
    obtain q2 w2 where 2: "prepare_updated_site management current inp w1 = (q2, w2)" by force
    have k2: "keeps_state w w2" by (rule keeps_trans [OF k1 prepare_keeps [OF calm_keeps [OF c k1] 2]])
    show ?thesis
    proof (cases q2)
      case (Inl e2)
      then show ?thesis using res 1 2 cur k [OF k2] by (simp add: manage_update_def)
    next
      case (Inr x)
      obtain s target where x: "x = (s, target)" by force
      consider (meta) now w3 m where "clock_now w2 = (now, w3)" "ss_update ss (checked_site s m now) w3 = (Inl e, w')"
        | (host) "apply_update management current s target w2 = (Inl e, w')"
        using res 1 2 cur Inr x by (auto simp: manage_update_def split: if_splits prod.splits)
      then show ?thesis
      proof cases
        case meta
        have k3: "keeps_state w w3" by (rule keeps_trans [OF k2 keeps_reads(2) [OF meta(1)]])
        with update_Inl [OF meta(2)] k [OF k3] show ?thesis by simp
      next
        case host
        with apply_update_Inl [OF host] k [OF k2] show ?thesis by simp
      qed
    qed
  qed
qed

text \<open>A successful update replaces one record, which keeps its ID and creation time and is free of clashes.\<close>

lemma stored_update:
  assumes u: "ss_update ss (checked_site s m now) v = (Inr s', w')" and k: "keeps_state w v" and c: "calm w"
    and h: "held w = Some xs" and ok: "registry_ok xs" and tn: "time_ok now"
    and s: "others_apart s xs" "valid_domain (si_domain s)" "site_times_ok s"
  shows "calm w' \<and> rest w' = rest w \<and> si_id s' = si_id s \<and> held w' = Some (replace_first (has_id (si_id s)) s' xs)
    \<and> registry_ok (replace_first (has_id (si_id s)) s' xs)
    \<and> (\<exists>old t. find_site (si_id s) xs = Some old \<and> s' = updated_site (checked_site s m now) old t)"
proof -
  let ?s = "checked_site s m now"
  have same: "si_id ?s = si_id s" "si_name ?s = si_name s" "si_domain ?s = si_domain s" "si_last_checked_at ?s = now"
    by (simp_all add: checked_site_def)
  have c': "calm v" by (rule calm_keeps [OF c k])
  obtain old t where U: "find_site (si_id s) xs = Some old" "time_ok t" "s' = updated_site ?s old t" "calm w'" "rest w' = rest w"
      "held w' = Some (replace_first (has_id (si_id s)) s' xs)"
    using update [OF u c'] kept [OF k] h ok tn same by (auto simp: registry_ok_def)
  have "registry_ok (replace_first (has_id (si_id ?s)) (updated_site ?s old t) xs)"
    by (rule registry_ok_update [OF ok])
       (use s tn U(1,2) same in \<open>auto simp: others_apart_def site_times_ok_def checked_site_def\<close>)
  with U same show ?thesis by (auto simp: updated_site_def)
qed

lemma manage_update_Inr:
  assumes res: "manage_update management inp w = (Inr s', w')" and c: "calm w" and h: "held w = Some xs" and ok: "registry_ok xs"
  shows "calm w' \<and> rest w' = rest w \<and> si_id s' = trim_space (su_site_id inp)
    \<and> held w' = Some (replace_first (has_id (si_id s')) s' xs) \<and> registry_ok (replace_first (has_id (si_id s')) s' xs)"
proof -
  from res obtain current w1 s target w2 where 1: "ss_get ss (trim_space (su_site_id inp)) w = (Inr current, w1)"
      and 2: "prepare_updated_site management current inp w1 = (Inr (s, target), w2)"
    by (auto simp: manage_update_def split: sum.splits prod.splits)
  have k1: "keeps_state w w1" and cur: "current \<in> set xs" "si_id current = trim_space (su_site_id inp)"
    using get [OF 1 c] h find_site_in by auto
  have c1: "calm w1" by (rule calm_keeps [OF c k1])
  have k2: "keeps_state w w2" by (rule keeps_trans [OF k1 prepare_keeps [OF c1 2]])
  have h1: "held w1 = Some xs" using kept [OF k1] h by simp
  note P = prepare_Inr [OF c1 h1 ok cur(1) 2]
  have finally_stored: ?thesis if "ss_update ss (checked_site s m now) v = (Inr s', w')" "keeps_state w v" "time_ok now" for m now v
    using stored_update [OF that(1,2) c h ok that(3) P(1,2,5)] P(3) cur(2) by auto
  consider (meta) now w3 m where "clock_now w2 = (now, w3)" "ss_update ss (checked_site s m now) w3 = (Inr s', w')"
    | (host) "apply_update management current s target w2 = (Inr s', w')"
    using res 1 2 by (auto simp: manage_update_def split: if_splits prod.splits)
  then show ?thesis
  proof cases
    case meta
    show ?thesis
      by (rule finally_stored [OF meta(2) keeps_trans [OF k2 keeps_reads(2) [OF meta(1)]] calm_clock [OF calm_keeps [OF c k2] meta(1)]])
  next
    case host
    then obtain v m now where v: "keeps_state w2 v" "time_ok now \<or> \<not> calm w2" "ss_update ss (checked_site s m now) v = (Inr s', w')"
      using apply_update_Inr by blast
    show ?thesis by (rule finally_stored [OF v(3) keeps_trans [OF k2 v(1)]]) (use v(2) calm_keeps [OF c k2] in simp)
  qed
qed

lemma manage_update_sound:
  assumes res: "manage_update management inp w = (r, w')" and s: "sound w"
  shows "sound w' \<and> rest w' = rest w"
proof -
  obtain xs where c: "calm w" and h: "held w = Some xs" and ok: "registry_ok xs" using s by (auto simp: sound_def)
  show ?thesis
  proof (cases r)
    case (Inl e)
    with manage_update_Inl [OF res [unfolded Inl] c] s show ?thesis by (simp add: sound_def)
  next
    case (Inr s')
    from manage_update_Inr [OF res [unfolded Inr] c h ok] show ?thesis by (auto simp: sound_def)
  qed
qed

subsection \<open>Switching the runtime of a site\<close>

text \<open>The PHP manager uses its services without looking whether there are any.\<close>

lemma switch_host_keeps:
  assumes "sc = Some c"
  shows "switch_host \<lparr>pg_sites = ss, pg_runtimes = rt, pg_services = c, pg_php = mt, pg_web = wa\<rparr> s target w = (r, w')
    \<Longrightarrow> keeps_state w w'"
  unfolding switch_host_def
  by (auto split: option.splits prod.splits sum.splits dest: php_keeps(2) restart_keeps [OF assms])

lemma switch_web_keeps:
  "switch_web \<lparr>pg_sites = ss, pg_runtimes = rt, pg_services = c, pg_php = mt, pg_web = wa\<rparr> s socket w = (r, w')
    \<Longrightarrow> keeps_state w w'"
  unfolding switch_web_def by (auto split: option.splits prod.splits sum.splits dest: web_keeps(1))

lemma switch_back_keeps:
  "keeps_state w (switch_back \<lparr>pg_sites = ss, pg_runtimes = rt, pg_services = c, pg_php = mt, pg_web = wa\<rparr> s target w)"
proof (cases mt)
  case (Some z)
  then show ?thesis using php_keeps(2) [OF Some prod.collapse [symmetric]] by (simp add: switch_back_def)
qed (simp add: switch_back_def)

lemma undo_switch_keeps:
  assumes "sc = Some c"
  shows "keeps_state w (undo_switch \<lparr>pg_sites = ss, pg_runtimes = rt, pg_services = c, pg_php = mt, pg_web = wa\<rparr> s w)"
proof -
  let ?m = "\<lparr>pg_sites = ss, pg_runtimes = rt, pg_services = c, pg_php = mt, pg_web = wa\<rparr>"
  have restart: "keeps_state v (snd (sc_restart c n v))" for n v by (rule services_keep(2) [OF assms prod.collapse [symmetric]])
  have prev: "keeps_state u (restart_previous ?m version v)" if "keeps_state u v" for u v version
  proof -
    obtain q v1 where q: "rt_get rt version v = (q, v1)" by force
    have "keeps_state u v1" by (rule keeps_trans [OF that runtimes_keep(1) [OF q]])
    with q that restart show ?thesis by (auto simp: restart_previous_def split: sum.split intro: keeps_trans)
  qed
  show ?thesis
  proof (cases wa)
    case (Some y)
    have "keeps_state w (snd (wa_activate y site w))" for site by (rule web_keeps(1) [OF Some prod.collapse [symmetric]])
    from prev [OF this] Some show ?thesis by (simp add: undo_switch_def)
  next
    case None
    with prev [OF keeps_refl] show ?thesis by (simp add: undo_switch_def)
  qed
qed

lemma switch_Inl:
  assumes sc: "sc = Some c" and c: "calm w"
    and res: "switch_site_runtime \<lparr>pg_sites = ss, pg_runtimes = rt, pg_services = c, pg_php = mt, pg_web = wa\<rparr> i version w = (Inl e, w')"
  shows "calm w' \<and> rest w' = rest w \<and> held w' = held w"
proof -
  let ?m = "\<lparr>pg_sites = ss, pg_runtimes = rt, pg_services = c, pg_php = mt, pg_web = wa\<rparr>"
  have k: "calm v \<and> rest v = rest w \<and> held v = held w" if "keeps_state w v" for v
    using calm_keeps [OF c that] kept [OF that] by simp
  obtain q1 w1 where 1: "ss_get ss i w = (q1, w1)" by force
  have k1: "keeps_state w w1" using get [OF 1 c] by simp
  obtain q2 w2 where 2: "rt_get rt version w1 = (q2, w2)" by force
  have k2: "keeps_state w w2" by (rule keeps_trans [OF k1 runtimes_keep(1) [OF 2]])
  consider (read) "w' = w1 \<or> w' = w2"
    | (host) s target e3 where "switch_host ?m s target w2 = (Inl e3, w')"
    | (web) s target socket e4 w3 w4 where "switch_host ?m s target w2 = (Inr socket, w3)"
        "switch_web ?m (switched_site s target) (first_non_empty_string [socket, php_socket_path (rr_version target)]) w3 = (Inl e4, w4)"
        "w' = switch_back ?m s target w4"
    | (store) s target socket u e5 w3 w4 w5 where "switch_host ?m s target w2 = (Inr socket, w3)"
        "switch_web ?m (switched_site s target) (first_non_empty_string [socket, php_socket_path (rr_version target)]) w3 = (Inr u, w4)"
        "ss_update ss (switched_site s target) w4 = (Inl e5, w5)" "w' = undo_switch ?m s w5"
    using res 1 2 unfolding switch_site_runtime_def
    by (auto simp del: first_non_empty_string.simps split: sum.splits prod.splits if_splits)
  then show ?thesis
  proof cases
    case read
    then show ?thesis using k [OF k1] k [OF k2] by auto
  next
    case host
    show ?thesis by (rule k [OF keeps_trans [OF k2 switch_host_keeps [OF sc host]]])
  next
    case web
    show ?thesis unfolding web(3)
      by (rule k) (rule keeps_trans [OF k2 keeps_trans [OF switch_host_keeps [OF sc web(1)]
            keeps_trans [OF switch_web_keeps [OF web(2)] switch_back_keeps]]])
  next
    case store
    have k4: "keeps_state w w4"
      by (rule keeps_trans [OF k2 keeps_trans [OF switch_host_keeps [OF sc store(1)] switch_web_keeps [OF store(2)]]])
    have "calm w5 \<and> rest w5 = rest w \<and> held w5 = held w" using update_Inl [OF store(3)] k [OF k4] by simp
    moreover have "keeps_state w5 w'" unfolding store(4) by (rule undo_switch_keeps [OF sc])
    ultimately show ?thesis using calm_keeps [of w5 w'] kept [of w5 w'] by simp
  qed
qed

lemma switch_Inr:
  assumes sc: "sc = Some c" and c: "calm w" and h: "held w = Some xs" and ok: "registry_ok xs"
    and res: "switch_site_runtime \<lparr>pg_sites = ss, pg_runtimes = rt, pg_services = c, pg_php = mt, pg_web = wa\<rparr> i version w = (Inr s', w')"
  shows "calm w' \<and> rest w' = rest w \<and> si_id s' = i
    \<and> held w' = Some (replace_first (has_id i) s' xs) \<and> registry_ok (replace_first (has_id i) s' xs)"
proof -
  let ?m = "\<lparr>pg_sites = ss, pg_runtimes = rt, pg_services = c, pg_php = mt, pg_web = wa\<rparr>"
  obtain s w1 where 1: "ss_get ss i w = (Inr s, w1)" using res by (auto simp: switch_site_runtime_def split: sum.splits prod.splits)
  have k1: "keeps_state w w1" and f: "find_site i xs = Some s" using get [OF 1 c] h by auto
  have s: "s \<in> set xs" "si_id s = i" using find_site_in [OF f] by simp_all
  obtain target w2 where 2: "rt_get rt version w1 = (Inr target, w2)"
    using res 1 by (auto simp: switch_site_runtime_def split: sum.splits prod.splits)
  have k2: "keeps_state w w2" by (rule keeps_trans [OF k1 runtimes_keep(1) [OF 2]])
  have "s' = s \<and> w' = w2 \<or> (\<exists>socket u w3 w4. switch_host ?m s target w2 = (Inr socket, w3)
      \<and> switch_web ?m (switched_site s target) (first_non_empty_string [socket, php_socket_path (rr_version target)]) w3 = (Inr u, w4)
      \<and> ss_update ss (switched_site s target) w4 = (Inr s', w'))"
  proof (cases "si_php_version s = rr_version target")
    case True
    then show ?thesis using res 1 2 by (simp add: switch_site_runtime_def)
  next
    case False
    then show ?thesis
      using res 1 2 unfolding switch_site_runtime_def
      by (simp only: php_manager.select_convs prod.case sum.case if_False result_iff prod.inject sum.inject) blast
  qed
  then consider (same) "s' = s" "w' = w2"
    | (store) socket u w3 w4 where "switch_host ?m s target w2 = (Inr socket, w3)"
        "switch_web ?m (switched_site s target) (first_non_empty_string [socket, php_socket_path (rr_version target)]) w3 = (Inr u, w4)"
        "ss_update ss (switched_site s target) w4 = (Inr s', w')"
    by blast
  then show ?thesis
  proof cases
    case same
    have "replace_first (has_id i) s xs = xs"
      using f unfolding find_site_def find_by_def has_id_def by (induction xs) (auto split: if_splits)
    with same s h ok calm_keeps [OF c k2] kept [OF k2] show ?thesis by simp
  next
    case store
    let ?s = "switched_site s target"
    have sm: "si_id ?s = i" "si_name ?s = si_name s" "si_domain ?s = si_domain s"
        "si_last_checked_at ?s = si_last_checked_at s" "si_created_at ?s = si_created_at s" "si_updated_at ?s = si_updated_at s"
      using s(2) by (simp_all add: switched_site_def)
    have t: "site_times_ok s" "valid_domain (si_domain s)" using s(1) ok by (auto simp: registry_ok_def sites_ok_def)
    have k4: "keeps_state w w4"
      by (rule keeps_trans [OF k2 keeps_trans [OF switch_host_keeps [OF sc store(1)] switch_web_keeps [OF store(2)]]])
    obtain old n where U: "find_site i xs = Some old" "time_ok n" "s' = updated_site ?s old n" "calm w'" "rest w' = rest w"
        "held w' = Some (replace_first (has_id i) s' xs)"
      using update [OF store(3) calm_keeps [OF c k4]] kept [OF k4] h ok t(1) sm
      by (auto simp: registry_ok_def site_times_ok_def)
    have "registry_ok (replace_first (has_id (si_id ?s)) (updated_site ?s old n) xs)"
    proof (rule registry_ok_update [OF ok])
      show "others_apart ?s xs" using stored_apart [OF ok s(1)] by (simp add: others_apart_def sm s(2))
    qed (use t U(1,2) sm in \<open>simp_all add: site_times_ok_def\<close>)
    then have "registry_ok (replace_first (has_id i) s' xs)" unfolding sm(1) U(3) [symmetric] .
    moreover have "si_id s' = i" using sm(1) by (simp add: U(3) updated_site_def)
    ultimately show ?thesis using U(4-6) by simp
  qed
qed

lemma switch_sound:
  assumes sc: "sc = Some c" and s: "sound w"
    and res: "switch_site_runtime \<lparr>pg_sites = ss, pg_runtimes = rt, pg_services = c, pg_php = mt, pg_web = wa\<rparr> i version w = (r, w')"
  shows "sound w' \<and> rest w' = rest w"
proof -
  obtain xs where c: "calm w" and h: "held w = Some xs" and ok: "registry_ok xs" using s by (auto simp: sound_def)
  show ?thesis
  proof (cases r)
    case (Inl e)
    with switch_Inl [OF sc c res [unfolded Inl]] s show ?thesis by (simp add: sound_def)
  next
    case (Inr s')
    from switch_Inr [OF sc c h ok res [unfolded Inr]] show ?thesis by (auto simp: sound_def)
  qed
qed

end

end
