(* ===== verification/Registry_Store.thy ===== *)
theory Registry_Store
  imports Update_Contract Php_Registry_Correct
begin

text \<open>
  The registries as stores under the contracts: what each operation leaves of the two state files, on
  every outcome, and the interpretation of \<open>site_store_contract\<close> by the site registry's file.
\<close>

section \<open>What a save changes\<close>

definition saves :: "string \<Rightarrow> world \<Rightarrow> 'a + 'b \<Rightarrow> world \<Rightarrow> bool" where
  "saves p w r w' \<longleftrightarrow> orc w' = orc w \<and> (\<forall>q. q \<noteq> p \<and> q \<noteq> tmp_path p \<longrightarrow> file_at w' q = file_at w q)
     \<and> (is_Inl r \<longrightarrow> file_at w' p = file_at w p)"

lemma saves_reads: "same_host w v \<Longrightarrow> saves p v r w' \<Longrightarrow> saves p w r w'"
  by (simp add: saves_def same_hostD)

lemma saves_failed: "same_host w w' \<Longrightarrow> saves p w (Inl e) w'"
  by (simp add: saves_def same_hostD)

lemma saves_Inl_cong: "saves p w (Inl e) w' \<Longrightarrow> saves p w (Inl e') w'"
  by (simp add: saves_def)

lemma saves_Inr_cong: "saves p w (Inr x) w' \<Longrightarrow> saves p w (Inr x') w'"
  by (simp add: saves_def)

lemma save_state_saves: "save_state p j m w = (r, w') \<Longrightarrow> saves p w r w'"
proof -
  have "file_at (snd (save_state p j m w)) p = file_at w p" if "is_Inl (fst (save_state p j m w))"
  proof -
    have "file_at (snd (os_write_file (tmp_path p) d mo v)) p = file_at v p" for d mo v
      by (rule file_at_cong) (simp add: frame_simps)
    with that show ?thesis
      by (auto simp: save_state_def split_beta frame_simps os_rename_Inl split: sum.splits)
  qed
  then have "saves p w (fst (save_state p j m w)) (snd (save_state p j m w))"
    unfolding saves_def by (simp add: frame_simps)
  then show "save_state p j m w = (r, w') \<Longrightarrow> saves p w r w'" by simp
qed

lemma site_save_saves: "site_save p sites w = (r, w') \<Longrightarrow> saves p w r w'"
  unfolding site_save_def by (rule save_state_saves)

lemma php_save_saves: "php_save p st w = (r, w') \<Longrightarrow> saves p w r w'"
  unfolding php_save_def by (rule save_state_saves)

lemma site_saved:
  "site_save p xs v = (Inl e', w') \<Longrightarrow> same_host w v \<Longrightarrow> saves p w (Inl e) w'"
  "site_save p xs v = (Inr u, w') \<Longrightarrow> same_host w v \<Longrightarrow> saves p w (Inr x) w'"
  by (blast intro: saves_reads saves_Inl_cong saves_Inr_cong site_save_saves)+

lemma site_delete_saves: "site_delete p i w = (r, w') \<Longrightarrow> saves p w r w'"
  unfolding site_delete_def
  by (cases r) (auto split: option.splits prod.splits sum.splits dest!: reads intro: saves_failed same_host_trans elim!: site_saved)

lemma site_update_saves: "site_update p s w = (r, w') \<Longrightarrow> saves p w r w'"
  unfolding site_update_def Let_def
  by (auto split: option.splits prod.splits sum.splits dest!: reads intro: saves_failed same_host_trans elim!: site_saved)

lemma site_register_saves: "site_register p inp w = (r, w') \<Longrightarrow> saves p w r w'"
  unfolding site_register_def Let_def
  by (auto split: option.splits prod.splits sum.splits dest!: reads intro!: saves_failed elim!: site_saved)
    (meson same_host_trans)+

text \<open>Verifying a binary runs it, and only adds to the log of commands.\<close>

definition same_files :: "world \<Rightarrow> world \<Rightarrow> bool" where
  "same_files w w' \<longleftrightarrow> fs w' = fs w \<and> orc w' = orc w"

lemma same_files_trans: "same_files w v \<Longrightarrow> same_files v w' \<Longrightarrow> same_files w w'"
  by (simp add: same_files_def)

lemma same_files_host: "same_host w w' \<Longrightarrow> same_files w w'"
  by (simp add: same_files_def same_host_def)

lemma saves_files: "same_files w v \<Longrightarrow> saves p v r w' \<Longrightarrow> saves p w r w'"
  by (simp add: saves_def same_files_def file_at_def node_at_def)

lemma saves_failed_files: "same_files w w' \<Longrightarrow> saves p w (Inl e) w'"
  by (simp add: saves_def same_files_def file_at_def node_at_def)

lemma files_normalize_executable: "normalize_executable_path b w = (r, w1) \<Longrightarrow> same_files w w1"
proof -
  have "same_files w (snd (normalize_executable_path b w))"
    by (simp add: same_files_def normalize_executable_world Let_def)
  then show "normalize_executable_path b w = (r, w1) \<Longrightarrow> same_files w w1" by simp
qed

lemma files_verify_runtime: "verify_runtime req b w = (r, w1) \<Longrightarrow> same_files w w1"
proof -
  have "same_files w (snd (verify_runtime req b w))" by (simp add: same_files_def verify_runtime_world)
  then show "verify_runtime req b w = (r, w1) \<Longrightarrow> same_files w w1" by simp
qed

lemma php_saved:
  "php_save p st v = (Inl e', w') \<Longrightarrow> same_files w v \<Longrightarrow> saves p w (Inl e) w'"
  "php_save p st v = (Inr u, w') \<Longrightarrow> same_files w v \<Longrightarrow> saves p w (Inr x) w'"
  by (blast intro: saves_files saves_Inl_cong saves_Inr_cong php_save_saves)+

lemma php_register_saves: "php_register p inp w = (r, w') \<Longrightarrow> saves p w r w'"
  unfolding php_register_def Let_def
  by (auto split: option.splits prod.splits sum.splits
      dest!: reads_basic(4,6) [THEN same_files_host] reads_php(1) [THEN same_files_host]
        files_normalize_executable files_verify_runtime
      intro!: saves_failed_files elim!: php_saved)
    (meson same_files_trans)+

lemma php_set_default_saves: "php_set_default p v w = (r, w') \<Longrightarrow> saves p w r w'"
  unfolding php_set_default_def
  by (auto split: option.splits prod.splits sum.splits
      dest!: reads_basic(6) [THEN same_files_host] reads_php(1) [THEN same_files_host]
      intro: saves_failed_files same_files_trans elim!: php_saved)

section \<open>What the files hold\<close>

text \<open>A missing file holds the empty registry; one that cannot be decoded holds none.\<close>

definition sites_held :: "string \<Rightarrow> world \<Rightarrow> site_record list option" where
  "sites_held p w = (if file_at w p = None then Some [] else site_stored p w)"

definition runtimes_held :: "string \<Rightarrow> world \<Rightarrow> php_state option" where
  "runtimes_held p w = (if file_at w p = None then Some empty_php_state else php_stored p w)"

lemma held_cong:
  assumes "file_at w' p = file_at w p"
  shows "sites_held p w' = sites_held p w" "runtimes_held p w' = runtimes_held p w"
  using stored_file_cong [of w p w'] assms
  by (auto simp: sites_held_def runtimes_held_def site_stored_def php_stored_def)

lemma stored_held:
  "site_stored p w = Some xs \<Longrightarrow> sites_held p w = Some xs"
  "php_stored p w = Some st \<Longrightarrow> runtimes_held p w = Some st"
  by (auto simp: sites_held_def runtimes_held_def site_stored_def php_stored_def stored_def file_at_def
      split: option.splits node.splits)

end
