(* ===== verification/Daemon_Invariant.thy ===== *)
theory Daemon_Invariant
  imports Registry_Store Daemon_Main
begin

text \<open>
  The running daemon. Its registries and adapters satisfy the contracts of theory \<open>Site_Contract\<close>; so
  every request keeps the invariant of both state files, and it holds in every state the daemon can
  reach, whatever other programs do to the rest of the host in between.
\<close>

section \<open>The two state files\<close>

lemma path_clean_suffix:
  assumes n: "segment n" and s: "split_on slash s = ps @ [n]" "s \<noteq> []"
  shows "\<exists>h. path_clean s = h @ n"
proof -
  obtain ds where ds: "clean_parts (hd s = slash) [] (split_on slash s) = ds @ [n]"
    using clean_parts_last [OF n] s(1) by metis
  have "\<exists>h. join_with [slash] (ds @ [n]) = h @ n"
    by (cases "ds = []") (simp_all add: join_append)
  then obtain h where h: "join_with [slash] (ds @ [n]) = h @ n" by blast
  moreover have "h @ n \<noteq> []" using segmentD(1) [OF n] by simp
  ultimately show ?thesis unfolding path_clean_def Let_def ds using s(2) by auto
qed

lemma path_join_suffix:
  assumes n: "segment n"
  shows "\<exists>h. path_join [d, n] = h @ n"
proof -
  have one: "split_on slash n = [] @ [n]" using n by (simp add: segmentD split_on_no_sep)
  have two: "split_on slash (d @ slash # n) = split_on slash d @ [n]"
    using split_on_append [of slash d n] one by simp
  show ?thesis
    using path_clean_suffix [OF n one segmentD(1) [OF n]] path_clean_suffix [OF n two] n
    by (cases "d = []") (simp_all add: path_join_def segmentD)
qed

lemma state_paths [simp]: "state_path (sites_path paths)" "state_path (runtimes_path paths)"
proof -
  have "segment ''sites.json''" "segment ''php-runtimes.json''" by code_simp+
  from path_join_suffix [OF this(1), of "ap_state_dir paths"] path_join_suffix [OF this(2), of "ap_state_dir paths"]
  show "state_path (sites_path paths)" "state_path (runtimes_path paths)"
    by (auto simp: state_path_def has_suffix_iff sites_path_def runtimes_path_def)
qed

lemma state_paths_differ: "sites_path paths \<noteq> runtimes_path paths"
proof
  have seg: "segment ''sites.json''" "segment ''php-runtimes.json''" by code_simp+
  obtain h h' where h: "sites_path paths = h @ ''sites.json''" "runtimes_path paths = h' @ ''php-runtimes.json''"
    using path_join_suffix [OF seg(1)] path_join_suffix [OF seg(2)] unfolding sites_path_def runtimes_path_def by metis
  assume "sites_path paths = runtimes_path paths"
  then have "take 8 (rev (h @ ''sites.json'')) = take 8 (rev (h' @ ''php-runtimes.json''))" using h by simp
  then show False by simp
qed

lemma state_paths_apart [simp]:
  "sites_path paths \<noteq> runtimes_path paths" "runtimes_path paths \<noteq> sites_path paths"
  "sites_path paths \<noteq> tmp_path p" "runtimes_path paths \<noteq> tmp_path p"
  "tmp_path p \<noteq> sites_path paths" "tmp_path p \<noteq> runtimes_path paths"
  using state_paths_differ [of paths] not_state_path(2) [OF state_paths(1)] not_state_path(2) [OF state_paths(2)]
  by (auto simp: eq_commute)

lemma saves_sites:
  assumes "saves (sites_path paths) w r w'"
  shows "runtimes_held (runtimes_path paths) w' = runtimes_held (runtimes_path paths) w" "orc w' = orc w"
    "is_Inl r \<Longrightarrow> sites_held (sites_path paths) w' = sites_held (sites_path paths) w"
proof -
  have f: "file_at w' (runtimes_path paths) = file_at w (runtimes_path paths)" using assms by (simp add: saves_def)
  show "runtimes_held (runtimes_path paths) w' = runtimes_held (runtimes_path paths) w" by (rule held_cong(2) [OF f])
  show "orc w' = orc w" using assms by (simp add: saves_def)
  show "is_Inl r \<Longrightarrow> sites_held (sites_path paths) w' = sites_held (sites_path paths) w"
    by (rule held_cong(1)) (use assms in \<open>simp add: saves_def\<close>)
qed

lemma saves_runtimes:
  assumes "saves (runtimes_path paths) w r w'"
  shows "sites_held (sites_path paths) w' = sites_held (sites_path paths) w" "orc w' = orc w"
    "is_Inl r \<Longrightarrow> runtimes_held (runtimes_path paths) w' = runtimes_held (runtimes_path paths) w"
proof -
  have f: "file_at w' (sites_path paths) = file_at w (sites_path paths)" using assms by (simp add: saves_def)
  show "sites_held (sites_path paths) w' = sites_held (sites_path paths) w" by (rule held_cong(1) [OF f])
  show "orc w' = orc w" using assms by (simp add: saves_def)
  show "is_Inl r \<Longrightarrow> runtimes_held (runtimes_path paths) w' = runtimes_held (runtimes_path paths) w"
    by (rule held_cong(2)) (use assms in \<open>simp add: saves_def\<close>)
qed

lemma keeps_held:
  assumes "keeps_state w w'"
  shows "sites_held (sites_path paths) w' = sites_held (sites_path paths) w"
    "runtimes_held (runtimes_path paths) w' = runtimes_held (runtimes_path paths) w"
  by (rule held_cong, use assms in \<open>simp add: keeps_state_def\<close>)+

section \<open>The daemon's store and adapters\<close>

lemma file_sites_parts [simp]:
  "ss_register (file_sites p) = site_register p" "ss_get (file_sites p) = site_get p"
  "ss_update (file_sites p) = site_update p" "ss_delete (file_sites p) = site_delete p"
  "ss_list (file_sites p) = site_list p"
  by (simp_all add: file_sites_def)

lemma file_runtimes_parts [simp]:
  "rt_get (file_runtimes p) = php_get p" "rt_default (file_runtimes p) = php_default_runtime p"
  "rt_list (file_runtimes p) = php_list p"
  by (simp_all add: file_runtimes_def)

lemma default_parts [simp]:
  "rp_inspect (resolved_provisioner m) = resolved_inspect m" "rp_ensure (resolved_provisioner m) = resolved_ensure m"
  "rp_remove (resolved_provisioner m) = resolved_remove m" "wa_activate (caddy_activator c) = caddy_activate_site c"
  "wa_remove (caddy_activator c) = caddy_remove_site c" "mt_materialize (fpm_materializer f) = fpm_materialize f"
  "mt_switch (fpm_materializer f) = fpm_switch f" "sc_start (service_controller_of h) = service_start h"
  "sc_restart (service_controller_of h) = service_restart h" "sc_status (service_controller_of h) = service_status_of h"
  by (simp_all add: resolved_provisioner_def caddy_activator_def fpm_materializer_def service_controller_of_def)

lemma held_register:
  assumes r: "site_register (sites_path paths) inp w = (Inr s, w')" and c: "calm w"
  shows "\<exists>xs. sites_held (sites_path paths) w = Some xs \<and>
    (sites_ok xs \<longrightarrow> sites_held (sites_path paths) w' = Some (xs @ [s]) \<and> sites_ok (xs @ [s]))"
proof -
  have t: "truthful w" "clock_ok w" using c by (simp_all add: calm_def)
  from site_register_Inr [OF r t] obtain xs where R: "site_stored (sites_path paths) w = Some xs"
      "normalize_domain (sr_domain inp) (si_name s) = Inr (si_domain s)"
      "site_clash (si_name s) (si_domain s) xs = None" "site_times_ok s"
      "\<forall>x \<in> set xs. site_times_ok x \<Longrightarrow> site_stored (sites_path paths) w' = Some (xs @ [s])"
    by metis
  have "sites_ok xs \<longrightarrow> sites_held (sites_path paths) w' = Some (xs @ [s]) \<and> sites_ok (xs @ [s])"
    using R(5) sites_ok_times sites_ok_add [OF _ R(3) _ R(4)] R(2) by (auto simp: normalize_domain_Inr stored_held)
  with stored_held(1) [OF R(1)] show ?thesis by blast
qed

lemma held_update:
  assumes r: "site_update (sites_path paths) s w = (Inr s', w')" and c: "calm w"
  shows "\<exists>xs old now. sites_held (sites_path paths) w = Some xs \<and> find_site (si_id s) xs = Some old \<and> time_ok now
    \<and> s' = updated_site s old now \<and> (sites_ok xs \<longrightarrow> time_ok (si_last_checked_at s) \<longrightarrow>
        sites_held (sites_path paths) w' = Some (replace_first (has_id (si_id s)) s' xs))"
proof -
  have t: "truthful w" "clock_ok w" using c by (simp_all add: calm_def)
  from site_update_Inr [OF r t] obtain xs old now where R: "site_stored (sites_path paths) w = Some xs" "find_site (si_id s) xs = Some old"
      "time_ok now" "s' = updated_site s old now"
      "\<forall>x \<in> set xs. site_times_ok x \<Longrightarrow> time_ok (si_last_checked_at s) \<Longrightarrow>
        site_stored (sites_path paths) w' = Some (replace_first (has_id (si_id s)) s' xs)"
    by metis
  with stored_held(1) [of "sites_path paths"] sites_ok_times [of xs] show ?thesis by blast
qed

lemma held_delete:
  assumes r: "site_delete (sites_path paths) i w = (Inr u, w')" and c: "calm w"
  shows "\<exists>xs. sites_held (sites_path paths) w = Some xs \<and>
    (sites_ok xs \<longrightarrow> sites_held (sites_path paths) w' = Some (remove_first (has_id i) xs))"
proof -
  have t: "truthful w" using c by (simp add: calm_def)
  have "site_delete (sites_path paths) i w = (Inr (), w')" using r by simp
  from site_delete_Inr [OF this t] obtain xs where R: "site_stored (sites_path paths) w = Some xs"
      "\<forall>x \<in> set xs. site_times_ok x \<Longrightarrow> site_stored (sites_path paths) w' = Some (remove_first (has_id i) xs)"
    by metis
  with stored_held(1) [of "sites_path paths"] sites_ok_times [of xs] show ?thesis by blast
qed

lemma saves_store:
  assumes "saves (sites_path paths) w r w'" "calm w"
  shows "calm w' \<and> runtimes_held (runtimes_path paths) w' = runtimes_held (runtimes_path paths) w"
    "is_Inl r \<Longrightarrow> sites_held (sites_path paths) w' = sites_held (sites_path paths) w"
  using saves_sites [OF assms(1)] calm_orc [OF assms(2)] by auto

interpretation daemon: site_services "file_sites (sites_path paths)" "sites_held (sites_path paths)"
  "runtimes_held (runtimes_path paths)" "file_runtimes (runtimes_path paths)"
  "Some (resolved_provisioner default_resolved)" "Some (caddy_activator default_caddy)"
  "Some (fpm_materializer default_fpm)" "Some (service_controller_of systemd_host)" for paths
proof (unfold_locales, unfold file_sites_parts file_runtimes_parts)
  let ?s = "sites_path paths" and ?h = "sites_held (sites_path paths)" and ?r = "runtimes_held (runtimes_path paths)"
  fix w w' :: world
  show "keeps_state w w' \<Longrightarrow> ?h w' = ?h w \<and> ?r w' = ?r w" by (simp add: keeps_held)
  show "calm w' \<and> ?r w' = ?r w \<and> (case r of Inl e \<Rightarrow> ?h w' = ?h w
       | Inr s \<Rightarrow> \<exists>xs. ?h w = Some xs \<and> (sites_ok xs \<longrightarrow> ?h w' = Some (xs @ [s]) \<and> sites_ok (xs @ [s])))"
    if "site_register ?s inp w = (r, w')" "calm w" for inp r
    using saves_store [OF site_register_saves [OF that(1)] that(2)] held_register [of paths inp w _ w'] that
    by (cases r) simp_all
  show "keeps_state w w' \<and> (\<forall>s. r = Inr s \<longrightarrow> (\<exists>xs. ?h w = Some xs \<and> find_site i xs = Some s))"
    if "site_get ?s i w = (r, w')" "calm w" for i r
    using that reads_site_get [OF that(1)] site_get_Inr(1) [of ?s i w _ w'] stored_held(1) [of ?s w]
    by (auto simp: calm_def same_host_keeps)
  show "keeps_state w w' \<and> (\<forall>ys. q = Inr ys \<longrightarrow> (\<exists>xs. ?h w = Some xs \<and> set ys = set xs))"
    if "site_list ?s w = (q, w')" "calm w" for q
    using that reads_site_list [OF that(1)] site_list_Inr(1) [of ?s w _ w'] stored_held(1) [of ?s w]
    by (fastforce simp: calm_def same_host_keeps)
  show "calm w' \<and> ?r w' = ?r w \<and> (case r of Inl e \<Rightarrow> ?h w' = ?h w
       | Inr s' \<Rightarrow> \<exists>xs old now. ?h w = Some xs \<and> find_site (si_id s) xs = Some old \<and> time_ok now \<and>
           s' = updated_site s old now \<and>
           (sites_ok xs \<longrightarrow> time_ok (si_last_checked_at s) \<longrightarrow> ?h w' = Some (replace_first (has_id (si_id s)) s' xs)))"
    if "site_update ?s s w = (r, w')" "calm w" for s r
    using saves_store [OF site_update_saves [OF that(1)] that(2)] held_update [of paths s w _ w'] that
    by (cases r) simp_all
  show "calm w' \<and> ?r w' = ?r w \<and> (case u of Inl e \<Rightarrow> ?h w' = ?h w
       | Inr _ \<Rightarrow> \<exists>xs. ?h w = Some xs \<and> (sites_ok xs \<longrightarrow> ?h w' = Some (remove_first (has_id i) xs)))"
    if "site_delete ?s i w = (u, w')" "calm w" for i u
    using saves_store [OF site_delete_saves [OF that(1)] that(2)] held_delete [of paths i w _ w'] that
    by (cases u) simp_all
qed (auto intro: keeps reads_php [THEN same_host_keeps])

end
