(* ===== verification/Daemon_Requests.thy ===== *)
theory Daemon_Requests
  imports Daemon_Invariant
begin

text \<open>
  What each request does to the daemon's two state files, and the states the daemon can reach. The
  steps are whole requests; between them the rest of the host may change in any way.
\<close>

section \<open>Reading requests\<close>

lemma reads_inspect_socket [reads]: "inspect_socket p w = (r, w1) \<Longrightarrow> same_host w w1"
  by (auto simp: inspect_socket_def Let_def split: if_splits prod.splits sum.splits dest!: reads_basic(2))

lemma keeps_catalog [keeps]:
  "catalog_list p w = (r1, w1) \<Longrightarrow> keeps_state w w1" "catalog_default p w = (r2, w1) \<Longrightarrow> keeps_state w w1"
  "catalog_inventory p (Some apt_inventory) w = (r3, w1) \<Longrightarrow> keeps_state w w1"
proof -
  show "catalog_list p w = (r1, w1) \<Longrightarrow> keeps_state w w1"
    by (auto simp: catalog_list_def dest: reads_php intro: same_host_keeps)
  show d: "catalog_default p w = (r2, w1) \<Longrightarrow> keeps_state w w1" for p w r2 w1
    by (auto simp: catalog_default_def dest!: reads_php split: prod.splits sum.splits if_splits intro: same_host_keeps)
  show "catalog_inventory p (Some apt_inventory) w = (r3, w1) \<Longrightarrow> keeps_state w w1"
    unfolding catalog_inventory_def apt_inventory_def
    by (auto dest!: reads_php(4) [THEN same_host_keeps] d keeps_refresh split: prod.splits sum.splits)
      (meson keeps_trans)+
qed

definition ports_keep :: "daemon_env \<Rightarrow> bool" where
  "ports_keep env \<longleftrightarrow> (\<forall>n w. keeps_state w (snd (de_port env n w)))"

lemma keeps_observe: "observe_services (service_controller_of systemd_host) ns w = (r, w1) \<Longrightarrow> keeps_state w w1"
proof (induction ns arbitrary: r w w1)
  case (Cons n ns)
  obtain st e w2 where s: "service_status_of systemd_host n w = ((st, e), w2)" by (metis surj_pair)
  have k: "keeps_state w w2" by (rule keeps_service_start(3) [OF s])
  obtain q w3 where q: "observe_services (service_controller_of systemd_host) ns w2 = (q, w3)" by force
  from keeps_trans [OF k Cons.IH [OF q]] Cons s q show ?case by (auto simp: Let_def split: if_splits)
qed simp

lemma keeps_port_checks:
  assumes "\<And>n v. keeps_state v (snd (hs_port h n v))"
  shows "port_checks h ps caddy w = (r, w1) \<Longrightarrow> keeps_state w w1"
proof (induction ps arbitrary: r w w1)
  case (Cons p ps)
  obtain x w2 where x: "port_health h p caddy w = (x, w2)" by (metis surj_pair)
  have k: "keeps_state w w2"
    using x assms [of w p] by (auto simp: port_health_def split: if_splits prod.splits option.splits)
  obtain q w3 where q: "port_checks h ps caddy w2 = (q, w3)" by force
  from keeps_trans [OF k Cons.IH [OF q]] Cons.prems x q show ?case by (auto split: prod.splits)
qed simp

lemma keeps_sites_readiness:
  assumes "hs_runtimes h = file_runtimes p"
  shows "sites_readiness h xs sts t w = (r, w1) \<Longrightarrow> keeps_state w w1"
proof (induction xs arbitrary: r w w1)
  case (Cons x xs)
  obtain y w2 where y: "site_readiness_of h x sts t w = (y, w2)" by force
  have k: "keeps_state w w2"
    using y assms unfolding site_readiness_of_def Let_def
    by (auto split: prod.splits dest!: reads_validate_path reads_php intro: same_host_keeps same_host_trans)
  obtain q w3 where q: "sites_readiness h xs sts t w2 = (q, w3)" by force
  from keeps_trans [OF k Cons.IH [OF q]] Cons.prems y q show ?case by auto
qed simp

lemma keeps_health:
  assumes p: "ports_keep env" and res: "health_report_of (rd_health (daemon_router env paths)) w = (r, w')"
  shows "keeps_state w w'"
proof -
  let ?h = "rd_health (daemon_router env paths)"
  have parts: "hs_sites ?h = file_sites (sites_path paths)" "hs_runtimes ?h = file_runtimes (runtimes_path paths)"
      "hs_services ?h = service_controller_of systemd_host" "hs_resolver ?h = Some (resolved_provisioner default_resolved)"
      "hs_port ?h = de_port env"
    by (simp_all add: daemon_router_def new_health_service_def Let_def)
  have port: "keeps_state v (snd (hs_port ?h n v))" for n v using p by (simp add: parts(5) ports_keep_def)
  obtain t w1 where 1: "clock_now w = (t, w1)" by force
  obtain sk w2 where 2: "inspect_socket (hs_socket_path ?h) w1 = (sk, w2)" by force
  obtain q3 w3 where 3: "site_list (sites_path paths) w2 = (q3, w3)" by force
  obtain q4 w4 where 4: "php_list (runtimes_path paths) w3 = (q4, w4)" by force
  obtain rs cs w5 where 5: "inspect_resolver ?h w4 = ((rs, cs), w5)" by (metis surj_pair)
  have k3: "keeps_state w w3"
    using reads_basic(4) [OF 1] reads_inspect_socket [OF 2] reads_site_list [OF 3]
    by (blast intro: same_host_keeps same_host_trans)
  have k4: "keeps_state w w4" by (rule keeps_trans [OF k3 same_host_keeps [OF reads_php(4) [OF 4]]])
  have "keeps_state w4 w5"
    using 5 keeps_resolved(1) unfolding inspect_resolver_def parts(4) Let_def by (auto split: prod.splits)
  then have k5: "keeps_state w w5" by (rule keeps_trans [OF k4])
  note run = res [unfolded health_report_of_def parts file_sites_parts file_runtimes_parts] 1 2 3 4 5
  show ?thesis
  proof (cases q3)
    case (Inl e)
    with run k3 show ?thesis by simp
  next
    case (Inr xs)
    show ?thesis
    proof (cases q4)
      case (Inl e)
      with run Inr k4 show ?thesis by simp
    next
      case (Inr rts)
      obtain st w6 where 6: "observe_services (service_controller_of systemd_host) (hs_order ?h (service_names xs)) w5 = (st, w6)"
        by force
      obtain pc w7 where 7: "port_checks ?h [80, 443] (lookup_status st ''caddy'') w6 = (pc, w7)" by (metis surj_pair)
      obtain rd w8 where 8: "sites_readiness ?h xs st t w7 = (rd, w8)" by force
      have "keeps_state w6 w7" by (rule keeps_port_checks [OF _ 7]) (rule port)
      then have "keeps_state w w8"
        using keeps_trans [OF k5 keeps_observe [OF 6]] keeps_sites_readiness [OF parts(2) 8] by (blast intro: keeps_trans)
      moreover have "w' = w8" using run Inr \<open>q3 = Inr xs\<close> 6 7 8 by (simp del: port_checks.simps)
      ultimately show ?thesis by simp
    qed
  qed
qed

section \<open>The invariant of the two files\<close>

text \<open>
  Both files can be read - each decodes, or is not there yet - and what they hold is a valid registry.
  A file that does not decode violates the invariant.
\<close>

definition daemon_ok :: "app_paths \<Rightarrow> world \<Rightarrow> bool" where
  "daemon_ok paths w \<longleftrightarrow> calm w
     \<and> (\<exists>xs. sites_held (sites_path paths) w = Some xs \<and> registry_ok xs)
     \<and> (\<exists>st. runtimes_held (runtimes_path paths) w = Some st \<and> php_ok st)"

lemma daemon_ok_calm: "daemon_ok paths w \<Longrightarrow> calm w"
  by (simp add: daemon_ok_def)

lemma daemon_ok_keeps: "daemon_ok paths w \<Longrightarrow> keeps_state w w' \<Longrightarrow> daemon_ok paths w'"
  using calm_keeps [of w w'] keeps_held [of w w' paths] by (simp add: daemon_ok_def)

lemma daemon_ok_sound:
  "daemon_ok paths w \<Longrightarrow> daemon.sound paths w' \<Longrightarrow>
     runtimes_held (runtimes_path paths) w' = runtimes_held (runtimes_path paths) w \<Longrightarrow> daemon_ok paths w'"
  by (simp add: daemon_ok_def daemon.sound_def)

lemma sound_daemon_ok: "daemon_ok paths w \<Longrightarrow> daemon.sound paths w"
  by (simp add: daemon_ok_def daemon.sound_def)

text \<open>The registry of runtimes.\<close>

lemma daemon_ok_runtimes:
  assumes ok: "daemon_ok paths w" and s: "saves (runtimes_path paths) w r w'"
    and stored: "\<And>x. r = Inr x \<Longrightarrow> \<exists>st. php_stored (runtimes_path paths) w = Some st
        \<and> (php_ok st \<longrightarrow> (\<exists>st'. php_stored (runtimes_path paths) w' = Some st' \<and> php_ok st'))"
  shows "daemon_ok paths w'"
proof (cases r)
  case (Inl e)
  with saves_runtimes [OF s] ok calm_orc [of w w'] show ?thesis by (simp add: daemon_ok_def)
next
  case (Inr x)
  from stored [OF this] obtain st where st: "php_stored (runtimes_path paths) w = Some st"
      "php_ok st \<longrightarrow> (\<exists>st'. php_stored (runtimes_path paths) w' = Some st' \<and> php_ok st')" by blast
  have "php_ok st" using ok stored_held(2) [OF st(1)] by (auto simp: daemon_ok_def)
  then obtain st' where "runtimes_held (runtimes_path paths) w' = Some st'" "php_ok st'"
    using st(2) stored_held(2) by blast
  with saves_runtimes(1,2) [OF s] ok calm_orc [of w w'] show ?thesis by (simp add: daemon_ok_def)
qed

lemma daemon_ok_php_register:
  assumes ok: "daemon_ok paths w" and res: "php_register (runtimes_path paths) inp w = (r, w')"
  shows "daemon_ok paths w'"
proof (rule daemon_ok_runtimes [OF ok php_register_saves [OF res]])
  fix x assume "r = Inr x"
  then have x: "php_register (runtimes_path paths) inp w = (Inr x, w')" using res by simp
  have t: "truthful w" "clock_ok w" using ok by (simp_all add: daemon_ok_def calm_def)
  from php_register_Inr [OF x t] obtain st where "php_stored (runtimes_path paths) w = Some st"
      "is_supported (rr_version x)" "time_ok (rr_registered_at x)"
      "php_ok st \<Longrightarrow> php_stored (runtimes_path paths) w' = Some (put_runtime x st)" by metis
  then show "\<exists>st. php_stored (runtimes_path paths) w = Some st
      \<and> (php_ok st \<longrightarrow> (\<exists>st'. php_stored (runtimes_path paths) w' = Some st' \<and> php_ok st'))"
    using put_runtime_ok [of st x] by auto
qed

lemma daemon_ok_php_set_default:
  assumes ok: "daemon_ok paths w" and res: "php_set_default (runtimes_path paths) v w = (r, w')"
  shows "daemon_ok paths w'"
proof (rule daemon_ok_runtimes [OF ok php_set_default_saves [OF res]])
  fix x assume "r = Inr x"
  then have x: "php_set_default (runtimes_path paths) v w = (Inr x, w')" using res by simp
  have t: "truthful w" using ok by (simp add: daemon_ok_def calm_def)
  from php_set_default_Inr [OF x t] obtain st where "php_stored (runtimes_path paths) w = Some st"
      "find_runtime (normalize_php_version v) st = Some x"
      "php_ok st \<Longrightarrow> php_stored (runtimes_path paths) w' = Some (st\<lparr>ps_default := normalize_php_version v\<rparr>)" by metis
  then show "\<exists>st. php_stored (runtimes_path paths) w = Some st
      \<and> (php_ok st \<longrightarrow> (\<exists>st'. php_stored (runtimes_path paths) w' = Some st' \<and> php_ok st'))"
    using set_default_ok by blast
qed

text \<open>Materializing and the look at the service come after the registration, on every path.\<close>

lemma daemon_ok_onboard:
  assumes ok: "daemon_ok paths w" and res: "onboard_register (rd_onboarding (daemon_router env paths)) q w = (r, w')"
  shows "daemon_ok paths w'"
proof -
  let ?s = "rd_onboarding (daemon_router env paths)"
  have parts: "on_registry ?s = runtimes_path paths" "on_packages ?s = Some apt_inventory"
      "on_material ?s = Some (fpm_materializer default_fpm)" "on_services ?s = Some (service_controller_of systemd_host)"
    by (simp_all add: daemon_router_def new_onboarding_service_def Let_def)
  have reg: "daemon_ok paths v'" if "php_register (on_registry ?s) inp v = (x, v')" "daemon_ok paths v" for inp v x v'
    using daemon_ok_php_register [OF that(2)] that(1) by (simp add: parts)
  have mat: "daemon_ok paths v'" if "onboard_material ?s y v = (x, v')" "daemon_ok paths v" for y v x v'
    using that(1) by (auto simp: onboard_material_def parts split: prod.splits sum.splits intro: daemon_ok_keeps [OF that(2)] keeps)
  have stat: "daemon_ok paths v'" if "onboard_status ?s y v = (x, v')" "daemon_ok paths v" for y v x v'
    using that by (auto simp: onboard_status_def parts split: prod.splits option.splits if_splits intro: daemon_ok_keeps [OF that(2)] keeps)
  have ref: "daemon_ok paths v'" if "refresh_inventory v = (x, v')" "daemon_ok paths v" for v x v'
    using daemon_ok_keeps [OF that(2) keeps_refresh [OF that(1)]] .
  show ?thesis
  proof (cases "trim_space (rq_package_key q) = []")
    case True
    with res show ?thesis
      unfolding onboard_register_def register_manually_def
      by (auto split: prod.splits sum.splits dest!: reg [OF _ ok]) (meson mat stat)+
  next
    case False
    with res show ?thesis
      unfolding onboard_register_def register_from_inventory_def parts(2) apt_inventory_def
      by (auto split: prod.splits sum.splits option.splits dest!: ref [OF _ ok]) (meson reg mat)+
  qed
qed

section \<open>Every request\<close>

text \<open>The ID that registering a site draws is not in use (\<open>new_id_unused\<close>).\<close>

definition request_id_unused :: "daemon_env \<Rightarrow> app_paths \<Rightarrow> rpc_request \<Rightarrow> world \<Rightarrow> bool" where
  "request_id_unused env paths rq w \<longleftrightarrow>
     (case (decode_register_site (hq_body rq), sites_held (sites_path paths) w) of
        (Inr inp, Some xs) \<Rightarrow> new_id_unused (rd_activation (daemon_router env paths)) inp w xs
      | _ \<Rightarrow> True)"

lemma daemon_router_parts:
  "rd_php (daemon_router env paths) = \<lparr>pg_sites = file_sites (sites_path paths), pg_runtimes = file_runtimes (runtimes_path paths),
     pg_services = service_controller_of systemd_host, pg_php = Some (fpm_materializer default_fpm),
     pg_web = Some (caddy_activator default_caddy)\<rparr>"
  "rd_services (daemon_router env paths) = systemd_host"
  "rd_activation (daemon_router env paths) = daemon.activation paths"
  "rd_management (daemon_router env paths) = daemon.management paths"
  "rd_registry (daemon_router env paths) = runtimes_path paths"
  "rd_packages (daemon_router env paths) = Some apt_inventory"
  by (simp_all add: daemon_router_def new_php_manager_def new_management_service_def Let_def)

lemma answer_world [simp]: "snd (answer st enc r) = snd r"
  by (simp add: answer_def split: prod.split sum.split)

lemma with_body_world:
  assumes "P w" "\<And>x. dec (hq_body rq) = Inr x \<Longrightarrow> P (snd (f x w))"
  shows "P (snd (with_body dec rq f w))"
  using assms by (simp add: with_body_def split: sum.split)

text \<open>A request that does not match its route's method reads and changes nothing.\<close>

lemmas handlers = on_health_def on_sites_list_def on_sites_get_def on_sites_register_def on_sites_update_def
  on_php_list_def on_php_default_def on_php_inventory_def on_php_register_def on_php_switch_def on_services_action_def

lemma result_of_status_world [simp]: "snd (result_of_status r) = snd r"
  by (simp add: result_of_status_def split: prod.split option.split)

lemma ok_reads:
  assumes ok: "daemon_ok paths w"
  shows "ports_keep env \<Longrightarrow> daemon_ok paths (snd (on_health (daemon_router env paths) rq w))"
  "daemon_ok paths (snd (on_sites_list (daemon_router env paths) rq w))"
  "daemon_ok paths (snd (on_sites_get (daemon_router env paths) rq w))"
  "daemon_ok paths (snd (on_php_list (daemon_router env paths) rq w))"
  "daemon_ok paths (snd (on_php_inventory (daemon_router env paths) rq w))"
proof -
  have k: "daemon_ok paths (snd (f w))" if "\<And>r v. f w = (r, v) \<Longrightarrow> keeps_state w v" for f :: "world \<Rightarrow> 'a \<times> world"
    using daemon_ok_keeps [OF ok that] by (metis prod.collapse)
  show "ports_keep env \<Longrightarrow> daemon_ok paths (snd (on_health (daemon_router env paths) rq w))"
    using k [of "health_report_of (rd_health (daemon_router env paths))", OF keeps_health] ok by (simp add: on_health_def)
  show "daemon_ok paths (snd (on_sites_list (daemon_router env paths) rq w))"
    using k [of "site_list (sites_path paths)", OF same_host_keeps [OF reads_site_list]] ok
    by (simp add: on_sites_list_def manage_list_def daemon_router_parts)
  show "daemon_ok paths (snd (on_sites_get (daemon_router env paths) rq w))"
    using k [of "site_get (sites_path paths) i" for i, OF same_host_keeps [OF reads_site_get]] ok
    by (simp add: on_sites_get_def manage_get_def daemon_router_parts)
  show "daemon_ok paths (snd (on_php_list (daemon_router env paths) rq w))"
    using k [of "catalog_list (runtimes_path paths)", OF keeps_catalog(1)] ok
    by (simp add: on_php_list_def daemon_router_parts)
  show "daemon_ok paths (snd (on_php_inventory (daemon_router env paths) rq w))"
    using k [of "catalog_inventory (runtimes_path paths) (Some apt_inventory)", OF keeps_catalog(3)] ok
    by (simp add: on_php_inventory_def daemon_router_parts)
qed

lemma ok_writes:
  assumes ok: "daemon_ok paths w"
  shows "request_id_unused env paths rq w \<Longrightarrow> daemon_ok paths (snd (on_sites_register (daemon_router env paths) rq w))"
  "daemon_ok paths (snd (on_sites_update (daemon_router env paths) rq w))"
  "daemon_ok paths (snd (on_php_default (daemon_router env paths) rq w))"
  "daemon_ok paths (snd (on_php_register (daemon_router env paths) rq w))"
  "daemon_ok paths (snd (on_php_switch (daemon_router env paths) rq w))"
  "daemon_ok paths (snd (on_services_action (daemon_router env paths) rq w))"
proof -
  note S = sound_daemon_ok [OF ok]
  have k: "daemon_ok paths (snd (f w))" if "\<And>r v. f w = (r, v) \<Longrightarrow> keeps_state w v" for f :: "world \<Rightarrow> 'a \<times> world"
    using daemon_ok_keeps [OF ok that] by (metis prod.collapse)
  show "daemon_ok paths (snd (on_sites_register (daemon_router env paths) rq w))" if n: "request_id_unused env paths rq w"
  proof -
    have "daemon_ok paths (snd (site_activate (daemon.activation paths) inp w))" if "decode_register_site (hq_body rq) = Inr inp" for inp
    proof -
      have "\<forall>xs. sites_held (sites_path paths) w = Some xs \<longrightarrow> new_id_unused (daemon.activation paths) inp w xs"
        using n that by (auto simp: request_id_unused_def daemon_router_parts split: option.splits)
      from daemon.activate_sound [OF prod.collapse [symmetric] S this] show ?thesis using daemon_ok_sound [OF ok] by blast
    qed
    then show ?thesis using ok by (simp add: on_sites_register_def daemon_router_parts with_body_world)
  qed
  have "daemon_ok paths (snd (manage_update (daemon.management paths) inp w))" for inp
    using daemon.manage_update_sound [OF prod.collapse [symmetric] S] daemon_ok_sound [OF ok] by blast
  then show "daemon_ok paths (snd (on_sites_update (daemon_router env paths) rq w))"
    using ok by (simp add: on_sites_update_def daemon_router_parts with_body_world)
  have "daemon_ok paths (snd (catalog_set_default (runtimes_path paths) v w))" for v
    using daemon_ok_php_set_default [OF ok prod.collapse [symmetric]] by (simp add: catalog_set_default_def)
  moreover have "daemon_ok paths (snd (catalog_default (runtimes_path paths) w))"
    by (rule k) (rule keeps_catalog(2))
  ultimately show "daemon_ok paths (snd (on_php_default (daemon_router env paths) rq w))"
    using ok by (simp add: on_php_default_def daemon_router_parts with_body_world)
  have "daemon_ok paths (snd (onboard_register (rd_onboarding (daemon_router env paths)) q w))" for q
    using daemon_ok_onboard [OF ok prod.collapse [symmetric]] .
  then show "daemon_ok paths (snd (on_php_register (daemon_router env paths) rq w))"
    using ok by (simp add: on_php_register_def with_body_world)
  have "daemon_ok paths (snd (switch_site_runtime (rd_php (daemon_router env paths)) i v w))" for i v
    unfolding daemon_router_parts
    using daemon.switch_sound [OF refl S prod.collapse [symmetric]] daemon_ok_sound [OF ok] by blast
  then show "daemon_ok paths (snd (on_php_switch (daemon_router env paths) rq w))"
    using ok by (simp add: on_php_switch_def with_body_world split_beta)
  have "daemon_ok paths (snd (service_action_run systemd_host n a w))" for n a
    by (rule k) (rule keeps_service_start(4))
  then show "daemon_ok paths (snd (on_services_action (daemon_router env paths) rq w))"
    using ok by (simp add: on_services_action_def daemon_router_parts with_body_world split_beta)
qed

text \<open>Every request keeps the invariant, whatever it asks for and however it ends.\<close>

lemma daemon_ok_request:
  assumes ok: "daemon_ok paths w" and p: "ports_keep env" and n: "request_id_unused env paths rq w"
    and res: "handle_request (daemon_router env paths) rq w = (rp, w')"
  shows "daemon_ok paths w'"
proof -
  have "daemon_ok paths (snd (h (daemon_router env paths) rq w))" if "(k, h) \<in> set routes" for k h
    using that ok_reads [OF ok, of env rq] ok_writes [OF ok, of env rq] p n unfolding routes_def by auto
  then have "daemon_ok paths (snd (handle_request (daemon_router env paths) rq w))"
    using ok by (auto simp: handle_request_def dest: map_of_SomeD split: option.split)
  with res show ?thesis by simp
qed

end
