(* ===== verification/Daemon_Reach.thy ===== *)
theory Daemon_Reach
  imports Daemon_Requests Daemon_Start
begin

text \<open>
  The start of the daemon and the states it reaches: it starts from what an earlier run has left of
  its files, answers requests in any order, and between them other programs change the host.
\<close>

section \<open>Starting\<close>

definition manifest_apart :: "app_paths \<Rightarrow> bool" where
  "manifest_apart paths \<longleftrightarrow> ap_managed_assets_path paths \<notin> {sites_path paths, runtimes_path paths}"

lemma boot_ok:
  assumes b: "daemon_boot env w = ((lines, Some d), w')" and paths: "paths = load_paths (de_vars env)"
    and a: "manifest_apart paths" and ok: "daemon_ok paths w"
  shows "daemon_ok paths w'"
proof -
  have f: "file_at w' q = file_at w q" "orc w' = orc w" if "q = sites_path paths \<or> q = runtimes_path paths" for q
    using boot_keeps_files [of q env w] b that a paths by (auto simp: manifest_apart_def)
  have "orc w' = orc w" using f(2) by blast
  with ok held_cong(1) [OF f(1)] held_cong(2) [OF f(1)] calm_orc [of w w'] show ?thesis by (simp add: daemon_ok_def)
qed

section \<open>The states of the daemon\<close>

text \<open>What the rest of the host does: anything, but to the two state files, which belong to the daemon.\<close>

definition elsewhere :: "app_paths \<Rightarrow> world \<Rightarrow> world \<Rightarrow> bool" where
  "elsewhere paths w w' \<longleftrightarrow> calm w' \<and> file_at w' (sites_path paths) = file_at w (sites_path paths)
     \<and> file_at w' (runtimes_path paths) = file_at w (runtimes_path paths)"

inductive daemon_reaches :: "daemon_env \<Rightarrow> world \<Rightarrow> world \<Rightarrow> bool" for env :: daemon_env and w0 :: world where
  started: "daemon_boot env w0 = ((lines, Some d), w) \<Longrightarrow> daemon_reaches env w0 w"
| served: "daemon_reaches env w0 w \<Longrightarrow> request_id_unused env (load_paths (de_vars env)) rq w \<Longrightarrow>
    handle_request (daemon_router env (load_paths (de_vars env))) rq w = (rp, w') \<Longrightarrow> daemon_reaches env w0 w'"
| changed: "daemon_reaches env w0 w \<Longrightarrow> elsewhere (load_paths (de_vars env)) w w' \<Longrightarrow> daemon_reaches env w0 w'"


lemma ubuntu_runs:
  "manifest_apart (load_paths (de_vars ubuntu_env))" "ports_keep ubuntu_env"
  "sites_path (load_paths (de_vars ubuntu_env)) = sites_file" "runtimes_path (load_paths (de_vars ubuntu_env)) = runtimes_file"
  by code_simp (simp add: ports_keep_def ubuntu_env_def, code_simp+)

text \<open>A start, and the registration of a site.\<close>

definition register_request :: rpc_request where
  "register_request = \<lparr>hq_method = ''POST'', hq_path = ''/rpc/sites.register'', hq_query = [],
     hq_body = marshal (JObj [(''rootPath'', JStr ''/srv/My_Blog''), (''phpVersion'', JStr ''8.3'')])\<rparr>"


end
