(* ===== verification/Daemon_Sites.thy ===== *)
theory Daemon_Sites
  imports Daemon_Reach
begin

text \<open>
  The operations that change sites, on the daemon's own files and adapters: what is left of the list of
  sites by every outcome of an activation, an update and a switch of the runtime.
\<close>

section \<open>Activation\<close>

text \<open>What may be stored after an activation.\<close>

definition activation_outcome :: "app_paths \<Rightarrow> site_record list \<Rightarrow> err + activation_result \<Rightarrow> world \<Rightarrow> bool" where
  "activation_outcome paths xs r w' \<longleftrightarrow>
     (case r of
        Inr a \<Rightarrow> sites_held (sites_path paths) w' = Some (xs @ [ar_site a]) \<and> registry_ok (xs @ [ar_site a])
      | Inl e \<Rightarrow> sites_held (sites_path paths) w' = Some xs
          \<or> (\<exists>s v e'. sites_held (sites_path paths) w' = Some (xs @ [s]) \<and> registry_ok (xs @ [s])
               \<and> site_delete (sites_path paths) (si_id s) v = (Inl e', w')))"

text \<open>C2: an activation that starts from a valid list of sites is all or nothing, as far as the daemon can make
  it so. When it succeeds, the list of
  sites has grown by exactly the site it returns, which clashes with no other. When it fails - at the
  resolver, PHP-FPM, a service, Caddy or the last write - the list is as it was; the one exception is
  that the deletion which takes the new site back failed itself, as the last thing that happened.\<close>

theorem activation_all_or_nothing:
  assumes "site_activate (rd_activation (daemon_router env paths)) inp w = (r, w')"
    and "calm w" and "sites_held (sites_path paths) w = Some xs" and "registry_ok xs"
    and "new_id_unused (rd_activation (daemon_router env paths)) inp w xs"
  shows "activation_outcome paths xs r w'
    \<and> runtimes_held (runtimes_path paths) w' = runtimes_held (runtimes_path paths) w"
proof -
  note run = assms(1,5) [unfolded daemon_router_parts]
  note c = assms(2) and ok = assms(4)
  have sok: "sites_ok xs" using ok by (simp add: registry_ok_def)
  have add: "registry_ok (xs @ [y])" if "sites_ok (xs @ [y])" "\<forall>z \<in> set xs. si_id z \<noteq> si_id y" for y
    using that ok by (auto simp: registry_ok_def image_iff)
  show ?thesis
  proof (cases r)
    case (Inl e)
    from daemon.activate_Inl [OF run(1) [unfolded Inl] c assms(3) sok run(2)] show ?thesis
      unfolding activation_outcome_def Inl sum.case file_sites_parts using add by blast
  next
    case (Inr a)
    from daemon.activate_Inr [OF run(1) [unfolded Inr] c assms(3) sok run(2)] show ?thesis
      unfolding activation_outcome_def Inr sum.case using add by blast
  qed
qed

section \<open>Changes of one site\<close>

definition change_outcome :: "app_paths \<Rightarrow> site_record list \<Rightarrow> string \<Rightarrow> err + site_record \<Rightarrow> world \<Rightarrow> bool" where
  "change_outcome paths xs i r w' \<longleftrightarrow>
     (case r of
        Inl e \<Rightarrow> sites_held (sites_path paths) w' = Some xs
      | Inr s \<Rightarrow> si_id s = i \<and> sites_held (sites_path paths) w' = Some (replace_first (has_id i) s xs)
          \<and> registry_ok (replace_first (has_id i) s xs))"

text \<open>C3: on a valid list of sites, an update of a site and a switch of its PHP runtime either fail and leave the list of sites exactly as
  it was, whatever had already been done to the host; or they replace the one site that was asked
  for, and the list still has no two sites with the same ID, name or domain. Neither touches the
  registry of runtimes.\<close>

theorem site_changes_all_or_nothing:
  assumes "calm w" and "sites_held (sites_path paths) w = Some xs" and "registry_ok xs"
  shows "(\<forall>inp r w'. manage_update (rd_management (daemon_router env paths)) inp w = (r, w') \<longrightarrow>
      change_outcome paths xs (trim_space (su_site_id inp)) r w'
      \<and> runtimes_held (runtimes_path paths) w' = runtimes_held (runtimes_path paths) w)
    \<and> (\<forall>i version r w'. switch_site_runtime (rd_php (daemon_router env paths)) i version w = (r, w') \<longrightarrow>
      change_outcome paths xs i r w'
      \<and> runtimes_held (runtimes_path paths) w' = runtimes_held (runtimes_path paths) w)"
proof (rule conjI; intro allI impI)
  note c = assms(1) and ok = assms(3)
  fix inp r w' assume run: "manage_update (rd_management (daemon_router env paths)) inp w = (r, w')"
  note run = run [unfolded daemon_router_parts]
  show "change_outcome paths xs (trim_space (su_site_id inp)) r w'
      \<and> runtimes_held (runtimes_path paths) w' = runtimes_held (runtimes_path paths) w"
  proof (cases r)
    case (Inl e)
    from daemon.manage_update_Inl [OF run [unfolded Inl] c] show ?thesis
      by (simp add: change_outcome_def Inl assms(2))
  next
    case (Inr s)
    from daemon.manage_update_Inr [OF run [unfolded Inr] c assms(2) ok] show ?thesis
      by (auto simp: change_outcome_def Inr)
  qed
next
  note c = assms(1) and ok = assms(3)
  fix i version r w' assume run: "switch_site_runtime (rd_php (daemon_router env paths)) i version w = (r, w')"
  note run = run [unfolded daemon_router_parts]
  show "change_outcome paths xs i r w'
      \<and> runtimes_held (runtimes_path paths) w' = runtimes_held (runtimes_path paths) w"
  proof (cases r)
    case (Inl e)
    from daemon.switch_Inl [OF refl c run [unfolded Inl]] show ?thesis
      by (simp add: change_outcome_def Inl assms(2))
  next
    case (Inr s)
    from daemon.switch_Inr [OF refl c assms(2) ok run [unfolded Inr]] show ?thesis
      by (simp add: change_outcome_def Inr)
  qed
qed

section \<open>On a host\<close>

lemma ubuntu_state_paths: "sites_path ubuntu_app_paths = sites_file" "runtimes_path ubuntu_app_paths = runtimes_file"
  using ubuntu_runs(3,4) by (simp_all add: ubuntu_app_paths)

lemma project_calm: "calm (project_host r rest)"
  by (simp add: calm_def)

lemma blog_host_ok:
  "daemon_ok ubuntu_app_paths (blog_host all_succeed)" "sites_held sites_file (blog_host all_succeed) = Some [stored_blog]"
proof -
  show h: "sites_held sites_file (blog_host all_succeed) = Some [stored_blog]" by (rule stored_held(1) [OF blog_host_stored])
  have v: "valid_domain (si_domain stored_blog)"
    unfolding valid_domain_iff stored_blog_def new_site_def by code_simp
  have "file_at (blog_host all_succeed) runtimes_file = None" by code_simp
  then show "daemon_ok ubuntu_app_paths (blog_host all_succeed)"
    using h v stored_blog_times project_calm [folded blog_host_def]
    by (simp add: daemon_ok_def ubuntu_state_paths runtimes_held_def empty_php_ok registry_ok_def sites_ok_def blog_host_def project_calm)
qed

definition shop_host :: world where
  "shop_host = project_host all_succeed [(runtimes_file, File mode_0640 (marshal_indent (php_state_json runtimes_83)))]"

lemma shop_host_ok:
  "daemon_ok ubuntu_app_paths shop_host" "sites_held sites_file shop_host = Some []"
  "runtimes_held runtimes_file shop_host = Some runtimes_83"
proof -
  have "file_at shop_host sites_file = None" by (simp add: shop_host_def project_host_def sample_world_def file_at_def node_at_def)
  then show h: "sites_held sites_file shop_host = Some []" by (simp add: sites_held_def)
  have f: "file_at shop_host runtimes_file = Some (marshal_indent (php_state_json runtimes_83))"
    by (simp add: shop_host_def project_host_def sample_world_def file_at_def node_at_def)
  have "php_stored runtimes_file shop_host = Some runtimes_83"
    unfolding php_stored_def
    by (simp add: stored_file [OF f] marshal_indent_nonempty json_parse_marshal php_state_json_ok php_state_json_roundtrip
        php_ok_times [OF runtimes_83_facts(1)])
  then show r: "runtimes_held runtimes_file shop_host = Some runtimes_83" by (rule stored_held(2))
  from r h show "daemon_ok ubuntu_app_paths shop_host"
    by (simp add: daemon_ok_def ubuntu_state_paths registry_ok_def sites_ok_Nil runtimes_83_facts(1) shop_host_def project_calm)
qed

theorem activation_all_or_nothing_witness:
  "\<exists>r w'. site_activate (rd_activation (daemon_router ubuntu_env ubuntu_app_paths)) blog_input shop_host = (r, w')
    \<and> activation_outcome ubuntu_app_paths [] r w'
    \<and> runtimes_held runtimes_file w' = Some runtimes_83"
proof -
  obtain r w' where run: "site_activate (rd_activation (daemon_router ubuntu_env ubuntu_app_paths)) blog_input shop_host = (r, w')"
    by force
  have "new_id_unused (rd_activation (daemon_router ubuntu_env ubuntu_app_paths)) blog_input shop_host []"
    by (simp add: new_id_unused_def split: sum.split prod.split)
  from activation_all_or_nothing [OF run daemon_ok_calm [OF shop_host_ok(1)] _ _ this] shop_host_ok(2)
  have "activation_outcome ubuntu_app_paths [] r w'" "runtimes_held runtimes_file w' = runtimes_held runtimes_file shop_host"
    by (simp_all add: ubuntu_state_paths registry_ok_def sites_ok_Nil)
  moreover have "runtimes_held runtimes_file shop_host = Some runtimes_83" by (rule shop_host_ok(3))
  ultimately show ?thesis using run by auto
qed

theorem site_changes_all_or_nothing_witness:
  "\<exists>r w'. switch_site_runtime (rd_php (daemon_router ubuntu_env ubuntu_app_paths)) ''site-1'' ''8.3'' (blog_host all_succeed) = (r, w')
    \<and> change_outcome ubuntu_app_paths [stored_blog] ''site-1'' r w'"
proof -
  obtain r w' where run: "switch_site_runtime (rd_php (daemon_router ubuntu_env ubuntu_app_paths)) ''site-1'' ''8.3''
      (blog_host all_succeed) = (r, w')" by force
  have h: "sites_held (sites_path ubuntu_app_paths) (blog_host all_succeed) = Some [stored_blog]"
    using blog_host_ok(2) by (simp add: ubuntu_state_paths)
  have "registry_ok [stored_blog]" using blog_host_ok(1) h by (simp add: daemon_ok_def)
  from site_changes_all_or_nothing [OF daemon_ok_calm [OF blog_host_ok(1)] h this, of ubuntu_env] run show ?thesis by blast
qed

end
