(* ===== verification/Site_Interleaving.thy ===== *)
theory Site_Interleaving
  imports Daemon_Sites
begin

text \<open>
  Requests that run at the same time. \<^verbatim>\<open>net/http\<close> serves each request in a goroutine of its own; the mutex
  of the \<^verbatim>\<open>SiteRegistry\<close> makes each of its calls atomic, and nothing is held between two calls of a
  request. So a run is any sequence of calls of the registry, each made by some request with what that
  request has read before, and between them anything that leaves the file of the sites alone
  (\<open>sites_run\<close>). Requests that do not move or rename a site keep the registry valid whatever the order;
  the check of a change of a domain (\<^verbatim>\<open>prepareUpdatedSite\<close>) is a call of its own before the write, and two of
  them can pass it both.
\<close>

section \<open>Runs\<close>

text \<open>What a change of the status or of the runtime leaves of a record.\<close>

definition same_address :: "site_record \<Rightarrow> site_record \<Rightarrow> bool" where
  "same_address s t \<longleftrightarrow> si_id s = si_id t \<and> si_name s = si_name t \<and> si_root_path s = si_root_path t \<and> si_domain s = si_domain t"

fun handed :: "err + 'a \<Rightarrow> 'a list" where
  "handed (Inl e) = []"
| "handed (Inr s) = [s]"

fun handed_all :: "err + 'a list \<Rightarrow> 'a list" where
  "handed_all (Inl e) = []"
| "handed_all (Inr xs) = xs"

text \<open>
  \<open>seen\<close> collects the records that any request has been handed so far. The records written back are those
  of \<^verbatim>\<open>SiteActivationService.Activate\<close>, \<^verbatim>\<open>PHPManager.SwitchSiteRuntime\<close>, \<^verbatim>\<open>SiteRegistry.SetStatus\<close> and of
  \<^verbatim>\<open>SiteManagementService.Update\<close> when it changes the runtime only. The ID of a new site differs from all
  seen and stored ones.
\<close>

definition unseen_id :: "string \<Rightarrow> world \<Rightarrow> site_record list \<Rightarrow> err + site_record \<Rightarrow> bool" where
  "unseen_id p w seen r \<longleftrightarrow>
     (\<forall>s \<in> set (handed r). \<forall>x \<in> set seen \<union> set (case sites_held p w of None \<Rightarrow> [] | Some xs \<Rightarrow> xs). si_id x \<noteq> si_id s)"

inductive sites_run :: "string \<Rightarrow> world \<Rightarrow> site_record list \<Rightarrow> world \<Rightarrow> bool" for p :: string and w0 :: world where
  idle: "sites_run p w0 [] w0"
| got: "sites_run p w0 seen w \<Longrightarrow> site_get p i w = (r, w') \<Longrightarrow> sites_run p w0 (handed r @ seen) w'"
| listed: "sites_run p w0 seen w \<Longrightarrow> site_list p w = (r, w') \<Longrightarrow> sites_run p w0 (handed_all r @ seen) w'"
| registered: "sites_run p w0 seen w \<Longrightarrow> site_register p inp w = (r, w') \<Longrightarrow> unseen_id p w seen r \<Longrightarrow>
    sites_run p w0 (handed r @ seen) w'"
| written: "sites_run p w0 seen w \<Longrightarrow> s \<in> set seen \<Longrightarrow> same_address s t \<Longrightarrow> time_ok (si_last_checked_at t) \<Longrightarrow>
    site_update p t w = (r, w') \<Longrightarrow> sites_run p w0 (handed r @ seen) w'"
| deleted: "sites_run p w0 seen w \<Longrightarrow> site_delete p i w = (r, w') \<Longrightarrow> sites_run p w0 seen w'"
| elsewhere: "sites_run p w0 seen w \<Longrightarrow> calm w' \<Longrightarrow> file_at w' p = file_at w p \<Longrightarrow> sites_run p w0 seen w'"

section \<open>What requests have read stays true\<close>

definition seen_true :: "site_record list \<Rightarrow> site_record list \<Rightarrow> bool" where
  "seen_true seen xs \<longleftrightarrow> (\<forall>s \<in> set seen. \<forall>x \<in> set xs. si_id x = si_id s \<longrightarrow> same_address s x)"

definition run_ok :: "string \<Rightarrow> site_record list \<Rightarrow> world \<Rightarrow> bool" where
  "run_ok p seen w \<longleftrightarrow> calm w \<and> (\<exists>xs. sites_held p w = Some xs \<and> registry_ok xs \<and> seen_true seen xs)"

lemma same_address_refl [simp]: "same_address s s"
  by (simp add: same_address_def)

lemma same_address_trans: "same_address s t \<Longrightarrow> same_address s x \<Longrightarrow> same_address t x"
  by (simp add: same_address_def)

lemma seen_true_append: "seen_true (ys @ seen) xs \<longleftrightarrow> seen_true ys xs \<and> seen_true seen xs"
  by (auto simp: seen_true_def)

lemma seen_true_stored:
  assumes "registry_ok xs" "set ys \<subseteq> set xs"
  shows "seen_true ys xs"
  unfolding seen_true_def
proof (intro ballI impI)
  fix s x assume a: "s \<in> set ys" "x \<in> set xs" "si_id x = si_id s"
  have "inj_on si_id (set xs)" using assms(1) by (simp add: registry_ok_def distinct_map)
  then have "x = s" by (rule inj_onD) (use a assms(2) in blast)+
  then show "same_address s x" by simp
qed

lemma seen_true_subset: "seen_true seen xs \<Longrightarrow> set ys \<subseteq> set xs \<Longrightarrow> seen_true seen ys"
  by (auto simp: seen_true_def)

lemma run_ok_orc: "run_ok p seen w \<Longrightarrow> orc w' = orc w \<Longrightarrow> sites_held p w' = sites_held p w \<Longrightarrow> run_ok p seen w'"
  using calm_orc by (auto simp: run_ok_def)

lemma same_host_held: "same_host w w' \<Longrightarrow> sites_held p w' = sites_held p w \<and> orc w' = orc w"
  using held_cong(1) [of w' p w] by (simp add: same_hostD)

text \<open>Reading: a request is handed what is stored.\<close>

lemma run_ok_read:
  assumes ok: "run_ok p seen w" and h: "same_host w w'"
    and r: "\<And>xs. sites_held p w = Some xs \<Longrightarrow> registry_ok xs \<Longrightarrow> set ys \<subseteq> set xs"
  shows "run_ok p (ys @ seen) w'"
proof -
  from ok obtain xs where X: "sites_held p w = Some xs" "registry_ok xs" "seen_true seen xs" by (auto simp: run_ok_def)
  have "run_ok p (ys @ seen) w"
    using ok X seen_true_stored [OF X(2) r [OF X(1,2)]] by (auto simp: run_ok_def seen_true_append)
  then show ?thesis using run_ok_orc same_host_held [OF h] by blast
qed

text \<open>Failing: nothing is written.\<close>

lemma run_ok_failed:
  assumes "run_ok p seen w" "saves p w r w'" "is_Inl r"
  shows "run_ok p seen w'"
  using assms run_ok_orc held_cong(1) [of w' p w] by (simp add: saves_def)

lemma updated_same_address: "same_address t (updated_site t old now)"
  by (simp add: updated_site_def same_address_def)

lemma replace_first_mem: "\<exists>x \<in> set xs. P x \<Longrightarrow> y \<in> set (replace_first P y xs)"
  by (induction xs) auto

text \<open>Writing back a record with another status or runtime.\<close>

lemma run_ok_written:
  assumes X: "registry_ok xs" "seen_true seen xs" and s: "s \<in> set seen" "same_address s t"
    and f: "find_site (si_id t) xs = Some old" and tm: "time_ok now" "time_ok (si_last_checked_at t)"
  defines "xs' \<equiv> replace_first (has_id (si_id t)) (updated_site t old now) xs"
  shows "registry_ok xs'" "seen_true (updated_site t old now # seen) xs'"
proof -
  let ?t = "updated_site t old now"
  have old: "old \<in> set xs" "si_id old = si_id t" using find_site_in [OF f] by simp_all
  have "same_address s old" using X(2) s old by (auto simp: seen_true_def same_address_def)
  then have ot: "same_address old ?t"
    using s(2) updated_same_address [of t old now] by (simp add: same_address_def)
  have apart: "others_apart ?t xs"
    using stored_apart [OF X(1) old(1)] ot by (simp add: others_apart_def same_address_def)
  have "site_times_ok old" "valid_domain (si_domain old)" using X(1) old(1) by (auto simp: registry_ok_def sites_ok_def)
  then have "site_times_ok ?t" "valid_domain (si_domain ?t)"
    using tm ot by (simp_all add: site_times_ok_def updated_site_def same_address_def)
  from registry_ok_replace [OF X(1) apart this(2,1)] show r: "registry_ok xs'"
    by (simp add: xs'_def updated_site_def)
  have in': "set xs' \<subseteq> insert ?t (set xs)" unfolding xs'_def by (rule set_replace_first_subset)
  have t': "?t \<in> set xs'"
    unfolding xs'_def by (rule replace_first_mem) (use old in \<open>auto simp: has_id_def\<close>)
  have "seen_true seen xs'"
    unfolding seen_true_def
  proof (intro ballI impI)
    fix y x assume y: "y \<in> set seen" and x: "x \<in> set xs'" "si_id x = si_id y"
    show "same_address y x"
    proof (cases "x = ?t")
      case True
      then have "same_address y old" using X(2) y x(2) old ot by (auto simp: seen_true_def same_address_def)
      with True ot show ?thesis by (simp add: same_address_def)
    next
      case False
      then show ?thesis using X(2) y x in' by (auto simp: seen_true_def)
    qed
  qed
  then show "seen_true (?t # seen) xs'"
    using seen_true_append [of "[?t]" seen xs'] seen_true_stored [OF r, of "[?t]"] t' by simp
qed

text \<open>Adding a site with an ID of its own.\<close>

lemma run_ok_registered:
  assumes X: "registry_ok xs" "seen_true seen xs" and ok: "sites_ok (xs @ [s])"
    and new: "\<forall>x \<in> set seen \<union> set xs. si_id x \<noteq> si_id s"
  shows "registry_ok (xs @ [s])" "seen_true (s # seen) (xs @ [s])"
proof -
  show r: "registry_ok (xs @ [s])" using X(1) ok new by (auto simp: registry_ok_def)
  have "seen_true seen (xs @ [s])" using X(2) new by (auto simp: seen_true_def)
  then show "seen_true (s # seen) (xs @ [s])"
    using seen_true_append [of "[s]" seen] seen_true_stored [OF r, of "[s]"] by simp
qed

lemma registry_ok_remove: "registry_ok xs \<Longrightarrow> registry_ok (remove_first P xs)"
  by (simp add: registry_ok_def sites_ok_remove distinct_map_remove_first)

section \<open>Each step\<close>

lemma run_okE:
  assumes "run_ok p seen w"
  obtains xs where "calm w" "sites_held p w = Some xs" "registry_ok xs" "seen_true seen xs"
  using assms by (auto simp: run_ok_def)

lemma run_ok_get:
  assumes ok: "run_ok p seen w" and g: "site_get p i w = (r, w')"
  shows "run_ok p (handed r @ seen) w'"
proof (rule run_ok_read [OF ok reads_site_get [OF g]])
  fix xs assume h: "sites_held p w = Some xs"
  show "set (handed r) \<subseteq> set xs"
    using h ok g site_get_Inr(1) [of p i w _ w'] find_site_in stored_held(1)
    by (cases r) (fastforce simp: run_ok_def calm_def)+
qed

lemma run_ok_list:
  assumes ok: "run_ok p seen w" and l: "site_list p w = (r, w')"
  shows "run_ok p (handed_all r @ seen) w'"
proof (rule run_ok_read [OF ok reads_site_list [OF l]])
  fix xs assume h: "sites_held p w = Some xs"
  show "set (handed_all r) \<subseteq> set xs"
    using h ok l site_list_Inr(1) [of p w _ w'] stored_held(1)
    by (cases r) (fastforce simp: run_ok_def calm_def)+
qed

lemma run_ok_register:
  assumes ok: "run_ok (sites_path paths) seen w" and g: "site_register (sites_path paths) inp w = (r, w')"
    and new: "unseen_id (sites_path paths) w seen r"
  shows "run_ok (sites_path paths) (handed r @ seen) w'"
proof (cases r)
  case (Inl e)
  then show ?thesis using run_ok_failed [OF ok site_register_saves [OF g]] by simp
next
  case (Inr s)
  obtain xs where X: "calm w" "sites_held (sites_path paths) w = Some xs" "registry_ok xs" "seen_true seen xs"
    by (rule run_okE [OF ok])
  have H: "sites_held (sites_path paths) w' = Some (xs @ [s])" "sites_ok (xs @ [s])"
    using held_register [OF g [unfolded Inr] X(1)] X(2,3) by (auto simp: registry_ok_def)
  have "\<forall>x \<in> set seen \<union> set xs. si_id x \<noteq> si_id s" using new Inr X(2) by (simp add: unseen_id_def)
  from run_ok_registered [OF X(3,4) H(2) this] H(1) saves_store(1) [OF site_register_saves [OF g] X(1)] Inr
  show ?thesis by (simp add: run_ok_def)
qed

lemma run_ok_update:
  assumes ok: "run_ok (sites_path paths) seen w" and s: "s \<in> set seen" "same_address s t" "time_ok (si_last_checked_at t)"
    and u: "site_update (sites_path paths) t w = (r, w')"
  shows "run_ok (sites_path paths) (handed r @ seen) w'"
proof (cases r)
  case (Inl e)
  then show ?thesis using run_ok_failed [OF ok site_update_saves [OF u]] by simp
next
  case (Inr t')
  obtain xs where X: "calm w" "sites_held (sites_path paths) w = Some xs" "registry_ok xs" "seen_true seen xs"
    by (rule run_okE [OF ok])
  obtain old now where H: "find_site (si_id t) xs = Some old" "time_ok now" "t' = updated_site t old now"
      "sites_held (sites_path paths) w' = Some (replace_first (has_id (si_id t)) t' xs)"
    using held_update [OF u [unfolded Inr] X(1)] X(2,3) s(3) by (auto simp: registry_ok_def)
  from run_ok_written [OF X(3,4) s(1,2) H(1,2) s(3)] H(3,4) saves_store(1) [OF site_update_saves [OF u] X(1)] Inr
  show ?thesis by (simp add: run_ok_def)
qed

lemma run_ok_delete:
  assumes ok: "run_ok (sites_path paths) seen w" and d: "site_delete (sites_path paths) i w = (r, w')"
  shows "run_ok (sites_path paths) seen w'"
proof (cases r)
  case (Inl e)
  then show ?thesis using run_ok_failed [OF ok site_delete_saves [OF d]] by simp
next
  case (Inr u)
  obtain xs where X: "calm w" "sites_held (sites_path paths) w = Some xs" "registry_ok xs" "seen_true seen xs"
    by (rule run_okE [OF ok])
  have "sites_held (sites_path paths) w' = Some (remove_first (has_id i) xs)"
    using held_delete [OF d [unfolded Inr] X(1)] X(2,3) by (auto simp: registry_ok_def)
  then show ?thesis
    using registry_ok_remove [OF X(3)] seen_true_subset [OF X(4) set_remove_first_subset]
      saves_store(1) [OF site_delete_saves [OF d] X(1)] by (auto simp: run_ok_def)
qed

lemma run_ok_elsewhere:
  "run_ok p seen w \<Longrightarrow> calm w' \<Longrightarrow> file_at w' p = file_at w p \<Longrightarrow> run_ok p seen w'"
  using held_cong(1) [of w' p w] by (auto simp: run_ok_def)

lemma run_stays_ok:
  "sites_run (sites_path paths) w0 seen w \<Longrightarrow> run_ok (sites_path paths) [] w0 \<Longrightarrow> run_ok (sites_path paths) seen w"
  by (induction rule: sites_run.induct)
     (blast intro: run_ok_get run_ok_list run_ok_register run_ok_update run_ok_delete run_ok_elsewhere)+

section \<open>On a quiet host\<close>

text \<open>A state file in place can be saved, and is in place again.\<close>

definition in_place :: "string \<Rightarrow> world \<Rightarrow> bool" where
  "in_place p w \<longleftrightarrow> quiet w \<and> (\<forall>n. o_ctx (orc w) n = None) \<and> chain_there w (path_dir p) \<and> settled w p"

lemma in_place_reads: "in_place p w \<Longrightarrow> same_host w w' \<Longrightarrow> in_place p w'"
  using settled_cong [of w' p w]
  by (simp add: in_place_def chain_there_def quiet_def same_hostD)

lemma save_state_works:
  assumes "in_place p w"
  shows "\<exists>w'. save_state p j m w = (Inr (), w') \<and> in_place p w'"
proof -
  let ?b = "marshal_indent j"
  have q: "quiet w" and c: "chain_there w (path_dir p)" and s: "settled w p" using assms by (simp_all add: in_place_def)
  have ne: "tmp_path p \<noteq> p" by (simp add: tmp_path_def)
  define w2 where "w2 = snd (os_write_file (tmp_path p) ?b m w)"
  define w3 where "w3 = snd (os_rename (tmp_path p) p w2)"
  have 2: "fst (os_write_file (tmp_path p) ?b m w) = Inr ()"
    by (rule quiet_write_file_ok [OF q]) (use s in \<open>simp_all add: settled_def\<close>)
  note S = os_write_file_settles [OF 2, folded w2_def]
  have o2: "orc w2 = orc w" by (simp add: w2_def frame_simps)
  have f2: "fault w2 = None" by (rule quiet_fault [OF quiet_orc [OF q o2]])
  have "node_at w2 p = node_at w p" unfolding w2_def using ne by (intro frame_simps) simp
  then obtain mo x where p2: "node_at w2 p = Some (File mo x)" using s by (auto simp: settled_def file_at_def split: option.splits node.splits)
  obtain mt where t2: "node_at w2 (tmp_path p) = Some (File mt ?b)" using S(2) by blast
  have 3: "os_rename (tmp_path p) p w2 = (Inr (), w3)"
    using S(1) t2 p2 f2 ne by (simp add: w3_def os_rename_def Let_def)
  have n3: "node_at w3 p = Some (File mt ?b)" "node_at w3 (tmp_path p) = None"
    using 3 t2 p2 ne by (auto simp: os_rename_def Let_def f2 split: if_splits)
  have d: "dirs_stay w w3" "dirs_stay w2 w3"
    unfolding w2_def w3_def using dirs_stay_calls(1,2) dirs_stay_trans by blast+
  have "in_place p w3"
    using assms chain_stays [OF c d(1)] dirs_stay_ok [OF d(2)] S(1) n3 o2
    by (simp add: in_place_def settled_def file_at_def quiet_def w3_def frame_simps)
  moreover have "save_state p j m w = (Inr (), w3)"
    using mkdir_there [OF c] 2 3 by (simp add: save_state_def w2_def split_beta split: sum.split)
  ultimately show ?thesis by blast
qed

lemma load_works:
  assumes "in_place p w" "site_stored p w = Some xs"
  shows "\<exists>w1 w2. ctx_err w = (None, w1) \<and> site_load p w1 = (Inr xs, w2) \<and> in_place p w2"
proof -
  obtain w1 where 1: "ctx_err w = (None, w1)" using assms(1) by (auto simp: ctx_err_def in_place_def)
  have h: "same_host w w1" by (rule reads_basic(6) [OF 1])
  have i1: "in_place p w1" by (rule in_place_reads [OF assms(1) h])
  have "fst (site_load p w1) = Inr xs"
    unfolding site_load_def
    by (rule load_state_quiet)
       (use assms(2) i1 site_stored_cong [of w1 p w] same_hostD(2) [OF h] in \<open>simp_all add: in_place_def quiet_fault site_stored_def\<close>)
  then obtain w2 where 2: "site_load p w1 = (Inr xs, w2)" by (metis prod.collapse)
  with 1 in_place_reads [OF i1 reads_site_load [OF 2]] show ?thesis by blast
qed

lemma site_update_works:
  assumes "in_place p w" "site_stored p w = Some xs" "find_site (si_id t) xs = Some old"
  shows "\<exists>t' w'. site_update p t w = (Inr t', w') \<and> in_place p w'"
proof -
  from load_works [OF assms(1,2)] obtain w1 w2 where 1: "ctx_err w = (None, w1)" "site_load p w1 = (Inr xs, w2)" "in_place p w2"
    by blast
  obtain now w3 where 2: "clock_now w2 = (now, w3)" by force
  have "in_place p w3" by (rule in_place_reads [OF 1(3) reads_basic(4) [OF 2]])
  from save_state_works [OF this] obtain w' where
      "save_state p (site_state_json (replace_first (has_id (si_id t)) (updated_site t old now) xs)) mode_0640 w3 = (Inr (), w')"
      "in_place p w'"
    by blast
  with 1 2 assms(3) show ?thesis by (simp add: site_update_def site_save_def Let_def)
qed

lemma replace_first_keeps: "x \<in> set xs \<Longrightarrow> \<not> P x \<Longrightarrow> x \<in> set (replace_first P y xs)"
  by (induction xs) auto

lemma find_stored: "registry_ok xs \<Longrightarrow> s \<in> set xs \<Longrightarrow> find_site (si_id s) xs = Some s"
  by (simp add: registry_ok_def find_site_def find_by_Some_iff)

lemma find_replaced:
  "\<exists>x \<in> set xs. si_id x = i \<Longrightarrow> si_id t = i \<Longrightarrow> find_site i (replace_first (has_id i) t xs) = Some t"
  unfolding find_site_def find_by_def by (induction xs) (auto simp: has_id_def)

lemma site_get_works:
  assumes "in_place p w" "site_stored p w = Some xs" "find_site i xs = Some s"
  shows "\<exists>w'. site_get p i w = (Inr s, w') \<and> in_place p w' \<and> site_stored p w' = Some xs"
proof -
  obtain w' where g: "site_get p i w = (Inr s, w')"
    using load_works [OF assms(1,2)] assms(3) by (auto simp: site_get_def)
  have h: "same_host w w'" by (rule reads_site_get [OF g])
  show ?thesis
    using g in_place_reads [OF assms(1) h] assms(2) site_stored_cong [of w' p w] same_hostD(2) [OF h] by simp
qed

text \<open>An update that succeeds, on a registry that is valid.\<close>

lemma stored_updated:
  assumes u: "site_update (sites_path paths) t w = (Inr t', w')" and c: "calm w"
    and s: "site_stored (sites_path paths) w = Some xs" and r: "registry_ok xs" and tm: "time_ok (si_last_checked_at t)"
  obtains old now where "find_site (si_id t) xs = Some old" "time_ok now" "t' = updated_site t old now" "calm w'"
    "site_stored (sites_path paths) w' = Some (replace_first (has_id (si_id t)) t' xs)"
    "find_site (si_id t) (replace_first (has_id (si_id t)) t' xs) = Some t'"
proof -
  have tc: "truthful w" "clock_ok w" using c by (simp_all add: calm_def)
  from site_update_Inr [OF u tc] obtain sites old now where
      R: "site_stored (sites_path paths) w = Some sites" "find_site (si_id t) sites = Some old" "time_ok now"
        "t' = updated_site t old now" "orc w' = orc w"
        "\<forall>x \<in> set sites. site_times_ok x \<Longrightarrow> time_ok (si_last_checked_at t) \<Longrightarrow>
          site_stored (sites_path paths) w' = Some (replace_first (has_id (si_id t)) t' sites)"
    by metis
  have xs: "sites = xs" using R(1) s by simp
  note H = R(2-4) [unfolded xs] R(6) [unfolded xs, OF sites_ok_times tm] R(5)
  have "find_site (si_id t) (replace_first (has_id (si_id t)) t' xs) = Some t'"
    using find_site_in [OF H(1)] by (intro find_replaced) (auto simp: H(3) updated_site_def)
  with H calm_orc [OF c H(5)] r show ?thesis by (intro that) (simp_all add: registry_ok_def)
qed

section \<open>Properties\<close>

text \<open>C5: whatever the order in which the registry's calls of requests that run at the same time are served -
  reads, registrations, deletions, and writes of a new status or runtime based on a record read at any
  earlier time - no two sites share an ID, a name or a domain, and what any request has read of a
  site's name, directory and domain is still true of the site, if it still exists. New IDs are
  assumed to be fresh.\<close>

theorem concurrent_requests_keep_sites:
  assumes "sites_run (sites_path paths) w0 seen w" and "calm w0"
    and "sites_held (sites_path paths) w0 = Some xs0" and "registry_ok xs0"
  shows "\<exists>xs. sites_held (sites_path paths) w = Some xs \<and> registry_ok xs
    \<and> (\<forall>s \<in> set seen. \<forall>x \<in> set xs. si_id x = si_id s \<longrightarrow> same_address s x)"
proof -
  have "run_ok (sites_path paths) [] w0" using assms(2-4) by (simp add: run_ok_def seen_true_def)
  from run_okE [OF run_stays_ok [OF assms(1) this]] show ?thesis unfolding seen_true_def by metis
qed

text \<open>A host on which the file of the sites is in place.\<close>

definition busy_host :: "site_record list \<Rightarrow> world" where
  "busy_host sites = project_host all_succeed [(''/var'', Dir mode_0750), (''/var/lib'', Dir mode_0750),
     (sites_file, File mode_0640 (marshal_indent (site_state_json sites)))]"

lemma busy_host_facts:
  assumes "registry_ok sites"
  shows "calm (busy_host sites)" "site_stored sites_file (busy_host sites) = Some sites" "in_place sites_file (busy_host sites)"
proof -
  note node = busy_host_def project_host_def sample_world_def file_at_def node_at_def
  have f: "file_at (busy_host sites) sites_file = Some (marshal_indent (site_state_json sites))" by (simp add: node)
  show "calm (busy_host sites)" unfolding busy_host_def by (rule project_calm)
  show "site_stored sites_file (busy_host sites) = Some sites"
    using assms
    by (simp add: site_stored_def stored_file [OF f] marshal_indent_nonempty json_parse_marshal
        site_state_json_ok site_state_json_roundtrip registry_ok_def sites_ok_def)
  have p: "path_dir sites_file = ''/var/lib/lara-nux''" "dir_chain ''/var/lib/lara-nux'' = [''/var'', ''/var/lib'', ''/var/lib/lara-nux'']"
    "tmp_path sites_file = sites_file @ ''.tmp''" by code_simp+
  have "chain_there (busy_host sites) (path_dir sites_file)" by (simp add: chain_there_def p node)
  moreover have "node_at (busy_host sites) (tmp_path sites_file) = None" by (simp add: p node)
  moreover have "dir_ok (busy_host sites) (path_dir sites_file)" by (simp add: dir_ok_def p node)
  ultimately show "in_place sites_file (busy_host sites)"
    using f project_host_calm by (simp add: in_place_def settled_def busy_host_def)
qed

lemma stored_blog_ok: "registry_ok [stored_blog]" "si_id stored_blog = ''site-1''" "time_ok (si_last_checked_at stored_blog)"
  using blog_host_ok stored_blog_times
  unfolding daemon_ok_def ubuntu_state_paths by (simp_all add: stored_blog_def new_site_def site_times_ok_def)

text \<open>
  Two requests read the site, one stores it with another runtime, and then the other stores it with
  another status, as it had read it.
\<close>

theorem concurrent_requests_keep_sites_witness:
  "\<exists>w1 w2 w3 w4 t u xs. site_get sites_file ''site-1'' (busy_host [stored_blog]) = (Inr stored_blog, w1)
    \<and> site_get sites_file ''site-1'' w1 = (Inr stored_blog, w2)
    \<and> site_update sites_file (stored_blog\<lparr>si_php_version := ''8.4''\<rparr>) w2 = (Inr t, w3)
    \<and> site_update sites_file (stored_blog\<lparr>si_status_message := ''Checked.''\<rparr>) w3 = (Inr u, w4)
    \<and> sites_held sites_file w4 = Some xs \<and> registry_ok xs
    \<and> (\<forall>x \<in> set xs. si_id x = si_id stored_blog \<longrightarrow> same_address stored_blog x)"
proof -
  let ?p = "sites_path ubuntu_app_paths" and ?w = "busy_host [stored_blog]"
  let ?t = "stored_blog\<lparr>si_php_version := ''8.4''\<rparr>" and ?u = "stored_blog\<lparr>si_status_message := ''Checked.''\<rparr>"
  note p = ubuntu_state_paths(1) and r = stored_blog_ok(1) and id = stored_blog_ok(2) and tm = stored_blog_ok(3)
  have c: "calm ?w" and i: "in_place ?p ?w" and s: "site_stored ?p ?w = Some [stored_blog]"
    unfolding p by (rule busy_host_facts [OF r])+
  have f: "find_site ''site-1'' [stored_blog] = Some stored_blog" using find_stored [OF r, of stored_blog] id by simp
  obtain w1 where 1: "site_get ?p ''site-1'' ?w = (Inr stored_blog, w1)" "in_place ?p w1" "site_stored ?p w1 = Some [stored_blog]"
    using site_get_works [OF i s f] by blast
  obtain w2 where 2: "site_get ?p ''site-1'' w1 = (Inr stored_blog, w2)" "in_place ?p w2" "site_stored ?p w2 = Some [stored_blog]"
    using site_get_works [OF 1(2,3) f] by blast
  have run2: "sites_run ?p ?w [stored_blog, stored_blog] w2"
    using sites_run.got [OF sites_run.got [OF sites_run.idle 1(1)] 2(1)] by simp
  have "run_ok ?p [] ?w" using c r stored_held(1) [OF s] by (simp add: run_ok_def seen_true_def)
  then have c2: "calm w2" using run_stays_ok [OF run2] by (simp add: run_ok_def)
  obtain t w3 where 3: "site_update ?p ?t w2 = (Inr t, w3)" "in_place ?p w3"
    using site_update_works [OF 2(2,3), of ?t] f id by auto
  have run3: "sites_run ?p ?w [t, stored_blog, stored_blog] w3"
    using sites_run.written [OF run2 _ _ _ 3(1), of stored_blog] tm by (simp add: same_address_def)
  obtain ys where ys: "site_stored ?p w3 = Some ys" "find_site ''site-1'' ys = Some t"
    using stored_updated [OF 3(1) c2 2(3) r] id tm by auto
  obtain u w4 where 4: "site_update ?p ?u w3 = (Inr u, w4)"
    using site_update_works [OF 3(2) ys(1), of ?u] ys(2) id by auto
  have run4: "sites_run ?p ?w [u, t, stored_blog, stored_blog] w4"
    using sites_run.written [OF run3 _ _ _ 4, of stored_blog] tm by (simp add: same_address_def)
  from concurrent_requests_keep_sites [OF run4 c stored_held(1) [OF s] r] 1(1) 2(1) 3(1) 4 show ?thesis
    unfolding p by auto
qed

text \<open>
  What is not kept: two changes of a domain to the same one, each checked against the list as it was
  before either was written, are both written.
\<close>

theorem moves_can_collide:
  assumes i: "in_place (sites_path paths) w" and c: "clock_ok w"
    and h: "site_stored (sites_path paths) w = Some xs" and ok: "registry_ok xs"
    and ab: "a \<in> set xs" "b \<in> set xs" "si_id a \<noteq> si_id b" and d: "valid_domain d"
    and "others_apart (a\<lparr>si_domain := d\<rparr>) xs" and "others_apart (b\<lparr>si_domain := d\<rparr>) xs"
  shows "\<exists>a' b' w1 w2 ys. site_update (sites_path paths) (a\<lparr>si_domain := d\<rparr>) w = (Inr a', w1)
    \<and> site_update (sites_path paths) (b\<lparr>si_domain := d\<rparr>) w1 = (Inr b', w2) \<and> sites_held (sites_path paths) w2 = Some ys
    \<and> a' \<in> set ys \<and> b' \<in> set ys \<and> si_id a' \<noteq> si_id b' \<and> si_domain a' = d \<and> si_domain b' = d \<and> \<not> registry_ok ys"
proof -
  let ?p = "sites_path paths"
  let ?a = "a\<lparr>si_domain := d\<rparr>" and ?b = "b\<lparr>si_domain := d\<rparr>"
  have cw: "calm w" using i c by (simp add: calm_def in_place_def quiet_truthful)
  note fa = find_stored [OF ok ab(1)]
  have times: "site_times_ok ?a" "time_ok (si_last_checked_at ?b)"
    using ok ab(1,2) by (auto simp: registry_ok_def sites_ok_def site_times_ok_def)
  from site_update_works [OF i h, of ?a] fa obtain a' w1 where 1: "site_update ?p ?a w = (Inr a', w1)" "in_place ?p w1" by auto
  obtain now where U: "time_ok now" "a' = updated_site ?a a now" "calm w1"
      "site_stored ?p w1 = Some (replace_first (has_id (si_id a)) a' xs)"
    using stored_updated [OF 1(1) cw h ok] times(1) fa by (auto simp: site_times_ok_def)
  define ys where "ys = replace_first (has_id (si_id a)) a' xs"
  have ys: "registry_ok ys" "site_stored ?p w1 = Some ys"
    using registry_ok_update [OF ok assms(9) _ times(1) U(1), of a] d fa U(2,4) by (simp_all add: ys_def)
  have b: "b \<in> set ys" using ab unfolding ys_def by (intro replace_first_keeps) (simp_all add: has_id_def)
  have a': "a' \<in> set ys" "si_id a' = si_id a" "si_domain a' = d"
    using ab(1) unfolding ys_def by (auto simp: U(2) updated_site_def has_id_def intro!: replace_first_mem)
  note fb = find_stored [OF ys(1) b]
  from site_update_works [OF 1(2) ys(2), of ?b] fb obtain b' w2 where 2: "site_update ?p ?b w1 = (Inr b', w2)" by auto
  define zs where "zs = replace_first (has_id (si_id b)) b' ys"
  obtain now' where V: "b' = updated_site ?b b now'" "site_stored ?p w2 = Some zs"
    using stored_updated [OF 2 U(3) ys(2,1) times(2)] fb by (auto simp: zs_def)
  have b': "b' \<in> set zs" "si_id b' = si_id b" "si_domain b' = d"
    using b unfolding zs_def by (auto simp: V(1) updated_site_def has_id_def intro!: replace_first_mem)
  have a2: "a' \<in> set zs" using a' ab(3) unfolding zs_def by (intro replace_first_keeps) (simp_all add: has_id_def)
  have "\<not> registry_ok zs"
  proof
    assume "registry_ok zs"
    then have "inj_on (\<lambda>s. to_lower (si_domain s)) (set zs)" by (simp add: registry_ok_def sites_ok_def distinct_map)
    then have "a' = b'" by (rule inj_onD) (use a2 a' b' in simp_all)
    then show False using a'(2) b'(2) ab(3) by simp
  qed
  then show ?thesis using 1(1) 2 stored_held(1) [OF V(2)] a2 a' b' ab(3) by metis
qed

definition stored_shop :: site_record where
  "stored_shop = new_site ''site-2'' ''my-shop'' ''/srv/My_Shop'' ''my-shop.test'' ''8.3'' ''2024-05-01T10:00:00Z''"

theorem moves_can_collide_witness:
  "\<exists>a b w1 w2 ys. site_update sites_file (stored_blog\<lparr>si_domain := ''home.test''\<rparr>) (busy_host [stored_blog, stored_shop]) = (Inr a, w1)
    \<and> site_update sites_file (stored_shop\<lparr>si_domain := ''home.test''\<rparr>) w1 = (Inr b, w2)
    \<and> sites_held sites_file w2 = Some ys \<and> a \<in> set ys \<and> b \<in> set ys \<and> si_domain a = si_domain b \<and> si_id a \<noteq> si_id b"
proof -
  let ?xs = "[stored_blog, stored_shop]"
  have t: "site_times_ok stored_shop" "site_times_ok stored_blog"
    using stored_blog_times by (simp_all add: stored_shop_def stored_blog_def new_site_def site_times_ok_def)
  have v: "valid_domain ''home.test''" "valid_domain (si_domain stored_shop)" "valid_domain (si_domain stored_blog)"
    using host_label_domain [of "''home''"] host_label_domain [of "''my-shop''"] host_label_domain [of "''my-blog''"]
    by (simp_all add: stored_shop_def stored_blog_def new_site_def host_label_def label_edge_def is_lower_def is_digit_def)
  have r: "registry_ok ?xs"
  proof -
    have "distinct (map (\<lambda>s. to_lower (si_name s)) ?xs)" "distinct (map (\<lambda>s. to_lower (si_domain s)) ?xs)" "distinct (map si_id ?xs)"
      by code_simp+
    then show ?thesis using t v unfolding registry_ok_def sites_ok_def by simp
  qed
  note B = busy_host_facts [OF r, folded ubuntu_state_paths(1)]
  have "others_apart (stored_blog\<lparr>si_domain := ''home.test''\<rparr>) ?xs" by code_simp
  moreover have "others_apart (stored_shop\<lparr>si_domain := ''home.test''\<rparr>) ?xs" by code_simp
  moreover have "si_id stored_blog \<noteq> si_id stored_shop" by code_simp
  ultimately show ?thesis
    using moves_can_collide [OF B(3) _ B(2) r _ _ _ v(1), of stored_blog stored_shop] B(1) ubuntu_state_paths(1)
    by (simp add: calm_def) metis
qed

end
