(* ===== verification/Registry_Interleaving.thy ===== *)
theory Registry_Interleaving
  imports Site_Interleaving
begin

text \<open>
  Both registries under requests that run at the same time: the calls of the \<^verbatim>\<open>SiteRegistry\<close> and of the
  \<^verbatim>\<open>PHPRegistry\<close> in any order, among them changes of a site's name, directory and domain, which
  theory \<open>Site_Interleaving\<close> leaves out. Uniqueness of the domains is lost then, but what the rest of the
  daemon relies on is kept: the files can be read, IDs identify sites, every domain is a valid one, and every
  site runs on a registered runtime, because no call takes a runtime away.
\<close>

section \<open>Runs\<close>

definition versions :: "php_state \<Rightarrow> string set" where
  "versions st = rr_version ` set (ps_runtimes st)"

text \<open>\<^verbatim>\<open>Register\<close> normalizes the version of the runtime it is given once more; the other writes take it as it is.\<close>

definition served :: "string set \<Rightarrow> site_record \<Rightarrow> bool" where
  "served vs s \<longleftrightarrow> (\<exists>v \<in> vs. si_php_version s = v \<or> si_php_version s = normalize_php_version v)"

text \<open>
  \<open>seen\<close> and \<open>known\<close> are the site records and the runtime records that requests have been handed. A site is
  registered with the version of a known runtime (\<^verbatim>\<open>Activate\<close>); a record is written back with the ID it was
  read under, a domain that \<^verbatim>\<open>normalizeDomain\<close> let pass, and the version it had or that of a known runtime
  (\<^verbatim>\<open>Activate\<close>, \<^verbatim>\<open>Update\<close>, \<^verbatim>\<open>SwitchSiteRuntime\<close>).
\<close>

inductive registries_run :: "app_paths \<Rightarrow> world \<Rightarrow> site_record list \<Rightarrow> php_runtime_record list \<Rightarrow> world \<Rightarrow> bool"
  for paths :: app_paths and w0 :: world where
  idle: "registries_run paths w0 [] [] w0"
| got: "registries_run paths w0 seen known w \<Longrightarrow> site_get (sites_path paths) i w = (r, w') \<Longrightarrow>
    registries_run paths w0 (handed r @ seen) known w'"
| listed: "registries_run paths w0 seen known w \<Longrightarrow> site_list (sites_path paths) w = (r, w') \<Longrightarrow>
    registries_run paths w0 (handed_all r @ seen) known w'"
| registered: "registries_run paths w0 seen known w \<Longrightarrow> k \<in> set known \<Longrightarrow> sr_php_version inp = rr_version k \<Longrightarrow>
    site_register (sites_path paths) inp w = (r, w') \<Longrightarrow> unseen_id (sites_path paths) w seen r \<Longrightarrow>
    registries_run paths w0 (handed r @ seen) known w'"
| written: "registries_run paths w0 seen known w \<Longrightarrow> s \<in> set seen \<Longrightarrow> si_id t = si_id s \<Longrightarrow>
    valid_domain (si_domain t) \<Longrightarrow> time_ok (si_last_checked_at t) \<Longrightarrow>
    si_php_version t \<in> insert (si_php_version s) (rr_version ` set known) \<Longrightarrow>
    site_update (sites_path paths) t w = (r, w') \<Longrightarrow> registries_run paths w0 (handed r @ seen) known w'"
| deleted: "registries_run paths w0 seen known w \<Longrightarrow> site_delete (sites_path paths) i w = (r, w') \<Longrightarrow>
    registries_run paths w0 seen known w'"
| runtime_registered: "registries_run paths w0 seen known w \<Longrightarrow> php_register (runtimes_path paths) rinp w = (rr, w') \<Longrightarrow>
    registries_run paths w0 seen (handed rr @ known) w'"
| runtime_got: "registries_run paths w0 seen known w \<Longrightarrow> php_get (runtimes_path paths) v w = (rr, w') \<Longrightarrow>
    registries_run paths w0 seen (handed rr @ known) w'"
| default_got: "registries_run paths w0 seen known w \<Longrightarrow> php_default_runtime (runtimes_path paths) w = (rr, w') \<Longrightarrow>
    registries_run paths w0 seen (handed rr @ known) w'"
| runtimes_listed: "registries_run paths w0 seen known w \<Longrightarrow> php_list (runtimes_path paths) w = (rrs, w') \<Longrightarrow>
    registries_run paths w0 seen (handed_all rrs @ known) w'"
| default_set: "registries_run paths w0 seen known w \<Longrightarrow> php_set_default (runtimes_path paths) v w = (rr, w') \<Longrightarrow>
    registries_run paths w0 seen (handed rr @ known) w'"
| elsewhere: "registries_run paths w0 seen known w \<Longrightarrow> elsewhere paths w w' \<Longrightarrow> registries_run paths w0 seen known w'"

section \<open>What every order of calls keeps\<close>

definition sound_site :: "string set \<Rightarrow> site_record \<Rightarrow> bool" where
  "sound_site vs s \<longleftrightarrow> valid_domain (si_domain s) \<and> site_times_ok s \<and> served vs s"

definition linked :: "php_state \<Rightarrow> site_record list \<Rightarrow> bool" where
  "linked st xs \<longleftrightarrow> distinct (map si_id xs) \<and> (\<forall>s \<in> set xs. sound_site (versions st) s)"

definition regs_ok :: "app_paths \<Rightarrow> site_record list \<Rightarrow> php_runtime_record list \<Rightarrow> world \<Rightarrow> bool" where
  "regs_ok paths seen known w \<longleftrightarrow> calm w \<and>
     (\<exists>xs st. sites_held (sites_path paths) w = Some xs \<and> runtimes_held (runtimes_path paths) w = Some st
        \<and> php_ok st \<and> linked st xs \<and> (\<forall>s \<in> set seen. sound_site (versions st) s) \<and> rr_version ` set known \<subseteq> versions st)"

lemma regs_okE:
  assumes "regs_ok paths seen known w"
  obtains xs st where "calm w" "sites_held (sites_path paths) w = Some xs" "runtimes_held (runtimes_path paths) w = Some st"
    "php_ok st" "linked st xs" "\<forall>s \<in> set seen. sound_site (versions st) s" "rr_version ` set known \<subseteq> versions st"
  using assms by (auto simp: regs_ok_def)

lemma served_mono: "served vs s \<Longrightarrow> vs \<subseteq> ws \<Longrightarrow> served ws s"
  by (auto simp: served_def)

lemma sound_site_mono: "sound_site vs s \<Longrightarrow> vs \<subseteq> ws \<Longrightarrow> sound_site ws s"
  using served_mono by (auto simp: sound_site_def)

lemma linked_mono: "linked st xs \<Longrightarrow> versions st \<subseteq> versions st' \<Longrightarrow> linked st' xs"
  using sound_site_mono by (auto simp: linked_def)

lemma versions_put: "php_ok st \<Longrightarrow> versions (put_runtime r st) = insert (rr_version r) (versions st)"
  using put_runtime_set [OF php_ok_distinct, of st r] by (auto simp: versions_def)

text \<open>A call that leaves both files alone, and hands out what they hold.\<close>

lemma regs_ok_same:
  assumes ok: "regs_ok paths seen known w" and c: "calm w'"
    and h: "sites_held (sites_path paths) w' = sites_held (sites_path paths) w"
      "runtimes_held (runtimes_path paths) w' = runtimes_held (runtimes_path paths) w"
    and s: "\<And>xs. sites_held (sites_path paths) w = Some xs \<Longrightarrow> set ys \<subseteq> set xs"
    and k: "\<And>st. runtimes_held (runtimes_path paths) w = Some st \<Longrightarrow> set ks \<subseteq> set (ps_runtimes st)"
  shows "regs_ok paths (ys @ seen) (ks @ known) w'"
proof -
  obtain xs st where X: "sites_held (sites_path paths) w = Some xs" "runtimes_held (runtimes_path paths) w = Some st"
      "php_ok st" "linked st xs" "\<forall>s \<in> set seen. sound_site (versions st) s" "rr_version ` set known \<subseteq> versions st"
    by (rule regs_okE [OF ok])
  have "\<forall>s \<in> set (ys @ seen). sound_site (versions st) s" using s [OF X(1)] X(4,5) by (auto simp: linked_def)
  moreover have "rr_version ` set (ks @ known) \<subseteq> versions st" using k [OF X(2)] X(6) by (auto simp: versions_def)
  ultimately show ?thesis using c h X(1-4) by (auto simp: regs_ok_def)
qed

lemma regs_ok_read:
  assumes ok: "regs_ok paths seen known w" and h: "same_host w w'"
    and s: "\<And>xs. sites_held (sites_path paths) w = Some xs \<Longrightarrow> set ys \<subseteq> set xs"
    and k: "\<And>st. runtimes_held (runtimes_path paths) w = Some st \<Longrightarrow> set ks \<subseteq> set (ps_runtimes st)"
  shows "regs_ok paths (ys @ seen) (ks @ known) w'"
proof (rule regs_ok_same [OF ok _ _ _ s k])
  show "calm w'" using ok calm_orc same_hostD(1) [OF h] by (auto simp: regs_ok_def)
  show "sites_held (sites_path paths) w' = sites_held (sites_path paths) w"
    by (rule held_cong(1) [OF same_hostD(3) [OF h]])
  show "runtimes_held (runtimes_path paths) w' = runtimes_held (runtimes_path paths) w"
    by (rule held_cong(2) [OF same_hostD(3) [OF h]])
qed

lemmas regs_ok_sites_read = regs_ok_read [where ks = "[]", simplified]
  and regs_ok_runtimes_read = regs_ok_read [where ys = "[]", simplified]
  and regs_ok_kept = regs_ok_same [where ys = "[]" and ks = "[]", simplified]

section \<open>Each step\<close>

lemma php_loaded:
  assumes "ctx_err w = (None, w1)" "php_load p w1 = (Inr st, w2)" "truthful w"
  shows "php_stored p w = Some st"
proof -
  have w1: "same_host w w1" by (rule reads_basic(6) [OF assms(1)])
  have "php_stored p w1 = Some st"
    using php_load_Inr [OF truthful_orc [OF assms(3) same_hostD(1) [OF w1]], of p st] assms(2) by simp
  then show ?thesis using php_stored_cong [OF same_hostD(2) [OF w1]] by simp
qed

lemma find_runtime_in: "find_runtime v st = Some r \<Longrightarrow> r \<in> set (ps_runtimes st)"
  unfolding find_runtime_def by (drule find_by_SomeD) simp

text \<open>What the reads of the runtimes hand out is stored.\<close>

lemma php_get_Inr:
  assumes g: "php_get p v w = (Inr r, w')" and t: "truthful w"
  shows "\<exists>st. php_stored p w = Some st \<and> r \<in> set (ps_runtimes st)"
proof -
  from g obtain w1 st w2 where l: "ctx_err w = (None, w1)" "php_load p w1 = (Inr st, w2)"
      and f: "find_runtime (normalize_php_version v) st = Some r"
    unfolding php_get_def result_iff by blast
  from php_loaded [OF l t] find_runtime_in [OF f] show ?thesis by blast
qed

lemma php_default_Inr:
  assumes g: "php_default_runtime p w = (Inr r, w')" and t: "truthful w"
  shows "\<exists>st. php_stored p w = Some st \<and> r \<in> set (ps_runtimes st)"
proof -
  from g obtain w1 st w2 where l: "ctx_err w = (None, w1)" "php_load p w1 = (Inr st, w2)"
      and f: "find_runtime (ps_default st) st = Some r"
    unfolding php_default_runtime_def result_iff by blast
  from php_loaded [OF l t] find_runtime_in [OF f] show ?thesis by blast
qed

lemma php_list_Inr:
  assumes g: "php_list p w = (Inr rs, w')" and t: "truthful w"
  shows "\<exists>st. php_stored p w = Some st \<and> rs = ps_runtimes st"
proof -
  from g obtain w1 st w2 where l: "ctx_err w = (None, w1)" "php_load p w1 = (Inr st, w2)" and f: "ps_runtimes st = rs"
    unfolding php_list_def result_iff by blast
  from php_loaded [OF l t] f show ?thesis by blast
qed

lemma regs_truthful: "regs_ok paths seen known w \<Longrightarrow> truthful w"
  by (simp add: regs_ok_def calm_def)

lemma regs_get:
  assumes ok: "regs_ok paths seen known w" and g: "site_get (sites_path paths) i w = (r, w')"
  shows "regs_ok paths (handed r @ seen) known w'"
proof (rule regs_ok_sites_read [OF ok reads_site_get [OF g]])
  fix xs assume h: "sites_held (sites_path paths) w = Some xs"
  show "set (handed r) \<subseteq> set xs"
    using h g site_get_Inr(1) [OF _ regs_truthful [OF ok]] find_site_in stored_held(1) by (cases r) fastforce+
qed

lemma regs_list:
  assumes ok: "regs_ok paths seen known w" and l: "site_list (sites_path paths) w = (r, w')"
  shows "regs_ok paths (handed_all r @ seen) known w'"
proof (rule regs_ok_sites_read [OF ok reads_site_list [OF l]])
  fix xs assume h: "sites_held (sites_path paths) w = Some xs"
  show "set (handed_all r) \<subseteq> set xs"
    using h l site_list_Inr(1) [OF _ regs_truthful [OF ok]] stored_held(1) by (cases r) fastforce+
qed

lemma regs_runtimes:
  assumes ok: "regs_ok paths seen known w"
  shows "php_get (runtimes_path paths) v w = (rr, w') \<Longrightarrow> regs_ok paths seen (handed rr @ known) w'"
    "php_default_runtime (runtimes_path paths) w = (rr, w') \<Longrightarrow> regs_ok paths seen (handed rr @ known) w'"
    "php_list (runtimes_path paths) w = (rrs, w') \<Longrightarrow> regs_ok paths seen (handed_all rrs @ known) w'"
proof -
  note held = stored_held(2) [of "runtimes_path paths" w] and t = regs_truthful [OF ok]
  show "php_get (runtimes_path paths) v w = (rr, w') \<Longrightarrow> regs_ok paths seen (handed rr @ known) w'"
    by (rule regs_ok_runtimes_read [OF ok reads_php(2)], assumption) (use held t in \<open>cases rr; force dest: php_get_Inr\<close>)
  show "php_default_runtime (runtimes_path paths) w = (rr, w') \<Longrightarrow> regs_ok paths seen (handed rr @ known) w'"
    by (rule regs_ok_runtimes_read [OF ok reads_php(3)], assumption) (use held t in \<open>cases rr; force dest: php_default_Inr\<close>)
  show "php_list (runtimes_path paths) w = (rrs, w') \<Longrightarrow> regs_ok paths seen (handed_all rrs @ known) w'"
    by (rule regs_ok_runtimes_read [OF ok reads_php(4)], assumption) (use held t in \<open>cases rrs; force dest: php_list_Inr\<close>)
qed

lemma replaced_key: "f t = k \<Longrightarrow> map f (replace_first (\<lambda>x. f x = k) t xs) = map f xs"
  by (rule map_replace_first) simp

text \<open>The lists of sites that the writes leave.\<close>

lemma linked_add:
  assumes "linked st xs" "\<forall>x \<in> set xs. si_id x \<noteq> si_id s" "sound_site (versions st) s"
  shows "linked st (xs @ [s])"
  using assms by (auto simp: linked_def)

lemma linked_times: "linked st xs \<Longrightarrow> \<forall>x \<in> set xs. site_times_ok x"
  by (simp add: linked_def sound_site_def)

lemma linked_remove: "linked st xs \<Longrightarrow> linked st (remove_first P xs)"
  using set_remove_first_subset [of P xs] by (auto simp: linked_def distinct_map_remove_first)

lemma linked_replace:
  assumes l: "linked st xs" and t: "sound_site (versions st) t"
  shows "linked st (replace_first (has_id (si_id t)) t xs)"
proof -
  have h: "has_id (si_id t) = (\<lambda>x. si_id x = si_id t)" by (simp add: has_id_def fun_eq_iff)
  have "distinct (map si_id (replace_first (has_id (si_id t)) t xs))"
    using l unfolding h by (simp add: replaced_key linked_def)
  then show ?thesis
    using l t set_replace_first_subset [of "has_id (si_id t)" t xs] by (auto simp: linked_def)
qed

text \<open>A write of the sites: the other file is left alone, and if it fails this one too.\<close>

lemma regs_ok_sites:
  assumes ok: "regs_ok paths seen known w" and s: "saves (sites_path paths) w r w'"
    and new: "\<And>s xs st. r = Inr s \<Longrightarrow> calm w \<Longrightarrow> sites_held (sites_path paths) w = Some xs \<Longrightarrow>
      runtimes_held (runtimes_path paths) w = Some st \<Longrightarrow> linked st xs \<Longrightarrow> \<forall>s \<in> set seen. sound_site (versions st) s \<Longrightarrow>
      rr_version ` set known \<subseteq> versions st \<Longrightarrow>
      \<exists>xs'. sites_held (sites_path paths) w' = Some xs' \<and> linked st xs' \<and> (\<forall>y \<in> set (give s). sound_site (versions st) y)"
  shows "regs_ok paths ((case r of Inl e \<Rightarrow> [] | Inr s \<Rightarrow> give s) @ seen) known w'"
proof -
  obtain xs st where X: "calm w" "sites_held (sites_path paths) w = Some xs" "runtimes_held (runtimes_path paths) w = Some st"
      "php_ok st" "linked st xs" "\<forall>s \<in> set seen. sound_site (versions st) s" "rr_version ` set known \<subseteq> versions st"
    by (rule regs_okE [OF ok])
  note S = saves_store [OF s X(1)]
  show ?thesis
  proof (cases r)
    case (Inl e)
    then show ?thesis using regs_ok_kept [OF ok] S by simp
  next
    case (Inr x)
    from new [OF Inr X(1-3,5-7)] S(1) X Inr show ?thesis by (auto simp: regs_ok_def)
  qed
qed

lemma handed_case: "handed r = (case r of Inl e \<Rightarrow> [] | Inr s \<Rightarrow> [s])"
  by (cases r) simp_all

lemma regs_register:
  assumes ok: "regs_ok paths seen known w" and k: "k \<in> set known" "sr_php_version inp = rr_version k"
    and g: "site_register (sites_path paths) inp w = (r, w')" and new: "unseen_id (sites_path paths) w seen r"
  shows "regs_ok paths (handed r @ seen) known w'"
  unfolding handed_case
proof (rule regs_ok_sites [OF ok site_register_saves [OF g]])
  fix s xs st
  assume r: "r = Inr s" and c: "calm w" and h: "sites_held (sites_path paths) w = Some xs" and l: "linked st xs"
    and kn: "rr_version ` set known \<subseteq> versions st"
  have t: "truthful w" "clock_ok w" using c by (simp_all add: calm_def)
  from site_register_Inr [OF g [unfolded r] t] obtain ys where R: "site_stored (sites_path paths) w = Some ys"
      "normalize_domain (sr_domain inp) (si_name s) = Inr (si_domain s)" "site_times_ok s"
      "si_php_version s = normalize_php_version (sr_php_version inp)"
      "\<forall>x \<in> set ys. site_times_ok x \<Longrightarrow> site_stored (sites_path paths) w' = Some (ys @ [s])"
    by metis
  have ys: "ys = xs" using stored_held(1) [OF R(1)] h by simp
  have "served (versions st) s" using k kn R(4) by (auto simp: served_def)
  moreover have "valid_domain (si_domain s)" using R(2) unfolding normalize_domain_Inr by (rule conjunct2)
  ultimately have sv: "sound_site (versions st) s" using R(3) by (simp add: sound_site_def)
  have "\<forall>x \<in> set xs. si_id x \<noteq> si_id s" using new h r by (auto simp: unseen_id_def)
  then have "linked st (xs @ [s])" using l sv by (intro linked_add)
  moreover have "sites_held (sites_path paths) w' = Some (xs @ [s])"
    using R(5) linked_times [OF l] unfolding ys by (intro stored_held(1)) simp
  ultimately show "\<exists>xs'. sites_held (sites_path paths) w' = Some xs' \<and> linked st xs' \<and> (\<forall>y \<in> set [s]. sound_site (versions st) y)"
    using sv by auto
qed

lemma regs_update:
  assumes ok: "regs_ok paths seen known w" and s: "s \<in> set seen" "si_id t = si_id s"
    and v: "valid_domain (si_domain t)" "time_ok (si_last_checked_at t)"
      "si_php_version t \<in> insert (si_php_version s) (rr_version ` set known)"
    and g: "site_update (sites_path paths) t w = (r, w')"
  shows "regs_ok paths (handed r @ seen) known w'"
  unfolding handed_case
proof (rule regs_ok_sites [OF ok site_update_saves [OF g]])
  fix t' xs st
  assume r: "r = Inr t'" and c: "calm w" and h: "sites_held (sites_path paths) w = Some xs" and l: "linked st xs"
    and se: "\<forall>s \<in> set seen. sound_site (versions st) s" and kn: "rr_version ` set known \<subseteq> versions st"
  have tc: "truthful w" "clock_ok w" using c by (simp_all add: calm_def)
  from site_update_Inr [OF g [unfolded r] tc] obtain ys old now where
      R: "site_stored (sites_path paths) w = Some ys" "find_site (si_id t) ys = Some old" "time_ok now" "t' = updated_site t old now"
        "\<forall>x \<in> set ys. site_times_ok x \<Longrightarrow> time_ok (si_last_checked_at t) \<Longrightarrow>
          site_stored (sites_path paths) w' = Some (replace_first (has_id (si_id t)) t' ys)"
    by metis
  have ys: "ys = xs" using stored_held(1) [OF R(1)] h by simp
  have "served (versions st) t" using v(3) se s(1) kn by (auto simp: served_def sound_site_def)
  moreover have "site_times_ok old" using find_site_in [OF R(2)] linked_times [OF l] ys by auto
  ultimately have sv: "sound_site (versions st) t'"
    using v(1,2) R(3) by (simp add: R(4) sound_site_def served_def updated_site_def site_times_ok_def)
  have "linked st (replace_first (has_id (si_id t')) t' xs)" by (rule linked_replace [OF l sv])
  moreover have "si_id t' = si_id t" by (simp add: R(4) updated_site_def)
  moreover have "sites_held (sites_path paths) w' = Some (replace_first (has_id (si_id t)) t' xs)"
    using R(5) linked_times [OF l] v(2) unfolding ys by (intro stored_held(1)) simp
  ultimately show "\<exists>xs'. sites_held (sites_path paths) w' = Some xs' \<and> linked st xs' \<and> (\<forall>y \<in> set [t']. sound_site (versions st) y)"
    using sv by auto
qed

lemma regs_delete:
  assumes ok: "regs_ok paths seen known w" and g: "site_delete (sites_path paths) i w = (r, w')"
  shows "regs_ok paths seen known w'"
proof -
  have "regs_ok paths ((case r of Inl e \<Rightarrow> [] | Inr u \<Rightarrow> []) @ seen) known w'"
  proof (rule regs_ok_sites [OF ok site_delete_saves [OF g]])
    fix u xs st
    assume r: "r = Inr u" and c: "calm w" and h: "sites_held (sites_path paths) w = Some xs" and l: "linked st xs"
    have t: "truthful w" "site_delete (sites_path paths) i w = (Inr (), w')" using c g r by (simp_all add: calm_def)
    from site_delete_Inr [OF t(2,1)] obtain ys where R: "site_stored (sites_path paths) w = Some ys"
        "\<forall>x \<in> set ys. site_times_ok x \<Longrightarrow> site_stored (sites_path paths) w' = Some (remove_first (has_id i) ys)"
      by metis
    have ys: "ys = xs" using stored_held(1) [OF R(1)] h by simp
    have "sites_held (sites_path paths) w' = Some (remove_first (has_id i) xs)"
      using R(2) linked_times [OF l] unfolding ys by (intro stored_held(1)) simp
    then show "\<exists>xs'. sites_held (sites_path paths) w' = Some xs' \<and> linked st xs' \<and> (\<forall>y \<in> set []. sound_site (versions st) y)"
      using linked_remove [OF l] by auto
  qed
  then show ?thesis by (cases r) simp_all
qed

text \<open>A write of the runtimes: versions are only added.\<close>

lemma regs_ok_php:
  assumes ok: "regs_ok paths seen known w" and s: "saves (runtimes_path paths) w r w'"
    and new: "\<And>x st. r = Inr x \<Longrightarrow> calm w \<Longrightarrow> runtimes_held (runtimes_path paths) w = Some st \<Longrightarrow> php_ok st \<Longrightarrow>
      \<exists>st'. runtimes_held (runtimes_path paths) w' = Some st' \<and> php_ok st' \<and> versions st \<subseteq> versions st' \<and> rr_version x \<in> versions st'"
  shows "regs_ok paths seen (handed r @ known) w'"
proof -
  obtain xs st where X: "calm w" "sites_held (sites_path paths) w = Some xs" "runtimes_held (runtimes_path paths) w = Some st"
      "php_ok st" "linked st xs" "\<forall>s \<in> set seen. sound_site (versions st) s" "rr_version ` set known \<subseteq> versions st"
    by (rule regs_okE [OF ok])
  note S = saves_runtimes [OF s] and c = calm_orc [OF X(1) saves_runtimes(2) [OF s]]
  show ?thesis
  proof (cases r)
    case (Inl e)
    then show ?thesis using regs_ok_kept [OF ok c S(1)] S(3) by simp
  next
    case (Inr x)
    from new [OF Inr X(1,3,4)] obtain st' where N: "runtimes_held (runtimes_path paths) w' = Some st'" "php_ok st'"
        "versions st \<subseteq> versions st'" "rr_version x \<in> versions st'" by blast
    have "\<forall>s \<in> set seen. sound_site (versions st') s" using X(6) N(3) sound_site_mono by blast
    then show ?thesis
      using c S(1) X(2,7) N linked_mono [OF X(5) N(3)] Inr by (auto simp: regs_ok_def)
  qed
qed

lemma regs_php_register:
  assumes ok: "regs_ok paths seen known w" and g: "php_register (runtimes_path paths) inp w = (r, w')"
  shows "regs_ok paths seen (handed r @ known) w'"
proof (rule regs_ok_php [OF ok php_register_saves [OF g]])
  fix x st assume r: "r = Inr x" and c: "calm w" and h: "runtimes_held (runtimes_path paths) w = Some st" and p: "php_ok st"
  have t: "truthful w" "clock_ok w" using c by (simp_all add: calm_def)
  from php_register_Inr [OF g [unfolded r] t] obtain st0 where R: "php_stored (runtimes_path paths) w = Some st0"
      "is_supported (rr_version x)" "time_ok (rr_registered_at x)"
      "php_ok st0 \<Longrightarrow> php_stored (runtimes_path paths) w' = Some (put_runtime x st0)"
    by metis
  have st: "st0 = st" using stored_held(2) [OF R(1)] h by simp
  show "\<exists>st'. runtimes_held (runtimes_path paths) w' = Some st' \<and> php_ok st' \<and> versions st \<subseteq> versions st' \<and> rr_version x \<in> versions st'"
    using stored_held(2) [OF R(4)] p put_runtime_ok [OF p R(2,3)] versions_put [OF p, of x] unfolding st by auto
qed

lemma regs_set_default:
  assumes ok: "regs_ok paths seen known w" and g: "php_set_default (runtimes_path paths) v w = (r, w')"
  shows "regs_ok paths seen (handed r @ known) w'"
proof (rule regs_ok_php [OF ok php_set_default_saves [OF g]])
  fix x st assume r: "r = Inr x" and c: "calm w" and h: "runtimes_held (runtimes_path paths) w = Some st" and p: "php_ok st"
  have t: "truthful w" using c by (simp add: calm_def)
  from php_set_default_Inr [OF g [unfolded r] t] obtain st0 where R: "php_stored (runtimes_path paths) w = Some st0"
      "find_runtime (normalize_php_version v) st0 = Some x"
      "php_ok st0 \<Longrightarrow> php_stored (runtimes_path paths) w' = Some (st0\<lparr>ps_default := normalize_php_version v\<rparr>)"
    by metis
  have st: "st0 = st" using stored_held(2) [OF R(1)] h by simp
  show "\<exists>st'. runtimes_held (runtimes_path paths) w' = Some st' \<and> php_ok st' \<and> versions st \<subseteq> versions st' \<and> rr_version x \<in> versions st'"
    using stored_held(2) [OF R(3)] p set_default_ok [OF p R(2) [unfolded st]] find_runtime_in [OF R(2)]
    unfolding st by (auto simp: versions_def)
qed

lemma regs_elsewhere: "regs_ok paths seen known w \<Longrightarrow> elsewhere paths w w' \<Longrightarrow> regs_ok paths seen known w'"
  using held_cong(1) [of w' "sites_path paths" w] held_cong(2) [of w' "runtimes_path paths" w] regs_ok_kept
  by (simp add: elsewhere_def)

lemma run_keeps_regs:
  "registries_run paths w0 seen known w \<Longrightarrow> regs_ok paths [] [] w0 \<Longrightarrow> regs_ok paths seen known w"
proof (induction rule: registries_run.induct)
  case (registered seen known w k inp r w')
  then show ?case by (blast intro: regs_register)
next
  case (written seen known w s t r w')
  then show ?case by (blast intro: regs_update)
qed (blast intro: regs_get regs_list regs_delete regs_runtimes regs_php_register regs_set_default regs_elsewhere)+

section \<open>Properties\<close>

text \<open>C4: in whatever order the calls of requests that run at the same time reach the two registries - changes
  of names, directories and domains included - both files can be read afterwards, IDs identify sites, every
  domain is a valid name under \<^verbatim>\<open>.test\<close>, the runtimes are as \<open>php_ok\<close> wants them, and every site runs
  on the version of a registered runtime. New IDs are assumed to be fresh.\<close>

theorem registries_stay_linked:
  assumes "registries_run paths w0 seen known w" and "calm w0"
    and "sites_held (sites_path paths) w0 = Some xs0" and "runtimes_held (runtimes_path paths) w0 = Some st0"
    and "php_ok st0" and "linked st0 xs0"
  shows "\<exists>xs st. sites_held (sites_path paths) w = Some xs \<and> runtimes_held (runtimes_path paths) w = Some st
    \<and> php_ok st \<and> linked st xs"
proof -
  have "regs_ok paths [] [] w0" using assms(2-6) by (simp add: regs_ok_def)
  from regs_okE [OF run_keeps_regs [OF assms(1) this]] show ?thesis by metis
qed

text \<open>A request reads the default runtime and registers a site with it.\<close>

theorem registries_stay_linked_witness:
  "\<exists>w1 r w2 xs st. php_default_runtime runtimes_file shop_host = (Inr runtime_83, w1)
    \<and> site_register sites_file blog_input w1 = (r, w2)
    \<and> sites_held sites_file w2 = Some xs \<and> runtimes_held runtimes_file w2 = Some st \<and> php_ok st \<and> linked st xs"
proof -
  let ?paths = "ubuntu_app_paths"
  note p = ubuntu_state_paths
  have calm: "calm shop_host" unfolding shop_host_def by (rule project_calm)
  have linked0: "linked runtimes_83 []" by (simp add: linked_def)
  have d: "find_runtime (ps_default runtimes_83) runtimes_83 = Some runtime_83" "ps_default runtimes_83 \<noteq> []"
    by (simp_all add: runtimes_83_def runtime_83_def find_runtime_def find_by_def)
  have "file_at shop_host runtimes_file = Some (marshal_indent (php_state_json runtimes_83))"
    by (simp add: shop_host_def project_host_def sample_world_def file_at_def node_at_def)
  then have "php_stored runtimes_file shop_host = Some runtimes_83" using shop_host_ok(3) unfolding runtimes_held_def by simp
  then have "fst (php_default_runtime runtimes_file shop_host) = Inr runtime_83"
    by (intro php_default_runtime_works [OF _ _ _ d(2,1)]) (use project_host_calm in \<open>simp_all add: shop_host_def\<close>)
  then obtain w1 where 1: "php_default_runtime (runtimes_path ?paths) shop_host = (Inr runtime_83, w1)" by (metis p(2) prod.collapse)
  have r1: "registries_run ?paths shop_host [] [runtime_83] w1"
    using registries_run.default_got [OF registries_run.idle 1] by simp
  have h1: "sites_held (sites_path ?paths) w1 = Some []"
    using held_cong(1) [OF same_hostD(3) [OF reads_php(3) [OF 1]]] shop_host_ok(2) p(1) by simp
  obtain r w2 where 2: "site_register (sites_path ?paths) blog_input w1 = (r, w2)" by force
  have "registries_run ?paths shop_host (handed r @ []) [runtime_83] w2"
    by (rule registries_run.registered [OF r1 _ _ 2, of runtime_83])
       (simp_all add: blog_input_def runtime_83_def unseen_id_def h1)
  from registries_stay_linked [OF this calm _ _ runtimes_83_facts(1) linked0] shop_host_ok(2,3) 1 2 show ?thesis
    unfolding p by auto
qed

end
