(* ===== verification/Request_Runs.thy ===== *)
theory Request_Runs
  imports Registry_Interleaving
begin

text \<open>
  The requests that make several calls - activating a site, changing it, switching its runtime - are runs
  in the sense of \<open>registries_run\<close>, on every path through them: each of their calls is one of its steps, made
  with what the steps before handed out, and what they do to the host in between is a change elsewhere. So
  the theorems about runs speak of these requests, and of any number of them at the same time.
\<close>

section \<open>Steps\<close>

text \<open>A run from a start where both files are in order, without the names of its lists.\<close>

definition on_run :: "app_paths \<Rightarrow> world \<Rightarrow> world \<Rightarrow> bool" where
  "on_run paths w0 w \<longleftrightarrow> (\<exists>seen known. registries_run paths w0 seen known w)"

lemma on_runI: "registries_run paths w0 seen known w \<Longrightarrow> on_run paths w0 w"
  by (auto simp: on_run_def)

lemma run_calm: "registries_run paths w0 seen known w \<Longrightarrow> regs_ok paths [] [] w0 \<Longrightarrow> calm w"
  using run_keeps_regs by (auto simp: regs_ok_def)

lemma run_seen:
  "registries_run paths w0 seen known w \<Longrightarrow> regs_ok paths [] [] w0 \<Longrightarrow> s \<in> set seen \<Longrightarrow>
     valid_domain (si_domain s) \<and> site_times_ok s"
  using run_keeps_regs by (fastforce simp: regs_ok_def sound_site_def)

lemma keeps_elsewhere: "calm w \<Longrightarrow> keeps_state w w' \<Longrightarrow> elsewhere paths w w'"
  using calm_keeps [of w w'] by (simp add: elsewhere_def keeps_state_def)

lemma run_keeps:
  "registries_run paths w0 seen known w \<Longrightarrow> regs_ok paths [] [] w0 \<Longrightarrow> keeps_state w w' \<Longrightarrow> registries_run paths w0 seen known w'"
  using run_calm keeps_elsewhere registries_run.elsewhere by blast

lemma on_run_keeps: "on_run paths w0 w \<Longrightarrow> regs_ok paths [] [] w0 \<Longrightarrow> keeps_state w w' \<Longrightarrow> on_run paths w0 w'"
  unfolding on_run_def using run_keeps by blast

lemma run_resolve:
  "registries_run paths w0 seen known w \<Longrightarrow> resolve_runtime (file_runtimes (runtimes_path paths)) v w = (q, w') \<Longrightarrow>
     registries_run paths w0 seen (handed q @ known) w'"
  by (auto simp: resolve_runtime_def intro: registries_run.default_got registries_run.runtime_got split: if_splits)

section \<open>Switching the runtime of a site\<close>

definition router_php :: "app_paths \<Rightarrow> php_manager" where
  "router_php paths = \<lparr>pg_sites = file_sites (sites_path paths), pg_runtimes = file_runtimes (runtimes_path paths),
     pg_services = service_controller_of systemd_host, pg_php = Some (fpm_materializer default_fpm),
     pg_web = Some (caddy_activator default_caddy)\<rparr>"

lemma router_php_keeps:
  "switch_host (router_php paths) s target w = (q, w') \<Longrightarrow> keeps_state w w'"
  "switch_web (router_php paths) s socket w = (u, w') \<Longrightarrow> keeps_state w w'"
  "keeps_state w (switch_back (router_php paths) s target w)"
  "keeps_state w (undo_switch (router_php paths) s w)"
  unfolding router_php_def
  by (fact daemon.switch_host_keeps [OF refl] daemon.switch_web_keeps daemon.switch_back_keeps daemon.undo_switch_keeps [OF refl])+

lemma switch_runs:
  assumes ok: "regs_ok paths [] [] w0" and run: "registries_run paths w0 seen known w"
    and res: "switch_site_runtime (rd_php (daemon_router env paths)) i version w = (r, w')"
  shows "on_run paths w0 w'"
proof -
  let ?m = "router_php paths" and ?p = "sites_path paths"
  note keep = on_run_keeps [OF _ ok]
  obtain q1 w1 where 1: "site_get ?p i w = (q1, w1)" by force
  have r1: "registries_run paths w0 (handed q1 @ seen) known w1" by (rule registries_run.got [OF run 1])
  obtain q2 w2 where 2: "php_get (runtimes_path paths) version w1 = (q2, w2)" by force
  have r2: "registries_run paths w0 (handed q1 @ seen) (handed q2 @ known) w2" by (rule registries_run.runtime_got [OF r1 2])
  consider (early) "w' = w1 \<or> w' = w2"
    | (host) s target q3 where "switch_host ?m s target w2 = (q3, w')"
    | (web) s target socket q4 w3 w4 where "switch_host ?m s target w2 = (Inr socket, w3)"
        "switch_web ?m (switched_site s target) (first_non_empty_string [socket, php_socket_path (rr_version target)]) w3 = (q4, w4)"
        "w' = switch_back ?m s target w4"
    | (store) s target socket u q5 w3 w4 w5 where "q1 = Inr s" "q2 = Inr target" "switch_host ?m s target w2 = (Inr socket, w3)"
        "switch_web ?m (switched_site s target) (first_non_empty_string [socket, php_socket_path (rr_version target)]) w3 = (Inr u, w4)"
        "site_update ?p (switched_site s target) w4 = (q5, w5)" "w' = w5 \<or> w' = undo_switch ?m s w5"
    using res 1 2 unfolding daemon_router_parts(1) router_php_def [symmetric] switch_site_runtime_def
    by (auto simp: router_php_def simp del: first_non_empty_string.simps split: sum.splits prod.splits if_splits)
  then show ?thesis
  proof cases
    case early
    then show ?thesis using r1 r2 by (auto intro: on_runI)
  next
    case host
    show ?thesis by (rule keep [OF on_runI [OF r2] router_php_keeps(1) [OF host]])
  next
    case web
    note r3 = keep [OF on_runI [OF r2] router_php_keeps(1) [OF web(1)]]
    show ?thesis unfolding web(3)
      by (rule keep [OF keep [OF r3 router_php_keeps(2) [OF web(2)]] router_php_keeps(3)])
  next
    case store
    have r4: "registries_run paths w0 (handed q1 @ seen) (handed q2 @ known) w4"
      by (rule run_keeps [OF run_keeps [OF r2 ok router_php_keeps(1) [OF store(3)]] ok router_php_keeps(2) [OF store(4)]])
    have s: "s \<in> set (handed q1 @ seen)" by (simp add: store(1))
    have "valid_domain (si_domain s)" "time_ok (si_last_checked_at s)"
      using run_seen [OF r4 ok s] by (simp_all add: site_times_ok_def)
    then have r5: "registries_run paths w0 (handed q5 @ handed q1 @ seen) (handed q2 @ known) w5"
      by (intro registries_run.written [OF r4 s _ _ _ _ store(5)]) (simp_all add: switched_site_def store(2))
    from store(6) show ?thesis using on_runI [OF r5] keep [OF on_runI [OF r5] router_php_keeps(4)] by auto
  qed
qed

section \<open>Activating a site\<close>

text \<open>The ID that the registration of an activation draws is a new one.\<close>

definition activation_id_unseen :: "app_paths \<Rightarrow> site_record list \<Rightarrow> site_registration_input \<Rightarrow> world \<Rightarrow> bool" where
  "activation_id_unseen paths seen inp w \<longleftrightarrow>
     (case resolve_runtime (file_runtimes (runtimes_path paths)) (sr_php_version inp) w of
        (Inl e, w1) \<Rightarrow> True
      | (Inr k, w1) \<Rightarrow>
          unseen_id (sites_path paths) w1 seen (fst (site_register (sites_path paths) (inp\<lparr>sr_php_version := rr_version k\<rparr>) w1)))"

lemma compensate_runs:
  assumes ok: "regs_ok paths [] [] w0" and run: "registries_run paths w0 seen known w"
  shows "on_run paths w0 (act_compensate (daemon.activation paths) i f g w)"
proof -
  obtain v u where k: "keeps_state w v" and d: "site_delete (sites_path paths) i v = (u, act_compensate (daemon.activation paths) i f g w)"
    using daemon.compensate_deletes [OF run_calm [OF run ok], of paths i f g] unfolding file_sites_parts by blast
  show ?thesis by (rule on_runI [OF registries_run.deleted [OF run_keeps [OF run ok k] d]])
qed

lemma activation_parts:
  assumes res: "site_activate (daemon.activation paths) inp w = (r, w')"
    and 1: "resolve_runtime (file_runtimes (runtimes_path paths)) (sr_php_version inp) w = (Inr k, w1)"
    and 2: "site_register (sites_path paths) (inp\<lparr>sr_php_version := rr_version k\<rparr>) w1 = (Inr s, w2)"
  obtains (undone) f g v where "keeps_state w2 v" "w' = act_compensate (daemon.activation paths) (si_id s) f g v"
  | (stored) v now v' q v2 where "keeps_state w2 v" "clock_now v = (now, v')"
      "site_update (sites_path paths) (activated_site s k now) v' = (q, v2)"
      "keeps_state v2 w' \<or> w' = act_compensate (daemon.activation paths) (si_id s) True True v2"
proof -
  let ?a = "daemon.activation paths"
  obtain q3 w3 where 3: "act_resolver ?a w2 = (q3, w3)" by force
  obtain q4 w4 where 4: "act_php ?a k w3 = (q4, w4)" by force
  obtain q5 w5 where 5: "act_services ?a k w4 = (q5, w5)" by force
  obtain q6 w6 where 6: "act_web ?a s (pm_socket_path (projr q4)) w5 = (q6, w6)" by force
  note k3 = daemon.act_keeps(1) [OF 3]
  note k4 = keeps_trans [OF k3 daemon.act_keeps(2) [OF 4]]
  note k5 = keeps_trans [OF k4 daemon.act_keeps(3) [OF 5]]
  note k6 = keeps_trans [OF k5 daemon.act_keeps(4) [OF 6]]
  obtain now w7 where 7: "clock_now w6 = (now, w7)" by force
  obtain q8 w8 where 8: "site_update (sites_path paths) (activated_site s k now) w7 = (q8, w8)" by force
  obtain t9 w9 where 9: "clock_now w8 = (t9, w9)" by force
  note k9 = keeps_reads(2) [OF 9]
  have "w' = act_compensate ?a (si_id s) False False w3 \<or> w' = act_compensate ?a (si_id s) True False w4
      \<or> w' = act_compensate ?a (si_id s) True False w5 \<or> w' = act_compensate ?a (si_id s) True False w6
      \<or> w' = act_compensate ?a (si_id s) True True w8 \<or> w' = w9"
    using res 1 2 3 4 5 6 7 8 9 unfolding site_activate_def
    by (cases q3; cases q4; cases q5; cases q6; cases q8) (auto split: prod.splits)
  then show ?thesis using undone k3 k4 k5 k6 stored [OF k6 7 8] k9 by blast
qed

lemma activation_runs:
  assumes ok: "regs_ok paths [] [] w0" and run: "registries_run paths w0 seen known w"
    and res: "site_activate (rd_activation (daemon_router env paths)) inp w = (r, w')"
    and new: "activation_id_unseen paths seen inp w"
  shows "on_run paths w0 w'"
proof -
  let ?a = "daemon.activation paths" and ?p = "sites_path paths"
  note res' = res [unfolded daemon_router_parts(3)]
  obtain q1 w1 where 1: "resolve_runtime (file_runtimes (runtimes_path paths)) (sr_php_version inp) w = (q1, w1)" by force
  note r1 = run_resolve [OF run 1]
  show ?thesis
  proof (cases q1)
    case (Inl e)
    then show ?thesis using res' 1 on_runI [OF r1] by (simp add: site_activate_def)
  next
    case k: (Inr k)
    let ?inp = "inp\<lparr>sr_php_version := rr_version k\<rparr>"
    obtain q2 w2 where 2: "site_register ?p ?inp w1 = (q2, w2)" by force
    have u: "unseen_id ?p w1 seen q2" using new 1 2 k by (simp add: activation_id_unseen_def)
    have r2: "registries_run paths w0 (handed q2 @ seen) (handed q1 @ known) w2"
      by (rule registries_run.registered [OF r1 _ _ 2 u, of k]) (simp_all add: k)
    show ?thesis
    proof (cases q2)
      case (Inl e)
      then show ?thesis using res' 1 2 k on_runI [OF r2] by (simp add: site_activate_def)
    next
      case s: (Inr s)
      from res' 1 [unfolded k] 2 [unfolded s] show ?thesis
      proof (cases rule: activation_parts)
        case (undone f g v)
        from compensate_runs [OF ok run_keeps [OF r2 ok undone(1)]] show ?thesis by (simp add: undone(2))
      next
        case (stored v now v' q v2)
        have rv: "registries_run paths w0 (handed q2 @ seen) (handed q1 @ known) v'"
          by (rule run_keeps [OF r2 ok keeps_trans [OF stored(1) keeps_reads(2) [OF stored(2)]]])
        have s2: "s \<in> set (handed q2 @ seen)" by (simp add: s)
        have "time_ok now" by (rule calm_clock [OF calm_keeps [OF run_calm [OF r2 ok] stored(1)] stored(2)])
        moreover have "valid_domain (si_domain s)" using run_seen [OF rv ok s2] by simp
        ultimately have rs: "registries_run paths w0 (handed q @ handed q2 @ seen) (handed q1 @ known) v2"
          by (intro registries_run.written [OF rv s2 _ _ _ _ stored(3)]) (simp_all add: activated_site_def)
        from stored(4) show ?thesis using on_run_keeps [OF on_runI [OF rs] ok] compensate_runs [OF ok rs] by auto
      qed
    qed
  qed
qed

section \<open>Changing a site\<close>

lemma prepared:
  assumes "prepare_updated_site (daemon.management paths) current inp w = (Inr (s, target), w')"
  obtains root w1 d w2 ys where "updated_root current inp w = (Inr root, w1)"
    "updated_domain current inp (updated_name current inp root) = Inr d"
    "resolve_runtime (file_runtimes (runtimes_path paths)) (wanted_version current inp) w1 = (Inr target, w2)"
    "site_list (sites_path paths) w2 = (Inr ys, w')"
    "s = changed_site current (updated_name current inp root) root d (rr_version target)"
  using assms unfolding prepare_updated_site_def file_sites_parts [symmetric]
  by (auto split: prod.splits sum.splits option.splits)

text \<open>The preparation reads: the runtime it settles on, the other sites.\<close>

lemma prepare_runs:
  assumes ok: "regs_ok paths [] [] w0" and run: "registries_run paths w0 seen known w" and c: "current \<in> set seen"
    and res: "prepare_updated_site (daemon.management paths) current inp w = (Inr (s, target), w')"
  obtains seen' known' where "registries_run paths w0 seen' known' w'" "set seen \<subseteq> set seen'" "target \<in> set known'"
    "si_id s = si_id current" "valid_domain (si_domain s)" "si_php_version s = rr_version target"
proof -
  obtain root w1 d w2 ys where 1: "updated_root current inp w = (Inr root, w1)"
      and d: "updated_domain current inp (updated_name current inp root) = Inr d"
      and 2: "resolve_runtime (file_runtimes (runtimes_path paths)) (wanted_version current inp) w1 = (Inr target, w2)"
      and 3: "site_list (sites_path paths) w2 = (Inr ys, w')"
      and s: "s = changed_site current (updated_name current inp root) root d (rr_version target)"
    by (rule prepared [OF res])
  have r1: "registries_run paths w0 seen known w1" by (rule run_keeps [OF run ok daemon.updated_root_keeps [OF 1]])
  note r3 = registries_run.listed [OF run_resolve [OF r1 2] 3]
  have "valid_domain d"
    using d run_seen [OF run ok c] by (auto simp: updated_domain_def normalize_domain_Inr split: option.splits)
  with r3 show ?thesis by (intro that [OF r3]) (auto simp: s changed_site_def)
qed

lemma prepare_fails:
  assumes ok: "regs_ok paths [] [] w0" and run: "registries_run paths w0 seen known w"
    and res: "prepare_updated_site (daemon.management paths) current inp w = (q, w')"
  shows "on_run paths w0 w'"
  by (rule on_run_keeps [OF on_runI [OF run] ok daemon.prepare_keeps [OF run_calm [OF run ok] res]])

lemma apply_parts:
  assumes res: "apply_update (daemon.management paths) current s target w = (r, w')"
  obtains (undone) "keeps_state w w'"
  | (stored) v now v' m q v2 where "keeps_state w v" "clock_now v = (now, v')"
      "site_update (sites_path paths) (checked_site s m now) v' = (q, v2)" "keeps_state v2 w'"
proof -
  let ?m = "daemon.management paths"
  obtain q1 w1 where 1: "apply_runtime_change ?m current target w = (q1, w1)" by force
  obtain q2 w2 where 2: "manage_services ?m target w1 = (q2, w2)" by force
  obtain q3 w3 where 3: "manage_web ?m s target w2 = (q3, w3)" by force
  note k1 = daemon.runtime_change_keeps [OF 1]
  note k2 = keeps_trans [OF k1 daemon.manage_services_keep [OF 2]]
  note k3 = keeps_trans [OF k2 daemon.manage_web_keeps [OF 3]]
  obtain now w4 where 4: "clock_now w3 = (now, w4)" by force
  define m where "m = ''Site updated and ready at https://'' @ si_domain s @ '' with PHP '' @ rr_version target @ ''.''"
  obtain q5 w5 where 5: "site_update (sites_path paths) (checked_site s m now) w4 = (q5, w5)" by force
  have "w' = w1 \<or> w' = undo_runtime ?m current target w2 \<or> w' = undo_runtime ?m current target w3
      \<or> w' = w5 \<or> w' = undo_runtime ?m current target (undo_web ?m current w5)"
    using res 1 2 3 4 5 unfolding apply_update_def m_def
    by (cases q1; cases q2; cases q3; cases q5) (auto split: prod.splits)
  then show ?thesis
    using undone k1 keeps_trans [OF k2 daemon.undo_runtime_keeps] keeps_trans [OF k3 daemon.undo_runtime_keeps]
      stored [OF k3 4 5] keeps_trans [OF daemon.undo_web_keeps daemon.undo_runtime_keeps] keeps_refl by metis
qed

lemma update_runs:
  assumes ok: "regs_ok paths [] [] w0" and run: "registries_run paths w0 seen known w"
    and res: "manage_update (rd_management (daemon_router env paths)) inp w = (r, w')"
  shows "on_run paths w0 w'"
proof -
  let ?m = "daemon.management paths" and ?p = "sites_path paths"
  note res' = res [unfolded daemon_router_parts(4)]
  obtain q1 w1 where 1: "site_get ?p (trim_space (su_site_id inp)) w = (q1, w1)" by force
  note r1 = registries_run.got [OF run 1]
  show ?thesis
  proof (cases q1)
    case (Inl e)
    then show ?thesis using res' 1 on_runI [OF r1] by (simp add: manage_update_def)
  next
    case cur: (Inr current)
    obtain q2 w2 where 2: "prepare_updated_site ?m current inp w1 = (q2, w2)" by force
    show ?thesis
    proof (cases q2)
      case (Inl e)
      then show ?thesis using res' 1 2 cur prepare_fails [OF ok r1 2] by (simp add: manage_update_def)
    next
      case (Inr x)
      obtain s target where x: "q2 = Inr (s, target)" using Inr by (cases x) simp
      have c: "current \<in> set (handed q1 @ seen)" by (simp add: cur)
      obtain seen' known' where R: "registries_run paths w0 seen' known' w2" "set (handed q1 @ seen) \<subseteq> set seen'" "target \<in> set known'"
          "si_id s = si_id current" "valid_domain (si_domain s)" "si_php_version s = rr_version target"
        by (rule prepare_runs [OF ok r1 c 2 [unfolded x]])
      have written: "on_run paths w0 v3"
        if "keeps_state w2 v" "clock_now v = (now, v')" "site_update ?p (checked_site s m now) v' = (q, v2)" "keeps_state v2 v3"
        for v now v' m q v2 v3
      proof -
        have rv: "registries_run paths w0 seen' known' v'"
          by (rule run_keeps [OF R(1) ok keeps_trans [OF that(1) keeps_reads(2) [OF that(2)]]])
        have "time_ok now" by (rule calm_clock [OF calm_keeps [OF run_calm [OF R(1) ok] that(1)] that(2)])
        then have "registries_run paths w0 (handed q @ seen') known' v2"
          by (intro registries_run.written [OF rv _ _ _ _ _ that(3), of current])
             (use R c in \<open>auto simp: checked_site_def\<close>)
        then show ?thesis by (rule on_run_keeps [OF on_runI ok that(4)])
      qed
      consider (meta) now w3 m where "clock_now w2 = (now, w3)" "site_update ?p (checked_site s m now) w3 = (r, w')"
        | (host) "apply_update ?m current s target w2 = (r, w')"
        using res' 1 2 cur x by (auto simp: manage_update_def split: if_splits prod.splits)
      then show ?thesis
      proof cases
        case meta
        show ?thesis by (rule written [OF keeps_refl meta keeps_refl])
      next
        case host
        then show ?thesis
        proof (cases rule: apply_parts)
          case undone
          show ?thesis by (rule on_run_keeps [OF on_runI [OF R(1)] ok undone])
        next
          case (stored v now v' m q v2)
          show ?thesis by (rule written [OF stored])
        qed
      qed
    qed
  qed
qed

end
