(* ===== verification/Daemon_Runs.thy ===== *)
theory Daemon_Runs
  imports Request_Runs
begin

text \<open>
  Every request the router answers is a run of registry calls in the sense of \<open>registries_run\<close>: the eleven
  routes, whatever they are sent and however they end. With that, what the interleaving theories show
  holds of any requests served at the same time, and of the states of the running daemon
  (\<open>daemon_reaches\<close>) as the case in which they are served one after the other.
\<close>

section \<open>The routes\<close>

definition request_id_unseen :: "app_paths \<Rightarrow> site_record list \<Rightarrow> rpc_request \<Rightarrow> world \<Rightarrow> bool" where
  "request_id_unseen paths seen rq w \<longleftrightarrow>
     (case decode_register_site (hq_body rq) of Inr inp \<Rightarrow> activation_id_unseen paths seen inp w | Inl e \<Rightarrow> True)"

lemma on_run_call:
  "on_run paths w0 w \<Longrightarrow> regs_ok paths [] [] w0 \<Longrightarrow> (\<And>r v. f w = (r, v) \<Longrightarrow> keeps_state w v) \<Longrightarrow> on_run paths w0 (snd (f w))"
  by (rule on_run_keeps) (auto intro: prod.collapse [symmetric])

lemma reads_run:
  assumes on: "on_run paths w0 w" and ok: "regs_ok paths [] [] w0"
  shows "ports_keep env \<Longrightarrow> on_run paths w0 (snd (on_health (daemon_router env paths) rq w))"
  "on_run paths w0 (snd (on_sites_list (daemon_router env paths) rq w))"
  "on_run paths w0 (snd (on_sites_get (daemon_router env paths) rq w))"
  "on_run paths w0 (snd (on_php_list (daemon_router env paths) rq w))"
  "on_run paths w0 (snd (on_php_inventory (daemon_router env paths) rq w))"
  "on_run paths w0 (snd (on_services_action (daemon_router env paths) rq w))"
proof -
  note k = on_run_call [OF on ok]
  show "ports_keep env \<Longrightarrow> on_run paths w0 (snd (on_health (daemon_router env paths) rq w))"
    using k [of "health_report_of (rd_health (daemon_router env paths))", OF keeps_health] on by (simp add: on_health_def)
  show "on_run paths w0 (snd (on_sites_list (daemon_router env paths) rq w))"
    using k [of "site_list (sites_path paths)", OF same_host_keeps [OF reads_site_list]] on
    by (simp add: on_sites_list_def manage_list_def daemon_router_parts)
  show "on_run paths w0 (snd (on_sites_get (daemon_router env paths) rq w))"
    using k [of "site_get (sites_path paths) i" for i, OF same_host_keeps [OF reads_site_get]] on
    by (simp add: on_sites_get_def manage_get_def daemon_router_parts)
  show "on_run paths w0 (snd (on_php_list (daemon_router env paths) rq w))"
    using k [of "catalog_list (runtimes_path paths)", OF keeps_catalog(1)] on
    by (simp add: on_php_list_def daemon_router_parts)
  show "on_run paths w0 (snd (on_php_inventory (daemon_router env paths) rq w))"
    using k [of "catalog_inventory (runtimes_path paths) (Some apt_inventory)", OF keeps_catalog(3)] on
    by (simp add: on_php_inventory_def daemon_router_parts)
  have "on_run paths w0 (snd (service_action_run systemd_host n a w))" for n a
    by (rule k) (rule keeps_service_start(4))
  then show "on_run paths w0 (snd (on_services_action (daemon_router env paths) rq w))"
    using on by (simp add: on_services_action_def daemon_router_parts with_body_world split_beta)
qed

lemma onboard_runs:
  assumes ok: "regs_ok paths [] [] w0" and on: "on_run paths w0 w"
    and res: "onboard_register (rd_onboarding (daemon_router env paths)) q w = (r, w')"
  shows "on_run paths w0 w'"
proof -
  let ?s = "rd_onboarding (daemon_router env paths)"
  have parts: "on_registry ?s = runtimes_path paths" "on_packages ?s = Some apt_inventory"
      "on_material ?s = Some (fpm_materializer default_fpm)" "on_services ?s = Some (service_controller_of systemd_host)"
    by (simp_all add: daemon_router_def new_onboarding_service_def Let_def)
  note keep = on_run_keeps [OF _ ok]
  have reg: "on_run paths w0 v'" if "php_register (on_registry ?s) inp v = (x, v')" "on_run paths w0 v" for inp v x v'
    using that registries_run.runtime_registered on_runI unfolding parts on_run_def by blast
  have mat: "on_run paths w0 v'" if "onboard_material ?s y v = (x, v')" "on_run paths w0 v" for y v x v'
    using that(1) by (auto simp: onboard_material_def parts split: prod.splits sum.splits intro: keep [OF that(2)] keeps)
  have stat: "on_run paths w0 v'" if "onboard_status ?s y v = (x, v')" "on_run paths w0 v" for y v x v'
    using that by (auto simp: onboard_status_def parts split: prod.splits option.splits if_splits intro: keep [OF that(2)] keeps)
  have ref: "on_run paths w0 v'" if "refresh_inventory v = (x, v')" "on_run paths w0 v" for v x v'
    using keep [OF that(2) keeps_refresh [OF that(1)]] .
  show ?thesis
  proof (cases "trim_space (rq_package_key q) = []")
    case True
    with res show ?thesis
      unfolding onboard_register_def register_manually_def
      by (auto split: prod.splits sum.splits dest!: reg [OF _ on]) (meson mat stat)+
  next
    case False
    with res show ?thesis
      unfolding onboard_register_def register_from_inventory_def parts(2) apt_inventory_def
      by (auto split: prod.splits sum.splits option.splits dest!: ref [OF _ on]) (meson reg mat)+
  qed
qed

lemma writes_run:
  assumes ok: "regs_ok paths [] [] w0" and run: "registries_run paths w0 seen known w"
  shows "request_id_unseen paths seen rq w \<Longrightarrow> on_run paths w0 (snd (on_sites_register (daemon_router env paths) rq w))"
  "on_run paths w0 (snd (on_sites_update (daemon_router env paths) rq w))"
  "on_run paths w0 (snd (on_php_default (daemon_router env paths) rq w))"
  "on_run paths w0 (snd (on_php_register (daemon_router env paths) rq w))"
  "on_run paths w0 (snd (on_php_switch (daemon_router env paths) rq w))"
proof -
  note on = on_runI [OF run]
  have "on_run paths w0 (snd (site_activate (rd_activation (daemon_router env paths)) inp w))"
    if "decode_register_site (hq_body rq) = Inr inp" "request_id_unseen paths seen rq w" for inp
    using activation_runs [OF ok run prod.collapse [symmetric]] that by (simp add: request_id_unseen_def)
  then show "request_id_unseen paths seen rq w \<Longrightarrow> on_run paths w0 (snd (on_sites_register (daemon_router env paths) rq w))"
    using on by (simp add: on_sites_register_def with_body_world)
  have "on_run paths w0 (snd (manage_update (rd_management (daemon_router env paths)) inp w))" for inp
    by (rule update_runs [OF ok run prod.collapse [symmetric]])
  then show "on_run paths w0 (snd (on_sites_update (daemon_router env paths) rq w))"
    using on by (simp add: on_sites_update_def with_body_world)
  have "on_run paths w0 (snd (catalog_set_default (runtimes_path paths) v w))" for v
    using on_runI [OF registries_run.default_set [OF run prod.collapse [symmetric]]] by (simp add: catalog_set_default_def)
  moreover have "on_run paths w0 (snd (catalog_default (runtimes_path paths) w))"
    by (rule on_run_call [OF on ok]) (rule keeps_catalog(2))
  ultimately show "on_run paths w0 (snd (on_php_default (daemon_router env paths) rq w))"
    using on by (simp add: on_php_default_def daemon_router_parts with_body_world)
  have "on_run paths w0 (snd (onboard_register (rd_onboarding (daemon_router env paths)) q w))" for q
    by (rule onboard_runs [OF ok on prod.collapse [symmetric]])
  then show "on_run paths w0 (snd (on_php_register (daemon_router env paths) rq w))"
    using on by (simp add: on_php_register_def with_body_world)
  have "on_run paths w0 (snd (switch_site_runtime (rd_php (daemon_router env paths)) i v w))" for i v
    by (rule switch_runs [OF ok run prod.collapse [symmetric]])
  then show "on_run paths w0 (snd (on_php_switch (daemon_router env paths) rq w))"
    using on by (simp add: on_php_switch_def with_body_world split_beta)
qed

lemma handled_runs:
  assumes ok: "regs_ok paths [] [] w0" and run: "registries_run paths w0 seen known w"
    and p: "ports_keep env" and n: "request_id_unseen paths seen rq w"
  shows "on_run paths w0 (snd (handle_request (daemon_router env paths) rq w))"
proof -
  have "on_run paths w0 (snd (h (daemon_router env paths) rq w))" if "(k, h) \<in> set routes" for k h
    using that reads_run [OF on_runI [OF run] ok, of env rq] writes_run [OF ok run, where env = env and rq = rq] p n
    unfolding routes_def by auto
  then show ?thesis
    using on_runI [OF run] by (auto simp: handle_request_def dest: map_of_SomeD split: option.split)
qed

section \<open>Properties\<close>

lemma regs_ok_start:
  "calm w \<Longrightarrow> sites_held (sites_path paths) w = Some xs \<Longrightarrow> runtimes_held (runtimes_path paths) w = Some st \<Longrightarrow>
     php_ok st \<Longrightarrow> linked st xs \<Longrightarrow> regs_ok paths [] [] w"
  by (simp add: regs_ok_def)

text \<open>C6: every request is made of the steps of \<open>registries_run\<close>: whatever a request asks for and however it ends,
  rollbacks and compensation included, a request answered at any point of a run ends at a point of a
  run, at which every site still runs on a registered runtime. An activation is assumed to draw a fresh
  ID, and the listening test of the health check not to write the daemon's files.\<close>

theorem requests_are_runs:
  assumes "registries_run paths w0 seen known w" and "calm w0"
    and "sites_held (sites_path paths) w0 = Some xs0" and "runtimes_held (runtimes_path paths) w0 = Some st0"
    and "php_ok st0" and "linked st0 xs0" and "ports_keep env" and "request_id_unseen paths seen rq w"
    and "handle_request (daemon_router env paths) rq w = (rp, w')"
  shows "on_run paths w0 w' \<and> (\<exists>xs st. sites_held (sites_path paths) w' = Some xs
    \<and> runtimes_held (runtimes_path paths) w' = Some st \<and> php_ok st \<and> linked st xs)"
proof -
  note ok = regs_ok_start [OF assms(2-6)]
  have on: "on_run paths w0 w'" using handled_runs [OF ok assms(1,7,8)] assms(9) by simp
  then obtain seen' known' where "registries_run paths w0 seen' known' w'" by (auto simp: on_run_def)
  from regs_okE [OF run_keeps_regs [OF this ok]] on show ?thesis by metis
qed

text \<open>The host of \<open>Daemon_Sites\<close>, with one runtime and no sites yet.\<close>

lemma shop_host_start:
  "calm shop_host" "linked runtimes_83 []" "request_id_unseen ubuntu_app_paths [] rq shop_host"
proof -
  show "calm shop_host" unfolding shop_host_def by (rule project_calm)
  show "linked runtimes_83 []" by (simp add: linked_def)
  have "activation_id_unseen ubuntu_app_paths [] inp shop_host" for inp
  proof -
    obtain q w1 where 1: "resolve_runtime (file_runtimes (runtimes_path ubuntu_app_paths)) (sr_php_version inp) shop_host = (q, w1)"
      by force
    have "same_host shop_host w1" using 1 by (auto simp: resolve_runtime_def dest: reads_php split: if_splits)
    then have "sites_held (sites_path ubuntu_app_paths) w1 = Some []"
      using held_cong(1) [of w1 sites_file shop_host] shop_host_ok(2) ubuntu_state_paths(1) by (simp add: same_hostD)
    with 1 show ?thesis by (simp add: activation_id_unseen_def unseen_id_def split: sum.split)
  qed
  then show "request_id_unseen ubuntu_app_paths [] rq shop_host" by (simp add: request_id_unseen_def split: sum.split)
qed

theorem requests_are_runs_witness:
  "\<exists>rp w' xs st. handle_request (daemon_router ubuntu_env ubuntu_app_paths) register_request shop_host = (rp, w')
    \<and> on_run ubuntu_app_paths shop_host w' \<and> sites_held sites_file w' = Some xs \<and> linked st xs"
proof -
  obtain rp w' where h: "handle_request (daemon_router ubuntu_env ubuntu_app_paths) register_request shop_host = (rp, w')" by force
  note p = ubuntu_state_paths
  from requests_are_runs [OF registries_run.idle shop_host_start(1) _ _ runtimes_83_facts(1) shop_host_start(2) ubuntu_runs(2)
      shop_host_start(3) h] shop_host_ok(2,3) h show ?thesis
    unfolding p by blast
qed

text \<open>Served one after the other: an ID that is not stored is an unseen one.\<close>

lemma unused_unseen:
  assumes h: "sites_held (sites_path paths) w = Some xs" and n: "request_id_unused env paths rq w"
  shows "request_id_unseen paths [] rq w"
proof -
  have "activation_id_unseen paths [] inp w" if "new_id_unused (daemon.activation paths) inp w xs" for inp
  proof -
    obtain q w1 where 1: "resolve_runtime (file_runtimes (runtimes_path paths)) (sr_php_version inp) w = (q, w1)" by force
    have "same_host w w1" using 1 by (auto simp: resolve_runtime_def dest: reads_php split: if_splits)
    then have h1: "sites_held (sites_path paths) w1 = Some xs"
      using held_cong(1) [of w1 "sites_path paths" w] h by (simp add: same_hostD)
    show ?thesis
    proof (cases q)
      case (Inr k)
      let ?r = "site_register (sites_path paths) (inp\<lparr>sr_php_version := rr_version k\<rparr>) w1"
      show ?thesis
        using that 1 Inr h1 by (cases "fst ?r"; cases ?r)
          (auto simp: new_id_unused_def activation_id_unseen_def unseen_id_def list_all_iff)
    qed (simp add: activation_id_unseen_def 1)
  qed
  then show ?thesis
    using n h by (auto simp: request_id_unused_def request_id_unseen_def daemon_router_parts split: sum.splits)
qed

text \<open>C7: in every state the running daemon reaches, every site runs on the version of a registered runtime,
  if that was so when the daemon started: no request takes a runtime away, and none stores a site without one.\<close>

theorem sites_keep_their_runtimes:
  assumes "daemon_reaches env w0 w" and "calm w0" and "manifest_apart (load_paths (de_vars env))" and "ports_keep env"
    and "sites_held (sites_path (load_paths (de_vars env))) w0 = Some xs0"
    and "runtimes_held (runtimes_path (load_paths (de_vars env))) w0 = Some st0" and "php_ok st0" and "linked st0 xs0"
  shows "\<exists>xs st. sites_held (sites_path (load_paths (de_vars env))) w = Some xs
    \<and> runtimes_held (runtimes_path (load_paths (de_vars env))) w = Some st
    \<and> (\<forall>s \<in> set xs. \<exists>r \<in> set (ps_runtimes st).
         si_php_version s = rr_version r \<or> si_php_version s = normalize_php_version (rr_version r))"
proof -
  define paths where "paths = load_paths (de_vars env)"
  have ok0: "regs_ok paths [] [] w0" using regs_ok_start [OF assms(2) _ _ assms(7,8)] assms(5,6) by (simp add: paths_def)
  from assms(1) have "regs_ok paths [] [] w"
  proof induction
    case (started lines d w)
    have f: "file_at w q = file_at w0 q" "orc w = orc w0" if "q = sites_path paths \<or> q = runtimes_path paths" for q
      using boot_keeps_files [of q env w0] started that assms(3) by (auto simp: manifest_apart_def paths_def)
    have "elsewhere paths w0 w" using f calm_orc [OF assms(2), of w] by (auto simp: elsewhere_def)
    then show ?case by (rule regs_elsewhere [OF ok0])
  next
    case (served w rq rp w')
    obtain xs where h: "sites_held (sites_path paths) w = Some xs" using served.IH by (rule regs_okE)
    have n: "request_id_unseen paths [] rq w"
      by (rule unused_unseen [OF h]) (use served.hyps(2) in \<open>simp add: paths_def\<close>)
    have "on_run paths w w'"
      using handled_runs [OF served.IH registries_run.idle assms(4) n] served.hyps(3) by (simp add: paths_def)
    then obtain seen known where "regs_ok paths seen known w'" using run_keeps_regs served.IH unfolding on_run_def by blast
    then show ?case by (auto simp: regs_ok_def)
  next
    case (changed w w')
    then show ?case using regs_elsewhere by (simp add: paths_def)
  qed
  then show ?thesis
    unfolding paths_def [symmetric] by (rule regs_okE) (auto simp: linked_def sound_site_def served_def versions_def)
qed

text \<open>A first start, and the registration of a site.\<close>

lemma first_start:
  obtains lines d w where "daemon_boot ubuntu_env (ubuntu_host []) = ((lines, Some d), w)"
    "request_id_unused ubuntu_env (load_paths (de_vars ubuntu_env)) rq w" "calm (ubuntu_host [])"
    "sites_held (sites_path (load_paths (de_vars ubuntu_env))) (ubuntu_host []) = Some []"
    "runtimes_held (runtimes_path (load_paths (de_vars ubuntu_env))) (ubuntu_host []) = Some empty_php_state"
proof -
  obtain lines d w where b: "daemon_boot ubuntu_env (ubuntu_host []) = ((lines, Some d), w)" using ubuntu_boots by blast
  have h0: "file_at (ubuntu_host []) sites_file = None" "file_at (ubuntu_host []) runtimes_file = None" by code_simp+
  have "file_at w sites_file = None"
    using boot_keeps_files(2) [of sites_file ubuntu_env "ubuntu_host []"] ubuntu_runs(1) h0 b
    by (auto simp: manifest_apart_def ubuntu_runs(3,4)) (metis state_paths_apart(5) ubuntu_runs(3))
  then have "request_id_unused ubuntu_env (load_paths (de_vars ubuntu_env)) rq w"
    by (simp add: request_id_unused_def sites_held_def ubuntu_runs new_id_unused_def split: sum.split prod.split)
  moreover have "calm (ubuntu_host [])"
    by (simp add: calm_def truthful_def clock_ok_def ubuntu_host_def sample_world_def sample_env_def sample_clock_ok)
  ultimately show ?thesis using b h0 by (intro that) (simp_all add: ubuntu_runs(3,4) sites_held_def runtimes_held_def)
qed

theorem sites_keep_their_runtimes_witness:
  "\<exists>w w' xs st. snd (daemon_boot ubuntu_env (ubuntu_host [])) = w
    \<and> snd (handle_request (daemon_router ubuntu_env (load_paths (de_vars ubuntu_env))) register_request w) = w'
    \<and> sites_held sites_file w' = Some xs \<and> runtimes_held runtimes_file w' = Some st
    \<and> (\<forall>s \<in> set xs. \<exists>r \<in> set (ps_runtimes st).
         si_php_version s = rr_version r \<or> si_php_version s = normalize_php_version (rr_version r))"
proof -
  obtain lines d w where F: "daemon_boot ubuntu_env (ubuntu_host []) = ((lines, Some d), w)"
      "request_id_unused ubuntu_env (load_paths (de_vars ubuntu_env)) register_request w" "calm (ubuntu_host [])"
      "sites_held (sites_path (load_paths (de_vars ubuntu_env))) (ubuntu_host []) = Some []"
      "runtimes_held (runtimes_path (load_paths (de_vars ubuntu_env))) (ubuntu_host []) = Some empty_php_state"
    by (rule first_start)
  obtain rp w' where h: "handle_request (daemon_router ubuntu_env (load_paths (de_vars ubuntu_env))) register_request w = (rp, w')"
    by force
  have "linked empty_php_state []" by (simp add: linked_def)
  from sites_keep_their_runtimes [OF daemon_reaches.served [OF daemon_reaches.started [OF F(1)] F(2) h] F(3) ubuntu_runs(1,2)
      F(4,5) empty_php_ok this] F(1) h
  show ?thesis unfolding ubuntu_runs(3,4) by simp
qed

end
